(* ===== verification/Prelude.thy ===== *)
theory Prelude
  imports Main "HOL-Library.Word"
begin

text \<open>
  Shared ground of the development: an error-and-state computation type with a
  weakest-precondition calculus, and the byte-string operations of the Rust
  standard library the components use (\<^verbatim>\<open>trim\<close>, \<^verbatim>\<open>split\<close>, \<^verbatim>\<open>contains\<close>, decimal
  formatting).

  A fallible, stateful routine of the program is a function from the state to an
  outcome and a new state.  The outcome is \<^verbatim>\<open>Inl\<close> an error or \<^verbatim>\<open>Inr\<close> a value, so an
  early return through \<^verbatim>\<open>?\<close> keeps the state changes made before it, as Rust does.

  A Rust \<^verbatim>\<open>String\<close> is the list of its UTF-8 bytes.
\<close>

named_theorems wp_simps \<open>weakest preconditions of the combinators and operations\<close>
named_theorems class_simps \<open>error classes and kill-switch requirements\<close>

section \<open>Computations with errors and state\<close>

type_synonym ('s, 'e, 'a) eff = "'s \<Rightarrow> ('e + 'a) \<times> 's"

definition ret :: "'a \<Rightarrow> ('s, 'e, 'a) eff" where
  "ret x = (\<lambda>s. (Inr x, s))"

definition throw :: "'e \<Rightarrow> ('s, 'e, 'a) eff" where
  "throw e = (\<lambda>s. (Inl e, s))"

definition bind :: "('s, 'e, 'a) eff \<Rightarrow> ('a \<Rightarrow> ('s, 'e, 'b) eff) \<Rightarrow> ('s, 'e, 'b) eff" where
  "bind m f = (\<lambda>s. case m s of (Inl e, s') \<Rightarrow> (Inl e, s') | (Inr x, s') \<Rightarrow> f x s')"

definition seq :: "('s, 'e, 'a) eff \<Rightarrow> ('s, 'e, 'b) eff \<Rightarrow> ('s, 'e, 'b) eff" where
  "seq m n = bind m (\<lambda>_. n)"

definition attempt :: "('s, 'e, 'a) eff \<Rightarrow> ('s, 'f, 'e + 'a) eff" where
  "attempt m = (\<lambda>s. case m s of (r, s') \<Rightarrow> (Inr r, s'))"

definition gets :: "('s \<Rightarrow> 'a) \<Rightarrow> ('s, 'e, 'a) eff" where
  "gets f = (\<lambda>s. (Inr (f s), s))"

definition modify :: "('s \<Rightarrow> 's) \<Rightarrow> ('s, 'e, unit) eff" where
  "modify f = (\<lambda>s. (Inr (), f s))"

definition lift_res :: "'e + 'a \<Rightarrow> ('s, 'e, 'a) eff" where
  "lift_res r = (\<lambda>s. (r, s))"

definition run_state :: "('s \<Rightarrow> 'a \<times> 's) \<Rightarrow> ('s, 'e, 'a) eff" where
  "run_state f = (\<lambda>s. case f s of (x, s') \<Rightarrow> (Inr x, s'))"

definition guard_e :: "bool \<Rightarrow> 'e \<Rightarrow> ('s, 'e, unit) eff" where
  "guard_e b e = (if b then ret () else throw e)"

definition map_err :: "('e \<Rightarrow> 'f) \<Rightarrow> ('s, 'e, 'a) eff \<Rightarrow> ('s, 'f, 'a) eff" where
  "map_err g m = (\<lambda>s. case m s of (Inl e, s') \<Rightarrow> (Inl (g e), s') | (Inr x, s') \<Rightarrow> (Inr x, s'))"

text \<open>Run a computation on a component of the state, given its selector and its update.\<close>

definition zoom :: "('w \<Rightarrow> 's) \<Rightarrow> (('s \<Rightarrow> 's) \<Rightarrow> 'w \<Rightarrow> 'w) \<Rightarrow> ('s, 'e, 'a) eff \<Rightarrow> ('w, 'e, 'a) eff" where
  "zoom sel upd m = (\<lambda>w. case m (sel w) of (r, s') \<Rightarrow> (r, upd (\<lambda>_. s') w))"

fun mapM_e :: "('a \<Rightarrow> ('s, 'e, 'b) eff) \<Rightarrow> 'a list \<Rightarrow> ('s, 'e, 'b list) eff" where
  "mapM_e f [] = ret []"
| "mapM_e f (x # xs) = bind (f x) (\<lambda>y. bind (mapM_e f xs) (\<lambda>ys. ret (y # ys)))"

definition wp :: "('s, 'e, 'a) eff \<Rightarrow> ('a \<Rightarrow> 's \<Rightarrow> bool) \<Rightarrow> ('e \<Rightarrow> 's \<Rightarrow> bool) \<Rightarrow> 's \<Rightarrow> bool" where
  "wp m Q E s = (case m s of (Inl e, s') \<Rightarrow> E e s' | (Inr x, s') \<Rightarrow> Q x s')"

lemma wp_ret [wp_simps]: "wp (ret x) Q E = Q x"
  by (rule ext) (simp add: wp_def ret_def)

lemma wp_throw [wp_simps]: "wp (throw e) Q E = E e"
  by (rule ext) (simp add: wp_def throw_def)

lemma wp_bind [wp_simps]: "wp (bind m f) Q E = wp m (\<lambda>x. wp (f x) Q E) E"
  by (rule ext) (auto simp: wp_def bind_def split: prod.splits sum.splits)

lemma wp_seq [wp_simps]: "wp (seq m n) Q E = wp m (\<lambda>_. wp n Q E) E"
  by (simp add: seq_def wp_bind)

lemma wp_attempt [wp_simps]:
  "wp (attempt m) Q E = wp m (\<lambda>x. Q (Inr x)) (\<lambda>e. Q (Inl e))"
  by (rule ext) (auto simp: wp_def attempt_def split: prod.splits sum.splits)

lemma wp_gets [wp_simps]: "wp (gets f) Q E = (\<lambda>s. Q (f s) s)"
  by (rule ext) (simp add: wp_def gets_def)

lemma wp_modify [wp_simps]: "wp (modify f) Q E = (\<lambda>s. Q () (f s))"
  by (rule ext) (simp add: wp_def modify_def)

lemma wp_lift_res [wp_simps]:
  "wp (lift_res r) Q E = (\<lambda>s. case r of Inl e \<Rightarrow> E e s | Inr x \<Rightarrow> Q x s)"
  by (rule ext) (simp add: wp_def lift_res_def)

lemma wp_run_state [wp_simps]: "wp (run_state f) Q E = (\<lambda>s. case f s of (x, s') \<Rightarrow> Q x s')"
  by (rule ext) (simp add: wp_def run_state_def split: prod.splits)

lemma wp_guard_e [wp_simps]: "wp (guard_e b e) Q E = (\<lambda>s. if b then Q () s else E e s)"
  by (rule ext) (simp add: guard_e_def wp_ret wp_throw)

lemma wp_map_err [wp_simps]: "wp (map_err g m) Q E = wp m Q (\<lambda>e. E (g e))"
  by (rule ext) (auto simp: wp_def map_err_def split: prod.splits sum.splits)

lemma wp_zoom [wp_simps]:
  "wp (zoom sel upd m) Q E = (\<lambda>w. wp m (\<lambda>x s. Q x (upd (\<lambda>_. s) w)) (\<lambda>e s. E e (upd (\<lambda>_. s) w)) (sel w))"
  by (rule ext) (auto simp: wp_def zoom_def split: prod.splits sum.splits)

lemma wp_if [wp_simps]: "wp (if b then m else n) Q E s = (if b then wp m Q E s else wp n Q E s)"
  by simp

lemma wp_case_sum [wp_simps]:
  "wp (case r of Inl e \<Rightarrow> f e | Inr x \<Rightarrow> g x) Q E s
    = (case r of Inl e \<Rightarrow> wp (f e) Q E s | Inr x \<Rightarrow> wp (g x) Q E s)"
  by (cases r) simp_all

lemma wp_case_option [wp_simps]:
  "wp (case r of None \<Rightarrow> m | Some x \<Rightarrow> g x) Q E s
    = (case r of None \<Rightarrow> wp m Q E s | Some x \<Rightarrow> wp (g x) Q E s)"
  by (cases r) simp_all

lemma wp_mono:
  assumes "wp m Q E s" "\<And>x t. Q x t \<Longrightarrow> Q' x t" "\<And>e t. E e t \<Longrightarrow> E' e t"
  shows "wp m Q' E' s"
  using assms by (auto simp: wp_def split: prod.splits sum.splits)

lemma wp_then: "wp m Q' E' s \<Longrightarrow> (\<And>x t. Q' x t \<Longrightarrow> wp (f x) Q E t) \<Longrightarrow> (\<And>e t. E' e t \<Longrightarrow> E e t) \<Longrightarrow>
    wp (bind m f) Q E s"
  by (simp add: wp_bind) (rule wp_mono)

lemma wp_next: "wp m Q' E' s \<Longrightarrow> (\<And>x t. Q' x t \<Longrightarrow> wp n Q E t) \<Longrightarrow> (\<And>e t. E' e t \<Longrightarrow> E e t) \<Longrightarrow>
    wp (seq m n) Q E s"
  by (simp add: seq_def) (rule wp_then)

lemma wp_conj: "wp m Q E s \<Longrightarrow> wp m Q' E' s \<Longrightarrow>
    wp m (\<lambda>x t. Q x t \<and> Q' x t) (\<lambda>e t. E e t \<and> E' e t) s"
  by (auto simp: wp_def split: prod.splits sum.splits)

lemma wp_ok: "wp m Q E s \<Longrightarrow> m s = (Inr x, t) \<Longrightarrow> Q x t"
  by (simp add: wp_def)

lemma wp_err: "wp m Q E s \<Longrightarrow> m s = (Inl e, t) \<Longrightarrow> E e t"
  by (simp add: wp_def)

lemma wp_state: "wp m (\<lambda>_. P) (\<lambda>_. P) s \<Longrightarrow> P (snd (m s))"
  by (auto simp: wp_def split: prod.splits sum.splits)

lemma wp_I:
  assumes "\<And>x t. m s = (Inr x, t) \<Longrightarrow> Q x t" "\<And>e t. m s = (Inl e, t) \<Longrightarrow> E e t"
  shows "wp m Q E s"
  using assms by (auto simp: wp_def split: prod.splits sum.splits)

lemma wp_True [simp]: "wp m (\<lambda>_ _. True) (\<lambda>_ _. True) s"
  by (auto simp: wp_def split: prod.splits sum.splits)

lemma wp_mapM_inv:
  assumes "\<And>x t. x \<in> set xs \<Longrightarrow> I t \<Longrightarrow> wp (f x) (\<lambda>_. I) (\<lambda>_. I) t" and "I s"
  shows "wp (mapM_e f xs) (\<lambda>_. I) (\<lambda>_. I) s"
  using assms
proof (induction xs arbitrary: s)
  case Nil
  then show ?case by (simp add: wp_simps)
next
  case (Cons x xs)
  have "wp (f x) (\<lambda>_. I) (\<lambda>_. I) s" using Cons.prems by simp
  then have "wp (f x) (\<lambda>y. wp (mapM_e f xs) (\<lambda>_. I) (\<lambda>_. I)) (\<lambda>_. I) s"
    by (rule wp_mono) (use Cons in auto)
  then show ?case by (simp add: wp_simps)
qed

text \<open>The non-state fragment: a \<^verbatim>\<open>Result\<close> chained with \<^verbatim>\<open>?\<close>.\<close>

definition try_res :: "'e + 'a \<Rightarrow> ('a \<Rightarrow> 'e + 'b) \<Rightarrow> 'e + 'b" where
  "try_res r f = (case r of Inl e \<Rightarrow> Inl e | Inr x \<Rightarrow> f x)"

lemma try_res_simps [simp]: "try_res (Inl e) f = Inl e" "try_res (Inr x) f = f x"
  by (simp_all add: try_res_def)

lemma try_res_Inr: "try_res r f = Inr y \<longleftrightarrow> (\<exists>x. r = Inr x \<and> f x = Inr y)"
  by (cases r) auto

definition is_ok :: "'e + 'a \<Rightarrow> bool" where
  "is_ok r = (case r of Inl _ \<Rightarrow> False | Inr _ \<Rightarrow> True)"

lemma is_ok_simps [simp]: "is_ok (Inr x)" "\<not> is_ok (Inl e)"
  by (simp_all add: is_ok_def)

lemma is_ok_iff: "is_ok r \<longleftrightarrow> (\<exists>x. r = Inr x)"
  by (cases r) auto

section \<open>Byte strings\<close>

text \<open>The non-ASCII punctuation of the program's messages, as UTF-8 bytes.\<close>

definition em_dash :: string where
  "em_dash = [CHR 0xE2, CHR 0x80, CHR 0x94]"

definition section_sign :: string where
  "section_sign = [CHR 0xC2, CHR 0xA7]"

definition newline :: string where
  "newline = [CHR 0x0A]"

fun digits_rev :: "nat \<Rightarrow> string" where
  "digits_rev n = (if n < 10 then [char_of (48 + n)] else char_of (48 + n mod 10) # digits_rev (n div 10))"

declare digits_rev.simps [simp del]

definition dec :: "nat \<Rightarrow> string" where
  "dec n = rev (digits_rev n)"

definition digit_val :: "char \<Rightarrow> nat option" where
  "digit_val c = (let k = of_char c :: nat in if 48 \<le> k \<and> k \<le> 57 then Some (k - 48) else None)"

fun digits_val :: "nat \<Rightarrow> string \<Rightarrow> nat option" where
  "digits_val acc [] = Some acc"
| "digits_val acc (c # cs) = (case digit_val c of None \<Rightarrow> None | Some d \<Rightarrow> digits_val (10 * acc + d) cs)"

text \<open>
  Rust's \<^verbatim>\<open>uN::from_str\<close>: an optional plus sign, then a non-empty run of digits whose value
  does not exceed \<^verbatim>\<open>MAX\<close>.
\<close>

definition parse_uint :: "nat \<Rightarrow> string \<Rightarrow> nat option" where
  "parse_uint bound s =
    (let ds = (case s of CHR ''+'' # t \<Rightarrow> t | _ \<Rightarrow> s)
     in if ds = [] then None
        else (case digits_val 0 ds of None \<Rightarrow> None | Some n \<Rightarrow> if n \<le> bound then Some n else None))"

lemma digit_val_char [simp]: "d < 10 \<Longrightarrow> digit_val (char_of (48 + d)) = Some d"
  by (simp add: digit_val_def Let_def)

lemma digits_val_append:
  "digits_val acc (xs @ ys) = (case digits_val acc xs of None \<Rightarrow> None | Some a \<Rightarrow> digits_val a ys)"
  by (induction xs arbitrary: acc) (auto split: option.splits)

lemma digits_val_dec: "digits_val 0 (dec n) = Some n"
proof (induction n rule: digits_rev.induct)
  case (1 n)
  show ?case
  proof (cases "n < 10")
    case True
    then show ?thesis by (simp add: dec_def digits_rev.simps [of n])
  next
    case False
    then show ?thesis using 1
      by (simp add: dec_def digits_rev.simps [of n] digits_val_append)
  qed
qed

lemma dec_nonempty [simp]: "dec n \<noteq> []"
  by (simp add: dec_def digits_rev.simps [of n])

lemma dec_digits: "c \<in> set (dec n) \<Longrightarrow> 48 \<le> (of_char c :: nat) \<and> (of_char c :: nat) \<le> 57"
proof (induction n rule: digits_rev.induct)
  case (1 n)
  have *: "48 + n mod 10 < (256 :: nat)" by (simp add: less_imp_le trans_less_add1)
  show ?case
  proof (cases "n < 10")
    case True
    then show ?thesis using "1.prems" by (simp add: dec_def digits_rev.simps [of n])
  next
    case False
    have "c = char_of (48 + n mod 10) \<or> c \<in> set (dec (n div 10))"
      using "1.prems" False by (simp add: dec_def digits_rev.simps [of n])
    then show ?thesis using "1.IH" [OF False] by auto
  qed
qed

lemma dec_not_plus: "dec n = c # t \<Longrightarrow> c \<noteq> CHR ''+''"
  using dec_digits [of c n] by auto

lemma parse_uint_dec: "n \<le> bound \<Longrightarrow> parse_uint bound (dec n) = Some n"
proof -
  assume "n \<le> bound"
  moreover have "(case dec n of CHR ''+'' # t \<Rightarrow> t | _ \<Rightarrow> dec n) = dec n"
    using dec_not_plus [of n] by (cases "dec n") (auto split: char.splits bool.splits)
  ultimately show ?thesis by (simp add: parse_uint_def Let_def digits_val_dec)
qed

lemma parse_uint_bound: "parse_uint bound s = Some n \<Longrightarrow> n \<le> bound"
  by (auto simp: parse_uint_def Let_def split: if_splits option.splits)

text \<open>\<^verbatim>\<open>str::starts_with\<close>, \<^verbatim>\<open>strip_prefix\<close>, \<^verbatim>\<open>ends_with\<close>, \<^verbatim>\<open>contains\<close>.\<close>

fun starts_with :: "string \<Rightarrow> string \<Rightarrow> bool" where
  "starts_with s [] = True"
| "starts_with [] (p # ps) = False"
| "starts_with (c # cs) (p # ps) = (c = p \<and> starts_with cs ps)"

definition strip_prefix :: "string \<Rightarrow> string \<Rightarrow> string option" where
  "strip_prefix p s = (if starts_with s p then Some (drop (length p) s) else None)"

definition ends_with :: "string \<Rightarrow> string \<Rightarrow> bool" where
  "ends_with s p = starts_with (rev s) (rev p)"

fun contains :: "string \<Rightarrow> string \<Rightarrow> bool" where
  "contains [] p = (p = [])"
| "contains (c # cs) p = (starts_with (c # cs) p \<or> contains cs p)"

lemma starts_with_iff: "starts_with s p \<longleftrightarrow> (\<exists>t. s = p @ t)"
  by (induction s p rule: starts_with.induct) auto

lemma ends_with_iff: "ends_with s p \<longleftrightarrow> (\<exists>t. s = t @ p)"
proof
  assume "ends_with s p"
  then obtain t where "rev s = rev p @ t" by (auto simp: ends_with_def starts_with_iff)
  then have "rev (rev s) = rev (rev p @ t)" by simp
  then have "s = rev t @ p" by simp
  then show "\<exists>t. s = t @ p" ..
qed (auto simp: ends_with_def starts_with_iff)

lemma contains_iff: "contains s p \<longleftrightarrow> (\<exists>u v. s = u @ p @ v)"
proof
  show "contains s p \<Longrightarrow> \<exists>u v. s = u @ p @ v"
  proof (induction s)
    case Nil
    then show ?case by auto
  next
    case (Cons c cs)
    show ?case
    proof (cases "starts_with (c # cs) p")
      case True
      then obtain t where "c # cs = [] @ p @ t" by (auto simp: starts_with_iff)
      then show ?thesis by blast
    next
      case False
      then have "contains cs p" using Cons.prems by simp
      then obtain u v where "cs = u @ p @ v" using Cons.IH by blast
      then have "c # cs = (c # u) @ p @ v" by simp
      then show ?thesis by blast
    qed
  qed
  show "\<exists>u v. s = u @ p @ v \<Longrightarrow> contains s p"
  proof (induction s)
    case Nil
    then show ?case by auto
  next
    case (Cons c cs)
    then obtain u v where *: "c # cs = u @ p @ v" by blast
    show ?case
    proof (cases u)
      case Nil
      then have "starts_with (c # cs) p" using * by (auto simp: starts_with_iff)
      then show ?thesis by simp
    next
      case (Cons d u')
      then show ?thesis using * Cons.IH by auto
    qed
  qed
qed

text \<open>
  Unicode white space (the \<^verbatim>\<open>White_Space\<close> property that \<^verbatim>\<open>char::is_whitespace\<close> tests) on UTF-8
  bytes: the length of the white-space character a byte string starts with, zero when it
  starts with none.
\<close>

definition ascii_ws :: "char \<Rightarrow> bool" where
  "ascii_ws c = (let k = of_char c :: nat in (9 \<le> k \<and> k \<le> 13) \<or> k = 32)"

definition wide_ws :: "string list" where
  "wide_ws =
    [[CHR 0xC2, CHR 0x85], [CHR 0xC2, CHR 0xA0], [CHR 0xE1, CHR 0x9A, CHR 0x80]]
    @ List.map (\<lambda>k. [CHR 0xE2, CHR 0x80, char_of (k :: nat)]) ([128..<139] @ [168, 169, 175])
    @ [[CHR 0xE2, CHR 0x81, CHR 0x9F], [CHR 0xE3, CHR 0x80, CHR 0x80]]"

definition ws_len :: "string list \<Rightarrow> string \<Rightarrow> nat" where
  "ws_len wide s = (case s of [] \<Rightarrow> 0
     | c # _ \<Rightarrow> if ascii_ws c then 1
                else (case List.find (starts_with s) wide of None \<Rightarrow> 0 | Some w \<Rightarrow> length w))"

function trim_with :: "string list \<Rightarrow> string \<Rightarrow> string" where
  "trim_with wide s = (if s = [] \<or> ws_len wide s = 0 then s else trim_with wide (drop (ws_len wide s) s))"
  by pat_completeness auto
termination by (relation "measure (\<lambda>(_, s). length s)") auto

declare trim_with.simps [simp del]

definition trim :: "string \<Rightarrow> string" where
  "trim s = rev (trim_with (List.map rev wide_ws) (rev (trim_with wide_ws s)))"

text \<open>Trimming leaves alone a string whose ends are ASCII and not white space.\<close>

definition plain_char :: "char \<Rightarrow> bool" where
  "plain_char c \<longleftrightarrow> (of_char c :: nat) < 128 \<and> \<not> ascii_ws c"

lemma ws_len_zero:
  assumes "\<forall>w \<in> set wide. w \<noteq> [] \<and> 128 \<le> (of_char (hd w) :: nat)" and "plain_char c"
  shows "ws_len wide (c # s) = 0"
proof -
  have "\<not> starts_with (c # s) w" if "w \<in> set wide" for w
  proof -
    have "w \<noteq> []" "128 \<le> (of_char (hd w) :: nat)" using that assms(1) by blast+
    moreover have "(of_char c :: nat) < 128" using assms(2) by (simp add: plain_char_def)
    ultimately have "c \<noteq> hd w" "w = hd w # tl w" by auto
    then show ?thesis by (metis starts_with.simps(3))
  qed
  then have "List.find (starts_with (c # s)) wide = None"
    by (auto simp: find_None_iff)
  then show ?thesis using assms by (simp add: ws_len_def plain_char_def)
qed

lemma wide_ws_heads: "\<forall>w \<in> set wide_ws. w \<noteq> [] \<and> 128 \<le> (of_char (hd w) :: nat)"
  by (auto simp: wide_ws_def)

lemma wide_ws_last: "\<forall>w \<in> set (List.map rev wide_ws). w \<noteq> [] \<and> 128 \<le> (of_char (hd w) :: nat)"
  by (auto simp: wide_ws_def)

lemma trim_with_plain:
  assumes "\<forall>w \<in> set wide. w \<noteq> [] \<and> 128 \<le> (of_char (hd w) :: nat)" "s \<noteq> []" "plain_char (hd s)"
  shows "trim_with wide s = s"
proof -
  obtain c t where "s = c # t" using assms(2) by (cases s) auto
  then have "ws_len wide s = 0" using ws_len_zero [OF assms(1)] assms(3) by simp
  then show ?thesis by (simp add: trim_with.simps [of wide s])
qed

lemma trim_plain:
  assumes "s \<noteq> []" "plain_char (hd s)" "plain_char (last s)"
  shows "trim s = s"
proof -
  have "trim_with wide_ws s = s" by (rule trim_with_plain [OF wide_ws_heads]) (use assms in auto)
  moreover have "trim_with (List.map rev wide_ws) (rev s) = rev s"
    by (rule trim_with_plain [OF wide_ws_last]) (use assms in \<open>auto simp: hd_rev\<close>)
  ultimately show ?thesis by (simp add: trim_def)
qed

lemma trim_nil [simp]: "trim [] = []"
  by (simp add: trim_def trim_with.simps)

lemma plain_digit: "48 \<le> (of_char c :: nat) \<Longrightarrow> (of_char c :: nat) \<le> 57 \<Longrightarrow> plain_char c"
  by (auto simp: plain_char_def ascii_ws_def Let_def)

text \<open>\<^verbatim>\<open>str::split\<close> on one separator byte, \<^verbatim>\<open>to_ascii_lowercase\<close>.\<close>

fun split_on :: "char \<Rightarrow> string \<Rightarrow> string list" where
  "split_on sep [] = [[]]"
| "split_on sep (c # cs) =
    (if c = sep then [] # split_on sep cs
     else (case split_on sep cs of [] \<Rightarrow> [[c]] | p # ps \<Rightarrow> (c # p) # ps))"

fun join_with :: "string \<Rightarrow> string list \<Rightarrow> string" where
  "join_with sep [] = []"
| "join_with sep [x] = x"
| "join_with sep (x # y # ys) = x @ sep @ join_with sep (y # ys)"

definition ascii_lower :: "char \<Rightarrow> char" where
  "ascii_lower c = (let k = of_char c :: nat in if 65 \<le> k \<and> k \<le> 90 then char_of (k + 32) else c)"

definition to_lower :: "string \<Rightarrow> string" where
  "to_lower s = List.map ascii_lower s"

lemma split_on_nonempty [simp]: "split_on sep s \<noteq> []"
  by (induction s) (auto split: list.splits)

lemma split_on_no_sep: "sep \<notin> set s \<Longrightarrow> split_on sep s = [s]"
  by (induction s) auto

lemma split_on_append: "sep \<notin> set s \<Longrightarrow> split_on sep (s @ sep # t) = s # split_on sep t"
  by (induction s) auto

lemma length_to_lower [simp]: "length (to_lower s) = length s"
  by (simp add: to_lower_def)

text \<open>\<^verbatim>\<open>str::split_whitespace\<close>: the non-empty runs between Unicode white space.\<close>

function ws_tokens :: "string \<Rightarrow> string \<Rightarrow> string list" where
  "ws_tokens cur s =
    (if s = [] then (if cur = [] then [] else [rev cur])
     else if 0 < ws_len wide_ws s
       then (if cur = [] then ws_tokens [] (drop (ws_len wide_ws s) s)
             else rev cur # ws_tokens [] (drop (ws_len wide_ws s) s))
     else ws_tokens (hd s # cur) (tl s))"
  by pat_completeness auto
termination by (relation "measure (\<lambda>(_, s). length s)") auto

declare ws_tokens.simps [simp del]

definition split_whitespace :: "string \<Rightarrow> string list" where
  "split_whitespace s = ws_tokens [] s"

lemma ws_tokens_plain:
  "list_all plain_char s \<Longrightarrow> cur @ s \<noteq> [] \<Longrightarrow> ws_tokens cur s = [rev cur @ s]"
proof (induction s arbitrary: cur)
  case Nil
  then show ?case by (simp add: ws_tokens.simps [of cur])
next
  case (Cons c s)
  then have "ws_len wide_ws (c # s) = 0" by (simp add: ws_len_zero [OF wide_ws_heads])
  then have "ws_tokens cur (c # s) = ws_tokens (c # cur) s" by (simp add: ws_tokens.simps [of cur])
  also have "\<dots> = [rev (c # cur) @ s]" using Cons by simp
  finally show ?case by simp
qed

lemma ws_tokens_space:
  "list_all plain_char s \<Longrightarrow> cur @ s \<noteq> [] \<Longrightarrow>
    ws_tokens cur (s @ CHR '' '' # t) = (rev cur @ s) # ws_tokens [] t"
proof (induction s arbitrary: cur)
  case Nil
  have "ws_len wide_ws (CHR '' '' # t) = 1" by (simp add: ws_len_def ascii_ws_def)
  with Nil show ?case by (simp add: ws_tokens.simps [of cur])
next
  case (Cons c s)
  then have "ws_len wide_ws (c # s @ CHR '' '' # t) = 0" by (simp add: ws_len_zero [OF wide_ws_heads])
  then have "ws_tokens cur (c # s @ CHR '' '' # t) = ws_tokens (c # cur) (s @ CHR '' '' # t)"
    by (simp add: ws_tokens.simps [of cur])
  also have "\<dots> = (rev (c # cur) @ s) # ws_tokens [] t" using Cons by simp
  finally show ?case by simp
qed

text \<open>\<^verbatim>\<open>str::lines\<close>: no empty line after the last newline, carriage returns before newlines dropped.\<close>

definition drop_cr :: "string \<Rightarrow> string" where
  "drop_cr l = (if l \<noteq> [] \<and> last l = CHR 0x0D then butlast l else l)"

definition str_lines :: "string \<Rightarrow> string list" where
  "str_lines s = (let ls = split_on (CHR 0x0A) s in
     List.map drop_cr (butlast ls) @ (if last ls = [] then [] else [last ls]))"

text \<open>\<^verbatim>\<open>s.chars().count()\<close>: the bytes that do not continue a UTF-8 sequence.\<close>

definition char_count :: "string \<Rightarrow> nat" where
  "char_count s = length (List.filter (\<lambda>c. (of_char c :: nat) div 64 \<noteq> 2) s)"

text \<open>Padding to a width in characters, as \<^verbatim>\<open>{:<n}\<close> and \<^verbatim>\<open>{:>n}\<close> do.\<close>

definition pad_right :: "nat \<Rightarrow> string \<Rightarrow> string" where
  "pad_right n s = s @ replicate (n - char_count s) CHR '' ''"

definition pad_left :: "nat \<Rightarrow> string \<Rightarrow> string" where
  "pad_left n s = replicate (n - char_count s) CHR '' '' @ s"

lemma char_count_append [simp]: "char_count (s @ t) = char_count s + char_count t"
  by (simp add: char_count_def)

lemma char_count_spaces [simp]: "char_count (replicate n CHR '' '') = n"
  by (simp add: char_count_def)

lemma char_count_pad: "char_count s \<le> n \<Longrightarrow> char_count (pad_right n s) = n"
  by (simp add: pad_right_def)

text \<open>Rust's \<^verbatim>\<open>Debug\<close> form of an optional exit code.\<close>

definition show_int :: "int \<Rightarrow> string" where
  "show_int i = (if i < 0 then ''-'' @ dec (nat (- i)) else dec (nat i))"

definition debug_opt_int :: "int option \<Rightarrow> string" where
  "debug_opt_int c = (case c of None \<Rightarrow> ''None'' | Some i \<Rightarrow> ''Some('' @ show_int i @ '')'')"

section \<open>Association tables\<close>

text \<open>A \<^verbatim>\<open>HashMap\<close> whose key set and values matter, kept as an association list.\<close>

fun tab_get :: "('k \<times> 'v) list \<Rightarrow> 'k \<Rightarrow> 'v option" where
  "tab_get [] k = None"
| "tab_get ((k', v) # kvs) k = (if k' = k then Some v else tab_get kvs k)"

fun tab_set :: "'k \<Rightarrow> 'v \<Rightarrow> ('k \<times> 'v) list \<Rightarrow> ('k \<times> 'v) list" where
  "tab_set k v [] = [(k, v)]"
| "tab_set k v ((k', v') # kvs) = (if k' = k then (k, v) # kvs else (k', v') # tab_set k v kvs)"

definition tab_del :: "'k \<Rightarrow> ('k \<times> 'v) list \<Rightarrow> ('k \<times> 'v) list" where
  "tab_del k = List.filter (\<lambda>(k', _). k' \<noteq> k)"

lemma tab_get_set [simp]: "tab_get (tab_set k v t) k' = (if k' = k then Some v else tab_get t k')"
  by (induction t) auto

lemma tab_get_del [simp]: "tab_get (tab_del k t) k' = (if k' = k then None else tab_get t k')"
  by (induction t) (auto simp: tab_del_def)

lemma tab_get_mem: "tab_get t k = Some v \<Longrightarrow> (k, v) \<in> set t"
  by (induction t) (auto split: if_splits)

lemma tab_get_None: "tab_get t k = None \<longleftrightarrow> k \<notin> fst ` set t"
  by (induction t k rule: tab_get.induct) auto

lemma keys_tab_set: "fst ` set (tab_set k v t) = insert k (fst ` set t)"
  by (induction k v t rule: tab_set.induct) auto

lemma distinct_tab_set: "distinct (List.map fst t) \<Longrightarrow> distinct (List.map fst (tab_set k v t))"
proof (induction t)
  case (Cons x t)
  obtain k' v' where "x = (k', v')" by (cases x)
  moreover have "fst ` set (tab_set k v t) = insert k (fst ` set t)" by (rule keys_tab_set)
  ultimately show ?case using Cons by (auto simp flip: set_map)
qed simp

lemma distinct_tab_del: "distinct (List.map fst t) \<Longrightarrow> distinct (List.map fst (tab_del k t))"
  by (simp add: tab_del_def distinct_map_filter)

lemma tab_get_distinct: "distinct (List.map fst t) \<Longrightarrow> (k, v) \<in> set t \<Longrightarrow> tab_get t k = Some v"
  by (induction t) force+

end
