(* ===== verification/Core_Error.thy ===== *)
theory Core_Error
  imports Prelude
begin

text \<open>
  \<^verbatim>\<open>crates/aegis-core/src/error.rs\<close>: the error taxonomy and its fail-closed
  classification.  The class of an error decides whether the daemon must engage the
  kill switch before it reports the error.
\<close>

datatype failure_class =
    FC_NetworkContainment
  | FC_Isolation
  | FC_Cryptography
  | FC_Integrity
  | FC_Configuration
  | FC_Precondition
  | FC_System
  | FC_Internal

definition class_requires_killswitch :: "failure_class \<Rightarrow> bool" where
  "class_requires_killswitch c = (case c of
      FC_NetworkContainment \<Rightarrow> True
    | FC_Isolation \<Rightarrow> True
    | _ \<Rightarrow> False)"

definition is_retryable :: "failure_class \<Rightarrow> bool" where
  "is_retryable c = (case c of
      FC_Precondition \<Rightarrow> True
    | FC_System \<Rightarrow> True
    | _ \<Rightarrow> False)"

definition class_display :: "failure_class \<Rightarrow> string" where
  "class_display c = (case c of
      FC_NetworkContainment \<Rightarrow> ''network-containment''
    | FC_Isolation \<Rightarrow> ''isolation''
    | FC_Cryptography \<Rightarrow> ''cryptography''
    | FC_Integrity \<Rightarrow> ''integrity''
    | FC_Configuration \<Rightarrow> ''configuration''
    | FC_Precondition \<Rightarrow> ''precondition''
    | FC_System \<Rightarrow> ''system''
    | FC_Internal \<Rightarrow> ''internal'')"

datatype error =
    NetworkContainment string
  | Isolation string
  | PreflightFailed string string
  | Crypto string
  | Integrity string
  | Config string
  | Precondition string
  | NotFound string
  | Busy string
  | Unsupported string
  | System string
  | Internal string

type_synonym 'a result = "error + 'a"

definition error_display :: "error \<Rightarrow> string" where
  "error_display e = (case e of
      NetworkContainment m \<Rightarrow> ''network containment failure: '' @ m
    | Isolation m \<Rightarrow> ''isolation failure: '' @ m
    | PreflightFailed check detail \<Rightarrow> ''preflight check '' @ [CHR 0x27] @ check @ [CHR 0x27] @ '' failed: '' @ detail
    | Crypto m \<Rightarrow> ''cryptography failure: '' @ m
    | Integrity m \<Rightarrow> ''integrity failure: '' @ m
    | Config m \<Rightarrow> ''invalid configuration: '' @ m
    | Precondition m \<Rightarrow> ''precondition not met: '' @ m
    | NotFound m \<Rightarrow> ''not found: '' @ m
    | Busy m \<Rightarrow> ''resource busy: '' @ m
    | Unsupported m \<Rightarrow> ''unsupported: '' @ m
    | System m \<Rightarrow> ''system error: '' @ m
    | Internal m \<Rightarrow> ''internal error: '' @ m)"

definition error_class :: "error \<Rightarrow> failure_class" where
  "error_class e = (case e of
      NetworkContainment _ \<Rightarrow> FC_NetworkContainment
    | PreflightFailed _ _ \<Rightarrow> FC_NetworkContainment
    | Isolation _ \<Rightarrow> FC_Isolation
    | Crypto _ \<Rightarrow> FC_Cryptography
    | Integrity _ \<Rightarrow> FC_Integrity
    | Config _ \<Rightarrow> FC_Configuration
    | Precondition _ \<Rightarrow> FC_Precondition
    | NotFound _ \<Rightarrow> FC_Precondition
    | Busy _ \<Rightarrow> FC_Precondition
    | Unsupported _ \<Rightarrow> FC_System
    | System _ \<Rightarrow> FC_System
    | Internal _ \<Rightarrow> FC_Internal)"

definition requires_killswitch :: "error \<Rightarrow> bool" where
  "requires_killswitch e = class_requires_killswitch (error_class e)"

lemma error_class_simps [simp, class_simps]:
  "error_class (NetworkContainment m) = FC_NetworkContainment"
  "error_class (PreflightFailed c d) = FC_NetworkContainment"
  "error_class (Isolation m) = FC_Isolation"
  "error_class (Crypto m) = FC_Cryptography"
  "error_class (Integrity m) = FC_Integrity"
  "error_class (Config m) = FC_Configuration"
  "error_class (Precondition m) = FC_Precondition"
  "error_class (NotFound m) = FC_Precondition"
  "error_class (Busy m) = FC_Precondition"
  "error_class (Unsupported m) = FC_System"
  "error_class (System m) = FC_System"
  "error_class (Internal m) = FC_Internal"
  by (simp_all add: error_class_def)

lemma requires_killswitch_simps [simp, class_simps]:
  "requires_killswitch (NetworkContainment m)"
  "requires_killswitch (PreflightFailed c d)"
  "requires_killswitch (Isolation m)"
  "\<not> requires_killswitch (Crypto m)"
  "\<not> requires_killswitch (Integrity m)"
  "\<not> requires_killswitch (Config m)"
  "\<not> requires_killswitch (Precondition m)"
  "\<not> requires_killswitch (NotFound m)"
  "\<not> requires_killswitch (Busy m)"
  "\<not> requires_killswitch (Unsupported m)"
  "\<not> requires_killswitch (System m)"
  "\<not> requires_killswitch (Internal m)"
  by (simp_all add: requires_killswitch_def class_requires_killswitch_def)

lemma killswitch_not_retryable:
  "class_requires_killswitch c \<Longrightarrow> \<not> is_retryable c"
  by (cases c) (simp_all add: class_requires_killswitch_def is_retryable_def)

end
