(* ===== verification/Core_Ids.thy ===== *)
theory Core_Ids
  imports Core_Error
begin

text \<open>
  \<^verbatim>\<open>crates/aegis-core/src/ids.rs\<close>: newtypes over a UUID.

  The \<^verbatim>\<open>uuid\<close> crate is outside the repository.  A \<^verbatim>\<open>Uuid\<close> value is identified with the
  text its \<^verbatim>\<open>simple()\<close> form prints; that this text is 32 lower-case hexadecimal digits is
  the named hypothesis \<^verbatim>\<open>wf_uuid\<close>.  Random generation and \<^verbatim>\<open>Uuid::parse_str\<close> are
  parameters of the definitions that use them.
\<close>

datatype uuid = Uuid (uuid_simple: string)

definition hex_digit :: "char \<Rightarrow> bool" where
  "hex_digit c = (let k = of_char c :: nat in (48 \<le> k \<and> k \<le> 57) \<or> (97 \<le> k \<and> k \<le> 102))"

definition wf_uuid :: "uuid \<Rightarrow> bool" where
  "wf_uuid u \<longleftrightarrow> length (uuid_simple u) = 32 \<and> list_all hex_digit (uuid_simple u)"

definition uuid_display :: "uuid \<Rightarrow> string" where
  "uuid_display u = (let h = uuid_simple u in
     take 8 h @ ''-'' @ take 4 (drop 8 h) @ ''-'' @ take 4 (drop 12 h) @ ''-''
       @ take 4 (drop 16 h) @ ''-'' @ drop 20 h)"

datatype profile_id = ProfileId uuid
datatype vm_id = VmId uuid
datatype session_id = SessionId uuid
datatype instance_id = InstanceId uuid

definition slug_of :: "string \<Rightarrow> uuid \<Rightarrow> string" where
  "slug_of prefix u = prefix @ ''-'' @ take 8 (uuid_simple u)"

fun profile_slug :: "profile_id \<Rightarrow> string" where
  "profile_slug (ProfileId u) = slug_of ''prof'' u"

fun vm_slug :: "vm_id \<Rightarrow> string" where
  "vm_slug (VmId u) = slug_of ''vm'' u"

fun session_slug :: "session_id \<Rightarrow> string" where
  "session_slug (SessionId u) = slug_of ''sess'' u"

fun instance_slug :: "instance_id \<Rightarrow> string" where
  "instance_slug (InstanceId u) = slug_of ''inst'' u"

fun profile_display :: "profile_id \<Rightarrow> string" where
  "profile_display (ProfileId u) = uuid_display u"

fun vm_display :: "vm_id \<Rightarrow> string" where
  "vm_display (VmId u) = uuid_display u"

fun session_display :: "session_id \<Rightarrow> string" where
  "session_display (SessionId u) = uuid_display u"

definition profile_from_str :: "(string \<Rightarrow> string + uuid) \<Rightarrow> string \<Rightarrow> profile_id result" where
  "profile_from_str parse_str s = (case parse_str s of
      Inl e \<Rightarrow> Inl (Config (''invalid ProfileId: '' @ e))
    | Inr u \<Rightarrow> Inr (ProfileId u))"

definition vm_from_str :: "(string \<Rightarrow> string + uuid) \<Rightarrow> string \<Rightarrow> vm_id result" where
  "vm_from_str parse_str s = (case parse_str s of
      Inl e \<Rightarrow> Inl (Config (''invalid VmId: '' @ e))
    | Inr u \<Rightarrow> Inr (VmId u))"

definition session_from_str :: "(string \<Rightarrow> string + uuid) \<Rightarrow> string \<Rightarrow> session_id result" where
  "session_from_str parse_str s = (case parse_str s of
      Inl e \<Rightarrow> Inl (Config (''invalid SessionId: '' @ e))
    | Inr u \<Rightarrow> Inr (SessionId u))"

lemma slug_length: "wf_uuid u \<Longrightarrow> length (slug_of p u) = length p + 9"
  by (simp add: slug_of_def wf_uuid_def)

lemma slug_chars:
  "wf_uuid u \<Longrightarrow> c \<in> set (slug_of p u) \<Longrightarrow> c \<in> set p \<or> c = CHR ''-'' \<or> hex_digit c"
  by (auto simp: slug_of_def wf_uuid_def list_all_iff dest: in_set_takeD)

lemma slug_prefixes_disjoint:
  assumes "p = profile_slug i" "v = vm_slug j" "s = session_slug k" "n = instance_slug l"
  shows "distinct [p, v, s, n]"
  using assms by (cases i; cases j; cases k; cases l) (simp add: slug_of_def)

lemma hex_not_hyphen: "hex_digit c \<Longrightarrow> c \<noteq> CHR ''-''"
  by (auto simp: hex_digit_def Let_def)

lemma uuid_display_filter:
  assumes "wf_uuid u"
  shows "List.filter (\<lambda>c. c \<noteq> CHR ''-'') (uuid_display u) = uuid_simple u"
proof -
  let ?h = "uuid_simple u"
  have hx: "\<forall>c \<in> set ?h. c \<noteq> CHR ''-''"
    using assms hex_not_hyphen by (auto simp: wf_uuid_def list_all_iff)
  have id: "List.filter (\<lambda>c. c \<noteq> CHR ''-'') xs = xs" if "set xs \<subseteq> set ?h" for xs
    using that hx by (intro filter_True) auto
  have s1: "set (take n (drop m ?h)) \<subseteq> set ?h" for n m
    by (meson in_set_dropD in_set_takeD subsetI)
  have s2: "set (take n ?h) \<subseteq> set ?h" for n by (rule set_take_subset)
  have s3: "set (drop n ?h) \<subseteq> set ?h" for n by (rule set_drop_subset)
  have j: "take n (drop m ?h) @ drop (n + m) ?h = drop m ?h" for n m
    using append_take_drop_id [of n "drop m ?h"] by (simp only: drop_drop)
  have split: "take 8 ?h @ take 4 (drop 8 ?h) @ take 4 (drop 12 ?h) @ take 4 (drop 16 ?h) @ drop 20 ?h = ?h"
    using j [of 4 16] j [of 4 12] j [of 4 8] by simp
  have "List.filter (\<lambda>c. c \<noteq> CHR ''-'') (uuid_display u)
      = take 8 ?h @ take 4 (drop 8 ?h) @ take 4 (drop 12 ?h) @ take 4 (drop 16 ?h) @ drop 20 ?h"
    by (simp add: uuid_display_def Let_def id s1 s2 s3)
  with split show ?thesis by (simp only:)
qed

lemma uuid_display_inj: "wf_uuid u \<Longrightarrow> wf_uuid v \<Longrightarrow> uuid_display u = uuid_display v \<Longrightarrow> u = v"
  by (metis uuid.expand uuid_display_filter)

end
