(* ===== verification/Network.thy ===== *)
theory Network
  imports Core_Ids
begin

text \<open>
  \<^verbatim>\<open>crates/aegis-core/src/network.rs\<close>: the tunnel a session is pinned to, with its DNS and
  IPv6 policy.  Secrets appear only as references.
\<close>

datatype credential_ref = CredentialRef string

record tor_config =
  tor_use_bridges :: bool
  tor_bridges :: "string list"
  tor_exit_country :: "string option"

definition tor_config_default :: tor_config where
  "tor_config_default = \<lparr> tor_use_bridges = False, tor_bridges = [], tor_exit_country = None \<rparr>"

datatype vpn_protocol = WireGuard | OpenVpn

record vpn_config =
  vpn_protocol :: vpn_protocol
  vpn_endpoint :: string
  vpn_credentials_ref :: credential_ref
  vpn_dns_servers :: "string list"

datatype proxy_protocol = Socks5 | HttpConnect

record proxy_config =
  px_protocol :: proxy_protocol
  px_host :: string
  px_port :: "16 word"
  px_credentials_ref :: "credential_ref option"
  px_remote_dns :: bool

datatype network_mode = Tor tor_config | Vpn vpn_config | Proxy proxy_config

datatype dns_mode = TorDnsPort | TunnelDns | ProxyRemote | StaticDns

record dns_policy =
  dns_mode :: dns_mode
  dns_servers :: "string list"
  dns_block_plain :: bool

definition dns_policy_tor :: dns_policy where
  "dns_policy_tor = \<lparr> dns_mode = TorDnsPort, dns_servers = [], dns_block_plain = True \<rparr>"

definition network_label :: "network_mode \<Rightarrow> string" where
  "network_label m = (case m of Tor _ \<Rightarrow> ''Tor'' | Vpn _ \<Rightarrow> ''VPN'' | Proxy _ \<Rightarrow> ''Proxy'')"

definition default_dns_policy :: "network_mode \<Rightarrow> dns_policy" where
  "default_dns_policy m = (case m of
      Tor _ \<Rightarrow> dns_policy_tor
    | Vpn cfg \<Rightarrow> \<lparr> dns_mode = TunnelDns, dns_servers = vpn_dns_servers cfg, dns_block_plain = True \<rparr>
    | Proxy cfg \<Rightarrow>
        if px_remote_dns cfg
        then \<lparr> dns_mode = ProxyRemote, dns_servers = [], dns_block_plain = True \<rparr>
        else \<lparr> dns_mode = ProxyRemote, dns_servers = [], dns_block_plain = True \<rparr>)"

datatype ipv6_policy = Ipv6Block | RouteThroughTunnel

record network_config =
  net_mode :: network_mode
  net_dns :: dns_policy
  net_ipv6 :: ipv6_policy

definition network_from_mode :: "network_mode \<Rightarrow> network_config" where
  "network_from_mode m = \<lparr> net_mode = m, net_dns = default_dns_policy m, net_ipv6 = Ipv6Block \<rparr>"

definition network_default :: network_config where
  "network_default = network_from_mode (Tor tor_config_default)"

lemma default_dns_blocks_plain: "dns_block_plain (default_dns_policy m)"
  by (cases m) (simp_all add: default_dns_policy_def dns_policy_tor_def)

lemma default_dns_ignores_remote_dns:
  "default_dns_policy (Proxy c) = default_dns_policy (Proxy (c\<lparr>px_remote_dns := b\<rparr>))"
  by (simp add: default_dns_policy_def)

lemma from_mode_contains: "dns_block_plain (net_dns (network_from_mode m))"
    "net_ipv6 (network_from_mode m) = Ipv6Block"
  by (simp_all add: network_from_mode_def default_dns_blocks_plain)

end
