(* ===== verification/Fingerprint.thy ===== *)
theory Fingerprint
  imports Core_Ids
begin

text \<open>
  \<^verbatim>\<open>crates/aegis-core/src/fingerprint.rs\<close>: protection levels, the normalisation policy they
  imply, the four safety presets, and the backend identifier of \<^verbatim>\<open>browser.rs\<close> the
  representative User-Agent depends on.
\<close>

datatype browser_backend = Chromium | Firefox

definition backend_label :: "browser_backend \<Rightarrow> string" where
  "backend_label b = (case b of Chromium \<Rightarrow> ''Chromium'' | Firefox \<Rightarrow> ''Firefox/Mullvad'')"

datatype protection_level = Balanced | Strict

datatype webgl_mode = WebGlVirtual | WebGlRestricted | WebGlDisabled
datatype canvas_mode = CanvasPassthrough | CanvasLimited
datatype letterbox_mode = LetterboxOff | LetterboxOn
datatype font_policy = StandardSet

record fingerprint_policy =
  fp_level :: protection_level
  fp_webgl :: webgl_mode
  fp_webgpu_enabled :: bool
  fp_canvas :: canvas_mode
  fp_letterbox :: letterbox_mode
  fp_fonts :: font_policy
  fp_timer_coarsening_us :: "32 word"
  fp_limit_media_devices :: bool
  fp_hardware_concurrency :: "32 word option"
  fp_disable_battery :: bool
  fp_disable_sensors :: bool
  fp_block_device_apis :: bool
  fp_timezone :: "string option"
  fp_primary_language :: string

definition fp_balanced :: fingerprint_policy where
  "fp_balanced = \<lparr>
    fp_level = Balanced,
    fp_webgl = WebGlVirtual,
    fp_webgpu_enabled = False,
    fp_canvas = CanvasPassthrough,
    fp_letterbox = LetterboxOff,
    fp_fonts = StandardSet,
    fp_timer_coarsening_us = 100,
    fp_limit_media_devices = True,
    fp_hardware_concurrency = Some 4,
    fp_disable_battery = True,
    fp_disable_sensors = True,
    fp_block_device_apis = True,
    fp_timezone = Some ''UTC'',
    fp_primary_language = ''en-US'' \<rparr>"

definition fp_strict :: fingerprint_policy where
  "fp_strict = \<lparr>
    fp_level = Strict,
    fp_webgl = WebGlDisabled,
    fp_webgpu_enabled = False,
    fp_canvas = CanvasLimited,
    fp_letterbox = LetterboxOn,
    fp_fonts = StandardSet,
    fp_timer_coarsening_us = 100000,
    fp_limit_media_devices = True,
    fp_hardware_concurrency = Some 2,
    fp_disable_battery = True,
    fp_disable_sensors = True,
    fp_block_device_apis = True,
    fp_timezone = Some ''UTC'',
    fp_primary_language = ''en-US'' \<rparr>"

definition fp_compatibility :: fingerprint_policy where
  "fp_compatibility = \<lparr>
    fp_level = Balanced,
    fp_webgl = WebGlVirtual,
    fp_webgpu_enabled = False,
    fp_canvas = CanvasPassthrough,
    fp_letterbox = LetterboxOff,
    fp_fonts = StandardSet,
    fp_timer_coarsening_us = 20,
    fp_limit_media_devices = True,
    fp_hardware_concurrency = Some 8,
    fp_disable_battery = True,
    fp_disable_sensors = True,
    fp_block_device_apis = True,
    fp_timezone = Some ''UTC'',
    fp_primary_language = ''en-US'' \<rparr>"

definition fp_paranoid :: fingerprint_policy where
  "fp_paranoid = \<lparr>
    fp_level = Strict,
    fp_webgl = WebGlDisabled,
    fp_webgpu_enabled = False,
    fp_canvas = CanvasLimited,
    fp_letterbox = LetterboxOn,
    fp_fonts = StandardSet,
    fp_timer_coarsening_us = 100000,
    fp_limit_media_devices = True,
    fp_hardware_concurrency = Some 2,
    fp_disable_battery = True,
    fp_disable_sensors = True,
    fp_block_device_apis = True,
    fp_timezone = Some ''UTC'',
    fp_primary_language = ''en-US'' \<rparr>"

definition fp_validate :: "fingerprint_policy \<Rightarrow> string option" where
  "fp_validate p =
    (if \<not> fp_block_device_apis p then Some ''Bluetooth/USB/Serial/HID/MIDI must be blocked''
     else if fp_level p = Strict \<and> fp_webgpu_enabled p then Some ''WebGPU must be disabled in Strict mode''
     else if fp_level p = Strict \<and> fp_webgl p \<noteq> WebGlDisabled \<and> fp_webgl p = WebGlVirtual
       then Some ''Strict mode must not expose a full WebGL backend''
     else None)"

definition level_label :: "protection_level \<Rightarrow> string" where
  "level_label l = (case l of Balanced \<Rightarrow> ''Balanced'' | Strict \<Rightarrow> ''Strict'')"

definition level_policy :: "protection_level \<Rightarrow> fingerprint_policy" where
  "level_policy l = (case l of Balanced \<Rightarrow> fp_balanced | Strict \<Rightarrow> fp_strict)"

datatype safety_preset = PresetCompatibility | PresetBalanced | PresetStrict | PresetParanoid

definition preset_all :: "safety_preset list" where
  "preset_all = [PresetCompatibility, PresetBalanced, PresetStrict, PresetParanoid]"

definition preset_policy :: "safety_preset \<Rightarrow> fingerprint_policy" where
  "preset_policy p = (case p of
      PresetCompatibility \<Rightarrow> fp_compatibility
    | PresetBalanced \<Rightarrow> fp_balanced
    | PresetStrict \<Rightarrow> fp_strict
    | PresetParanoid \<Rightarrow> fp_paranoid)"

definition preset_protection_level :: "safety_preset \<Rightarrow> protection_level" where
  "preset_protection_level p = (case p of
      PresetCompatibility \<Rightarrow> Balanced
    | PresetBalanced \<Rightarrow> Balanced
    | PresetStrict \<Rightarrow> Strict
    | PresetParanoid \<Rightarrow> Strict)"

definition preset_label :: "safety_preset \<Rightarrow> string" where
  "preset_label p = (case p of
      PresetCompatibility \<Rightarrow> ''Compatibility''
    | PresetBalanced \<Rightarrow> ''Balanced''
    | PresetStrict \<Rightarrow> ''Strict''
    | PresetParanoid \<Rightarrow> ''Paranoid'')"

definition preset_description :: "safety_preset \<Rightarrow> string" where
  "preset_description p = (case p of
      PresetCompatibility \<Rightarrow> ''Loosest '' @ em_dash @ '' best site compatibility, still hides your host.''
    | PresetBalanced \<Rightarrow> ''Recommended '' @ em_dash @ '' most sites work, strong unlinkability.''
    | PresetStrict \<Rightarrow> ''Stronger '' @ em_dash @ '' more uniform fingerprint, some sites break.''
    | PresetParanoid \<Rightarrow> ''Tightest '' @ em_dash @ '' maximum uniformity, expect breakage.'')"

definition representative_user_agent :: "browser_backend \<Rightarrow> string" where
  "representative_user_agent b = (case b of
      Chromium \<Rightarrow> ''Mozilla/5.0 (Windows NT 10.0; Win64; x64) AppleWebKit/537.36 (KHTML, like Gecko) Chrome/126.0.0.0 Safari/537.36''
    | Firefox \<Rightarrow> ''Mozilla/5.0 (Windows NT 10.0; rv:128.0) Gecko/20100101 Firefox/128.0'')"

lemmas fp_policy_defs = fp_balanced_def fp_strict_def fp_compatibility_def fp_paranoid_def

lemma fp_validate_None_iff:
  "fp_validate p = None \<longleftrightarrow>
    fp_block_device_apis p \<and>
    (fp_level p = Strict \<longrightarrow> \<not> fp_webgpu_enabled p \<and> fp_webgl p \<noteq> WebGlVirtual)"
  by (auto simp: fp_validate_def)

lemma level_policy_valid [simp]: "fp_validate (level_policy l) = None"
  by (cases l) (simp_all add: level_policy_def fp_validate_None_iff fp_policy_defs)

lemma level_policy_level [simp]: "fp_level (level_policy l) = l"
  by (cases l) (simp_all add: level_policy_def fp_policy_defs)

lemma preset_policy_valid: "fp_validate (preset_policy p) = None"
  by (cases p) (simp_all add: preset_policy_def fp_validate_None_iff fp_policy_defs)

lemma preset_policy_level: "fp_level (preset_policy p) = preset_protection_level p"
  by (cases p) (simp_all add: preset_policy_def preset_protection_level_def fp_policy_defs)

lemma preset_all_complete: "set preset_all = UNIV" "distinct preset_all"
proof -
  show "set preset_all = UNIV"
  proof
    show "UNIV \<subseteq> set preset_all"
    proof
      fix p
      show "p \<in> set preset_all" by (cases p) (simp_all add: preset_all_def)
    qed
  qed simp
qed (simp add: preset_all_def)

text \<open>The doc comment promises Paranoid is tighter than Strict; the two policies are the same.\<close>

lemma paranoid_is_strict: "preset_policy PresetParanoid = preset_policy PresetStrict"
  by (simp add: preset_policy_def fp_policy_defs)

end
