(* ===== verification/Config.thy ===== *)
theory Config
  imports Network Fingerprint
begin

text \<open>
  \<^verbatim>\<open>crates/aegis-core/src/config.rs\<close>: the application configuration and the enforcement
  posture.  A \<^verbatim>\<open>PathBuf\<close> is its byte string.
\<close>

type_synonym path = string

definition path_join :: "path \<Rightarrow> path \<Rightarrow> path" where
  "path_join a b =
    (if starts_with b ''/'' then b
     else if a = [] \<or> ends_with a ''/'' then a @ b
     else a @ ''/'' @ b)"

record image_ref =
  img_path :: path
  img_signature :: path
  img_version :: string
  img_sha256 :: string

record image_set =
  imgs_gateway :: image_ref
  imgs_browser :: image_ref

record paths =
  profiles_dir :: path
  images_dir :: path
  runtime_dir :: path
  audit_log :: path
  daemon_socket :: path

definition paths_default :: paths where
  "paths_default = \<lparr>
    profiles_dir = ''/var/lib/aegis/profiles'',
    images_dir = ''/var/lib/aegis/images'',
    runtime_dir = ''/run/aegis'',
    audit_log = ''/var/log/aegis/audit.jsonl'',
    daemon_socket = ''/run/aegis/daemon.sock'' \<rparr>"

record enforcement =
  require_vm_isolation :: bool
  require_gateway :: bool
  allow_host_browser :: bool

definition enforcement_secure :: enforcement where
  "enforcement_secure = \<lparr> require_vm_isolation = True, require_gateway = True, allow_host_browser = False \<rparr>"

definition enforcement_host_browser :: enforcement where
  "enforcement_host_browser =
    \<lparr> require_vm_isolation = False, require_gateway = False, allow_host_browser = True \<rparr>"

definition is_full_isolation :: "enforcement \<Rightarrow> bool" where
  "is_full_isolation e = (require_vm_isolation e \<and> require_gateway e)"

datatype isolation_level = FullVm | HostProcess

definition isolation_level :: "enforcement \<Rightarrow> isolation_level" where
  "isolation_level e = (if is_full_isolation e then FullVm else HostProcess)"

definition isolation_label :: "isolation_level \<Rightarrow> string" where
  "isolation_label l = (case l of FullVm \<Rightarrow> ''full VM isolation'' | HostProcess \<Rightarrow> ''host process (reduced)'')"

definition isolation_is_full :: "isolation_level \<Rightarrow> bool" where
  "isolation_is_full l = (case l of FullVm \<Rightarrow> True | HostProcess \<Rightarrow> False)"

record app_config =
  cfg_default_network :: network_mode
  cfg_default_protection :: protection_level
  cfg_network_prefix :: string
  cfg_images :: "image_set option"
  cfg_update_verify_key :: "string option"
  cfg_paths :: paths
  cfg_enforcement :: enforcement

definition app_config_default :: app_config where
  "app_config_default = \<lparr>
    cfg_default_network = Tor tor_config_default,
    cfg_default_protection = Balanced,
    cfg_network_prefix = ''aegis'',
    cfg_images = None,
    cfg_update_verify_key = None,
    cfg_paths = paths_default,
    cfg_enforcement = enforcement_secure \<rparr>"

datatype render_mode = RenderVirtioGpu | RenderSoftware

definition render_label :: "render_mode \<Rightarrow> string" where
  "render_label m = (case m of RenderVirtioGpu \<Rightarrow> ''virtio-gpu'' | RenderSoftware \<Rightarrow> ''software'')"

lemma default_config_is_secure:
  "isolation_level (cfg_enforcement app_config_default) = FullVm"
  "\<not> allow_host_browser (cfg_enforcement app_config_default)"
  by (simp_all add: app_config_default_def enforcement_secure_def isolation_level_def is_full_isolation_def)

lemma isolation_level_full: "isolation_is_full (isolation_level e) \<longleftrightarrow> is_full_isolation e"
  by (simp add: isolation_level_def isolation_is_full_def)

lemma path_join_rel: "\<not> starts_with b ''/'' \<Longrightarrow> \<exists>p. path_join a b = p @ b"
  by (auto simp: path_join_def)

end
