(* ===== verification/Permissions.thy ===== *)
theory Permissions
  imports Core_Ids
begin

text \<open>
  \<^verbatim>\<open>crates/aegis-core/src/permissions.rs\<close>: the per-origin permission policy.  A \<^verbatim>\<open>BTreeMap\<close>
  is a partial map; the code never depends on its iteration order.
\<close>

datatype feature =
    Location | Camera | Microphone | Notifications | ClipboardRead
  | Usb | Bluetooth | Serial | Hid | Midi
  | FileSystemAccess | Autoplay | Downloads

definition feature_all :: "feature list" where
  "feature_all = [Location, Camera, Microphone, Notifications, ClipboardRead, Usb, Bluetooth,
     Serial, Hid, Midi, FileSystemAccess, Autoplay, Downloads]"

definition is_hard_blocked :: "feature \<Rightarrow> bool" where
  "is_hard_blocked f = (case f of
      Usb \<Rightarrow> True | Bluetooth \<Rightarrow> True | Serial \<Rightarrow> True | Hid \<Rightarrow> True | Midi \<Rightarrow> True
    | _ \<Rightarrow> False)"

definition feature_debug :: "feature \<Rightarrow> string" where
  "feature_debug f = (case f of
      Location \<Rightarrow> ''Location'' | Camera \<Rightarrow> ''Camera'' | Microphone \<Rightarrow> ''Microphone''
    | Notifications \<Rightarrow> ''Notifications'' | ClipboardRead \<Rightarrow> ''ClipboardRead'' | Usb \<Rightarrow> ''Usb''
    | Bluetooth \<Rightarrow> ''Bluetooth'' | Serial \<Rightarrow> ''Serial'' | Hid \<Rightarrow> ''Hid'' | Midi \<Rightarrow> ''Midi''
    | FileSystemAccess \<Rightarrow> ''FileSystemAccess'' | Autoplay \<Rightarrow> ''Autoplay'' | Downloads \<Rightarrow> ''Downloads'')"

datatype permission_state = Block | Ask | Allow | ConfinedToVm | Quarantine | Limited

record permission_policy =
  pp_defaults :: "feature \<rightharpoonup> permission_state"
  pp_overrides :: "string \<rightharpoonup> (feature \<rightharpoonup> permission_state)"

definition secure_default :: permission_policy where
  "secure_default = \<lparr>
    pp_defaults =
     [Location \<mapsto> Block,
      Camera \<mapsto> Block,
      Microphone \<mapsto> Block,
      Notifications \<mapsto> Ask,
      ClipboardRead \<mapsto> Block,
      Usb \<mapsto> Block,
      Bluetooth \<mapsto> Block,
      Serial \<mapsto> Block,
      Hid \<mapsto> Block,
      Midi \<mapsto> Block,
      FileSystemAccess \<mapsto> ConfinedToVm,
      Autoplay \<mapsto> Limited,
      Downloads \<mapsto> Quarantine],
    pp_overrides = Map.empty \<rparr>"

definition effective :: "permission_policy \<Rightarrow> string \<Rightarrow> feature \<Rightarrow> permission_state" where
  "effective p origin f =
    (case (case pp_overrides p origin of None \<Rightarrow> None | Some m \<Rightarrow> m f) of
      Some st \<Rightarrow> st
    | None \<Rightarrow> (case pp_defaults p f of Some st \<Rightarrow> st | None \<Rightarrow> Block))"

definition grant_state :: "feature \<Rightarrow> permission_state" where
  "grant_state f = (case f of FileSystemAccess \<Rightarrow> ConfinedToVm | Downloads \<Rightarrow> Quarantine | _ \<Rightarrow> Allow)"

definition grant :: "string \<Rightarrow> feature \<Rightarrow> permission_policy \<Rightarrow> unit result \<times> permission_policy" where
  "grant origin f p =
    (if is_hard_blocked f
     then (Inl (Precondition (''feature '' @ feature_debug f @ '' is hard-blocked and cannot be granted'')), p)
     else
       let m = (case pp_overrides p origin of None \<Rightarrow> Map.empty | Some m \<Rightarrow> m)
       in (Inr (), p\<lparr>pp_overrides := (pp_overrides p)(origin \<mapsto> m(f \<mapsto> grant_state f))\<rparr>))"

definition clear_grants :: "permission_policy \<Rightarrow> permission_policy" where
  "clear_grants p = p\<lparr>pp_overrides := Map.empty\<rparr>"

text \<open>The policies the two mutating operations reach from the secure default.\<close>

inductive policy_reachable :: "permission_policy \<Rightarrow> bool" where
  policy_init: "policy_reachable secure_default"
| policy_grant: "policy_reachable p \<Longrightarrow> policy_reachable (snd (grant origin f p))"
| policy_clear: "policy_reachable p \<Longrightarrow> policy_reachable (clear_grants p)"

definition permits_nothing_hard :: "permission_policy \<Rightarrow> bool" where
  "permits_nothing_hard p \<longleftrightarrow>
    (\<forall>f. is_hard_blocked f \<longrightarrow>
      (pp_defaults p f = Some Block \<or> pp_defaults p f = None) \<and>
      (\<forall>origin m. pp_overrides p origin = Some m \<longrightarrow> m f = None))"

lemma permits_nothing_hard_init: "permits_nothing_hard secure_default"
  unfolding permits_nothing_hard_def
proof (intro allI impI conjI)
  fix f
  assume "is_hard_blocked f"
  then show "pp_defaults secure_default f = Some Block \<or> pp_defaults secure_default f = None"
    by (cases f) (simp_all add: secure_default_def is_hard_blocked_def)
qed (simp add: secure_default_def)

lemma permits_nothing_hard_grant:
  "permits_nothing_hard p \<Longrightarrow> permits_nothing_hard (snd (grant origin f p))"
  unfolding permits_nothing_hard_def grant_def
  by (auto simp: Let_def split: option.splits if_splits)

lemma permits_nothing_hard_clear: "permits_nothing_hard p \<Longrightarrow> permits_nothing_hard (clear_grants p)"
  by (simp add: permits_nothing_hard_def clear_grants_def)

lemma policy_reachable_hard: "policy_reachable p \<Longrightarrow> permits_nothing_hard p"
  by (induction rule: policy_reachable.induct)
     (simp_all add: permits_nothing_hard_init permits_nothing_hard_grant permits_nothing_hard_clear)

lemma permits_nothing_hard_effective:
  "permits_nothing_hard p \<Longrightarrow> is_hard_blocked f \<Longrightarrow> effective p origin f = Block"
proof -
  assume p: "permits_nothing_hard p" and f: "is_hard_blocked f"
  then have d: "pp_defaults p f = Some Block \<or> pp_defaults p f = None"
    and o: "\<And>m. pp_overrides p origin = Some m \<Longrightarrow> m f = None"
    unfolding permits_nothing_hard_def by auto
  then show ?thesis by (cases "pp_overrides p origin") (auto simp: effective_def)
qed

lemma effective_grant:
  "effective (snd (grant origin f p)) origin' f' =
    (if \<not> is_hard_blocked f \<and> origin' = origin \<and> f' = f then grant_state f else effective p origin' f')"
  by (auto simp: grant_def effective_def Let_def split: option.splits)

lemma effective_clear: "pp_overrides p0 = Map.empty \<Longrightarrow> pp_defaults p0 = pp_defaults p \<Longrightarrow>
    effective (clear_grants p) origin f = effective p0 origin f"
  by (simp add: clear_grants_def effective_def)

end
