(* ===== verification/Profile.thy ===== *)
theory Profile
  imports Config Permissions Fingerprint
begin

text \<open>
  \<^verbatim>\<open>crates/aegis-core/src/profile.rs\<close> and \<^verbatim>\<open>preview.rs\<close>: profile specifications, stored
  profiles, patches, and the preview derived from a specification.  A time stamp is its
  number of milliseconds.
\<close>

datatype profile_type = Ephemeral | Persistent

definition profile_type_label :: "profile_type \<Rightarrow> string" where
  "profile_type_label t = (case t of Ephemeral \<Rightarrow> ''ephemeral'' | Persistent \<Rightarrow> ''persistent'')"

definition is_ephemeral :: "profile_type \<Rightarrow> bool" where
  "is_ephemeral t = (case t of Ephemeral \<Rightarrow> True | Persistent \<Rightarrow> False)"

record profile_spec =
  sp_name :: string
  sp_kind :: profile_type
  sp_network :: network_config
  sp_protection :: protection_level
  sp_isolation :: isolation_level
  sp_browser :: browser_backend
  sp_fingerprint :: "fingerprint_policy option"
  sp_permissions :: permission_policy

definition spec_ephemeral :: "string \<Rightarrow> profile_spec" where
  "spec_ephemeral n = \<lparr>
    sp_name = n,
    sp_kind = Ephemeral,
    sp_network = network_default,
    sp_protection = Balanced,
    sp_isolation = FullVm,
    sp_browser = Chromium,
    sp_fingerprint = None,
    sp_permissions = secure_default \<rparr>"

definition with_isolation :: "isolation_level \<Rightarrow> profile_spec \<Rightarrow> profile_spec" where
  "with_isolation i s = s\<lparr>sp_isolation := i\<rparr>"

definition resolved_fingerprint :: "profile_spec \<Rightarrow> fingerprint_policy" where
  "resolved_fingerprint s =
    (case sp_fingerprint s of Some p \<Rightarrow> p | None \<Rightarrow> level_policy (sp_protection s))"

definition spec_validate :: "profile_spec \<Rightarrow> unit result" where
  "spec_validate s =
    (if trim (sp_name s) = [] then Inl (Config ''profile name must not be empty'')
     else (case fp_validate (level_policy (sp_protection s)) of
         Some reason \<Rightarrow> Inl (Config (''fingerprint policy invalid: '' @ reason))
       | None \<Rightarrow> Inr ()))"

type_synonym timestamp = int

record storage_usage =
  su_bytes :: "64 word"

text \<open>
  \<^verbatim>\<open>u64 as f64\<close>: the nearest number with 53 significant bits, ties to even.  Dividing such a
  number by 1024 is exact, so the size after \<^verbatim>\<open>u\<close> divisions is \<^verbatim>\<open>m / 1024 ^ u\<close>.
\<close>

fun bit_count :: "nat \<Rightarrow> nat" where
  "bit_count n = (if n = 0 then 0 else Suc (bit_count (n div 2)))"

declare bit_count.simps [simp del]

definition half_even :: "nat \<Rightarrow> nat \<Rightarrow> nat" where
  "half_even n d = (let q = n div d; r = n mod d in
     if 2 * r < d \<or> (2 * r = d \<and> even q) then q else q + 1)"

definition f64_of_nat :: "nat \<Rightarrow> nat" where
  "f64_of_nat n = (if n < 2 ^ 53 then n
     else let e = bit_count n - 53 in half_even n (2 ^ e) * 2 ^ e)"

definition size_units :: "string list" where
  "size_units = [''B'', ''KiB'', ''MiB'', ''GiB'', ''TiB'']"

function size_unit :: "nat \<Rightarrow> nat \<Rightarrow> nat" where
  "size_unit m u = (if 1024 ^ (u + 1) \<le> m \<and> u < length size_units - 1 then size_unit m (u + 1) else u)"
  by pat_completeness auto
termination by (relation "measure (\<lambda>(m, u). length size_units - u)") auto

declare size_unit.simps [simp del]

text \<open>\<^verbatim>\<open>{:.1}\<close> prints the exact value rounded to tenths, ties to even.\<close>

definition storage_human :: "storage_usage \<Rightarrow> string" where
  "storage_human s =
    (let n = unat (su_bytes s); m = f64_of_nat n; u = size_unit m 0 in
     if u = 0 then dec n @ '' '' @ (size_units ! 0)
     else let t = half_even (m * 10) (1024 ^ u)
          in dec (t div 10) @ ''.'' @ dec (t mod 10) @ '' '' @ (size_units ! u))"

record profile =
  pr_id :: profile_id
  pr_spec :: profile_spec
  pr_created_at :: timestamp
  pr_last_launched :: "timestamp option"
  pr_storage :: storage_usage
  pr_locked :: bool

definition profile_age :: "profile \<Rightarrow> timestamp \<Rightarrow> int" where
  "profile_age p now = now - pr_created_at p"

definition can_open :: "profile \<Rightarrow> bool" where
  "can_open p = (\<not> pr_locked p)"

record profile_patch =
  pa_name :: "string option"
  pa_network :: "network_config option"
  pa_protection :: "protection_level option"
  pa_permissions :: "permission_policy option"

definition patch_is_empty :: "profile_patch \<Rightarrow> bool" where
  "patch_is_empty p =
    (pa_name p = None \<and> Option.is_none (pa_network p) \<and> pa_protection p = None
      \<and> Option.is_none (pa_permissions p))"

section \<open>Preview\<close>

record profile_preview =
  pv_browser :: browser_backend
  pv_user_agent :: string
  pv_isolation :: isolation_level
  pv_isolation_label :: string
  pv_network :: string
  pv_protection :: protection_level
  pv_timezone :: string
  pv_language :: string
  pv_hardware_concurrency :: "32 word option"
  pv_webgl :: string
  pv_webgpu_enabled :: bool
  pv_canvas :: string
  pv_letterbox :: bool
  pv_timer_coarsening_us :: "32 word"
  pv_device_apis_blocked :: bool
  pv_limit_media_devices :: bool
  pv_battery_disabled :: bool
  pv_sensors_disabled :: bool

definition preview_from_spec :: "profile_spec \<Rightarrow> profile_preview" where
  "preview_from_spec s = (let fp = resolved_fingerprint s in \<lparr>
    pv_browser = sp_browser s,
    pv_user_agent = representative_user_agent (sp_browser s),
    pv_isolation = sp_isolation s,
    pv_isolation_label = isolation_label (sp_isolation s),
    pv_network = network_label (net_mode (sp_network s)),
    pv_protection = fp_level fp,
    pv_timezone = (case fp_timezone fp of Some z \<Rightarrow> z | None \<Rightarrow> ''system-derived''),
    pv_language = fp_primary_language fp,
    pv_hardware_concurrency = fp_hardware_concurrency fp,
    pv_webgl = (case fp_webgl fp of
        WebGlVirtual \<Rightarrow> ''virtual backend'' | WebGlRestricted \<Rightarrow> ''restricted'' | WebGlDisabled \<Rightarrow> ''disabled''),
    pv_webgpu_enabled = fp_webgpu_enabled fp,
    pv_canvas = (case fp_canvas fp of CanvasPassthrough \<Rightarrow> ''passthrough'' | CanvasLimited \<Rightarrow> ''limited''),
    pv_letterbox = (case fp_letterbox fp of LetterboxOn \<Rightarrow> True | LetterboxOff \<Rightarrow> False),
    pv_timer_coarsening_us = fp_timer_coarsening_us fp,
    pv_device_apis_blocked = fp_block_device_apis fp,
    pv_limit_media_devices = fp_limit_media_devices fp,
    pv_battery_disabled = fp_disable_battery fp,
    pv_sensors_disabled = fp_disable_sensors fp \<rparr>)"

text \<open>Validation reduces to the name: the policy of a level is always valid.\<close>

lemma spec_validate_iff: "spec_validate s = Inr () \<longleftrightarrow> trim (sp_name s) \<noteq> []"
  by (simp add: spec_validate_def)

lemma spec_validate_ignores_override: "spec_validate (s\<lparr>sp_fingerprint := p\<rparr>) = spec_validate s"
  by (simp add: spec_validate_def)

lemma spec_validate_errors: "spec_validate s = Inl e \<Longrightarrow> e = Config ''profile name must not be empty''"
  by (simp add: spec_validate_def split: if_splits)

lemma resolved_without_override:
  "sp_fingerprint s = None \<Longrightarrow> fp_validate (resolved_fingerprint s) = None"
  by (simp add: resolved_fingerprint_def)

end
