(* ===== verification/Preflight.thy ===== *)
theory Preflight
  imports Core_Ids
begin

text \<open>
  \<^verbatim>\<open>crates/aegis-core/src/preflight.rs\<close> and \<^verbatim>\<open>health.rs\<close>: the six mandatory connectivity
  checks, their reports, the aggregate protection status, and the diagnostic items.
\<close>

datatype check_id =
    GatewayReady | TunnelReady | DnsRouteVerified | PublicIpObserved
  | WebrtcPolicyLoaded | Ipv6PolicyVerified

definition check_all :: "check_id list" where
  "check_all = [GatewayReady, TunnelReady, DnsRouteVerified, PublicIpObserved,
     WebrtcPolicyLoaded, Ipv6PolicyVerified]"

definition is_containment_critical :: "check_id \<Rightarrow> bool" where
  "is_containment_critical c = True"

definition check_str :: "check_id \<Rightarrow> string" where
  "check_str c = (case c of
      GatewayReady \<Rightarrow> ''gateway_ready''
    | TunnelReady \<Rightarrow> ''tunnel_ready''
    | DnsRouteVerified \<Rightarrow> ''dns_route_verified''
    | PublicIpObserved \<Rightarrow> ''public_ip_observed''
    | WebrtcPolicyLoaded \<Rightarrow> ''webrtc_policy_loaded''
    | Ipv6PolicyVerified \<Rightarrow> ''ipv6_policy_verified'')"

datatype check_outcome = Pass | Fail | Skipped

definition is_pass :: "check_outcome \<Rightarrow> bool" where
  "is_pass c = (case c of Pass \<Rightarrow> True | Fail \<Rightarrow> False | Skipped \<Rightarrow> False)"

record check_report =
  rep_id :: check_id
  rep_outcome :: check_outcome
  rep_detail :: string

definition report_pass :: "check_id \<Rightarrow> string \<Rightarrow> check_report" where
  "report_pass i d = \<lparr> rep_id = i, rep_outcome = Pass, rep_detail = d \<rparr>"

definition report_fail :: "check_id \<Rightarrow> string \<Rightarrow> check_report" where
  "report_fail i d = \<lparr> rep_id = i, rep_outcome = Fail, rep_detail = d \<rparr>"

definition report_skipped :: "check_id \<Rightarrow> string \<Rightarrow> check_report" where
  "report_skipped i d = \<lparr> rep_id = i, rep_outcome = Skipped, rep_detail = d \<rparr>"

record ip_observation =
  ip_addr :: string
  ip_via_tunnel :: bool
  ip_differs_from_host :: bool

datatype protection_status = PS_Active | PS_Partial | PS_Unsafe | PS_None

definition status_label :: "protection_status \<Rightarrow> string" where
  "status_label s = (case s of
      PS_Active \<Rightarrow> ''protection active''
    | PS_Partial \<Rightarrow> ''partial protection''
    | PS_Unsafe \<Rightarrow> ''unsafe configuration''
    | PS_None \<Rightarrow> ''no protection'')"

definition status_permits_browsing :: "protection_status \<Rightarrow> bool" where
  "status_permits_browsing s = (case s of PS_Active \<Rightarrow> True | _ \<Rightarrow> False)"

record checklist =
  cl_reports :: "check_report list"
  cl_observed_ip :: "ip_observation option"

definition checklist_new :: "check_report list \<Rightarrow> checklist" where
  "checklist_new rs = \<lparr> cl_reports = rs, cl_observed_ip = None \<rparr>"

definition find_report :: "checklist \<Rightarrow> check_id \<Rightarrow> check_report option" where
  "find_report cl i = List.find (\<lambda>r. rep_id r = i) (cl_reports cl)"

definition check_passed :: "checklist \<Rightarrow> check_id \<Rightarrow> bool" where
  "check_passed cl i = (case find_report cl i of None \<Rightarrow> False | Some r \<Rightarrow> is_pass (rep_outcome r))"

definition all_passed :: "checklist \<Rightarrow> bool" where
  "all_passed cl = list_all (check_passed cl) check_all"

definition failures :: "checklist \<Rightarrow> check_id list" where
  "failures cl = List.filter (\<lambda>i. \<not> check_passed cl i) check_all"

definition cl_status :: "checklist \<Rightarrow> protection_status" where
  "cl_status cl =
    (if all_passed cl then PS_Active
     else
       let gw = check_passed cl GatewayReady; tun = check_passed cl TunnelReady
       in if \<not> gw \<or> \<not> tun then PS_None else PS_Unsafe)"

definition permits_browsing :: "checklist \<Rightarrow> bool" where
  "permits_browsing cl = status_permits_browsing (cl_status cl)"

datatype evidence_state = Configured | Measured | Verified | EvUnknown

definition evidence_label :: "evidence_state \<Rightarrow> string" where
  "evidence_label e = (case e of
      Configured \<Rightarrow> ''configured'' | Measured \<Rightarrow> ''measured''
    | Verified \<Rightarrow> ''verified'' | EvUnknown \<Rightarrow> ''unknown'')"

datatype health_level = HealthOk | Degraded | HealthDown | HealthUnknown

definition health_label :: "health_level \<Rightarrow> string" where
  "health_label h = (case h of
      HealthOk \<Rightarrow> ''ok'' | Degraded \<Rightarrow> ''degraded'' | HealthDown \<Rightarrow> ''down'' | HealthUnknown \<Rightarrow> ''unknown'')"

record diagnostic_item =
  di_key :: string
  di_level :: health_level
  di_detail :: string
  di_evidence :: evidence_state

definition diagnostic_new :: "string \<Rightarrow> health_level \<Rightarrow> string \<Rightarrow> diagnostic_item" where
  "diagnostic_new k l d = \<lparr> di_key = k, di_level = l, di_detail = d, di_evidence = EvUnknown \<rparr>"

definition with_evidence :: "evidence_state \<Rightarrow> diagnostic_item \<Rightarrow> diagnostic_item" where
  "with_evidence e d = d\<lparr>di_evidence := e\<rparr>"

lemma check_all_complete [simp]: "i \<in> set check_all"
  by (cases i) (simp_all add: check_all_def)

lemma check_all_distinct: "distinct check_all"
  by (simp add: check_all_def)

lemma check_str_inj: "check_str i = check_str j \<Longrightarrow> i = j"
  by (cases i; cases j) (simp_all add: check_str_def)

lemma all_passed_iff: "all_passed cl \<longleftrightarrow> (\<forall>i. check_passed cl i)"
  by (auto simp: all_passed_def list_all_iff)

lemma all_passed_failures: "all_passed cl \<longleftrightarrow> failures cl = []"
  by (auto simp: all_passed_def failures_def list_all_iff filter_empty_conv)

lemma failures_mem: "i \<in> set (failures cl) \<longleftrightarrow> \<not> check_passed cl i"
  by (simp add: failures_def)

lemma status_permits_iff [simp]: "status_permits_browsing s \<longleftrightarrow> s = PS_Active"
  by (cases s) (simp_all add: status_permits_browsing_def)

lemma permits_browsing_iff: "permits_browsing cl \<longleftrightarrow> (\<forall>i. check_passed cl i)"
  by (auto simp: permits_browsing_def cl_status_def all_passed_iff Let_def)

lemma cl_status_never_partial: "cl_status cl \<noteq> PS_Partial"
  by (simp add: cl_status_def Let_def)

lemma cl_status_None_iff:
  "cl_status cl = PS_None \<longleftrightarrow> \<not> check_passed cl GatewayReady \<or> \<not> check_passed cl TunnelReady"
  by (auto simp: cl_status_def Let_def all_passed_iff)

lemma cl_status_Unsafe_iff:
  "cl_status cl = PS_Unsafe \<longleftrightarrow>
     check_passed cl GatewayReady \<and> check_passed cl TunnelReady \<and> failures cl \<noteq> []"
  by (auto simp: cl_status_def Let_def all_passed_failures [symmetric] all_passed_iff)

lemma find_report_id: "find_report cl i = Some r \<Longrightarrow> rep_id r = i \<and> r \<in> set (cl_reports cl)"
  by (auto simp: find_report_def find_Some_iff)

end
