(* ===== verification/Session.thy ===== *)
theory Session
  imports Network Preflight
begin

text \<open>
  \<^verbatim>\<open>crates/aegis-core/src/session.rs\<close>: the session state machine.
\<close>

datatype session_state =
    Requested | Provisioning | GatewayStarting | S_Preflight | Browsing | Closing | Destroyed | Failed

definition session_state_debug :: "session_state \<Rightarrow> string" where
  "session_state_debug s = (case s of
      Requested \<Rightarrow> ''Requested'' | Provisioning \<Rightarrow> ''Provisioning''
    | GatewayStarting \<Rightarrow> ''GatewayStarting'' | S_Preflight \<Rightarrow> ''Preflight''
    | Browsing \<Rightarrow> ''Browsing'' | Closing \<Rightarrow> ''Closing''
    | Destroyed \<Rightarrow> ''Destroyed'' | Failed \<Rightarrow> ''Failed'')"

definition allowed_next :: "session_state \<Rightarrow> session_state list" where
  "allowed_next s = (case s of
      Requested \<Rightarrow> [Provisioning, Failed, Closing]
    | Provisioning \<Rightarrow> [GatewayStarting, Failed, Closing]
    | GatewayStarting \<Rightarrow> [S_Preflight, Failed, Closing]
    | S_Preflight \<Rightarrow> [Browsing, Failed, Closing]
    | Browsing \<Rightarrow> [Closing, Failed]
    | Closing \<Rightarrow> [Destroyed, Failed]
    | Destroyed \<Rightarrow> []
    | Failed \<Rightarrow> [Closing, Destroyed])"

definition can_transition_to :: "session_state \<Rightarrow> session_state \<Rightarrow> bool" where
  "can_transition_to s t = List.member (allowed_next s) t"

definition is_terminal :: "session_state \<Rightarrow> bool" where
  "is_terminal s = (case s of Destroyed \<Rightarrow> True | _ \<Rightarrow> False)"

definition is_browsing :: "session_state \<Rightarrow> bool" where
  "is_browsing s = (case s of Browsing \<Rightarrow> True | _ \<Rightarrow> False)"

record session_request =
  rq_profile :: profile_id
  rq_unlock_ref :: "credential_ref option"

record session_summary =
  ss_id :: session_id
  ss_profile :: profile_id
  ss_state :: session_state
  ss_protection :: protection_status
  ss_public_ip :: "string option"

definition is_safe :: "session_summary \<Rightarrow> bool" where
  "is_safe s = (is_browsing (ss_state s) \<and> status_permits_browsing (ss_protection s))"

text \<open>The transition relation of the machine and the paths it allows.\<close>

inductive machine_step :: "session_state \<Rightarrow> session_state \<Rightarrow> bool" where
  machine_stepI: "can_transition_to s t \<Longrightarrow> machine_step s t"

inductive machine_path :: "session_state \<Rightarrow> session_state list \<Rightarrow> session_state \<Rightarrow> bool" where
  path_nil: "machine_path s [] s"
| path_cons: "machine_step s t \<Longrightarrow> machine_path t ts u \<Longrightarrow> machine_path s (t # ts) u"

inductive_simps machine_step_iff: "machine_step s t"
inductive_cases path_nilE: "machine_path s [] u"
inductive_cases path_consE: "machine_path s (t # ts) u"

definition pred_of :: "session_state \<Rightarrow> session_state list" where
  "pred_of t = List.filter (\<lambda>s. can_transition_to s t)
    [Requested, Provisioning, GatewayStarting, S_Preflight, Browsing, Closing, Destroyed, Failed]"

lemma can_transition_simps [simp]:
  "can_transition_to s Browsing \<longleftrightarrow> s = S_Preflight"
  "can_transition_to s S_Preflight \<longleftrightarrow> s = GatewayStarting"
  "can_transition_to s GatewayStarting \<longleftrightarrow> s = Provisioning"
  "can_transition_to s Provisioning \<longleftrightarrow> s = Requested"
  "\<not> can_transition_to s Requested"
  "\<not> can_transition_to Destroyed t"
  by (cases s; simp add: can_transition_to_def allowed_next_def)
     (cases s; simp add: can_transition_to_def allowed_next_def)+

lemma can_fail: "can_transition_to s Failed \<longleftrightarrow> s \<noteq> Destroyed \<and> s \<noteq> Failed"
  by (cases s) (simp_all add: can_transition_to_def allowed_next_def)

lemma can_close: "can_transition_to s Closing \<longleftrightarrow> s \<noteq> Destroyed \<and> s \<noteq> Closing"
  by (cases s) (simp_all add: can_transition_to_def allowed_next_def)

lemma can_destroy: "can_transition_to s Destroyed \<longleftrightarrow> s = Closing \<or> s = Failed"
  by (cases s) (simp_all add: can_transition_to_def allowed_next_def)

lemma is_browsing_iff [simp]: "is_browsing s \<longleftrightarrow> s = Browsing"
  by (cases s) (simp_all add: is_browsing_def)

lemma is_terminal_iff: "is_terminal s \<longleftrightarrow> allowed_next s = []"
  by (cases s) (simp_all add: is_terminal_def allowed_next_def)

definition rank :: "session_state \<Rightarrow> nat" where
  "rank s = (case s of
      Requested \<Rightarrow> 7 | Provisioning \<Rightarrow> 6 | GatewayStarting \<Rightarrow> 5 | S_Preflight \<Rightarrow> 4 | Browsing \<Rightarrow> 3
    | Failed \<Rightarrow> 2 | Closing \<Rightarrow> 2 | Destroyed \<Rightarrow> 0)"

lemma path_from_destroyed: "machine_path Destroyed ts u \<Longrightarrow> ts = [] \<and> u = Destroyed"
  by (cases ts) (auto elim!: path_nilE path_consE simp: machine_step_iff)

text \<open>The states after the happy path can never return to it.\<close>

definition past_browsing :: "session_state \<Rightarrow> bool" where
  "past_browsing s \<longleftrightarrow> s \<in> {Closing, Failed, Destroyed}"

lemma past_browsing_step: "past_browsing s \<Longrightarrow> machine_step s t \<Longrightarrow> past_browsing t"
  by (auto simp: past_browsing_def machine_step_iff can_transition_to_def allowed_next_def)

lemma past_browsing_path: "machine_path s ts u \<Longrightarrow> past_browsing s \<Longrightarrow> past_browsing u \<and> list_all past_browsing ts"
  by (induction rule: machine_path.induct) (auto dest: past_browsing_step)

lemma step_to_rank: "machine_step s t \<Longrightarrow> \<not> past_browsing t \<Longrightarrow> rank t + 1 = rank s"
  by (cases s) (auto simp: machine_step_iff can_transition_to_def allowed_next_def rank_def past_browsing_def)

end
