(* ===== verification/Gateway.thy ===== *)
theory Gateway
  imports Network
begin

text \<open>
  \<^verbatim>\<open>crates/aegis-core/src/gateway.rs\<close>: gateway configuration, the declarative firewall
  policy, tunnel status, kill-switch state and gateway health.
\<close>

record gateway_config =
  gc_mode :: network_mode
  gc_dns :: dns_policy
  gc_ipv6 :: ipv6_policy
  gc_downstream_cidr :: string
  gc_gateway_address :: string

datatype default_policy = Drop | Accept

record firewall_policy =
  fw_default_policy :: default_policy
  fw_redirect_dns_to :: "16 word option"
  fw_redirect_tcp_to :: "16 word option"
  fw_block_direct_udp :: bool
  fw_ipv6 :: ipv6_policy
  fw_reject_host_initiated :: bool

definition fail_closed_policy :: "gateway_config \<Rightarrow> firewall_policy" where
  "fail_closed_policy cfg =
    (let (dns, tcp) = (case gc_mode cfg of Tor _ \<Rightarrow> (Some 5353, Some 9040) | _ \<Rightarrow> (None, None))
     in \<lparr> fw_default_policy = Drop,
          fw_redirect_dns_to = dns,
          fw_redirect_tcp_to = tcp,
          fw_block_direct_udp = True,
          fw_ipv6 = gc_ipv6 cfg,
          fw_reject_host_initiated = True \<rparr>)"

definition fw_validate :: "firewall_policy \<Rightarrow> string option" where
  "fw_validate p =
    (if fw_default_policy p \<noteq> Drop then Some ''firewall default policy must be Drop''
     else if \<not> fw_block_direct_udp p then Some ''direct UDP must be blocked''
     else if \<not> fw_reject_host_initiated p then Some ''host-initiated traffic must be rejected''
     else None)"

datatype tunnel_state = TunnelDown | Connecting | TunnelUp | TunnelFailed

definition tunnel_is_up :: "tunnel_state \<Rightarrow> bool" where
  "tunnel_is_up s = (case s of TunnelUp \<Rightarrow> True | _ \<Rightarrow> False)"

record tunnel_status =
  ts_state :: tunnel_state
  ts_bootstrap_percent :: "8 word option"
  ts_detail :: "string option"

definition tunnel_status_up :: tunnel_status where
  "tunnel_status_up = \<lparr> ts_state = TunnelUp, ts_bootstrap_percent = Some 100, ts_detail = None \<rparr>"

datatype killswitch_state = Armed | Engaged

definition allows_traffic :: "killswitch_state \<Rightarrow> bool" where
  "allows_traffic k = (case k of Armed \<Rightarrow> True | Engaged \<Rightarrow> False)"

record gateway_health =
  gh_gateway_up :: bool
  gh_firewall_applied :: bool
  gh_tunnel :: tunnel_status
  gh_killswitch :: killswitch_state

definition gateway_is_ready :: "gateway_health \<Rightarrow> bool" where
  "gateway_is_ready h =
    (gh_gateway_up h \<and> gh_firewall_applied h \<and> tunnel_is_up (ts_state (gh_tunnel h))
      \<and> allows_traffic (gh_killswitch h))"

lemma tunnel_is_up_iff [simp]: "tunnel_is_up s \<longleftrightarrow> s = TunnelUp"
  by (cases s) (simp_all add: tunnel_is_up_def)

lemma allows_traffic_iff [simp]: "allows_traffic k \<longleftrightarrow> k = Armed"
  by (cases k) (simp_all add: allows_traffic_def)

lemma fw_validate_None_iff:
  "fw_validate p = None \<longleftrightarrow>
    fw_default_policy p = Drop \<and> fw_block_direct_udp p \<and> fw_reject_host_initiated p"
  by (simp add: fw_validate_def)

lemma fail_closed_policy_valid [simp]: "fw_validate (fail_closed_policy cfg) = None"
  by (simp add: fw_validate_None_iff fail_closed_policy_def split: prod.splits)

lemma fail_closed_policy_fields:
  "fw_ipv6 (fail_closed_policy cfg) = gc_ipv6 cfg"
  "fw_redirect_dns_to (fail_closed_policy cfg) = (case gc_mode cfg of Tor _ \<Rightarrow> Some 5353 | _ \<Rightarrow> None)"
  "fw_redirect_tcp_to (fail_closed_policy cfg) = (case gc_mode cfg of Tor _ \<Rightarrow> Some 9040 | _ \<Rightarrow> None)"
  by (simp_all add: fail_closed_policy_def split: network_mode.splits)

end
