(* ===== verification/Gateway_Render.thy ===== *)
theory Gateway_Render
  imports Gateway
begin

text \<open>
  \<^verbatim>\<open>crates/gateway-controller/src/render.rs\<close>: the nftables script generated from a
  firewall policy.

  \<^verbatim>\<open>render_nftables\<close> and \<^verbatim>\<open>render_killswitch\<close> build the text exactly as the code does.  The
  abstract syntax \<^verbatim>\<open>table\<close> is what that text says; \<^verbatim>\<open>print_table\<close> prints it, and the
  refinement lemmas show that the code's text is the print of the abstract table.  The
  verdict of a chain is the one of its first rule whose matches all hold, else the chain's
  policy, as \<^verbatim>\<open>nft(8)\<close> documents; what a single match means for a packet is a parameter
  (\<^verbatim>\<open>holds\<close>), because the packet filter is not part of the repository.
\<close>

section \<open>The rendering code\<close>

definition line :: "string \<Rightarrow> string" where
  "line t = t @ newline"

definition tab :: string where
  "tab = [CHR 0x09]"

definition quote :: string where
  "quote = [CHR 0x22]"

definition rule_text :: "string \<Rightarrow> string" where
  "rule_text t = line (tab @ tab @ t)"

definition port_str :: "16 word \<Rightarrow> string" where
  "port_str p = dec (unat p)"

definition render_prerouting :: "firewall_policy \<Rightarrow> string \<Rightarrow> string" where
  "render_prerouting policy cidr =
    line (tab @ ''chain prerouting {'')
    @ rule_text ''type nat hook prerouting priority dstnat; policy accept;''
    @ (case fw_redirect_dns_to policy of
         Some dns_port \<Rightarrow>
           rule_text (''ip saddr '' @ cidr @ '' udp dport 53 redirect to :'' @ port_str dns_port)
           @ rule_text (''ip saddr '' @ cidr @ '' tcp dport 53 redirect to :'' @ port_str dns_port)
       | None \<Rightarrow> [])
    @ (case fw_redirect_tcp_to policy of
         Some tcp_port \<Rightarrow>
           rule_text (''ip saddr '' @ cidr @ '' tcp flags syn tcp dport != 53 redirect to :'' @ port_str tcp_port)
       | None \<Rightarrow> [])
    @ line (tab @ ''}'')"

definition render_input :: "firewall_policy \<Rightarrow> string \<Rightarrow> string" where
  "render_input policy cidr =
    line (tab @ ''chain input {'')
    @ rule_text ''type filter hook input priority filter; policy drop;''
    @ rule_text ''ct state established,related accept''
    @ rule_text (''iif '' @ quote @ ''lo'' @ quote @ '' accept'')
    @ (case fw_redirect_dns_to policy of
         Some dns_port \<Rightarrow>
           rule_text (''ip saddr '' @ cidr @ '' udp dport '' @ port_str dns_port @ '' accept'')
           @ rule_text (''ip saddr '' @ cidr @ '' tcp dport '' @ port_str dns_port @ '' accept'')
       | None \<Rightarrow> [])
    @ (case fw_redirect_tcp_to policy of
         Some tcp_port \<Rightarrow> rule_text (''ip saddr '' @ cidr @ '' tcp dport '' @ port_str tcp_port @ '' accept'')
       | None \<Rightarrow> [])
    @ (if fw_reject_host_initiated policy
       then rule_text ''# reject host-initiated traffic (mgmt channel is a local unix socket)''
            @ rule_text ''meta nfproto ipv4 reject with icmp type admin-prohibited''
       else [])
    @ line (tab @ ''}'')"

definition render_forward :: "firewall_policy \<Rightarrow> string \<Rightarrow> string" where
  "render_forward policy cidr =
    line (tab @ ''chain forward {'')
    @ rule_text ''type filter hook forward priority filter; policy drop;''
    @ rule_text ''ct state established,related accept''
    @ (case fw_ipv6 policy of
         Ipv6Block \<Rightarrow>
           rule_text ''# IPv6 fully blocked at the gateway (no v6 leaks)''
           @ rule_text ''meta nfproto ipv6 drop''
       | RouteThroughTunnel \<Rightarrow>
           rule_text ''# IPv6 routed through the tunnel (tunnel supports v6)''
           @ rule_text ''ip6 saddr fe80::/10 ip6 daddr fe80::/10 accept'')
    @ (if fw_block_direct_udp policy
       then rule_text ''# drop direct UDP (only tunnel-carried UDP is permitted)''
            @ rule_text (''ip saddr '' @ cidr @ '' meta l4proto udp drop'')
       else [])
    @ rule_text ''# only the downstream browser subnet may reach the tunnel''
    @ rule_text (''ip saddr '' @ cidr @ '' accept'')
    @ line (tab @ ''}'')"

definition render_output :: "firewall_policy \<Rightarrow> string" where
  "render_output policy =
    line (tab @ ''chain output {'')
    @ rule_text ''type filter hook output priority filter; policy drop;''
    @ rule_text ''ct state established,related accept''
    @ rule_text (''oif '' @ quote @ ''lo'' @ quote @ '' accept'')
    @ (case fw_ipv6 policy of
         Ipv6Block \<Rightarrow> rule_text ''meta nfproto ipv6 drop''
       | RouteThroughTunnel \<Rightarrow> [])
    @ rule_text ''meta nfproto ipv4 ct state new accept''
    @ line (tab @ ''}'')"

definition render_nftables :: "firewall_policy \<Rightarrow> gateway_config \<Rightarrow> string" where
  "render_nftables policy cfg =
    (let cidr = gc_downstream_cidr cfg in
     line ''#!/usr/sbin/nft -f''
     @ line (''# Aegis Gateway fail-closed ruleset (spec '' @ section_sign @ ''5). Generated; do not edit.'')
     @ line ''add table inet aegis''
     @ line ''delete table inet aegis''
     @ line ''table inet aegis {''
     @ render_prerouting policy cidr
     @ render_input policy cidr
     @ render_forward policy cidr
     @ render_output policy
     @ line ''}'')"

definition render_killswitch :: string where
  "render_killswitch =
    line ''#!/usr/sbin/nft -f''
    @ line ''# Aegis kill switch: total block. All chains drop, no exceptions.''
    @ line ''add table inet aegis''
    @ line ''delete table inet aegis''
    @ line ''table inet aegis {''
    @ concat (List.map (\<lambda>hook.
        line (tab @ ''chain '' @ hook @ '' {'')
        @ rule_text (''type filter hook '' @ hook @ '' priority filter; policy drop;'')
        @ line (tab @ ''}'')) [''input'', ''forward'', ''output''])
    @ line ''}''"

section \<open>Abstract syntax and its printer\<close>

datatype nft_match =
    CtEstablishedRelated
  | CtNew
  | IifLo
  | OifLo
  | IpSaddr string
  | UdpDport string
  | TcpDport string
  | TcpDportNot string
  | TcpFlagsSyn
  | L4Udp
  | NfprotoIpv4
  | NfprotoIpv6
  | Ip6SaddrLinkLocal
  | Ip6DaddrLinkLocal

datatype nft_verdict = NftAccept | NftDrop | NftReject | NftRedirect string

datatype nft_stmt = Comment string | Rule "nft_match list" nft_verdict

datatype nft_kind = KindNat | KindFilter

record nft_chain =
  ch_hook :: string
  ch_kind :: nft_kind
  ch_policy :: nft_verdict
  ch_body :: "nft_stmt list"

record nft_table =
  tb_title :: string
  tb_chains :: "nft_chain list"

fun match_text :: "nft_match \<Rightarrow> string" where
  "match_text CtEstablishedRelated = ''ct state established,related''"
| "match_text CtNew = ''ct state new''"
| "match_text IifLo = ''iif '' @ quote @ ''lo'' @ quote"
| "match_text OifLo = ''oif '' @ quote @ ''lo'' @ quote"
| "match_text (IpSaddr a) = ''ip saddr '' @ a"
| "match_text (UdpDport p) = ''udp dport '' @ p"
| "match_text (TcpDport p) = ''tcp dport '' @ p"
| "match_text (TcpDportNot p) = ''tcp dport != '' @ p"
| "match_text TcpFlagsSyn = ''tcp flags syn''"
| "match_text L4Udp = ''meta l4proto udp''"
| "match_text NfprotoIpv4 = ''meta nfproto ipv4''"
| "match_text NfprotoIpv6 = ''meta nfproto ipv6''"
| "match_text Ip6SaddrLinkLocal = ''ip6 saddr fe80::/10''"
| "match_text Ip6DaddrLinkLocal = ''ip6 daddr fe80::/10''"

fun verdict_text :: "nft_verdict \<Rightarrow> string" where
  "verdict_text NftAccept = ''accept''"
| "verdict_text NftDrop = ''drop''"
| "verdict_text NftReject = ''reject with icmp type admin-prohibited''"
| "verdict_text (NftRedirect p) = ''redirect to :'' @ p"

fun stmt_text :: "nft_stmt \<Rightarrow> string" where
  "stmt_text (Comment t) = rule_text (''# '' @ t)"
| "stmt_text (Rule ms v) = rule_text (concat (List.map (\<lambda>m. match_text m @ '' '') ms) @ verdict_text v)"

definition kind_text :: "nft_kind \<Rightarrow> string" where
  "kind_text k = (case k of KindNat \<Rightarrow> ''nat'' | KindFilter \<Rightarrow> ''filter'')"

definition priority_text :: "nft_kind \<Rightarrow> string" where
  "priority_text k = (case k of KindNat \<Rightarrow> ''dstnat'' | KindFilter \<Rightarrow> ''filter'')"

definition chain_text :: "nft_chain \<Rightarrow> string" where
  "chain_text c =
    line (tab @ ''chain '' @ ch_hook c @ '' {'')
    @ rule_text (''type '' @ kind_text (ch_kind c) @ '' hook '' @ ch_hook c @ '' priority ''
        @ priority_text (ch_kind c) @ ''; policy '' @ verdict_text (ch_policy c) @ '';'')
    @ concat (List.map stmt_text (ch_body c))
    @ line (tab @ ''}'')"

definition print_table :: "nft_table \<Rightarrow> string" where
  "print_table t =
    line ''#!/usr/sbin/nft -f''
    @ line (tb_title t)
    @ line ''add table inet aegis''
    @ line ''delete table inet aegis''
    @ line ''table inet aegis {''
    @ concat (List.map chain_text (tb_chains t))
    @ line ''}''"

section \<open>The tables the code renders\<close>

definition prerouting_chain :: "firewall_policy \<Rightarrow> string \<Rightarrow> nft_chain" where
  "prerouting_chain policy cidr = \<lparr>
    ch_hook = ''prerouting'', ch_kind = KindNat, ch_policy = NftAccept,
    ch_body =
      (case fw_redirect_dns_to policy of
         Some p \<Rightarrow> [Rule [IpSaddr cidr, UdpDport ''53''] (NftRedirect (port_str p)),
                   Rule [IpSaddr cidr, TcpDport ''53''] (NftRedirect (port_str p))]
       | None \<Rightarrow> [])
      @ (case fw_redirect_tcp_to policy of
         Some p \<Rightarrow> [Rule [IpSaddr cidr, TcpFlagsSyn, TcpDportNot ''53''] (NftRedirect (port_str p))]
       | None \<Rightarrow> []) \<rparr>"

definition input_chain :: "firewall_policy \<Rightarrow> string \<Rightarrow> nft_chain" where
  "input_chain policy cidr = \<lparr>
    ch_hook = ''input'', ch_kind = KindFilter, ch_policy = NftDrop,
    ch_body =
      [Rule [CtEstablishedRelated] NftAccept, Rule [IifLo] NftAccept]
      @ (case fw_redirect_dns_to policy of
         Some p \<Rightarrow> [Rule [IpSaddr cidr, UdpDport (port_str p)] NftAccept,
                   Rule [IpSaddr cidr, TcpDport (port_str p)] NftAccept]
       | None \<Rightarrow> [])
      @ (case fw_redirect_tcp_to policy of
         Some p \<Rightarrow> [Rule [IpSaddr cidr, TcpDport (port_str p)] NftAccept]
       | None \<Rightarrow> [])
      @ (if fw_reject_host_initiated policy
         then [Comment ''reject host-initiated traffic (mgmt channel is a local unix socket)'',
               Rule [NfprotoIpv4] NftReject]
         else []) \<rparr>"

definition forward_chain :: "firewall_policy \<Rightarrow> string \<Rightarrow> nft_chain" where
  "forward_chain policy cidr = \<lparr>
    ch_hook = ''forward'', ch_kind = KindFilter, ch_policy = NftDrop,
    ch_body =
      [Rule [CtEstablishedRelated] NftAccept]
      @ (case fw_ipv6 policy of
         Ipv6Block \<Rightarrow> [Comment ''IPv6 fully blocked at the gateway (no v6 leaks)'', Rule [NfprotoIpv6] NftDrop]
       | RouteThroughTunnel \<Rightarrow> [Comment ''IPv6 routed through the tunnel (tunnel supports v6)'',
            Rule [Ip6SaddrLinkLocal, Ip6DaddrLinkLocal] NftAccept])
      @ (if fw_block_direct_udp policy
         then [Comment ''drop direct UDP (only tunnel-carried UDP is permitted)'',
               Rule [IpSaddr cidr, L4Udp] NftDrop]
         else [])
      @ [Comment ''only the downstream browser subnet may reach the tunnel'',
         Rule [IpSaddr cidr] NftAccept] \<rparr>"

definition output_chain :: "firewall_policy \<Rightarrow> nft_chain" where
  "output_chain policy = \<lparr>
    ch_hook = ''output'', ch_kind = KindFilter, ch_policy = NftDrop,
    ch_body =
      [Rule [CtEstablishedRelated] NftAccept, Rule [OifLo] NftAccept]
      @ (case fw_ipv6 policy of Ipv6Block \<Rightarrow> [Rule [NfprotoIpv6] NftDrop] | RouteThroughTunnel \<Rightarrow> [])
      @ [Rule [NfprotoIpv4, CtNew] NftAccept] \<rparr>"

definition ruleset_table :: "firewall_policy \<Rightarrow> gateway_config \<Rightarrow> nft_table" where
  "ruleset_table policy cfg = \<lparr>
    tb_title = ''# Aegis Gateway fail-closed ruleset (spec '' @ section_sign @ ''5). Generated; do not edit.'',
    tb_chains = [prerouting_chain policy (gc_downstream_cidr cfg), input_chain policy (gc_downstream_cidr cfg),
       forward_chain policy (gc_downstream_cidr cfg), output_chain policy] \<rparr>"

definition killswitch_table :: nft_table where
  "killswitch_table = \<lparr>
    tb_title = ''# Aegis kill switch: total block. All chains drop, no exceptions.'',
    tb_chains = List.map (\<lambda>h. \<lparr> ch_hook = h, ch_kind = KindFilter, ch_policy = NftDrop, ch_body = [] \<rparr>)
      [''input'', ''forward'', ''output''] \<rparr>"

lemmas chain_defs = prerouting_chain_def input_chain_def forward_chain_def output_chain_def
lemmas text_defs = chain_text_def kind_text_def priority_text_def

lemma print_prerouting: "chain_text (prerouting_chain p c) = render_prerouting p c"
  by (simp add: text_defs prerouting_chain_def render_prerouting_def split: option.splits)

lemma print_input: "chain_text (input_chain p c) = render_input p c"
  by (simp add: text_defs input_chain_def render_input_def split: option.splits)

lemma print_forward: "chain_text (forward_chain p c) = render_forward p c"
  by (simp add: text_defs forward_chain_def render_forward_def split: ipv6_policy.splits)

lemma print_output: "chain_text (output_chain p) = render_output p"
  by (simp add: text_defs output_chain_def render_output_def split: ipv6_policy.splits)

lemma print_ruleset: "print_table (ruleset_table p cfg) = render_nftables p cfg"
  by (simp add: print_table_def ruleset_table_def render_nftables_def Let_def
      print_prerouting print_input print_forward print_output)

lemma print_killswitch: "print_table killswitch_table = render_killswitch"
  by (simp add: print_table_def killswitch_table_def render_killswitch_def text_defs)

section \<open>Verdicts\<close>

fun first_match :: "(nft_match \<Rightarrow> 'p \<Rightarrow> bool) \<Rightarrow> 'p \<Rightarrow> nft_stmt list \<Rightarrow> nft_verdict option" where
  "first_match holds p [] = None"
| "first_match holds p (Comment t # ss) = first_match holds p ss"
| "first_match holds p (Rule ms v # ss) =
    (if list_all (\<lambda>m. holds m p) ms then Some v else first_match holds p ss)"

definition chain_verdict :: "(nft_match \<Rightarrow> 'p \<Rightarrow> bool) \<Rightarrow> 'p \<Rightarrow> nft_chain \<Rightarrow> nft_verdict" where
  "chain_verdict holds p c =
    (case first_match holds p (ch_body c) of Some v \<Rightarrow> v | None \<Rightarrow> ch_policy c)"

definition hook_verdicts :: "(nft_match \<Rightarrow> 'p \<Rightarrow> bool) \<Rightarrow> 'p \<Rightarrow> string \<Rightarrow> nft_table \<Rightarrow> nft_verdict list" where
  "hook_verdicts holds p hook t =
    List.map (chain_verdict holds p) (List.filter (\<lambda>c. ch_hook c = hook) (tb_chains t))"

lemma first_match_append:
  "first_match holds p (xs @ ys) =
    (case first_match holds p xs of Some v \<Rightarrow> Some v | None \<Rightarrow> first_match holds p ys)"
  by (induction holds p xs rule: first_match.induct) auto

lemma ruleset_hooks:
  "hook_verdicts holds p ''forward'' (ruleset_table fw cfg) = [chain_verdict holds p (forward_chain fw (gc_downstream_cidr cfg))]"
  "hook_verdicts holds p ''input'' (ruleset_table fw cfg) = [chain_verdict holds p (input_chain fw (gc_downstream_cidr cfg))]"
  "hook_verdicts holds p ''output'' (ruleset_table fw cfg) = [chain_verdict holds p (output_chain fw)]"
  "hook_verdicts holds p ''prerouting'' (ruleset_table fw cfg) = [chain_verdict holds p (prerouting_chain fw (gc_downstream_cidr cfg))]"
  by (simp_all add: hook_verdicts_def ruleset_table_def chain_defs)

lemma forward_verdict:
  "chain_verdict holds p (forward_chain fw cidr) =
    (if holds CtEstablishedRelated p then NftAccept
     else if fw_ipv6 fw = Ipv6Block \<and> holds NfprotoIpv6 p then NftDrop
     else if fw_ipv6 fw = RouteThroughTunnel \<and> holds Ip6SaddrLinkLocal p \<and> holds Ip6DaddrLinkLocal p then NftAccept
     else if fw_block_direct_udp fw \<and> holds (IpSaddr cidr) p \<and> holds L4Udp p then NftDrop
     else if holds (IpSaddr cidr) p then NftAccept
     else NftDrop)"
  by (cases "fw_ipv6 fw") (simp_all add: chain_verdict_def forward_chain_def first_match_append)

lemma output_verdict:
  "chain_verdict holds p (output_chain fw) =
    (if holds CtEstablishedRelated p \<or> holds OifLo p then NftAccept
     else if fw_ipv6 fw = Ipv6Block \<and> holds NfprotoIpv6 p then NftDrop
     else if holds NfprotoIpv4 p \<and> holds CtNew p then NftAccept
     else NftDrop)"
  by (cases "fw_ipv6 fw") (simp_all add: chain_verdict_def output_chain_def first_match_append)

lemma prerouting_passes:
  assumes "\<not> holds (UdpDport ''53'') p" "\<not> holds (TcpDport ''53'') p"
    and "fw_redirect_tcp_to fw \<noteq> None \<longrightarrow> \<not> holds TcpFlagsSyn p"
  shows "chain_verdict holds p (prerouting_chain fw cidr) = NftAccept"
  using assms
  by (cases "fw_redirect_dns_to fw"; cases "fw_redirect_tcp_to fw")
     (simp_all add: chain_verdict_def prerouting_chain_def)

end
