(* ===== verification/Gateway_Controller.thy ===== *)
theory Gateway_Controller
  imports Gateway_Render
begin

text \<open>
  \<^verbatim>\<open>crates/gateway-controller/src/lib.rs\<close> and the command type of \<^verbatim>\<open>runner.rs\<close>: the
  nftables-backed gateway controller.

  The command runner is the program's boundary to the host and is a parameter: a function
  from a command and an environment to the outcome (or a spawn error) and the next
  environment.  The state records, beside the mutex-guarded fields, every command handed
  to the runner (\<^verbatim>\<open>gw_cmds\<close>, oldest first).
\<close>

record command =
  cmd_program :: string
  cmd_args :: "string list"
  cmd_stdin :: "string option"

definition command_new :: "string \<Rightarrow> string list \<Rightarrow> command" where
  "command_new p args = \<lparr> cmd_program = p, cmd_args = args, cmd_stdin = None \<rparr>"

definition with_stdin :: "string \<Rightarrow> command \<Rightarrow> command" where
  "with_stdin i c = c\<lparr>cmd_stdin := Some i\<rparr>"

record command_output =
  out_code :: "int option"
  out_stdout :: string
  out_stderr :: string

definition out_success :: "command_output \<Rightarrow> bool" where
  "out_success o1 = (out_code o1 = Some 0)"

type_synonym 'e runner = "command \<Rightarrow> 'e \<Rightarrow> command_output result \<times> 'e"

record 'e gw_state =
  gw_config :: "gateway_config option"
  gw_firewall :: "firewall_policy option"
  gw_applied :: bool
  gw_killswitch :: killswitch_state
  gw_env :: 'e
  gw_cmds :: "command list"

definition gw_new :: "'e \<Rightarrow> 'e gw_state" where
  "gw_new e = \<lparr> gw_config = None, gw_firewall = None, gw_applied = False,
     gw_killswitch = Armed, gw_env = e, gw_cmds = [] \<rparr>"

type_synonym ('e, 'a) gw = "('e gw_state, error, 'a) eff"

definition gw_run :: "'e runner \<Rightarrow> command \<Rightarrow> ('e, command_output) gw" where
  "gw_run run c = (\<lambda>s. case run c (gw_env s) of
      (r, e) \<Rightarrow> (r, s\<lparr>gw_env := e, gw_cmds := gw_cmds s @ [c]\<rparr>))"

definition nft_command :: "string \<Rightarrow> command" where
  "nft_command ruleset = with_stdin ruleset (command_new ''nft'' [''-f'', ''-''])"

definition load_ruleset :: "'e runner \<Rightarrow> string \<Rightarrow> ('e, unit) gw" where
  "load_ruleset run ruleset =
    bind (gw_run run (nft_command ruleset)) (\<lambda>out.
      if \<not> out_success out
      then throw (System (''nft load failed (code '' @ debug_opt_int (out_code out) @ ''): ''
             @ trim (out_stderr out)))
      else ret ())"

definition gw_fail_closed :: "'e runner \<Rightarrow> error \<Rightarrow> ('e, error) gw" where
  "gw_fail_closed run err =
    seq (attempt (load_ruleset run render_killswitch) :: (_, error, _) eff)
    (seq (modify (\<lambda>st. st\<lparr>gw_killswitch := Engaged, gw_applied := False\<rparr>))
    (ret err))"

definition backend_command :: "network_mode \<Rightarrow> command" where
  "backend_command m = (case m of
      Tor _ \<Rightarrow> command_new ''systemctl'' [''restart'', ''tor@default'']
    | Vpn vpn \<Rightarrow> (case vpn_protocol vpn of
          WireGuard \<Rightarrow> command_new ''systemctl'' [''restart'', ''wg-quick@aegis'']
        | OpenVpn \<Rightarrow> command_new ''systemctl'' [''restart'', ''openvpn@aegis''])
    | Proxy _ \<Rightarrow> command_new ''systemctl'' [''restart'', ''aegis-proxy''])"

definition start_backend :: "'e runner \<Rightarrow> gateway_config \<Rightarrow> ('e, unit) gw" where
  "start_backend run cfg =
    bind (gw_run run (backend_command (gc_mode cfg))) (\<lambda>out.
      if \<not> out_success out
      then throw (System (''backend start failed (code '' @ debug_opt_int (out_code out) @ ''): ''
             @ trim (out_stderr out)))
      else ret ())"

definition parse_u8 :: "string \<Rightarrow> 8 word option" where
  "parse_u8 s = (case parse_uint 255 s of None \<Rightarrow> None | Some n \<Rightarrow> Some (of_nat n))"

fun find_map :: "('a \<Rightarrow> 'b option) \<Rightarrow> 'a list \<Rightarrow> 'b option" where
  "find_map f [] = None"
| "find_map f (x # xs) = (case f x of Some y \<Rightarrow> Some y | None \<Rightarrow> find_map f xs)"

definition bootstrap_token :: "string \<Rightarrow> 8 word option" where
  "bootstrap_token tok = parse_u8 (case strip_prefix ''PROGRESS='' tok of Some v \<Rightarrow> v | None \<Rightarrow> tok)"

definition parse_tor_bootstrap :: "string \<Rightarrow> tunnel_status" where
  "parse_tor_bootstrap out =
    (let pct = min (case find_map bootstrap_token (split_whitespace out) of Some p \<Rightarrow> p | None \<Rightarrow> 0) 100;
         st = (if pct = 100 then TunnelUp
               else if 1 \<le> pct \<and> pct \<le> 99 then Connecting
               else TunnelDown)
     in \<lparr> ts_state = st, ts_bootstrap_percent = Some pct, ts_detail = None \<rparr>)"

definition failed_status :: "string \<Rightarrow> tunnel_status" where
  "failed_status d = \<lparr> ts_state = TunnelFailed, ts_bootstrap_percent = None, ts_detail = Some d \<rparr>"

definition probe_status :: "'e runner \<Rightarrow> network_mode \<Rightarrow> ('e, tunnel_status) gw" where
  "probe_status run m = (case m of
      Tor _ \<Rightarrow>
        bind (gw_run run (command_new ''tor-bootstrap'' [''--status''])) (\<lambda>out.
          if \<not> out_success out then ret (failed_status ''tor bootstrap probe failed'')
          else ret (parse_tor_bootstrap (out_stdout out)))
    | _ \<Rightarrow>
        bind (gw_run run (command_new ''tunnel-probe'' [''--check''])) (\<lambda>out.
          if out_success out then ret tunnel_status_up
          else ret (failed_status ''tunnel probe reported failure'')))"

definition configure :: "'e runner \<Rightarrow> gateway_config \<Rightarrow> ('e, unit) gw" where
  "configure run cfg =
    bind (attempt (start_backend run cfg)) (\<lambda>r. case r of
      Inl e \<Rightarrow> bind (gw_fail_closed run e) throw
    | Inr _ \<Rightarrow> modify (\<lambda>st. st\<lparr>gw_config := Some cfg\<rparr>))"

definition apply_firewall :: "'e runner \<Rightarrow> firewall_policy \<Rightarrow> ('e, unit) gw" where
  "apply_firewall run policy =
    (case fw_validate policy of
      Some reason \<Rightarrow> throw (Config (''unsafe firewall policy: '' @ reason))
    | None \<Rightarrow>
        bind (gets gw_config) (\<lambda>cfg. case cfg of
          None \<Rightarrow> throw (Precondition ''configure() must run before apply_firewall()'')
        | Some cfg \<Rightarrow>
            bind (attempt (load_ruleset run (render_nftables policy cfg))) (\<lambda>r. case r of
              Inl e \<Rightarrow> bind (gw_fail_closed run e) throw
            | Inr _ \<Rightarrow> modify (\<lambda>st. st\<lparr>gw_firewall := Some policy, gw_applied := True,
                                       gw_killswitch := Armed\<rparr>))))"

definition tunnel_status :: "'e runner \<Rightarrow> ('e, tunnel_status) gw" where
  "tunnel_status run =
    bind (gets (\<lambda>st. case gw_config st of None \<Rightarrow> None | Some c \<Rightarrow> Some (gc_mode c))) (\<lambda>m. case m of
      None \<Rightarrow> throw (Precondition ''gateway not configured'')
    | Some m \<Rightarrow>
        bind (attempt (probe_status run m)) (\<lambda>r. case r of
          Inr status \<Rightarrow>
            seq (if ts_state status = TunnelFailed
                 then bind (gw_fail_closed run (NetworkContainment ''tunnel reported Failed'')) (\<lambda>_. ret ())
                 else ret ())
            (ret status)
        | Inl e \<Rightarrow> bind (gw_fail_closed run e) throw))"

definition engage_killswitch :: "'e runner \<Rightarrow> ('e, unit) gw" where
  "engage_killswitch run =
    bind (attempt (load_ruleset run render_killswitch)) (\<lambda>r.
    seq (modify (\<lambda>st. st\<lparr>gw_killswitch := Engaged, gw_applied := False\<rparr>))
    (lift_res r))"

definition release_killswitch :: "'e runner \<Rightarrow> ('e, unit) gw" where
  "release_killswitch run =
    bind (gets (\<lambda>st. (gw_config st, gw_firewall st))) (\<lambda>(cfg, policy). case cfg of
      None \<Rightarrow> throw (Precondition ''cannot release kill switch: no validated configuration'')
    | Some cfg \<Rightarrow> (case policy of
        None \<Rightarrow> throw (Precondition ''cannot release kill switch: no validated firewall policy'')
      | Some policy \<Rightarrow> (case fw_validate policy of
          Some reason \<Rightarrow>
            bind (gw_fail_closed run (Config (''stored firewall policy no longer valid: '' @ reason))) throw
        | None \<Rightarrow>
            bind (attempt (load_ruleset run (render_nftables policy cfg))) (\<lambda>r. case r of
              Inl e \<Rightarrow> bind (gw_fail_closed run e) throw
            | Inr _ \<Rightarrow> modify (\<lambda>st. st\<lparr>gw_killswitch := Armed, gw_applied := True\<rparr>)))))"

definition gw_killswitch_state :: "('e, killswitch_state) gw" where
  "gw_killswitch_state = gets gw_killswitch"

definition health :: "'e runner \<Rightarrow> ('e, gateway_health) gw" where
  "health run =
    bind (gets (\<lambda>st. (gw_config st, gw_applied st, gw_killswitch st))) (\<lambda>(cfg, applied, ks).
    bind (case cfg of
        Some c \<Rightarrow>
          bind (attempt (probe_status run (gc_mode c))) (\<lambda>r. case r of
            Inr t \<Rightarrow> ret t
          | Inl _ \<Rightarrow> ret (failed_status ''status probe errored''))
      | None \<Rightarrow> ret \<lparr> ts_state = TunnelDown, ts_bootstrap_percent = None, ts_detail = Some ''not configured'' \<rparr>)
    (\<lambda>tunnel. ret \<lparr>
      gh_gateway_up = (\<not> Option.is_none cfg \<and> allows_traffic ks),
      gh_firewall_applied = applied,
      gh_tunnel = tunnel,
      gh_killswitch = ks \<rparr>))"

section \<open>Weakest preconditions of the helpers\<close>

lemma wp_gw_run [wp_simps]:
  "wp (gw_run run c) Q E s =
    (case run c (gw_env s) of (r, e) \<Rightarrow>
      (case r of Inl err \<Rightarrow> E err (s\<lparr>gw_env := e, gw_cmds := gw_cmds s @ [c]\<rparr>)
       | Inr out \<Rightarrow> Q out (s\<lparr>gw_env := e, gw_cmds := gw_cmds s @ [c]\<rparr>)))"
  by (simp add: wp_def gw_run_def split: prod.splits sum.splits)

text \<open>What a command does to the state: it only moves the environment and the trace.\<close>

definition after_cmd :: "'e runner \<Rightarrow> command \<Rightarrow> 'e gw_state \<Rightarrow> 'e gw_state" where
  "after_cmd run c s = s\<lparr>gw_env := snd (run c (gw_env s)), gw_cmds := gw_cmds s @ [c]\<rparr>"

definition cmd_ok :: "'e runner \<Rightarrow> command \<Rightarrow> 'e gw_state \<Rightarrow> bool" where
  "cmd_ok run c s = (case fst (run c (gw_env s)) of Inl _ \<Rightarrow> False | Inr out \<Rightarrow> out_success out)"

lemma after_cmd_simps [simp]:
  "gw_config (after_cmd run c s) = gw_config s"
  "gw_firewall (after_cmd run c s) = gw_firewall s"
  "gw_applied (after_cmd run c s) = gw_applied s"
  "gw_killswitch (after_cmd run c s) = gw_killswitch s"
  "gw_cmds (after_cmd run c s) = gw_cmds s @ [c]"
  by (simp_all add: after_cmd_def)

definition cut_off :: "'e gw_state \<Rightarrow> 'e gw_state" where
  "cut_off s = s\<lparr>gw_killswitch := Engaged, gw_applied := False\<rparr>"

lemma cut_off_simps [simp]:
  "gw_config (cut_off s) = gw_config s"
  "gw_firewall (cut_off s) = gw_firewall s"
  "\<not> gw_applied (cut_off s)"
  "gw_killswitch (cut_off s) = Engaged"
  "gw_cmds (cut_off s) = gw_cmds s"
  by (simp_all add: cut_off_def)

lemma load_ruleset_cases:
  "(\<exists>e. load_ruleset run r s = (Inl e, after_cmd run (nft_command r) s) \<and> \<not> cmd_ok run (nft_command r) s)
   \<or> (load_ruleset run r s = (Inr (), after_cmd run (nft_command r) s) \<and> cmd_ok run (nft_command r) s)"
  by (auto simp: load_ruleset_def bind_def gw_run_def after_cmd_def cmd_ok_def throw_def ret_def
      split: prod.splits sum.splits)

lemma start_backend_cases:
  fixes cfg defines "c \<equiv> backend_command (gc_mode cfg)"
  shows "(\<exists>e. start_backend run cfg s = (Inl e, after_cmd run c s) \<and> \<not> cmd_ok run c s)
   \<or> (start_backend run cfg s = (Inr (), after_cmd run c s) \<and> cmd_ok run c s)"
  by (auto simp: c_def start_backend_def bind_def gw_run_def after_cmd_def cmd_ok_def throw_def ret_def
      split: prod.splits sum.splits)

definition probe_command :: "network_mode \<Rightarrow> command" where
  "probe_command m = (case m of
      Tor _ \<Rightarrow> command_new ''tor-bootstrap'' [''--status'']
    | _ \<Rightarrow> command_new ''tunnel-probe'' [''--check''])"

lemma probe_status_state: "snd (probe_status run m s) = after_cmd run (probe_command m) s"
  by (auto simp: probe_status_def probe_command_def bind_def gw_run_def after_cmd_def ret_def
      split: network_mode.splits prod.splits sum.splits)

lemma gw_fail_closed_eq:
  "gw_fail_closed run e s = (Inr e, cut_off (after_cmd run (nft_command render_killswitch) s))"
  using load_ruleset_cases [of run render_killswitch s]
  by (auto simp: gw_fail_closed_def seq_def bind_def attempt_def modify_def ret_def cut_off_def)

lemma engage_killswitch_state:
  "snd (engage_killswitch run s) = cut_off (after_cmd run (nft_command render_killswitch) s)"
  using load_ruleset_cases [of run render_killswitch s]
  by (auto simp: engage_killswitch_def seq_def bind_def attempt_def modify_def lift_res_def cut_off_def)

lemma wp_load_ruleset [wp_simps]:
  "wp (load_ruleset run r) Q E s =
    (if cmd_ok run (nft_command r) s then Q () (after_cmd run (nft_command r) s)
     else E (projl (fst (load_ruleset run r s))) (after_cmd run (nft_command r) s))"
  using load_ruleset_cases [of run r s] by (auto simp: wp_def)

lemma wp_start_backend [wp_simps]:
  "wp (start_backend run cfg) Q E s =
    (if cmd_ok run (backend_command (gc_mode cfg)) s then Q () (after_cmd run (backend_command (gc_mode cfg)) s)
     else E (projl (fst (start_backend run cfg s))) (after_cmd run (backend_command (gc_mode cfg)) s))"
  using start_backend_cases [of run cfg s] by (auto simp: wp_def)

lemma wp_gw_fail_closed [wp_simps]:
  "wp (gw_fail_closed run e) Q E s = Q e (cut_off (after_cmd run (nft_command render_killswitch) s))"
  by (simp add: wp_def gw_fail_closed_eq)

lemma wp_engage_killswitch [wp_simps]:
  "wp (engage_killswitch run) Q E s =
    (if cmd_ok run (nft_command render_killswitch) s
     then Q () (cut_off (after_cmd run (nft_command render_killswitch) s))
     else E (projl (fst (load_ruleset run render_killswitch s)))
            (cut_off (after_cmd run (nft_command render_killswitch) s)))"
  using load_ruleset_cases [of run render_killswitch s]
  by (auto simp: wp_def engage_killswitch_def seq_def bind_def attempt_def modify_def lift_res_def cut_off_def)

lemma wp_probe_status [wp_simps]:
  "wp (probe_status run m) Q E s =
    (case fst (probe_status run m s) of Inl e \<Rightarrow> E e (after_cmd run (probe_command m) s)
     | Inr t \<Rightarrow> Q t (after_cmd run (probe_command m) s))"
  using probe_status_state [of run m s]
  by (cases "probe_status run m s") (auto simp: wp_def split: sum.splits)

end
