(* ===== verification/Gateway_Safety.thy ===== *)
theory Gateway_Safety
  imports Gateway_Controller
begin

text \<open>
  What the gateway controller guarantees: the kill-switch contract as a locale with its
  interpretation on the controller, the invariant of every reachable controller state, and
  the properties of the rendered rulesets.
\<close>

section \<open>The kill-switch contract\<close>

text \<open>
  What a client of the gateway relies on: engaging the kill switch cuts the traffic whatever
  it returns, and the client's other effects do not open it again.
\<close>

locale killswitch =
  fixes engage :: "'s \<Rightarrow> (error + unit) \<times> 's"
    and cut :: "'s \<Rightarrow> bool"
  assumes engage_cuts: "cut (snd (engage s))"
    and engage_keeps: "cut s \<Longrightarrow> cut (snd (engage s))"
begin

definition react :: "error \<Rightarrow> 's \<Rightarrow> 's" where
  "react e s = (if requires_killswitch e then snd (engage s) else s)"

lemma react_cuts: "requires_killswitch e \<Longrightarrow> cut (react e s)"
  by (simp add: react_def engage_cuts)

lemma react_keeps: "cut s \<Longrightarrow> cut (react e s)"
  by (simp add: react_def engage_keeps)

lemma react_fold: "cut s \<Longrightarrow> cut (fold react es s)"
  by (induction es arbitrary: s) (simp_all add: react_keeps)

lemma react_any: "\<exists>e \<in> set es. requires_killswitch e \<Longrightarrow> cut (fold react es s)"
proof (induction es arbitrary: s)
  case (Cons e es)
  show ?case
  proof (cases "requires_killswitch e")
    case True
    then show ?thesis using react_fold [of "react e s" es] by (simp add: react_cuts)
  next
    case False
    then show ?thesis using Cons by simp
  qed
qed simp

end

definition last_nft :: "'e gw_state \<Rightarrow> command option" where
  "last_nft s = (case rev (List.filter (\<lambda>c. cmd_program c = ''nft'') (gw_cmds s)) of
      [] \<Rightarrow> None | c # _ \<Rightarrow> Some c)"

definition gw_cut :: "'e gw_state \<Rightarrow> bool" where
  "gw_cut s \<longleftrightarrow> gw_killswitch s = Engaged \<and> \<not> gw_applied s
     \<and> last_nft s = Some (nft_command render_killswitch)"

lemma last_nft_after [simp]:
  "last_nft (after_cmd run c s) = (if cmd_program c = ''nft'' then Some c else last_nft s)"
  by (simp add: last_nft_def)

lemma last_nft_cut_off [simp]: "last_nft (cut_off s) = last_nft s"
  by (simp add: last_nft_def)

lemma last_nft_updates [simp]:
  "last_nft (s\<lparr>gw_config := c\<rparr>) = last_nft s"
  "last_nft (s\<lparr>gw_firewall := f\<rparr>) = last_nft s"
  "last_nft (s\<lparr>gw_applied := b\<rparr>) = last_nft s"
  "last_nft (s\<lparr>gw_killswitch := k\<rparr>) = last_nft s"
  by (simp_all add: last_nft_def)

lemma cmd_program_simps [simp]:
  "cmd_program (nft_command r) = ''nft''"
  "cmd_program (backend_command m) = ''systemctl''"
  "cmd_program (probe_command m) \<noteq> ''nft''"
  by (simp_all add: nft_command_def with_stdin_def command_new_def backend_command_def probe_command_def
      split: network_mode.splits vpn_protocol.splits)

lemma gw_cut_engage: "gw_cut (cut_off (after_cmd run (nft_command render_killswitch) s))"
  by (simp add: gw_cut_def)

interpretation gwks: killswitch "engage_killswitch run" gw_cut
  by unfold_locales (simp_all add: engage_killswitch_state gw_cut_engage)

section \<open>Operations as one step function, and the states they reach\<close>

datatype gw_op =
    OpConfigure gateway_config
  | OpApplyFirewall firewall_policy
  | OpTunnelStatus
  | OpEngage
  | OpRelease
  | OpHealth

definition void :: "('s, 'x, 'a) eff \<Rightarrow> ('s, 'x, unit) eff" where
  "void m = bind m (\<lambda>_. ret ())"

fun gw_exec :: "'e runner \<Rightarrow> gw_op \<Rightarrow> ('e, unit) gw" where
  "gw_exec run (OpConfigure cfg) = configure run cfg"
| "gw_exec run (OpApplyFirewall p) = apply_firewall run p"
| "gw_exec run OpTunnelStatus = void (tunnel_status run)"
| "gw_exec run OpEngage = engage_killswitch run"
| "gw_exec run OpRelease = release_killswitch run"
| "gw_exec run OpHealth = void (health run)"

inductive gw_reachable :: "'e runner \<Rightarrow> 'e gw_state \<Rightarrow> bool" for run where
  gw_init: "gw_reachable run (gw_new e)"
| gw_step: "gw_reachable run s \<Longrightarrow> gw_reachable run (snd (gw_exec run op s))"

definition gw_live :: "'e gw_state \<Rightarrow> bool" where
  "gw_live s \<longleftrightarrow> gw_killswitch s = Armed \<and>
    (\<exists>cfg p. gw_firewall s = Some p \<and> last_nft s = Some (nft_command (render_nftables p cfg)))"

definition gw_inv :: "'e gw_state \<Rightarrow> bool" where
  "gw_inv s \<longleftrightarrow>
    (\<forall>p. gw_firewall s = Some p \<longrightarrow> fw_validate p = None \<and> gw_config s \<noteq> None) \<and>
    (gw_killswitch s = Engaged \<longrightarrow> gw_cut s) \<and>
    (gw_applied s \<longrightarrow> gw_live s) \<and>
    (gw_killswitch s = Armed \<longrightarrow> \<not> gw_applied s \<longrightarrow> last_nft s = None)"

lemma gw_inv_new: "gw_inv (gw_new e)"
  by (simp add: gw_inv_def gw_new_def last_nft_def)

lemma gw_inv_cmd: "gw_inv s \<Longrightarrow> cmd_program c \<noteq> ''nft'' \<Longrightarrow> gw_inv (after_cmd run c s)"
  by (simp add: gw_inv_def gw_cut_def gw_live_def)

lemma gw_inv_cut: "gw_inv s \<Longrightarrow> gw_inv (cut_off (after_cmd run (nft_command render_killswitch) s))"
  by (simp add: gw_inv_def gw_cut_def)

lemma gw_inv_failed_load:
  "gw_inv s \<Longrightarrow> gw_inv (cut_off (after_cmd run (nft_command render_killswitch) (after_cmd run c s)))"
  by (simp add: gw_inv_def gw_cut_def)

lemma wp_void [wp_simps]: "wp (void m) Q E = wp m (\<lambda>_. Q ()) E"
  by (simp add: void_def wp_simps)

lemmas gw_op_defs = configure_def apply_firewall_def tunnel_status_def release_killswitch_def health_def

lemma inv_configure: "gw_inv s \<Longrightarrow> wp (configure run cfg) (\<lambda>_. gw_inv) (\<lambda>_. gw_inv) s"
  by (simp add: configure_def wp_simps)
     (auto simp: gw_inv_def gw_cut_def gw_live_def)

lemma inv_apply: "gw_inv s \<Longrightarrow> wp (apply_firewall run p) (\<lambda>_. gw_inv) (\<lambda>_. gw_inv) s"
  by (simp add: apply_firewall_def wp_simps split: option.splits)
     (auto simp: gw_inv_def gw_cut_def gw_live_def)

lemma inv_tunnel_status: "gw_inv s \<Longrightarrow> wp (tunnel_status run) (\<lambda>_. gw_inv) (\<lambda>_. gw_inv) s"
  by (simp add: tunnel_status_def wp_simps gw_inv_cmd gw_inv_failed_load split: option.splits sum.splits)

lemma inv_engage: "gw_inv s \<Longrightarrow> wp (engage_killswitch run) (\<lambda>_. gw_inv) (\<lambda>_. gw_inv) s"
  by (simp add: wp_simps gw_inv_cut)

lemma inv_release: "gw_inv s \<Longrightarrow> wp (release_killswitch run) (\<lambda>_. gw_inv) (\<lambda>_. gw_inv) s"
  by (simp add: release_killswitch_def wp_simps split: option.splits)
     (auto simp: gw_inv_def gw_cut_def gw_live_def)

lemma inv_health: "gw_inv s \<Longrightarrow> wp (health run) (\<lambda>_. gw_inv) (\<lambda>_. gw_inv) s"
  by (simp add: health_def wp_simps gw_inv_cmd split: option.splits sum.splits)

lemma gw_exec_inv: "gw_inv s \<Longrightarrow> wp (gw_exec run op) (\<lambda>_. gw_inv) (\<lambda>_. gw_inv) s"
  by (cases op) (simp_all add: wp_void inv_configure inv_apply inv_tunnel_status inv_engage inv_release inv_health)

lemma gw_reachable_inv: "gw_reachable run s \<Longrightarrow> gw_inv s"
  by (induction rule: gw_reachable.induct) (auto simp: gw_inv_new intro: wp_state gw_exec_inv)

section \<open>Errors\<close>

text \<open>How an operation may fail: a guard refuses and nothing happened, or traffic is cut.\<close>

definition refused_or_cut :: "'e gw_state \<Rightarrow> error \<Rightarrow> 'e gw_state \<Rightarrow> bool" where
  "refused_or_cut s e t \<longleftrightarrow>
    (t = s \<and> error_class e \<in> {FC_Configuration, FC_Precondition}) \<or> gw_cut t"

lemma refused_or_cutI: "gw_cut t \<Longrightarrow> refused_or_cut s e t"
  by (simp add: refused_or_cut_def)

lemma gw_cut_chain [simp]:
  "gw_cut (cut_off (after_cmd run (nft_command render_killswitch) s))"
  by (rule gw_cut_engage)

lemma err_configure: "wp (configure run cfg) (\<lambda>_ _. True) (refused_or_cut s) s"
  by (simp add: configure_def wp_simps refused_or_cutI)

lemma err_apply: "wp (apply_firewall run p) (\<lambda>_ _. True) (refused_or_cut s) s"
  by (simp add: apply_firewall_def wp_simps refused_or_cutI split: option.splits)
     (simp add: refused_or_cut_def)

lemma err_tunnel_status: "wp (tunnel_status run) (\<lambda>_ _. True) (refused_or_cut s) s"
  by (simp add: tunnel_status_def wp_simps refused_or_cutI split: option.splits sum.splits)
     (simp add: refused_or_cut_def)

lemma err_engage: "wp (engage_killswitch run) (\<lambda>_ _. True) (refused_or_cut s) s"
  by (simp add: wp_simps refused_or_cutI)

lemma err_release: "wp (release_killswitch run) (\<lambda>_ _. True) (refused_or_cut s) s"
  by (simp add: release_killswitch_def wp_simps refused_or_cutI split: option.splits)
     (simp add: refused_or_cut_def)

lemma err_health: "wp (health run) (\<lambda>_ _. True) (refused_or_cut s) s"
  by (simp add: health_def wp_simps split: option.splits sum.splits)

lemma err_exec: "wp (gw_exec run op) (\<lambda>_ _. True) (refused_or_cut s) s"
  by (cases op)
     (simp_all add: wp_void err_configure err_apply err_tunnel_status err_engage err_release err_health)

text \<open>
  C3: fail-closed gateway.  When any operation of the gateway controller returns an error,
  then either a guard refused it before anything was done (a configuration or precondition
  error, state and command trace unchanged), or the kill switch is engaged, no firewall
  counts as applied, and the last ruleset handed to \<^verbatim>\<open>nft\<close> is the total block.
\<close>

theorem gateway_error_cuts:
  assumes "gw_exec run op s = (Inl e, t)"
  shows "(t = s \<and> error_class e \<in> {FC_Configuration, FC_Precondition}) \<or>
         (gw_killswitch t = Engaged \<and> \<not> gw_applied t
          \<and> last_nft t = Some (nft_command render_killswitch))"
  using wp_err [OF err_exec assms] by (simp add: refused_or_cut_def gw_cut_def)

definition no_tools :: "unit runner" where
  "no_tools c e = (Inl (Unsupported ''only on Linux''), e)"

lemma gateway_error_cuts_witness:
  "gw_killswitch (snd (gw_exec no_tools (OpConfigure \<lparr> gc_mode = Tor tor_config_default,
      gc_dns = dns_policy_tor, gc_ipv6 = Ipv6Block, gc_downstream_cidr = ''10.152.152.0/24'',
      gc_gateway_address = ''10.152.152.10'' \<rparr>) (gw_new ()))) = Engaged"
proof -
  let ?op = "OpConfigure \<lparr> gc_mode = Tor tor_config_default,
      gc_dns = dns_policy_tor, gc_ipv6 = Ipv6Block, gc_downstream_cidr = ''10.152.152.0/24'',
      gc_gateway_address = ''10.152.152.10'' \<rparr>"
  obtain t where t: "gw_exec no_tools ?op (gw_new ()) = (Inl (Unsupported ''only on Linux''), t)"
    by (simp add: configure_def start_backend_def gw_run_def no_tools_def bind_def attempt_def
        gw_fail_closed_eq throw_def)
  show ?thesis using gateway_error_cuts [OF t] t by simp
qed


definition all_tools :: "nat runner" where
  "all_tools c e = (Inr \<lparr> out_code = Some 0, out_stdout = ''PROGRESS=100'', out_stderr = [] \<rparr>, Suc e)"

definition sample_gateway :: gateway_config where
  "sample_gateway = \<lparr> gc_mode = Tor tor_config_default, gc_dns = dns_policy_tor, gc_ipv6 = Ipv6Block,
     gc_downstream_cidr = ''10.152.152.0/24'', gc_gateway_address = ''10.152.152.10'' \<rparr>"

definition sample_ready :: "nat gw_state" where
  "sample_ready =
    snd (gw_exec all_tools (OpApplyFirewall (fail_closed_policy sample_gateway))
      (snd (gw_exec all_tools (OpConfigure sample_gateway) (gw_new 0))))"

lemma sample_ready_reachable: "gw_reachable all_tools sample_ready"
  unfolding sample_ready_def by (intro gw_step gw_init)

lemma cmd_ok_all_tools [simp]: "cmd_ok all_tools c s"
  by (simp add: cmd_ok_def all_tools_def out_success_def)

lemma load_ruleset_all_tools: "load_ruleset all_tools r s = (Inr (), after_cmd all_tools (nft_command r) s)"
  using load_ruleset_cases [of all_tools r s] by auto

lemma start_backend_all_tools:
  "start_backend all_tools cfg s = (Inr (), after_cmd all_tools (backend_command (gc_mode cfg)) s)"
  using start_backend_cases [of all_tools cfg s] by auto

lemma sample_ready_state:
  "gw_applied sample_ready" "gw_killswitch sample_ready = Armed" "gw_config sample_ready = Some sample_gateway"
  "gw_firewall sample_ready = Some (fail_closed_policy sample_gateway)"
  by (simp_all add: sample_ready_def configure_def apply_firewall_def bind_def attempt_def modify_def gets_def
      start_backend_all_tools load_ruleset_all_tools)


lemma wp_tunnel_failed:
  "wp (tunnel_status run) (\<lambda>t u. ts_state t = TunnelFailed \<longrightarrow> gw_cut u) (\<lambda>_ _. True) s"
  by (simp add: tunnel_status_def wp_simps split: option.splits sum.splits)

text \<open>
  A failed tunnel cuts traffic.  When the tunnel status is read and the tunnel reports
  \<^verbatim>\<open>Failed\<close>, the caller gets the status as a value and the kill switch is already engaged.
\<close>

lemma tunnel_failed_cuts:
  assumes "tunnel_status run s = (Inr t, u)" and "ts_state t = TunnelFailed"
  shows "gw_killswitch u = Engaged \<and> \<not> gw_applied u
         \<and> last_nft u = Some (nft_command render_killswitch)"
  using wp_ok [OF wp_tunnel_failed assms(1)] assms(2) by (simp add: gw_cut_def)

definition dead_tunnel :: "unit runner" where
  "dead_tunnel c e = (Inr \<lparr> out_code = Some (if cmd_program c = ''nft'' then 0 else 1),
     out_stdout = [], out_stderr = [] \<rparr>, e)"

lemma tunnel_failed_cuts_witness:
  "gw_killswitch (snd (tunnel_status dead_tunnel ((gw_new ())\<lparr>gw_config := Some sample_gateway\<rparr>))) = Engaged"
proof -
  let ?s = "(gw_new ())\<lparr>gw_config := Some sample_gateway\<rparr>"
  obtain u where u: "tunnel_status dead_tunnel ?s = (Inr (failed_status ''tor bootstrap probe failed''), u)"
    by (simp add: tunnel_status_def probe_status_def gw_run_def dead_tunnel_def bind_def attempt_def gets_def
        gw_fail_closed_eq seq_def ret_def sample_gateway_def command_new_def out_success_def failed_status_def)
  have "ts_state (failed_status ''tor bootstrap probe failed'') = TunnelFailed"
    by (simp add: failed_status_def)
  then show ?thesis using tunnel_failed_cuts [OF u] u by simp
qed

section \<open>Health and re-arming\<close>

lemma wp_health_exact:
  "wp (health run) (\<lambda>h t. gateway_is_ready h \<longleftrightarrow>
      (gw_applied s \<and> gw_killswitch s = Armed \<and>
       (\<exists>c st. gw_config s = Some c \<and> fst (probe_status run (gc_mode c) s) = Inr st \<and> ts_state st = TunnelUp)))
    (\<lambda>_ _. False) s"
  by (auto simp: health_def wp_simps gateway_is_ready_def failed_status_def split: option.splits sum.splits)

text \<open>
  Health never overstates.  A health query always succeeds, and it reports a gateway
  ready to browse exactly when a firewall is applied, the kill switch is armed, the gateway
  is configured, and the probe of the configured tunnel reported it up at that moment.
\<close>

lemma health_ready_iff:
  "\<exists>h t. health run s = (Inr h, t) \<and>
     (gateway_is_ready h \<longleftrightarrow>
       gw_applied s \<and> gw_killswitch s = Armed \<and>
       (\<exists>c st. gw_config s = Some c \<and> fst (probe_status run (gc_mode c) s) = Inr st \<and> ts_state st = TunnelUp))"
proof -
  obtain r t where rt: "health run s = (r, t)" by (cases "health run s")
  show ?thesis
  proof (cases r)
    case (Inl e)
    then show ?thesis using wp_err [OF wp_health_exact, of run s e t] rt by simp
  next
    case (Inr h)
    then show ?thesis using wp_ok [OF wp_health_exact, of run s h t] rt by blast
  qed
qed

lemma wp_release_exact:
  "wp (release_killswitch run)
    (\<lambda>_ t. \<exists>c p. gw_config s = Some c \<and> gw_firewall s = Some p \<and> fw_validate p = None \<and>
        gw_killswitch t = Armed \<and> gw_applied t \<and>
        last_nft t = Some (nft_command (render_nftables p c)))
    (\<lambda>e t. (t = s \<and> (gw_config s = None \<or> gw_firewall s = None)) \<or> gw_cut t) s"
  by (simp add: release_killswitch_def wp_simps split: option.splits)

text \<open>
  The kill switch is only released onto a validated ruleset.  Whenever releasing the
  kill switch succeeds, a configuration and a policy were stored, the policy validates, and
  the ruleset just loaded is the one rendered from that very policy and configuration.
\<close>

lemma release_only_validated:
  assumes "release_killswitch run s = (Inr u, t)"
  shows "\<exists>c p. gw_config s = Some c \<and> gw_firewall s = Some p \<and> fw_validate p = None \<and>
     gw_killswitch t = Armed \<and> gw_applied t \<and> last_nft t = Some (nft_command (render_nftables p c))"
  using wp_ok [OF wp_release_exact assms] .

lemma release_only_validated_witness:
  "\<exists>c p. last_nft (snd (release_killswitch all_tools (snd (engage_killswitch all_tools sample_ready))))
     = Some (nft_command (render_nftables p c)) \<and> fw_validate p = None"
proof -
  let ?s = "snd (engage_killswitch all_tools sample_ready)"
  obtain t where t: "release_killswitch all_tools ?s = (Inr (), t)"
    by (simp add: release_killswitch_def engage_killswitch_state bind_def gets_def sample_ready_state
        attempt_def load_ruleset_all_tools modify_def)
  show ?thesis using release_only_validated [OF t] t by auto
qed

section \<open>What the rulesets let through\<close>

text \<open>
  C15: the text is the table.  The script the code builds by concatenation is exactly the
  print of the abstract ruleset and of the abstract kill-switch table, so every statement
  about the verdicts of those tables is a statement about the scripts given to \<^verbatim>\<open>nft\<close>.
\<close>

theorem render_refines_table:
  "render_nftables policy cfg = print_table (ruleset_table policy cfg) \<and>
   render_killswitch = print_table killswitch_table"
  by (simp add: print_ruleset print_killswitch)



definition udp_packet :: "nft_match \<Rightarrow> unit \<Rightarrow> bool" where
  "udp_packet m u = (case m of IpSaddr a \<Rightarrow> a = ''10.152.152.0/24'' | L4Udp \<Rightarrow> True | NfprotoIpv4 \<Rightarrow> True
     | CtNew \<Rightarrow> True | _ \<Rightarrow> False)"


text \<open>
  What the ruleset does let through.  Under the fail-closed policy the forward hook
  accepts an IPv4 packet from the browser subnet that is not UDP, whatever interface it
  would leave through, and the prerouting hook does not redirect it unless it is DNS or,
  in Tor mode, a TCP connection attempt.  So ICMP in every mode, and TCP in VPN and proxy
  mode, is forwarded as it is.
\<close>

lemma fail_closed_forwards:
  assumes "holds (IpSaddr (gc_downstream_cidr cfg)) p" and "holds NfprotoIpv4 p"
    and "\<not> holds NfprotoIpv6 p" and "\<not> holds Ip6SaddrLinkLocal p" and "\<not> holds L4Udp p"
    and "\<not> holds (UdpDport ''53'') p" and "\<not> holds (TcpDport ''53'') p"
    and "(\<exists>t. gc_mode cfg = Tor t) \<longrightarrow> \<not> holds TcpFlagsSyn p"
  shows "hook_verdicts holds p ''prerouting'' (ruleset_table (fail_closed_policy cfg) cfg) = [NftAccept] \<and>
         hook_verdicts holds p ''forward'' (ruleset_table (fail_closed_policy cfg) cfg) = [NftAccept]"
proof -
  have "fw_redirect_tcp_to (fail_closed_policy cfg) \<noteq> None \<longrightarrow> \<not> holds TcpFlagsSyn p"
    using assms(8) by (auto simp: fail_closed_policy_fields split: network_mode.splits)
  with assms show ?thesis by (simp add: ruleset_hooks prerouting_passes forward_verdict)
qed

definition icmp_packet :: "nft_match \<Rightarrow> unit \<Rightarrow> bool" where
  "icmp_packet m u = (case m of IpSaddr a \<Rightarrow> a = ''10.152.152.0/24'' | NfprotoIpv4 \<Rightarrow> True
     | CtNew \<Rightarrow> True | _ \<Rightarrow> False)"

lemma fail_closed_forwards_witness:
  "hook_verdicts icmp_packet () ''forward'' (ruleset_table (fail_closed_policy sample_gateway) sample_gateway)
     = [NftAccept]"
  using fail_closed_forwards [of icmp_packet sample_gateway "()"]
  by (simp add: icmp_packet_def sample_gateway_def)

section \<open>Tor bootstrap\<close>

lemma find_map_first:
  "(\<forall>t \<in> set pre. f t = None) \<Longrightarrow> f x = Some y \<Longrightarrow> find_map f (pre @ x # post) = Some y"
  by (induction pre) auto

lemma find_map_None: "(\<forall>t \<in> set ts. f t = None) \<Longrightarrow> find_map f ts = None"
  by (induction ts) auto


lemma word_below_100:
  fixes p :: "8 word"
  assumes "\<not> 100 \<le> p" "p \<noteq> 0"
  shows "1 \<le> p" "p \<le> 99" "p \<noteq> 100"
proof -
  have "unat p < 100" using assms(1) by (simp add: word_le_nat_alt)
  then show "p \<le> 99" by (simp add: word_le_nat_alt)
  show "1 \<le> p" using assms(2) by (simp add: word_le_nat_alt unat_gt_0 Suc_leI)
  show "p \<noteq> 100" using assms(1) by auto
qed

lemma bootstrap_state:
  "ts_state (parse_tor_bootstrap out) =
    (let p = (case find_map bootstrap_token (split_whitespace out) of Some p \<Rightarrow> p | None \<Rightarrow> 0)
     in if 100 \<le> p then TunnelUp else if p = 0 then TunnelDown else Connecting)"
proof -
  define p where "p = (case find_map bootstrap_token (split_whitespace out) of Some p \<Rightarrow> p | None \<Rightarrow> 0)"
  consider "100 \<le> p" | "p = 0" | "\<not> 100 \<le> p" "p \<noteq> 0" by blast
  then show ?thesis
  proof cases
    case 1
    then have "min p 100 = 100" by simp
    with 1 show ?thesis unfolding parse_tor_bootstrap_def p_def [symmetric] by (simp add: Let_def)
  next
    case 2
    then show ?thesis unfolding parse_tor_bootstrap_def p_def [symmetric]
      by (simp add: Let_def min_def)
  next
    case 3
    then have "min p 100 = p" by simp
    with 3 word_below_100 [OF 3] show ?thesis unfolding parse_tor_bootstrap_def p_def [symmetric]
      by (simp add: Let_def)
  qed
qed

lemma parse_u8_dec: "n \<le> 255 \<Longrightarrow> parse_u8 (dec n) = Some (of_nat n)"
  by (simp add: parse_u8_def parse_uint_dec)

lemma plain_dec: "list_all plain_char (dec n)"
  using dec_digits [of _ n] by (auto simp: list_all_iff intro: plain_digit)

lemma strip_prefix_dec: "strip_prefix ''PROGRESS='' (dec n) = None"
proof (cases "dec n")
  case Nil
  then show ?thesis by simp
next
  case (Cons c t)
  then have "48 \<le> (of_char c :: nat) \<and> (of_char c :: nat) \<le> 57" using dec_digits [of c n] by simp
  then have "c \<noteq> CHR ''P''" by auto
  with Cons show ?thesis by (simp add: strip_prefix_def)
qed

lemma split_first_token:
  assumes "list_all plain_char tok" "tok \<noteq> []"
  shows "split_whitespace tok = [tok]"
    and "split_whitespace (tok @ CHR '' '' # rest) = tok # split_whitespace rest"
  using ws_tokens_plain [of tok "[]"] ws_tokens_space [of tok "[]" rest] assms
  by (simp_all add: split_whitespace_def)

text \<open>
  Reading Tor's bootstrap.  If the first white-space separated token of the probe's
  output that is an 8-bit number (bare, or after \<^verbatim>\<open>PROGRESS=\<close>) is \<^verbatim>\<open>n\<close>, the tunnel is reported
  up exactly when \<^verbatim>\<open>n\<close> is at least 100, down when it is 0, connecting otherwise.  The values from 101 to 255 thus count as fully bootstrapped.
\<close>

lemma tor_bootstrap_state:
  assumes "split_whitespace out = pre @ tok # post"
    and "\<forall>t \<in> set pre. bootstrap_token t = None"
    and "tok = dec n \<or> tok = ''PROGRESS='' @ dec n" and "n \<le> 255"
  shows "ts_state (parse_tor_bootstrap out) =
    (if 100 \<le> n then TunnelUp else if n = 0 then TunnelDown else Connecting)"
proof -
  have "bootstrap_token tok = Some (of_nat n)"
    using assms(3,4) strip_prefix_dec [of n]
    by (auto simp: bootstrap_token_def parse_u8_dec strip_prefix_def)
  then have "find_map bootstrap_token (split_whitespace out) = Some (of_nat n)"
    unfolding assms(1) by (rule find_map_first [OF assms(2)])
  moreover have "(100 :: 8 word) \<le> of_nat n \<longleftrightarrow> 100 \<le> n"
    using assms(4) by (simp add: word_le_nat_alt unat_of_nat)
  moreover have "of_nat n = (0 :: 8 word) \<longleftrightarrow> n = 0"
    using assms(4) by (auto simp: unat_eq_0 [symmetric] unat_of_nat simp del: unat_eq_0)
  ultimately show ?thesis by (simp add: bootstrap_state Let_def)
qed

lemma tor_bootstrap_state_witness:
  "ts_state (parse_tor_bootstrap (dec 250 @ '' OK'')) = TunnelUp"
proof -
  have "split_whitespace (dec 250 @ '' OK'') = [] @ dec 250 # split_whitespace ''OK''"
    using split_first_token(2) [OF plain_dec dec_nonempty, of 250 "''OK''"] by simp
  then show ?thesis using tor_bootstrap_state [of "dec 250 @ '' OK''" "[]" "dec 250" _ 250] by simp
qed

end
