(* ===== verification/Vm.thy ===== *)
theory Vm
  imports Core_Ids
begin

text \<open>
  \<^verbatim>\<open>crates/aegis-core/src/vm.rs\<close>: the VM domain model and the host-isolation policy.
\<close>

datatype vm_role = RoleGateway | RoleBrowser

datatype gpu_backend = VirtioGpu | SoftwareGpu

record disk_layer =
  dl_backing_image :: string
  dl_overlay_path :: string
  dl_destroy_on_close :: bool
  dl_read_only_root :: bool

record isolation_policy =
  no_shared_clipboard :: bool
  no_drag_and_drop :: bool
  no_shared_folders :: bool
  no_host_disk_automount :: bool
  no_usb_passthrough :: bool
  no_pci_passthrough :: bool
  no_camera_microphone :: bool
  no_host_ssh_agent :: bool
  no_desktop_integration_tools :: bool
  iso_read_only_root :: bool
  random_instance_id :: bool
  fresh_network_device :: bool

definition hardened :: isolation_policy where
  "hardened = \<lparr>
    no_shared_clipboard = True,
    no_drag_and_drop = True,
    no_shared_folders = True,
    no_host_disk_automount = True,
    no_usb_passthrough = True,
    no_pci_passthrough = True,
    no_camera_microphone = True,
    no_host_ssh_agent = True,
    no_desktop_integration_tools = True,
    iso_read_only_root = True,
    random_instance_id = True,
    fresh_network_device = True \<rparr>"

definition isolation_checks :: "isolation_policy \<Rightarrow> (bool \<times> string) list" where
  "isolation_checks p =
    [(no_shared_clipboard p, ''shared clipboard must be disabled''),
     (no_drag_and_drop p, ''drag-and-drop must be disabled''),
     (no_shared_folders p, ''shared folders must be disabled''),
     (no_host_disk_automount p, ''host disk automount must be disabled''),
     (no_usb_passthrough p, ''USB passthrough must be disabled''),
     (no_pci_passthrough p, ''PCI/GPU passthrough must be disabled''),
     (no_camera_microphone p, ''camera/microphone must be disabled''),
     (no_host_ssh_agent p, ''host SSH agent forwarding must be disabled''),
     (no_desktop_integration_tools p, ''desktop integration tools must be absent''),
     (iso_read_only_root p, ''root filesystem must be read-only''),
     (random_instance_id p, ''instance id must be locally randomized''),
     (fresh_network_device p, ''a fresh virtual NIC must be used'')]"

definition isolation_validate :: "isolation_policy \<Rightarrow> string option" where
  "isolation_validate p =
    (case List.find (\<lambda>(ok, _). \<not> ok) (isolation_checks p) of None \<Rightarrow> None | Some (_, msg) \<Rightarrow> Some msg)"

definition is_hardened :: "isolation_policy \<Rightarrow> bool" where
  "is_hardened p = (isolation_validate p = None)"

record vm_resources =
  vcpus :: "32 word"
  memory_mib :: "32 word"

definition resources_gateway :: vm_resources where
  "resources_gateway = \<lparr> vcpus = 1, memory_mib = 512 \<rparr>"

definition resources_browser :: vm_resources where
  "resources_browser = \<lparr> vcpus = 2, memory_mib = 4096 \<rparr>"

record provision_request =
  vr_instance_id :: instance_id
  vr_role :: vm_role
  vr_resources :: vm_resources
  vr_disk :: disk_layer
  vr_gpu :: gpu_backend
  vr_isolation :: isolation_policy
  vr_isolated_network :: string

definition provision_validate :: "provision_request \<Rightarrow> unit result" where
  "provision_validate r =
    (case isolation_validate (vr_isolation r) of
       Some reason \<Rightarrow> Inl (Isolation reason)
     | None \<Rightarrow>
         if vr_role r = RoleBrowser \<and> \<not> dl_read_only_root (vr_disk r)
         then Inl (Isolation ''browser VM must have a read-only root filesystem'')
         else Inr ())"

datatype vm_state = VmDefined | VmStarting | VmRunning | VmStopping | VmStopped | VmDestroyed | VmFailed

definition vm_is_running :: "vm_state \<Rightarrow> bool" where
  "vm_is_running s = (case s of VmRunning \<Rightarrow> True | _ \<Rightarrow> False)"

record vm_handle =
  vh_id :: vm_id
  vh_instance_id :: instance_id
  vh_role :: vm_role
  vh_domain_name :: string
  vh_state :: vm_state

record destroy_report =
  dr_id :: vm_id
  dr_overlay_shredded :: bool
  dr_domain_undefined :: bool

definition destroy_is_clean :: "destroy_report \<Rightarrow> bool" where
  "destroy_is_clean r = (dr_overlay_shredded r \<and> dr_domain_undefined r)"

datatype shutdown_mode = Graceful | Forced

lemma isolation_validate_None_iff: "isolation_validate p = None \<longleftrightarrow> (\<forall>c \<in> set (isolation_checks p). fst c)"
proof (cases "List.find (\<lambda>(ok, _). \<not> ok) (isolation_checks p)")
  case None
  then have "isolation_validate p = None" by (simp add: isolation_validate_def)
  moreover have "\<forall>c \<in> set (isolation_checks p). fst c" using None by (auto simp: find_None_iff)
  ultimately show ?thesis by simp
next
  case (Some c)
  then have "c \<in> set (isolation_checks p)" "\<not> fst c"
    by (auto simp: find_Some_iff case_prod_beta)
  then show ?thesis using Some by (auto simp: isolation_validate_def split: prod.splits)
qed

lemma is_hardened_iff: "is_hardened p \<longleftrightarrow> p = hardened"
proof
  assume "is_hardened p"
  then have "\<forall>c \<in> set (isolation_checks p). fst c"
    by (simp add: is_hardened_def isolation_validate_None_iff)
  then show "p = hardened"
    by (cases p) (simp add: isolation_checks_def hardened_def)
qed (simp add: is_hardened_def isolation_validate_None_iff isolation_checks_def hardened_def)

lemma provision_validate_ok_iff:
  "provision_validate r = Inr () \<longleftrightarrow>
    vr_isolation r = hardened \<and> (vr_role r = RoleBrowser \<longrightarrow> dl_read_only_root (vr_disk r))"
  using is_hardened_iff [of "vr_isolation r"]
  by (auto simp: provision_validate_def is_hardened_def split: option.splits)

lemma provision_validate_error: "provision_validate r = Inl e \<Longrightarrow> requires_killswitch e"
  by (auto simp: provision_validate_def split: option.splits if_splits)

end
