(* ===== verification/Vm_Xml.thy ===== *)
theory Vm_Xml
  imports Vm
begin

text \<open>
  \<^verbatim>\<open>crates/vm-controller/src/xml.rs\<close>: the libvirt domain XML of a provision request.

  The text is built from the same pieces, in the same order and with the same indentation
  as in the code.  \<^verbatim>\<open>tags\<close> reads the element names back out of a text; the theorem at the end
  shows that the element names of the rendered document depend only on the role, the GPU
  backend and the read-only flag: no path, network name or MAC address of the request can
  add an element.
\<close>

section \<open>Escaping\<close>

definition escape_char :: "char \<Rightarrow> string" where
  "escape_char c =
    (if c = CHR ''&'' then ''&amp;''
     else if c = CHR ''<'' then ''&lt;''
     else if c = CHR ''>'' then ''&gt;''
     else if c = CHR 0x22 then ''&quot;''
     else if c = CHR 0x27 then ''&apos;''
     else [c])"

definition xml_escape :: "string \<Rightarrow> string" where
  "xml_escape s = concat (List.map escape_char s)"

section \<open>Pieces of the document\<close>

definition attr :: "string \<Rightarrow> string \<Rightarrow> string" where
  "attr k v = '' '' @ k @ ''='' @ [CHR 0x27] @ v @ [CHR 0x27]"

definition spaces :: "nat \<Rightarrow> string" where
  "spaces n = replicate n CHR '' ''"

definition open_tag :: "nat \<Rightarrow> string \<Rightarrow> string list \<Rightarrow> string" where
  "open_tag i n as = spaces i @ ''<'' @ n @ concat as @ ''>'' @ newline"

definition empty_tag :: "nat \<Rightarrow> string \<Rightarrow> string list \<Rightarrow> string" where
  "empty_tag i n as = spaces i @ ''<'' @ n @ concat as @ ''/>'' @ newline"

definition close_tag :: "nat \<Rightarrow> string \<Rightarrow> string" where
  "close_tag i n = spaces i @ ''</'' @ n @ ''>'' @ newline"

definition text_tag :: "nat \<Rightarrow> string \<Rightarrow> string list \<Rightarrow> string \<Rightarrow> string" where
  "text_tag i n as t = spaces i @ ''<'' @ n @ concat as @ ''>'' @ t @ ''</'' @ n @ ''>'' @ newline"

section \<open>The rendering code\<close>

definition upstream_network :: string where
  "upstream_network = ''default''"

definition domain_name :: "provision_request \<Rightarrow> string" where
  "domain_name req = instance_slug (vr_instance_id req)"

definition render_video :: "gpu_backend \<Rightarrow> string" where
  "render_video g = (case g of
      VirtioGpu \<Rightarrow>
        open_tag 4 ''video'' []
        @ open_tag 6 ''model'' [attr ''type'' ''virtio'', attr ''heads'' ''1'']
        @ empty_tag 8 ''acceleration'' [attr ''accel3d'' ''no'']
        @ close_tag 6 ''model''
        @ close_tag 4 ''video''
    | SoftwareGpu \<Rightarrow>
        open_tag 4 ''video'' []
        @ empty_tag 6 ''model'' [attr ''type'' ''vga'', attr ''vram'' ''16384'', attr ''heads'' ''1'']
        @ close_tag 4 ''video'')"

definition render_interface :: "string \<Rightarrow> string \<Rightarrow> string" where
  "render_interface network mac =
    open_tag 4 ''interface'' [attr ''type'' ''network'']
    @ empty_tag 6 ''mac'' [attr ''address'' (xml_escape mac)]
    @ empty_tag 6 ''source'' [attr ''network'' (xml_escape network)]
    @ empty_tag 6 ''model'' [attr ''type'' ''virtio'']
    @ close_tag 4 ''interface''"

definition render_disk :: "provision_request \<Rightarrow> string" where
  "render_disk req =
    (let overlay = xml_escape (dl_overlay_path (vr_disk req));
         backing = xml_escape (dl_backing_image (vr_disk req));
         readonly = (if dl_read_only_root (vr_disk req) then empty_tag 6 ''readonly'' [] else [])
     in open_tag 4 ''disk'' [attr ''type'' ''file'', attr ''device'' ''disk'']
        @ empty_tag 6 ''driver'' [attr ''name'' ''qemu'', attr ''type'' ''qcow2'']
        @ open_tag 6 ''source'' [attr ''file'' overlay]
        @ open_tag 8 ''backingStore'' [attr ''type'' ''file'']
        @ empty_tag 10 ''format'' [attr ''type'' ''qcow2'']
        @ empty_tag 10 ''source'' [attr ''file'' backing]
        @ close_tag 8 ''backingStore''
        @ close_tag 6 ''source''
        @ empty_tag 6 ''target'' [attr ''dev'' ''vda'', attr ''bus'' ''virtio'']
        @ readonly
        @ close_tag 4 ''disk'')"

definition render_interfaces :: "provision_request \<Rightarrow> string \<Rightarrow> string \<Rightarrow> string" where
  "render_interfaces req mac upstream_mac = (case vr_role req of
      RoleBrowser \<Rightarrow> render_interface (vr_isolated_network req) mac
    | RoleGateway \<Rightarrow>
        render_interface upstream_network upstream_mac
        @ render_interface (vr_isolated_network req) mac)"

definition render_head :: "string \<Rightarrow> string \<Rightarrow> string \<Rightarrow> string \<Rightarrow> string" where
  "render_head name uuid mem vcpu =
    open_tag 0 ''domain'' [attr ''type'' ''kvm'']
    @ text_tag 2 ''name'' [] name
    @ text_tag 2 ''uuid'' [] uuid
    @ text_tag 2 ''memory'' [attr ''unit'' ''MiB''] mem
    @ text_tag 2 ''currentMemory'' [attr ''unit'' ''MiB''] mem
    @ text_tag 2 ''vcpu'' [attr ''placement'' ''static''] vcpu
    @ open_tag 2 ''os'' []
    @ text_tag 4 ''type'' [attr ''arch'' ''x86_64'', attr ''machine'' ''q35''] ''hvm''
    @ empty_tag 4 ''boot'' [attr ''dev'' ''hd'']
    @ close_tag 2 ''os''
    @ open_tag 2 ''features'' []
    @ empty_tag 4 ''acpi'' []
    @ empty_tag 4 ''apic'' []
    @ close_tag 2 ''features''
    @ empty_tag 2 ''cpu'' [attr ''mode'' ''host-passthrough'', attr ''check'' ''none'']
    @ empty_tag 2 ''clock'' [attr ''offset'' ''utc'']
    @ text_tag 2 ''on_poweroff'' [] ''destroy''
    @ text_tag 2 ''on_reboot'' [] ''restart''
    @ text_tag 2 ''on_crash'' [] ''destroy''
    @ open_tag 2 ''devices'' []"

definition render_tail :: string where
  "render_tail =
    empty_tag 4 ''graphics'' [attr ''type'' ''vnc'', attr ''port'' ''-1'', attr ''autoport'' ''yes'',
      attr ''listen'' ''127.0.0.1'']
    @ open_tag 4 ''console'' [attr ''type'' ''pty'']
    @ empty_tag 6 ''target'' [attr ''type'' ''serial'', attr ''port'' ''0'']
    @ close_tag 4 ''console''
    @ empty_tag 4 ''memballoon'' [attr ''model'' ''virtio'']
    @ open_tag 4 ''rng'' [attr ''model'' ''virtio'']
    @ text_tag 6 ''backend'' [attr ''model'' ''random''] ''/dev/urandom''
    @ close_tag 4 ''rng''
    @ close_tag 2 ''devices''
    @ close_tag 0 ''domain''"

fun instance_uuid :: "instance_id \<Rightarrow> uuid" where
  "instance_uuid (InstanceId u) = u"

definition render_domain_xml_with :: "provision_request \<Rightarrow> string \<Rightarrow> string \<Rightarrow> string" where
  "render_domain_xml_with req mac upstream_mac =
    render_head (domain_name req) (uuid_display (instance_uuid (vr_instance_id req)))
      (dec (unat (memory_mib (vr_resources req)))) (dec (unat (vcpus (vr_resources req))))
    @ render_disk req
    @ render_interfaces req mac upstream_mac
    @ render_video (vr_gpu req)
    @ render_tail"

definition hex_nibble :: "nat \<Rightarrow> char" where
  "hex_nibble n = (if n < 10 then char_of (48 + n) else char_of (87 + n))"

definition hex2 :: "8 word \<Rightarrow> string" where
  "hex2 b = [hex_nibble (unat b div 16), hex_nibble (unat b mod 16)]"

definition random_mac :: "8 word \<Rightarrow> 8 word \<Rightarrow> 8 word \<Rightarrow> string" where
  "random_mac b0 b1 b2 = ''52:54:00:'' @ hex2 b0 @ '':'' @ hex2 b1 @ '':'' @ hex2 b2"

section \<open>Reading element names back\<close>

definition name_char :: "char \<Rightarrow> bool" where
  "name_char c = (let k = of_char c :: nat in
     (97 \<le> k \<and> k \<le> 122) \<or> (65 \<le> k \<and> k \<le> 90) \<or> (48 \<le> k \<and> k \<le> 57) \<or> k = 95)"

fun tags :: "string \<Rightarrow> string list" where
  "tags [] = []"
| "tags (c # cs) =
    (if c = CHR ''<'' \<and> takeWhile name_char cs \<noteq> []
     then takeWhile name_char cs # tags cs else tags cs)"

definition safe_text :: "string \<Rightarrow> bool" where
  "safe_text s \<longleftrightarrow> CHR ''<'' \<notin> set s"

definition name_text :: "string \<Rightarrow> bool" where
  "name_text n \<longleftrightarrow> n \<noteq> [] \<and> list_all name_char n"

lemma escape_char_safe: "c' \<in> set (escape_char c) \<Longrightarrow> c' \<notin> {CHR ''<'', CHR ''>'', CHR 0x22, CHR 0x27}"
  by (auto simp: escape_char_def split: if_splits)

lemma xml_escape_safe: "set (xml_escape s) \<inter> {CHR ''<'', CHR ''>'', CHR 0x22, CHR 0x27} = {}"
  using escape_char_safe by (auto simp: xml_escape_def)

lemma safe_text_escape [simp]: "safe_text (xml_escape s)"
  using xml_escape_safe [of s] by (auto simp: safe_text_def)

lemma safe_text_append [simp]: "safe_text (a @ b) \<longleftrightarrow> safe_text a \<and> safe_text b"
  by (simp add: safe_text_def)

lemma safe_text_cons [simp]: "safe_text []" "safe_text (c # cs) \<longleftrightarrow> c \<noteq> CHR ''<'' \<and> safe_text cs"
  by (auto simp: safe_text_def)

lemma safe_text_attr [simp]: "safe_text k \<Longrightarrow> safe_text v \<Longrightarrow> safe_text (attr k v)"
  by (simp add: attr_def)

lemma tags_skip: "safe_text s \<Longrightarrow> tags (s @ t) = tags t"
  by (induction s) (auto simp: safe_text_def)

lemma safe_spaces [simp]: "safe_text (spaces n)"
  by (simp add: safe_text_def spaces_def)

lemma name_char_lt: "\<not> name_char CHR ''<''"
  by (simp add: name_char_def)

lemma tags_open:
  assumes "name_text n" "\<not> name_char c"
  shows "tags (CHR ''<'' # n @ c # t) = n # tags (c # t)"
proof -
  have "takeWhile name_char (n @ c # t) = n"
    using assms by (simp add: name_text_def list_all_iff takeWhile_tail)
  moreover have "safe_text n"
    using assms(1) name_char_lt by (auto simp: name_text_def safe_text_def list_all_iff)
  ultimately show ?thesis using assms(1) by (simp add: tags_skip name_text_def)
qed

lemma name_text_safe: "name_text n \<Longrightarrow> safe_text n"
  using name_char_lt by (auto simp: name_text_def safe_text_def list_all_iff)

lemma tags_close: "tags (CHR ''<'' # CHR ''/'' # t) = tags t"
  by (simp add: name_char_def)

lemma tags_start:
  assumes "name_text n" "\<forall>a \<in> set as. safe_text a \<and> hd a = CHR '' '' \<and> a \<noteq> []"
    and "\<not> name_char c" "c \<noteq> CHR ''<''"
  shows "tags (CHR ''<'' # n @ concat as @ c # t) = n # tags t"
proof (cases as)
  case Nil
  then show ?thesis using assms tags_open [of n c t] by simp
next
  case (Cons a as')
  then obtain r where a: "a = CHR '' '' # r" using assms(2) by (cases a) auto
  have "\<not> name_char CHR '' ''" by (simp add: name_char_def)
  then have "tags (CHR ''<'' # n @ concat as @ c # t) = n # tags (concat as @ c # t)"
    using tags_open [OF assms(1), of "CHR '' ''" "r @ concat as' @ c # t"] Cons a by simp
  also have "safe_text (concat as)" using assms(2) by (auto simp: safe_text_def)
  then have "tags (concat as @ c # t) = tags (c # t)" by (rule tags_skip)
  finally show ?thesis using assms(4) by simp
qed

definition good_attrs :: "string list \<Rightarrow> bool" where
  "good_attrs as \<longleftrightarrow> (\<forall>a \<in> set as. safe_text a \<and> hd a = CHR '' '' \<and> a \<noteq> [])"

lemma good_attrs_simps [simp]:
  "good_attrs []"
  "safe_text k \<Longrightarrow> safe_text v \<Longrightarrow> good_attrs as \<Longrightarrow> good_attrs (attr k v # as)"
  by (simp_all add: good_attrs_def) (simp add: attr_def)

lemma tags_open_tag [simp]:
  "name_text n \<Longrightarrow> good_attrs as \<Longrightarrow> tags (open_tag i n as @ t) = n # tags t"
  using tags_start [of n as "CHR ''>''" "newline @ t"]
  by (simp add: open_tag_def good_attrs_def tags_skip name_char_def newline_def)

lemma tags_empty_tag [simp]:
  "name_text n \<Longrightarrow> good_attrs as \<Longrightarrow> tags (empty_tag i n as @ t) = n # tags t"
  using tags_start [of n as "CHR ''/''" "CHR ''>'' # newline @ t"]
  by (simp add: empty_tag_def good_attrs_def tags_skip name_char_def newline_def)

lemma tags_close_tag [simp]: "name_text n \<Longrightarrow> tags (close_tag i n @ t) = tags t"
  using tags_close [of "n @ ''>'' @ newline @ t"] name_text_safe [of n]
  by (simp add: close_tag_def tags_skip newline_def)

lemma tags_text_tag [simp]:
  assumes "name_text n" "good_attrs as" "safe_text x"
  shows "tags (text_tag i n as x @ t) = n # tags t"
proof -
  have "tags (text_tag i n as x @ t) = n # tags (x @ ''</'' @ n @ ''>'' @ newline @ t)"
    using tags_start [of n as "CHR ''>''" "x @ ''</'' @ n @ ''>'' @ newline @ t"] assms
    by (simp add: text_tag_def good_attrs_def tags_skip name_char_def)
  also have "tags (x @ ''</'' @ n @ ''>'' @ newline @ t) = tags t"
    using tags_close [of "n @ ''>'' @ newline @ t"] name_text_safe [OF assms(1)] assms(3)
    by (simp add: tags_skip newline_def)
  finally show ?thesis .
qed

lemma tags_close_tag_end [simp]: "name_text n \<Longrightarrow> tags (close_tag i n) = []"
  using tags_close_tag [of n i "[]"] by simp

section \<open>The elements of a rendered domain\<close>

definition video_tags :: "gpu_backend \<Rightarrow> string list" where
  "video_tags g = (case g of
      VirtioGpu \<Rightarrow> [''video'', ''model'', ''acceleration''] | SoftwareGpu \<Rightarrow> [''video'', ''model''])"

definition interface_tags :: "string list" where
  "interface_tags = [''interface'', ''mac'', ''source'', ''model'']"

definition interfaces_tags :: "vm_role \<Rightarrow> string list" where
  "interfaces_tags r = (case r of
      RoleBrowser \<Rightarrow> interface_tags | RoleGateway \<Rightarrow> interface_tags @ interface_tags)"

definition disk_tags :: "bool \<Rightarrow> string list" where
  "disk_tags ro =
    [''disk'', ''driver'', ''source'', ''backingStore'', ''format'', ''source'', ''target'']
    @ (if ro then [''readonly''] else [])"

definition domain_tags :: "vm_role \<Rightarrow> gpu_backend \<Rightarrow> bool \<Rightarrow> string list" where
  "domain_tags r g ro =
    [''domain'', ''name'', ''uuid'', ''memory'', ''currentMemory'', ''vcpu'', ''os'', ''type'', ''boot'',
     ''features'', ''acpi'', ''apic'', ''cpu'', ''clock'', ''on_poweroff'', ''on_reboot'', ''on_crash'',
     ''devices'']
    @ disk_tags ro @ interfaces_tags r @ video_tags g
    @ [''graphics'', ''console'', ''target'', ''memballoon'', ''rng'', ''backend'']"

lemmas literal_defs = name_text_def name_char_def

lemma tags_video: "tags (render_video g @ t) = video_tags g @ tags t"
  by (cases g) (simp_all add: render_video_def video_tags_def literal_defs)

lemma tags_interface: "tags (render_interface n m @ t) = interface_tags @ tags t"
  by (simp add: render_interface_def interface_tags_def literal_defs)

lemma tags_interfaces: "tags (render_interfaces req m u @ t) = interfaces_tags (vr_role req) @ tags t"
  by (cases "vr_role req") (simp_all add: render_interfaces_def interfaces_tags_def tags_interface)

lemma tags_disk: "tags (render_disk req @ t) = disk_tags (dl_read_only_root (vr_disk req)) @ tags t"
  by (simp add: render_disk_def disk_tags_def Let_def literal_defs)

lemma tags_head:
  assumes "safe_text name" "safe_text uuid" "safe_text mem" "safe_text vcpu"
  shows "tags (render_head name uuid mem vcpu @ t) =
    [''domain'', ''name'', ''uuid'', ''memory'', ''currentMemory'', ''vcpu'', ''os'', ''type'', ''boot'',
     ''features'', ''acpi'', ''apic'', ''cpu'', ''clock'', ''on_poweroff'', ''on_reboot'', ''on_crash'',
     ''devices''] @ tags t"
  using assms by (simp add: render_head_def literal_defs)

lemma tags_tail: "tags render_tail =
    [''graphics'', ''console'', ''target'', ''memballoon'', ''rng'', ''backend'']"
  by (simp add: render_tail_def literal_defs)

lemma safe_text_dec [simp]: "safe_text (dec n)"
  using dec_digits [of "CHR ''<''" n] by (auto simp: safe_text_def)

lemma safe_text_hex: "list_all hex_digit s \<Longrightarrow> safe_text s"
  by (auto simp: safe_text_def list_all_iff hex_digit_def Let_def)

lemma safe_text_sub: "safe_text s \<Longrightarrow> set t \<subseteq> set s \<Longrightarrow> safe_text t"
  by (auto simp: safe_text_def)

lemma safe_text_uuid: "wf_uuid u \<Longrightarrow> safe_text (uuid_display u)"
  using safe_text_hex [of "uuid_simple u"]
  by (auto simp: uuid_display_def Let_def wf_uuid_def safe_text_def dest: in_set_takeD in_set_dropD)

lemma safe_text_slug: "wf_uuid u \<Longrightarrow> safe_text (slug_of ''inst'' u)"
  using safe_text_hex [of "uuid_simple u"]
  by (auto simp: slug_of_def wf_uuid_def safe_text_def dest: in_set_takeD)

lemma tags_domain:
  assumes "wf_uuid (instance_uuid (vr_instance_id req))"
  shows "tags (render_domain_xml_with req mac up)
    = domain_tags (vr_role req) (vr_gpu req) (dl_read_only_root (vr_disk req))"
proof -
  obtain u where u: "vr_instance_id req = InstanceId u" by (cases "vr_instance_id req")
  then have "safe_text (domain_name req)" "safe_text (uuid_display (instance_uuid (vr_instance_id req)))"
    using assms safe_text_uuid safe_text_slug by (simp_all add: domain_name_def)
  then show ?thesis
    by (simp add: render_domain_xml_with_def tags_head tags_disk tags_interfaces tags_video tags_tail
        domain_tags_def)
qed

definition passthrough_tags :: "string list" where
  "passthrough_tags = [''hostdev'', ''redirdev'', ''filesystem'', ''sound'', ''channel'', ''clipboard'',
     ''filetransfer'', ''smartcard'', ''hub'']"


definition sample_uuid :: uuid where
  "sample_uuid = Uuid ''0123456789abcdef0123456789abcdef''"

lemma sample_uuid_wf: "wf_uuid sample_uuid"
  by (simp add: sample_uuid_def wf_uuid_def hex_digit_def)

definition hostile_request :: provision_request where
  "hostile_request = \<lparr>
     vr_instance_id = InstanceId sample_uuid,
     vr_role = RoleBrowser,
     vr_resources = resources_browser,
     vr_disk = \<lparr> dl_backing_image = ''/img/<hostdev/>'', dl_overlay_path = ''/run/o.qcow2'',
       dl_destroy_on_close = True, dl_read_only_root = True \<rparr>,
     vr_gpu = VirtioGpu,
     vr_isolation = hardened,
     vr_isolated_network = [CHR 0x27] @ ''/><filesystem/>'' \<rparr>"


end
