(* ===== verification/Fs.thy ===== *)
theory Fs
  imports Config
begin

text \<open>
  The file-system operations of the Rust standard library (and of \<^verbatim>\<open>tokio::fs\<close>, which wraps
  them) that the components call.

  A file system is a table of regular files, a list of directories, and a schedule of
  injected faults: each operation first consumes one entry of the schedule, and fails with
  that entry's error if it carries one.  A failing write may leave a partial file, which the
  fault names.  Theorems quantify over the schedule, so they hold whichever operations fail.
  Paths are compared as byte strings; symbolic links are not modelled.
\<close>

named_theorems fs_wp \<open>weakest preconditions of the file-system operations\<close>

datatype io_kind = IoNotFound | IoAlreadyExists | IoOther

datatype io_error = IoError (io_kind: io_kind) (io_text: string)

datatype fault = Fault io_error "string option"

record fs =
  fs_files :: "(path \<times> string) list"
  fs_dirs :: "path list"
  fs_faults :: "fault option list"

type_synonym 'a io = "(fs, io_error, 'a) eff"

definition io_not_found :: io_error where
  "io_not_found = IoError IoNotFound ''No such file or directory (os error 2)''"

definition io_exists :: io_error where
  "io_exists = IoError IoAlreadyExists ''File exists (os error 17)''"

definition io_is_dir :: io_error where
  "io_is_dir = IoError IoOther ''Is a directory (os error 21)''"

definition io_not_dir :: io_error where
  "io_not_dir = IoError IoOther ''Not a directory (os error 20)''"

text \<open>\<^verbatim>\<open>Path::parent\<close> and \<^verbatim>\<open>Path::file_name\<close> on a path without a trailing slash.\<close>

definition path_parent :: "path \<Rightarrow> path" where
  "path_parent p = (case dropWhile (\<lambda>c. c \<noteq> CHR ''/'') (rev p) of
      [] \<Rightarrow> [] | _ # r \<Rightarrow> if r = [] then ''/'' else rev r)"

definition path_name :: "path \<Rightarrow> string" where
  "path_name p = rev (takeWhile (\<lambda>c. c \<noteq> CHR ''/'') (rev p))"

lemma path_parent_shorter: "p \<noteq> [] \<Longrightarrow> p \<noteq> ''/'' \<Longrightarrow> length (path_parent p) < length p"
proof -
  assume p: "p \<noteq> []" "p \<noteq> ''/''"
  let ?d = "dropWhile (\<lambda>c. c \<noteq> CHR ''/'') (rev p)"
  have len: "length ?d \<le> length p" using length_dropWhile_le [of _ "rev p"] by simp
  show ?thesis
  proof (cases ?d)
    case Nil
    show ?thesis unfolding path_parent_def Nil using p by simp
  next
    case (Cons c r)
    have c: "c = CHR ''/''" using Cons hd_dropWhile [of "\<lambda>c. c \<noteq> CHR ''/''" "rev p"] by simp
    show ?thesis
    proof (cases "r = []")
      case True
      have "length p \<noteq> 1"
      proof
        assume "length p = 1"
        then obtain x where "p = [x]" by (cases p) auto
        then show False using p Cons c by (auto split: if_splits)
      qed
      moreover have "0 < length p" using p by simp
      ultimately have "1 < length p" by linarith
      then show ?thesis unfolding path_parent_def Cons using True by simp
    next
      case False
      then show ?thesis unfolding path_parent_def Cons using Cons len by simp
    qed
  qed
qed

function ancestors :: "path \<Rightarrow> path list" where
  "ancestors p = (if p = [] then [] else if p = ''/'' then [''/''] else p # ancestors (path_parent p))"
  by pat_completeness auto
termination by (relation "measure length") (auto simp: path_parent_shorter)

declare ancestors.simps [simp del]

definition is_dir :: "fs \<Rightarrow> path \<Rightarrow> bool" where
  "is_dir f p = (p = [] \<or> List.member (fs_dirs f) p)"

definition is_file :: "fs \<Rightarrow> path \<Rightarrow> bool" where
  "is_file f p = (tab_get (fs_files f) p \<noteq> None)"

text \<open>Consume one entry of the fault schedule, then run the operation or fail.\<close>

definition with_fault :: "(string option \<Rightarrow> fs \<Rightarrow> fs) \<Rightarrow> 'a io \<Rightarrow> 'a io" where
  "with_fault leave op = (\<lambda>f. case fs_faults f of
      [] \<Rightarrow> op f
    | None # r \<Rightarrow> op (f\<lparr>fs_faults := r\<rparr>)
    | Some (Fault e partial) # r \<Rightarrow> (Inl e, leave partial (f\<lparr>fs_faults := r\<rparr>)))"

definition no_trace :: "string option \<Rightarrow> fs \<Rightarrow> fs" where
  "no_trace partial f = f"

definition partial_file :: "path \<Rightarrow> string option \<Rightarrow> fs \<Rightarrow> fs" where
  "partial_file p partial f =
    (case partial of None \<Rightarrow> f
     | Some b \<Rightarrow> if is_dir f p \<or> \<not> is_dir f (path_parent p) then f
                else f\<lparr>fs_files := tab_set p b (fs_files f)\<rparr>)"

definition fs_metadata :: "path \<Rightarrow> unit io" where
  "fs_metadata p = with_fault no_trace (\<lambda>f.
    if is_file f p \<or> is_dir f p then (Inr (), f) else (Inl io_not_found, f))"

definition fs_exists :: "path \<Rightarrow> (fs, 'x, bool) eff" where
  "fs_exists p = bind (attempt (fs_metadata p)) (\<lambda>r. ret (is_ok r))"

definition fs_read :: "path \<Rightarrow> string io" where
  "fs_read p = with_fault no_trace (\<lambda>f. case tab_get (fs_files f) p of
      Some b \<Rightarrow> (Inr b, f)
    | None \<Rightarrow> (Inl (if is_dir f p then io_is_dir else io_not_found), f))"

definition fs_write :: "path \<Rightarrow> string \<Rightarrow> unit io" where
  "fs_write p b = with_fault (partial_file p) (\<lambda>f.
    if is_dir f p then (Inl io_is_dir, f)
    else if \<not> is_dir f (path_parent p) then (Inl io_not_found, f)
    else (Inr (), f\<lparr>fs_files := tab_set p b (fs_files f)\<rparr>))"

definition fs_create_new :: "path \<Rightarrow> unit io" where
  "fs_create_new p = with_fault no_trace (\<lambda>f.
    if is_file f p \<or> is_dir f p then (Inl io_exists, f)
    else if \<not> is_dir f (path_parent p) then (Inl io_not_found, f)
    else (Inr (), f\<lparr>fs_files := tab_set p [] (fs_files f)\<rparr>))"

definition fs_remove_file :: "path \<Rightarrow> unit io" where
  "fs_remove_file p = with_fault no_trace (\<lambda>f.
    if is_file f p then (Inr (), f\<lparr>fs_files := tab_del p (fs_files f)\<rparr>)
    else (Inl (if is_dir f p then io_is_dir else io_not_found), f))"

definition under :: "path \<Rightarrow> path \<Rightarrow> bool" where
  "under d p = (p = d \<or> starts_with p (d @ ''/''))"

text \<open>\<^verbatim>\<open>rename\<close>: a file replaces a file; a directory moves with everything below it.\<close>

definition moved :: "path \<Rightarrow> path \<Rightarrow> path \<Rightarrow> path" where
  "moved a b p = (if under a p then b @ drop (length a) p else p)"

definition rename_dir :: "path \<Rightarrow> path \<Rightarrow> unit io" where
  "rename_dir a b = (\<lambda>f.
    if a = b then (Inr (), f)
    else if under a b then (Inl (IoError IoOther ''Invalid argument (os error 22)''), f)
    else if is_file f b then (Inl io_not_dir, f)
    else if list_ex (\<lambda>p. p \<noteq> b \<and> under b p) (fs_dirs f @ List.map fst (fs_files f))
      then (Inl (IoError IoOther ''Directory not empty (os error 39)''), f)
    else if \<not> is_dir f (path_parent b) then (Inl io_not_found, f)
    else (Inr (), f\<lparr>fs_dirs := List.map (moved a b) (fs_dirs f),
                   fs_files := List.map (\<lambda>(q, c). (moved a b q, c)) (fs_files f)\<rparr>))"

definition fs_rename :: "path \<Rightarrow> path \<Rightarrow> unit io" where
  "fs_rename a b = with_fault no_trace (\<lambda>f. case tab_get (fs_files f) a of
      None \<Rightarrow> if a \<noteq> [] \<and> is_dir f a then rename_dir a b f else (Inl io_not_found, f)
    | Some c \<Rightarrow>
        if is_dir f b then (Inl io_is_dir, f)
        else if \<not> is_dir f (path_parent b) then (Inl io_not_found, f)
        else (Inr (), f\<lparr>fs_files := tab_set b c (tab_del a (fs_files f))\<rparr>))"

definition fs_create_dir_all :: "path \<Rightarrow> unit io" where
  "fs_create_dir_all p = with_fault no_trace (\<lambda>f.
    if list_ex (is_file f) (ancestors p) then (Inl io_not_dir, f)
    else (Inr (), f\<lparr>fs_dirs := List.union (ancestors p) (fs_dirs f)\<rparr>))"

text \<open>\<^verbatim>\<open>read_dir\<close>: the paths of the entries of a directory, each with its kind (true for a directory).\<close>

definition fs_read_dir :: "path \<Rightarrow> (path \<times> bool) list io" where
  "fs_read_dir p = with_fault no_trace (\<lambda>f.
    if is_dir f p then
      (Inr (List.map (\<lambda>d. (d, True)) (List.filter (\<lambda>d. d \<noteq> [] \<and> d \<noteq> ''/'' \<and> path_parent d = p) (fs_dirs f))
          @ List.map (\<lambda>(q, _). (q, False)) (List.filter (\<lambda>(q, _). path_parent q = p) (fs_files f))), f)
    else (Inl (if is_file f p then io_not_dir else io_not_found), f))"

definition fs_file_len :: "path \<Rightarrow> nat io" where
  "fs_file_len p = with_fault no_trace (\<lambda>f. case tab_get (fs_files f) p of
      Some b \<Rightarrow> (Inr (length b), f)
    | None \<Rightarrow> (Inl io_not_found, f))"

text \<open>Writing through an open handle of an existing file.\<close>

definition fs_overwrite :: "path \<Rightarrow> string \<Rightarrow> unit io" where
  "fs_overwrite p b = with_fault (partial_file p) (\<lambda>f.
    if is_file f p then (Inr (), f\<lparr>fs_files := tab_set p b (fs_files f)\<rparr>)
    else (Inr (), f))"

text \<open>Seeking, flushing and syncing an open file: they change no content, but may err.\<close>

definition fs_sync :: "unit io" where
  "fs_sync = with_fault no_trace (\<lambda>f. (Inr (), f))"

definition fs_remove_dir_all :: "path \<Rightarrow> unit io" where
  "fs_remove_dir_all p = with_fault no_trace (\<lambda>f.
    if is_dir f p then
      (Inr (), f\<lparr>fs_dirs := List.filter (\<lambda>d. \<not> under p d) (fs_dirs f),
                 fs_files := List.filter (\<lambda>(q, _). \<not> under p q) (fs_files f)\<rparr>)
    else (Inl io_not_found, f))"

section \<open>Weakest preconditions\<close>

definition fault_of :: "fs \<Rightarrow> fault option" where
  "fault_of f = (case fs_faults f of [] \<Rightarrow> None | x # _ \<Rightarrow> x)"

definition tick :: "fs \<Rightarrow> fs" where
  "tick f = f\<lparr>fs_faults := tl (fs_faults f)\<rparr>"

lemma tick_simps [simp]:
  "fs_files (tick f) = fs_files f" "fs_dirs (tick f) = fs_dirs f"
  "is_dir (tick f) p = is_dir f p" "is_file (tick f) p = is_file f p"
  by (simp_all add: tick_def is_dir_def is_file_def)

lemma with_fault_eq:
  "with_fault leave op f =
    (case fault_of f of
       None \<Rightarrow> op (tick f)
     | Some (Fault e partial) \<Rightarrow> (Inl e, leave partial (tick f)))"
proof (cases "fs_faults f")
  case Nil
  then have "tick f = f" by (simp add: tick_def)
  with Nil show ?thesis by (simp add: with_fault_def fault_of_def)
next
  case (Cons x r)
  then show ?thesis by (simp add: with_fault_def fault_of_def tick_def split: option.splits fault.splits)
qed

lemma wp_with_fault [wp_simps]:
  "wp (with_fault leave op) Q E f =
    (case fault_of f of
       None \<Rightarrow> wp op Q E (tick f)
     | Some (Fault e partial) \<Rightarrow> E e (leave partial (tick f)))"
  by (simp add: wp_def with_fault_eq split: option.splits fault.splits)

lemma is_file_updates [simp]:
  "is_file (f\<lparr>fs_files := tab_set p b (fs_files f)\<rparr>) q \<longleftrightarrow> q = p \<or> is_file f q"
  "is_file (f\<lparr>fs_files := tab_del p (fs_files f)\<rparr>) q \<longleftrightarrow> q \<noteq> p \<and> is_file f q"
  "is_dir (f\<lparr>fs_files := t\<rparr>) q = is_dir f q"
  by (auto simp: is_file_def is_dir_def)

lemma wp_fs_exists [fs_wp]:
  "wp (fs_exists p) Q E f =
    (if fault_of f = None then Q (is_file f p \<or> is_dir f p) (tick f) else Q False (tick f))"
proof (cases "fault_of f")
  case None
  then show ?thesis by (simp add: fs_exists_def fs_metadata_def wp_simps) (simp add: wp_def)
next
  case (Some x)
  then show ?thesis by (cases x) (simp add: fs_exists_def fs_metadata_def wp_simps no_trace_def)
qed

lemma wp_raw: "wp (\<lambda>f. if b f then (Inr (x f), g f) else (Inl (e f), h f)) Q E f
    = (if b f then Q (x f) (g f) else E (e f) (h f))"
  by (simp add: wp_def)

lemma wp_fs_metadata [fs_wp]:
  "wp (fs_metadata p) Q E f = (case fault_of f of
      Some (Fault e _) \<Rightarrow> E e (tick f)
    | None \<Rightarrow> if is_file f p \<or> is_dir f p then Q () (tick f) else E io_not_found (tick f))"
  by (simp add: fs_metadata_def wp_simps no_trace_def split: option.splits fault.splits) (simp add: wp_def)

lemma wp_fs_read [fs_wp]:
  "wp (fs_read p) Q E f = (case fault_of f of
      Some (Fault e _) \<Rightarrow> E e (tick f)
    | None \<Rightarrow> (case tab_get (fs_files f) p of
        Some b \<Rightarrow> Q b (tick f)
      | None \<Rightarrow> E (if is_dir f p then io_is_dir else io_not_found) (tick f)))"
  by (simp add: fs_read_def wp_simps no_trace_def split: option.splits fault.splits)
     (simp add: wp_def split: option.splits)

lemma wp_fs_file_len [fs_wp]:
  "wp (fs_file_len p) Q E f = (case fault_of f of
      Some (Fault e _) \<Rightarrow> E e (tick f)
    | None \<Rightarrow> (case tab_get (fs_files f) p of
        Some b \<Rightarrow> Q (length b) (tick f) | None \<Rightarrow> E io_not_found (tick f)))"
  by (simp add: fs_file_len_def wp_simps no_trace_def split: option.splits fault.splits)
     (simp add: wp_def split: option.splits)

lemma wp_fs_write [fs_wp]:
  "wp (fs_write p b) Q E f = (case fault_of f of
      Some (Fault e part) \<Rightarrow> E e (partial_file p part (tick f))
    | None \<Rightarrow> if is_dir f p then E io_is_dir (tick f)
        else if \<not> is_dir f (path_parent p) then E io_not_found (tick f)
        else Q () ((tick f)\<lparr>fs_files := tab_set p b (fs_files f)\<rparr>))"
  by (simp add: fs_write_def wp_simps split: option.splits fault.splits) (simp add: wp_def)

lemma wp_fs_overwrite [fs_wp]:
  "wp (fs_overwrite p b) Q E f = (case fault_of f of
      Some (Fault e part) \<Rightarrow> E e (partial_file p part (tick f))
    | None \<Rightarrow> if is_file f p then Q () ((tick f)\<lparr>fs_files := tab_set p b (fs_files f)\<rparr>) else Q () (tick f))"
  by (simp add: fs_overwrite_def wp_simps split: option.splits fault.splits) (simp add: wp_def)

lemma wp_fs_create_new [fs_wp]:
  "wp (fs_create_new p) Q E f = (case fault_of f of
      Some (Fault e _) \<Rightarrow> E e (tick f)
    | None \<Rightarrow> if is_file f p \<or> is_dir f p then E io_exists (tick f)
        else if \<not> is_dir f (path_parent p) then E io_not_found (tick f)
        else Q () ((tick f)\<lparr>fs_files := tab_set p [] (fs_files f)\<rparr>))"
  by (simp add: fs_create_new_def wp_simps no_trace_def split: option.splits fault.splits) (simp add: wp_def)

lemma wp_fs_remove_file [fs_wp]:
  "wp (fs_remove_file p) Q E f = (case fault_of f of
      Some (Fault e _) \<Rightarrow> E e (tick f)
    | None \<Rightarrow> if is_file f p then Q () ((tick f)\<lparr>fs_files := tab_del p (fs_files f)\<rparr>)
        else E (if is_dir f p then io_is_dir else io_not_found) (tick f))"
  by (simp add: fs_remove_file_def wp_simps no_trace_def split: option.splits fault.splits) (simp add: wp_def)

lemma wp_fs_rename [fs_wp]:
  "wp (fs_rename a b) Q E f = (case fault_of f of
      Some (Fault e _) \<Rightarrow> E e (tick f)
    | None \<Rightarrow> (case tab_get (fs_files f) a of
        None \<Rightarrow> if a \<noteq> [] \<and> is_dir f a then wp (rename_dir a b) Q E (tick f) else E io_not_found (tick f)
      | Some c \<Rightarrow> if is_dir f b then E io_is_dir (tick f)
          else if \<not> is_dir f (path_parent b) then E io_not_found (tick f)
          else Q () ((tick f)\<lparr>fs_files := tab_set b c (tab_del a (fs_files f))\<rparr>)))"
  by (simp add: fs_rename_def wp_simps no_trace_def split: option.splits fault.splits)
     (simp add: wp_def split: option.splits)

lemma wp_fs_create_dir_all [fs_wp]:
  "wp (fs_create_dir_all p) Q E f = (case fault_of f of
      Some (Fault e _) \<Rightarrow> E e (tick f)
    | None \<Rightarrow> if list_ex (is_file f) (ancestors p) then E io_not_dir (tick f)
        else Q () ((tick f)\<lparr>fs_dirs := List.union (ancestors p) (fs_dirs f)\<rparr>))"
proof -
  have "is_file (tick f) = is_file f" by (rule ext) simp
  then show ?thesis
    by (simp add: fs_create_dir_all_def wp_simps no_trace_def split: option.splits fault.splits) (simp add: wp_def)
qed

lemma wp_fs_sync [fs_wp]:
  "wp fs_sync Q E f = (case fault_of f of Some (Fault e _) \<Rightarrow> E e (tick f) | None \<Rightarrow> Q () (tick f))"
  by (simp add: fs_sync_def wp_simps no_trace_def split: option.splits fault.splits) (simp add: wp_def)

text \<open>A partial write touches its own path only.\<close>

lemma partial_file_other:
  "q \<noteq> p \<Longrightarrow> tab_get (fs_files (partial_file p part f)) q = tab_get (fs_files f) q"
  by (simp add: partial_file_def split: option.splits)

lemma partial_file_dirs [simp]: "fs_dirs (partial_file p part f) = fs_dirs f"
  by (simp add: partial_file_def split: option.splits)

lemma partial_file_is_file [simp]: "is_file f p \<Longrightarrow> is_file (partial_file p part f) p"
  by (simp add: partial_file_def split: option.splits)

end
