(* ===== verification/Vm_Controller.thy ===== *)
theory Vm_Controller
  imports Vm_Xml Fs
begin

text \<open>
  \<^verbatim>\<open>crates/vm-controller/src/lib.rs\<close>: the libvirt/QEMU controller.

  Its surroundings are parameters, bundled in \<^verbatim>\<open>vm_params\<close>: the command runner (which may
  also change the file system, as \<^verbatim>\<open>qemu-img\<close> and \<^verbatim>\<open>shred\<close> do), fresh VM ids, random MAC bytes
  and the temporary directory.  The state holds the tracked entries, the file system, the
  environment of the parameters and the trace of commands run.
\<close>

record vm_output =
  vo_status :: "int option"
  vo_stdout :: string
  vo_stderr :: string

definition vo_success :: "vm_output \<Rightarrow> bool" where
  "vo_success o1 = (vo_status o1 = Some 0)"

record vm_entry =
  ve_handle :: vm_handle
  ve_overlay_path :: string
  ve_destroy_on_close :: bool

type_synonym vm_command = "string \<times> string list"

record 'e vm_world =
  vw_entries :: "(vm_id \<times> vm_entry) list"
  vw_fs :: fs
  vw_env :: 'e
  vw_cmds :: "vm_command list"

record 'e vm_params =
  vp_run :: "vm_command \<Rightarrow> fs \<times> 'e \<Rightarrow> vm_output result \<times> (fs \<times> 'e)"
  vp_fresh_id :: "'e \<Rightarrow> vm_id \<times> 'e"
  vp_random :: "'e \<Rightarrow> 8 word \<times> 'e"
  vp_temp_dir :: path

definition vm_new :: "fs \<Rightarrow> 'e \<Rightarrow> 'e vm_world" where
  "vm_new f e = \<lparr> vw_entries = [], vw_fs = f, vw_env = e, vw_cmds = [] \<rparr>"

type_synonym ('e, 'a) vm = "('e vm_world, error, 'a) eff"

definition vm_run :: "'e vm_params \<Rightarrow> vm_command \<Rightarrow> ('e, vm_output) vm" where
  "vm_run P c = (\<lambda>w. case vp_run P c (vw_fs w, vw_env w) of (r, (f, e)) \<Rightarrow>
      (r, w\<lparr>vw_fs := f, vw_env := e, vw_cmds := vw_cmds w @ [c]\<rparr>))"

definition vm_random :: "'e vm_params \<Rightarrow> ('e, 8 word) vm" where
  "vm_random P = zoom vw_env vw_env_update (run_state (vp_random P))"

definition vm_fresh_id :: "'e vm_params \<Rightarrow> ('e, vm_id) vm" where
  "vm_fresh_id P = zoom vw_env vw_env_update (run_state (vp_fresh_id P))"

definition vm_fs :: "(fs, 'x, 'a) eff \<Rightarrow> ('e vm_world, 'x, 'a) eff" where
  "vm_fs m = zoom vw_fs vw_fs_update m"

definition exit_error :: "string \<Rightarrow> vm_output \<Rightarrow> error" where
  "exit_error what out = System (what @ '' failed (exit ''
     @ (case vo_status out of None \<Rightarrow> ''signal'' | Some k \<Rightarrow> show_int k)
     @ ''): '' @ trim (vo_stderr out))"

definition run_checked :: "'e vm_params \<Rightarrow> vm_command \<Rightarrow> string \<Rightarrow> ('e, vm_output) vm" where
  "run_checked P c what =
    bind (vm_run P c) (\<lambda>out. if \<not> vo_success out then throw (exit_error what out) else ret out)"

definition domain_of :: "vm_id \<Rightarrow> ('e, string) vm" where
  "domain_of i = (\<lambda>w. case tab_get (vw_entries w) i of
      Some en \<Rightarrow> (Inr (vh_domain_name (ve_handle en)), w)
    | None \<Rightarrow> (Inl (NotFound (''VM '' @ vm_slug i @ '' is not tracked by this controller'')), w))"

definition set_entry_state :: "vm_id \<Rightarrow> vm_state \<Rightarrow> ('e vm_world, 'x, unit) eff" where
  "set_entry_state i st = modify (\<lambda>w. case tab_get (vw_entries w) i of
      None \<Rightarrow> w
    | Some en \<Rightarrow> w\<lparr>vw_entries :=
        tab_set i (en\<lparr>ve_handle := (ve_handle en)\<lparr>vh_state := st\<rparr>\<rparr>) (vw_entries w)\<rparr>)"

definition parse_domstate :: "string \<Rightarrow> vm_state" where
  "parse_domstate s =
    (let t = trim s in
     if t = ''running'' \<or> t = ''idle'' then VmRunning
     else if t = ''paused'' \<or> t = ''pmsuspended'' then VmStopping
     else if t = ''in shutdown'' then VmStopping
     else if t = ''shut off'' then VmStopped
     else if t = ''crashed'' then VmFailed
     else VmFailed)"

definition safe_stem_char :: "char \<Rightarrow> char" where
  "safe_stem_char c = (let k = of_char c :: nat in
     if (48 \<le> k \<and> k \<le> 57) \<or> (65 \<le> k \<and> k \<le> 90) \<or> (97 \<le> k \<and> k \<le> 122) \<or> c = CHR ''-''
     then c else CHR ''-'')"

definition temp_xml_path :: "path \<Rightarrow> string \<Rightarrow> path" where
  "temp_xml_path tmp name = path_join tmp (''aegis-'' @ List.map safe_stem_char name @ ''.xml'')"

definition write_temp_xml :: "'e vm_params \<Rightarrow> string \<Rightarrow> string \<Rightarrow> ('e, string) vm" where
  "write_temp_xml P name xml =
    (let p = temp_xml_path (vp_temp_dir P) name in
     seq (map_err (\<lambda>e. System (''failed to write domain XML: '' @ io_text e)) (vm_fs (fs_write p xml)))
     (ret p))"

definition create_overlay_command :: "provision_request \<Rightarrow> vm_command" where
  "create_overlay_command req =
    (''qemu-img'', [''create'', ''-f'', ''qcow2'', ''-F'', ''qcow2'', ''-b'',
       dl_backing_image (vr_disk req), dl_overlay_path (vr_disk req)])"

definition render_domain_xml :: "'e vm_params \<Rightarrow> provision_request \<Rightarrow> ('e, string) vm" where
  "render_domain_xml P req =
    bind (vm_random P) (\<lambda>a0. bind (vm_random P) (\<lambda>a1. bind (vm_random P) (\<lambda>a2.
    bind (vm_random P) (\<lambda>b0. bind (vm_random P) (\<lambda>b1. bind (vm_random P) (\<lambda>b2.
    ret (render_domain_xml_with req (random_mac a0 a1 a2) (random_mac b0 b1 b2))))))))"

definition define_and_track :: "'e vm_params \<Rightarrow> provision_request \<Rightarrow> path \<Rightarrow> ('e, vm_handle) vm" where
  "define_and_track P req xml_path =
     bind (attempt (run_checked P (''virsh'', [''define'', xml_path]) ''virsh define domain'')) (\<lambda>define_result.
     seq (attempt (vm_fs (fs_remove_file xml_path)) :: (_, error, _) eff)
     (seq (lift_res define_result)
     (bind (vm_fresh_id P) (\<lambda>i.
      let handle = \<lparr> vh_id = i, vh_instance_id = vr_instance_id req, vh_role = vr_role req,
                     vh_domain_name = domain_name req, vh_state = VmDefined \<rparr>
      in seq (modify (\<lambda>w. w\<lparr>vw_entries := tab_set i
            \<lparr> ve_handle = handle, ve_overlay_path = dl_overlay_path (vr_disk req),
              ve_destroy_on_close = dl_destroy_on_close (vr_disk req) \<rparr> (vw_entries w)\<rparr>))
         (ret handle)))))"

definition provision :: "'e vm_params \<Rightarrow> provision_request \<Rightarrow> ('e, vm_handle) vm" where
  "provision P req =
    seq (lift_res (provision_validate req))
    (seq (run_checked P (create_overlay_command req) ''qemu-img create overlay'')
    (bind (render_domain_xml P req) (\<lambda>xml.
     bind (write_temp_xml P (domain_name req) xml) (\<lambda>xml_path.
     define_and_track P req xml_path))))"

definition vm_start :: "'e vm_params \<Rightarrow> vm_id \<Rightarrow> ('e, unit) vm" where
  "vm_start P i =
    bind (domain_of i) (\<lambda>domain.
    seq (run_checked P (''virsh'', [''start'', domain]) ''virsh start'')
    (set_entry_state i VmRunning))"

definition vm_shutdown :: "'e vm_params \<Rightarrow> vm_id \<Rightarrow> shutdown_mode \<Rightarrow> ('e, unit) vm" where
  "vm_shutdown P i mode =
    bind (domain_of i) (\<lambda>domain.
    let (subcmd, what) = (case mode of
        Graceful \<Rightarrow> (''shutdown'', ''virsh shutdown'')
      | Forced \<Rightarrow> (''destroy'', ''virsh destroy (forced power-off)''))
    in seq (run_checked P (''virsh'', [subcmd, domain]) what)
       (set_entry_state i (case mode of Graceful \<Rightarrow> VmStopping | Forced \<Rightarrow> VmStopped)))"

definition shred_overlay :: "'e vm_params \<Rightarrow> path \<Rightarrow> ('e, bool) vm" where
  "shred_overlay P p =
    (if p = [] then ret True
     else bind (vm_fs (fs_exists p)) (\<lambda>ex.
       if \<not> ex then ret True
       else
         seq (attempt (vm_run P (''shred'', [''-u'', ''-z'', p])))
         (bind (vm_fs (fs_exists p)) (\<lambda>still.
          seq (if still then seq (attempt (vm_fs (fs_remove_file p))) (ret ()) else ret ())
          (bind (vm_fs (fs_exists p)) (\<lambda>left. ret (\<not> left)))))))"

definition vm_destroy :: "'e vm_params \<Rightarrow> vm_id \<Rightarrow> ('e, destroy_report) vm" where
  "vm_destroy P i =
    bind (gets (\<lambda>w. tab_get (vw_entries w) i)) (\<lambda>found. case found of
      None \<Rightarrow> throw (NotFound (''VM '' @ vm_slug i @ '' is not tracked''))
    | Some entry \<Rightarrow>
        let domain = vh_domain_name (ve_handle entry) in
        seq (attempt (vm_run P (''virsh'', [''destroy'', domain])) :: (_, error, _) eff)
        (bind (attempt (vm_run P (''virsh'', [''undefine'', domain]))) (\<lambda>undefine.
         let domain_undefined = (case undefine of Inr out \<Rightarrow> vo_success out | Inl _ \<Rightarrow> False) in
         bind (if ve_destroy_on_close entry then shred_overlay P (ve_overlay_path entry) else ret True)
         (\<lambda>overlay_shredded.
         seq (set_entry_state i VmDestroyed)
         (ret \<lparr> dr_id = i, dr_overlay_shredded = overlay_shredded,
                dr_domain_undefined = domain_undefined \<rparr>)))))"

definition vm_state_of :: "'e vm_params \<Rightarrow> vm_id \<Rightarrow> ('e, vm_state) vm" where
  "vm_state_of P i =
    bind (domain_of i) (\<lambda>domain.
    bind (run_checked P (''virsh'', [''domstate'', domain]) ''virsh domstate'') (\<lambda>out.
    ret (parse_domstate (trim (vo_stdout out)))))"

definition vm_list :: "('e, vm_handle list) vm" where
  "vm_list = gets (\<lambda>w. List.map (\<lambda>(_, en). ve_handle en) (vw_entries w))"

section \<open>Weakest preconditions\<close>

definition after_run :: "'e vm_params \<Rightarrow> vm_command \<Rightarrow> 'e vm_world \<Rightarrow> 'e vm_world" where
  "after_run P c w = (case vp_run P c (vw_fs w, vw_env w) of (_, (f, e)) \<Rightarrow>
      w\<lparr>vw_fs := f, vw_env := e, vw_cmds := vw_cmds w @ [c]\<rparr>)"

lemma after_run_simps [simp]:
  "vw_entries (after_run P c w) = vw_entries w"
  "vw_cmds (after_run P c w) = vw_cmds w @ [c]"
  by (simp_all add: after_run_def split: prod.splits)

lemma wp_vm_run [wp_simps]:
  "wp (vm_run P c) Q E w =
    (case fst (vp_run P c (vw_fs w, vw_env w)) of
       Inl e \<Rightarrow> E e (after_run P c w) | Inr out \<Rightarrow> Q out (after_run P c w))"
  by (simp add: wp_def vm_run_def after_run_def split: prod.splits sum.splits)

lemma wp_vm_fs [wp_simps]:
  "wp (vm_fs m) Q E = (\<lambda>w. wp m (\<lambda>x s. Q x (w\<lparr>vw_fs := s\<rparr>)) (\<lambda>e s. E e (w\<lparr>vw_fs := s\<rparr>)) (vw_fs w))"
  by (simp add: vm_fs_def wp_simps)

lemma wp_run_checked [wp_simps]:
  "wp (run_checked P c what) Q E w =
    (case fst (vp_run P c (vw_fs w, vw_env w)) of
       Inl e \<Rightarrow> E e (after_run P c w)
     | Inr out \<Rightarrow> if vo_success out then Q out (after_run P c w)
         else E (exit_error what out) (after_run P c w))"
  by (auto simp: run_checked_def wp_simps split: sum.splits)

lemma wp_vm_random [wp_simps]:
  "wp (vm_random P) Q E w = Q (fst (vp_random P (vw_env w))) (w\<lparr>vw_env := snd (vp_random P (vw_env w))\<rparr>)"
  by (simp add: vm_random_def wp_simps split: prod.splits)

lemma wp_vm_fresh_id [wp_simps]:
  "wp (vm_fresh_id P) Q E w = Q (fst (vp_fresh_id P (vw_env w))) (w\<lparr>vw_env := snd (vp_fresh_id P (vw_env w))\<rparr>)"
  by (simp add: vm_fresh_id_def wp_simps split: prod.splits)

lemma wp_domain_of [wp_simps]:
  "wp (domain_of i) Q E w = (case tab_get (vw_entries w) i of
      Some en \<Rightarrow> Q (vh_domain_name (ve_handle en)) w
    | None \<Rightarrow> E (NotFound (''VM '' @ vm_slug i @ '' is not tracked by this controller'')) w)"
  by (simp add: domain_of_def wp_def split: option.splits)

lemma wp_render_domain_xml:
  assumes "\<And>xml e. Q xml (w\<lparr>vw_env := e\<rparr>)"
  shows "wp (render_domain_xml P req) Q E w"
  by (simp add: render_domain_xml_def wp_simps assms)

lemma wp_write_temp_xml:
  assumes "\<And>f. Q (temp_xml_path (vp_temp_dir P) name) (w\<lparr>vw_fs := f\<rparr>)"
    and "\<And>e f. E (System e) (w\<lparr>vw_fs := f\<rparr>)"
  shows "wp (write_temp_xml P name xml) Q E w"
  by (simp add: write_temp_xml_def Let_def wp_simps) (rule wp_I, simp_all add: assms)

lemma wp_vm_fs_any:
  assumes "\<And>x f. Q x (w\<lparr>vw_fs := f\<rparr>)" "\<And>e f. E e (w\<lparr>vw_fs := f\<rparr>)"
  shows "wp (vm_fs m) Q E w"
  by (simp add: wp_simps) (rule wp_I, simp_all add: assms)

section \<open>Provisioning\<close>

definition provisioned :: "provision_request \<Rightarrow> vm_handle \<Rightarrow> 'e vm_world \<Rightarrow> bool" where
  "provisioned req h w \<longleftrightarrow>
     vr_isolation req = hardened \<and> (vr_role req = RoleBrowser \<longrightarrow> dl_read_only_root (vr_disk req)) \<and>
     vh_state h = VmDefined \<and> vh_role h = vr_role req \<and> vh_domain_name h = domain_name req \<and>
     tab_get (vw_entries w) (vh_id h) = Some \<lparr> ve_handle = h,
       ve_overlay_path = dl_overlay_path (vr_disk req),
       ve_destroy_on_close = dl_destroy_on_close (vr_disk req) \<rparr>"

definition provision_commands :: "'e vm_params \<Rightarrow> provision_request \<Rightarrow> vm_command list" where
  "provision_commands P req =
    [create_overlay_command req, (''virsh'', [''define'', temp_xml_path (vp_temp_dir P) (domain_name req)])]"

definition provision_error :: "'e vm_params \<Rightarrow> provision_request \<Rightarrow> 'e vm_world \<Rightarrow> error \<Rightarrow> 'e vm_world \<Rightarrow> bool" where
  "provision_error P req w e t \<longleftrightarrow>
     vw_entries t = vw_entries w \<and>
     (\<exists>n. vw_cmds t = vw_cmds w @ take n (provision_commands P req)) \<and>
     (provision_validate req \<noteq> Inr () \<longrightarrow> t = w \<and> requires_killswitch e)"

lemma provision_error_takeI:
  "vw_entries t = vw_entries w \<Longrightarrow> provision_validate req = Inr () \<Longrightarrow>
   vw_cmds t = vw_cmds w @ take n (provision_commands P req) \<Longrightarrow> provision_error P req w e t"
  by (auto simp: provision_error_def)

lemma wp_define:
  fixes w :: "'e vm_world"
  assumes "\<And>f. wp K Q E ((after_run P (''virsh'', [''define'', p]) w)\<lparr>vw_fs := f\<rparr>)"
    and "\<And>e f. E e ((after_run P (''virsh'', [''define'', p]) w)\<lparr>vw_fs := f\<rparr>)"
  shows "wp (bind (attempt (run_checked P (''virsh'', [''define'', p]) what)) (\<lambda>r.
      seq (attempt (vm_fs (fs_remove_file p)) :: (_, error, _) eff) (seq (lift_res r) K))) Q E w"
proof -
  let ?t = "after_run P (''virsh'', [''define'', p]) w"
  have rm: "wp (vm_fs (fs_remove_file p)) (\<lambda>_. R) (\<lambda>_. R) ?t" if "\<And>f. R (?t\<lparr>vw_fs := f\<rparr>)" for R
    by (rule wp_vm_fs_any) (rule that)+
  show ?thesis
    unfolding seq_def wp_bind wp_attempt wp_run_checked wp_lift_res
    by (simp split: sum.splits) (auto intro!: rm assms)
qed

lemma wp_provision:
  "wp (provision P req) (\<lambda>h t. provisioned req h t) (provision_error P req w) w"
proof (cases "provision_validate req")
  case (Inl e)
  then have "requires_killswitch e" by (rule provision_validate_error)
  then show ?thesis using Inl
    by (simp add: provision_def wp_simps provision_error_def)
next
  case (Inr u)
  then have ok: "provision_validate req = Inr ()" by simp
  note iso = provision_validate_ok_iff [THEN iffD1, OF ok]
  have e1: "provision_error P req w e t"
    if "vw_entries t = vw_entries w" "vw_cmds t = vw_cmds w @ [create_overlay_command req]" for e t
    using provision_error_takeI [OF that(1) ok, where n = 1] that(2) by (simp add: provision_commands_def)
  have e2: "provision_error P req w e t"
    if "vw_entries t = vw_entries w" "vw_cmds t = vw_cmds w @ [create_overlay_command req,
      (''virsh'', [''define'', temp_xml_path (vp_temp_dir P) (domain_name req)])]" for e t
    using provision_error_takeI [OF that(1) ok, where n = 2] that(2) by (simp add: provision_commands_def)
  have tail: "wp (define_and_track P req (temp_xml_path (vp_temp_dir P) (domain_name req)))
      (provisioned req) (provision_error P req w) t"
    if "vw_entries t = vw_entries w" "vw_cmds t = vw_cmds w @ [create_overlay_command req]" for t
    unfolding define_and_track_def by (rule wp_define) (use that iso in \<open>simp_all add: e2 provisioned_def wp_simps Let_def\<close>)
  have written: "wp (bind (write_temp_xml P (domain_name req) xml) (define_and_track P req))
      (provisioned req) (provision_error P req w) t"
    if "vw_entries t = vw_entries w" "vw_cmds t = vw_cmds w @ [create_overlay_command req]" for xml t
    unfolding wp_bind by (rule wp_write_temp_xml; rule tail e1; simp add: that)
  have rendered: "wp (bind (render_domain_xml P req) (\<lambda>xml.
        bind (write_temp_xml P (domain_name req) xml) (define_and_track P req)))
      (provisioned req) (provision_error P req w) t"
    if "vw_entries t = vw_entries w" "vw_cmds t = vw_cmds w @ [create_overlay_command req]" for t
    unfolding wp_bind [of "render_domain_xml P req"]
    by (rule wp_render_domain_xml; rule written; simp add: that)
  show ?thesis
    unfolding provision_def seq_def by (simp add: wp_bind wp_lift_res wp_run_checked ok e1 split: sum.splits)
      (simp add: rendered [unfolded wp_bind])
qed


definition linux_tools :: "nat vm_params" where
  "linux_tools = \<lparr>
     vp_run = (\<lambda>c (f, n). (Inr \<lparr> vo_status = Some 0, vo_stdout = [], vo_stderr = [] \<rparr>, (f, n))),
     vp_fresh_id = (\<lambda>n. (VmId sample_uuid, Suc n)),
     vp_random = (\<lambda>n. (of_nat n, Suc n)),
     vp_temp_dir = ''/tmp'' \<rparr>"

definition empty_fs :: fs where
  "empty_fs = \<lparr> fs_files = [], fs_dirs = [''/tmp''], fs_faults = [] \<rparr>"


section \<open>Destruction\<close>

text \<open>The file system is left without scheduled faults by the commands.\<close>

definition fault_free :: "fs \<Rightarrow> bool" where
  "fault_free f \<longleftrightarrow> fs_faults f = []"

definition commands_fault_free :: "'e vm_params \<Rightarrow> bool" where
  "commands_fault_free P \<longleftrightarrow>
     (\<forall>c f e. fault_free f \<longrightarrow> fault_free (fst (snd (vp_run P c (f, e)))))"

lemma fault_free_simps [simp]:
  "fault_free f \<Longrightarrow> fault_of f = None"
  "fault_free f \<Longrightarrow> tick f = f"
  "fault_free (f\<lparr>fs_files := t\<rparr>) = fault_free f"
  "fault_free (f\<lparr>fs_dirs := d\<rparr>) = fault_free f"
  by (simp_all add: fault_free_def fault_of_def tick_def)

lemma after_run_fault_free [simp]:
  "commands_fault_free P \<Longrightarrow> fault_free (vw_fs w) \<Longrightarrow> fault_free (vw_fs (after_run P c w))"
proof -
  assume "commands_fault_free P" "fault_free (vw_fs w)"
  then have "fault_free (fst (snd (vp_run P c (vw_fs w, vw_env w))))"
    unfolding commands_fault_free_def by blast
  then show ?thesis by (cases "vp_run P c (vw_fs w, vw_env w)") (auto simp: after_run_def)
qed

definition absent :: "fs \<Rightarrow> path \<Rightarrow> bool" where
  "absent f p \<longleftrightarrow> \<not> is_file f p \<and> \<not> is_dir f p"

lemma wp_remove_file_ff:
  assumes "fault_free f"
  shows "wp (fs_remove_file p) Q E f =
    (if is_file f p then Q () (f\<lparr>fs_files := tab_del p (fs_files f)\<rparr>)
     else E (if is_dir f p then io_is_dir else io_not_found) f)"
  using assms by (simp add: fs_remove_file_def wp_simps) (simp add: wp_def)

lemma wp_shred_overlay:
  assumes "commands_fault_free P" "fault_free (vw_fs w)" "p \<noteq> []"
  shows "wp (shred_overlay P p)
    (\<lambda>b t. b = absent (vw_fs t) p \<and> vw_entries t = vw_entries w \<and>
       (\<exists>n. vw_cmds t = vw_cmds w @ take n [(''shred'', [''-u'', ''-z'', p])])) (\<lambda>_ _. False) w"
proof -
  have t0: "\<exists>n. vw_cmds w = vw_cmds w @ take n [(''shred'', [''-u'', ''-z'', p])]"
    by (rule exI [of _ 0]) simp
  have t1: "\<exists>n. vw_cmds w @ [c] = vw_cmds w @ take n [c]" for c
    by (rule exI [of _ 1]) simp
  show ?thesis
    using assms t0 t1
    by (auto simp: shred_overlay_def wp_simps wp_fs_exists wp_remove_file_ff absent_def split: sum.splits)
qed

lemma wp_set_entry_state [wp_simps]:
  "wp (set_entry_state i st) Q E w = Q () (case tab_get (vw_entries w) i of
      None \<Rightarrow> w
    | Some en \<Rightarrow> w\<lparr>vw_entries :=
        tab_set i (en\<lparr>ve_handle := (ve_handle en)\<lparr>vh_state := st\<rparr>\<rparr>) (vw_entries w)\<rparr>)"
  by (simp add: set_entry_state_def wp_simps)

lemma fs_entries_update [simp]: "vw_fs (w\<lparr>vw_entries := t\<rparr>) = vw_fs w"
  by simp

lemma wp_destroy_shred:
  assumes "commands_fault_free P" "fault_free (vw_fs w)"
    and "tab_get (vw_entries w) i = Some en" "ve_destroy_on_close en" "ve_overlay_path en \<noteq> []"
  shows "wp (vm_destroy P i)
    (\<lambda>r t. dr_id r = i \<and> dr_overlay_shredded r = absent (vw_fs t) (ve_overlay_path en) \<and>
       (\<exists>h. tab_get (vw_entries t) i = Some h \<and> vh_state (ve_handle h) = VmDestroyed))
    (\<lambda>_ _. False) w"
proof -
  have shred: "wp (shred_overlay P (ve_overlay_path en))
      (\<lambda>b. wp (set_entry_state i VmDestroyed)
        (\<lambda>_ a. b = absent (vw_fs a) (ve_overlay_path en) \<and>
          (\<exists>h. tab_get (vw_entries a) i = Some h \<and> vh_state (ve_handle h) = VmDestroyed)) (\<lambda>_ _. False))
      (\<lambda>_ _. False) t"
    if "vw_entries t = vw_entries w" "fault_free (vw_fs t)" for t
    by (rule wp_mono [OF wp_shred_overlay [OF assms(1) that(2) assms(5)]])
       (use that assms(3) in \<open>auto simp: wp_simps\<close>)
  show ?thesis
    using assms(1-4)
    by (simp add: vm_destroy_def wp_simps(1-10) wp_vm_run wp_seq Let_def shred split: sum.splits)
qed


definition sample_world :: "nat vm_world" where
  "sample_world = \<lparr>
     vw_entries = [(VmId sample_uuid, \<lparr> ve_handle = \<lparr> vh_id = VmId sample_uuid,
        vh_instance_id = InstanceId sample_uuid, vh_role = RoleBrowser, vh_domain_name = ''inst-01234567'',
        vh_state = VmRunning \<rparr>, ve_overlay_path = ''/tmp/o.qcow2'', ve_destroy_on_close = True \<rparr>)],
     vw_fs = \<lparr> fs_files = [(''/tmp/o.qcow2'', ''data'')], fs_dirs = [''/tmp''], fs_faults = [] \<rparr>,
     vw_env = 0, vw_cmds = [] \<rparr>"


lemma domstate_running_iff:
  "parse_domstate s = VmRunning \<longleftrightarrow> trim s = ''running'' \<or> trim s = ''idle''"
  by (simp add: parse_domstate_def Let_def)

definition usb_request :: provision_request where
  "usb_request = hostile_request\<lparr>vr_isolation := hardened\<lparr>no_usb_passthrough := False\<rparr>\<rparr>"


end
