(* ===== verification/Network_Audit.thy ===== *)
theory Network_Audit
  imports Preflight Network
begin

text \<open>
  \<^verbatim>\<open>crates/network-audit/src\<close>: the auditor that runs the preflight checklist over a set of
  probes, the production probe, and the preflight context of \<^verbatim>\<open>aegis-core/src/traits.rs\<close>.
  A probe is a computation over the world the measurements read.
\<close>

record preflight_context =
  pc_session :: session_id
  pc_gateway_address :: string
  pc_mode_label :: string
  pc_dns :: dns_policy
  pc_ipv6 :: ipv6_policy
  pc_webrtc_policy_installed :: bool
  pc_host_public_ip :: "string option"

type_synonym ('w, 'a) probe_fn = "preflight_context \<Rightarrow> ('w, error, 'a) eff"

record 'w probe =
  pr_gateway_reachable :: "('w, bool) probe_fn"
  pr_tunnel_up :: "('w, bool) probe_fn"
  pr_dns_route_ok :: "('w, bool) probe_fn"
  pr_observe_public_ip :: "('w, ip_observation option) probe_fn"
  pr_ipv6_blocked :: "('w, bool) probe_fn"

definition boolean_report :: "check_id \<Rightarrow> bool result \<Rightarrow> string \<Rightarrow> string \<Rightarrow> check_report" where
  "boolean_report i r on_true on_false = (case r of
      Inr True \<Rightarrow> report_pass i on_true
    | Inr False \<Rightarrow> report_fail i on_false
    | Inl e \<Rightarrow> report_fail i (''probe could not verify this guarantee ('' @ class_display (error_class e) @ '')''))"

definition check_gateway :: "'w probe \<Rightarrow> preflight_context \<Rightarrow> ('w, error, check_report) eff" where
  "check_gateway p ctx =
    bind (attempt (pr_gateway_reachable p ctx)) (\<lambda>r.
    ret (boolean_report GatewayReady r ''gateway VM is reachable on the management channel''
           ''gateway VM is not reachable''))"

definition check_tunnel :: "'w probe \<Rightarrow> preflight_context \<Rightarrow> ('w, error, check_report) eff" where
  "check_tunnel p ctx =
    bind (attempt (pr_tunnel_up p ctx)) (\<lambda>r.
    ret (boolean_report TunnelReady r ''outbound tunnel is established''
           ''outbound tunnel is not established''))"

definition check_dns :: "'w probe \<Rightarrow> preflight_context \<Rightarrow> ('w, error, check_report) eff" where
  "check_dns p ctx =
    bind (attempt (pr_dns_route_ok p ctx)) (\<lambda>r.
    ret (boolean_report DnsRouteVerified r ''DNS resolves only through the intended route''
           (''DNS route unverified '' @ em_dash @ '' possible leak outside the tunnel'')))"

definition check_webrtc :: "preflight_context \<Rightarrow> check_report" where
  "check_webrtc ctx =
    (if pc_webrtc_policy_installed ctx
     then report_pass WebrtcPolicyLoaded ''WebRTC policy blocking non-proxied UDP is installed''
     else report_fail WebrtcPolicyLoaded
       (''WebRTC policy is not installed '' @ em_dash @ '' host interface could leak via WebRTC''))"

definition check_ipv6 :: "'w probe \<Rightarrow> preflight_context \<Rightarrow> ('w, error, check_report) eff" where
  "check_ipv6 p ctx =
    bind (attempt (pr_ipv6_blocked p ctx)) (\<lambda>r.
    ret (boolean_report Ipv6PolicyVerified r ''IPv6 policy is verified in effect''
           (''IPv6 policy is not verified '' @ em_dash @ '' possible v6 leak'')))"

definition ip_report :: "preflight_context \<Rightarrow> ip_observation \<Rightarrow> check_report" where
  "ip_report ctx obs =
    (let matches_host = (case pc_host_public_ip ctx of None \<Rightarrow> False | Some host \<Rightarrow> host = ip_addr obs);
         differs = ip_differs_from_host obs \<and> \<not> matches_host
     in if ip_via_tunnel obs \<and> differs
        then report_pass PublicIpObserved ''public IP observed through the tunnel and differs from host''
        else if \<not> ip_via_tunnel obs
        then report_fail PublicIpObserved ''public IP was not observed through the tunnel''
        else report_fail PublicIpObserved
          (''observed public IP matches the host '' @ em_dash @ '' traffic escaped the tunnel''))"

definition check_public_ip ::
    "'w probe \<Rightarrow> preflight_context \<Rightarrow> ('w, error, check_report \<times> ip_observation option) eff" where
  "check_public_ip p ctx =
    bind (attempt (pr_observe_public_ip p ctx)) (\<lambda>r. ret (case r of
      Inr (Some obs) \<Rightarrow> (ip_report ctx obs, Some obs)
    | Inr None \<Rightarrow>
        (report_fail PublicIpObserved ''no public IP could be observed from inside the session'', None)
    | Inl e \<Rightarrow>
        (report_fail PublicIpObserved
           (''public IP could not be observed ('' @ class_display (error_class e) @ '')''), None)))"

definition run_preflight :: "'w probe \<Rightarrow> preflight_context \<Rightarrow> ('w, error, checklist) eff" where
  "run_preflight p ctx =
    bind (check_gateway p ctx) (\<lambda>gateway.
    bind (check_tunnel p ctx) (\<lambda>tunnel.
    bind (check_dns p ctx) (\<lambda>dns.
    bind (check_public_ip p ctx) (\<lambda>(public_ip, observed).
    let webrtc = check_webrtc ctx in
    bind (check_ipv6 p ctx) (\<lambda>ipv6.
    ret ((checklist_new [gateway, tunnel, dns, public_ip, webrtc, ipv6])\<lparr>cl_observed_ip := observed\<rparr>))))))"

definition run_check :: "'w probe \<Rightarrow> check_id \<Rightarrow> preflight_context \<Rightarrow> ('w, error, check_report) eff" where
  "run_check p i ctx = (case i of
      GatewayReady \<Rightarrow> check_gateway p ctx
    | TunnelReady \<Rightarrow> check_tunnel p ctx
    | DnsRouteVerified \<Rightarrow> check_dns p ctx
    | PublicIpObserved \<Rightarrow> bind (check_public_ip p ctx) (\<lambda>(r, _). ret r)
    | WebrtcPolicyLoaded \<Rightarrow> ret (check_webrtc ctx)
    | Ipv6PolicyVerified \<Rightarrow> check_ipv6 p ctx)"

text \<open>The production probe refuses every measurement, on Linux and elsewhere.\<close>

definition probe_unsupported :: "bool \<Rightarrow> string \<Rightarrow> error" where
  "probe_unsupported linux what = Unsupported
    (if linux then ''live '' @ what @ '' probe not yet wired to the guest channel''
     else ''network probe '' @ [CHR 0x27] @ what @ [CHR 0x27] @ '' is only available inside the Linux Aegis VMs'')"

definition system_probe :: "bool \<Rightarrow> 'w probe" where
  "system_probe linux = \<lparr>
     pr_gateway_reachable = (\<lambda>_. throw (probe_unsupported linux ''gateway_reachable'')),
     pr_tunnel_up = (\<lambda>_. throw (probe_unsupported linux ''tunnel_up'')),
     pr_dns_route_ok = (\<lambda>_. throw (probe_unsupported linux ''dns_route_ok'')),
     pr_observe_public_ip = (\<lambda>_. throw (probe_unsupported linux ''observe_public_ip'')),
     pr_ipv6_blocked = (\<lambda>_. throw (probe_unsupported linux ''ipv6_blocked'')) \<rparr>"

section \<open>What a checklist means\<close>

text \<open>The outcomes of the probes of one run, each in the world its predecessors left.\<close>

definition probe_outcome :: "('w, error, 'a) eff \<Rightarrow> 'w \<Rightarrow> 'a result" where
  "probe_outcome m w = fst (m w)"

definition good_ip :: "preflight_context \<Rightarrow> ip_observation option result \<Rightarrow> bool" where
  "good_ip ctx r = (case r of
      Inr (Some obs) \<Rightarrow> ip_via_tunnel obs \<and> ip_differs_from_host obs \<and> pc_host_public_ip ctx \<noteq> Some (ip_addr obs)
    | _ \<Rightarrow> False)"

lemma is_pass_boolean_report [simp]: "is_pass (rep_outcome (boolean_report i r a b)) \<longleftrightarrow> r = Inr True"
  by (auto simp: boolean_report_def report_pass_def report_fail_def is_pass_def split: sum.splits bool.splits)

lemma rep_id_reports [simp]:
  "rep_id (boolean_report i r a b) = i" "rep_id (check_webrtc ctx) = WebrtcPolicyLoaded"
  "rep_id (ip_report ctx obs) = PublicIpObserved"
  "rep_id (report_pass i d) = i" "rep_id (report_fail i d) = i"
  by (auto simp: boolean_report_def check_webrtc_def ip_report_def report_pass_def report_fail_def Let_def
      split: sum.splits bool.splits)

lemma is_pass_reports [simp]:
  "is_pass (rep_outcome (report_pass i d))" "\<not> is_pass (rep_outcome (report_fail i d))"
  by (simp_all add: report_pass_def report_fail_def is_pass_def)

lemma is_pass_webrtc [simp]: "is_pass (rep_outcome (check_webrtc ctx)) \<longleftrightarrow> pc_webrtc_policy_installed ctx"
  by (simp add: check_webrtc_def)

lemma is_pass_ip_report [simp]:
  "is_pass (rep_outcome (ip_report ctx obs)) \<longleftrightarrow>
    ip_via_tunnel obs \<and> ip_differs_from_host obs \<and> pc_host_public_ip ctx \<noteq> Some (ip_addr obs)"
  by (auto simp: ip_report_def Let_def split: option.splits)

definition six_reports :: "check_report list \<Rightarrow> bool" where
  "six_reports rs \<longleftrightarrow> List.map rep_id rs = check_all"

lemma check_passed_six:
  assumes "List.map rep_id rs = check_all"
  shows "permits_browsing \<lparr> cl_reports = rs, cl_observed_ip = x \<rparr> \<longleftrightarrow> (\<forall>r \<in> set rs. is_pass (rep_outcome r))"
proof -
  obtain a b c d e f where rs: "rs = [a, b, c, d, e, f]"
    using assms by (auto simp: check_all_def Cons_eq_map_conv map_eq_Cons_conv)
  have "permits_browsing \<lparr> cl_reports = rs, cl_observed_ip = x \<rparr> \<longleftrightarrow>
      list_all (check_passed \<lparr> cl_reports = rs, cl_observed_ip = x \<rparr>) check_all"
    by (auto simp: permits_browsing_iff list_all_iff)
  then show ?thesis using assms
    by (auto simp: rs check_all_def check_passed_def find_report_def)
qed

lemma bind_attempt_ret: "bind (attempt m) (\<lambda>r. ret (g r)) w = (Inr (g (fst (m w))), snd (m w))"
  by (simp add: bind_def attempt_def ret_def split: prod.splits)

lemma bind_Inr: "m w = (Inr x, w') \<Longrightarrow> bind m f w = f x w'"
  by (simp add: bind_def)

definition ip_checked :: "preflight_context \<Rightarrow> ip_observation option result \<Rightarrow> check_report \<times> ip_observation option" where
  "ip_checked ctx r = (case r of
      Inr (Some obs) \<Rightarrow> (ip_report ctx obs, Some obs)
    | Inr None \<Rightarrow>
        (report_fail PublicIpObserved ''no public IP could be observed from inside the session'', None)
    | Inl e \<Rightarrow>
        (report_fail PublicIpObserved
           (''public IP could not be observed ('' @ class_display (error_class e) @ '')''), None))"

lemma check_public_ip_eq:
  "check_public_ip p ctx w =
    (Inr (ip_checked ctx (fst (pr_observe_public_ip p ctx w))), snd (pr_observe_public_ip p ctx w))"
  unfolding check_public_ip_def ip_checked_def by (rule bind_attempt_ret)

lemma ip_checked_pass:
  "rep_id (fst (ip_checked ctx r)) = PublicIpObserved"
  "is_pass (rep_outcome (fst (ip_checked ctx r))) \<longleftrightarrow> good_ip ctx r"
  by (auto simp: ip_checked_def good_ip_def split: sum.splits option.splits)

text \<open>
  C8: the checklist is all-or-nothing and fail-closed.  A preflight run always yields a
  checklist, and that checklist permits browsing exactly when every probe, each run in the
  world its predecessor left, succeeded with a positive measurement, the exit address was
  observed through the tunnel and is neither flagged as nor equal to the host's, and the
  WebRTC policy is installed.  A probe that errs counts as a failed check.
\<close>

theorem preflight_permits_iff:
  fixes p :: "'w probe" and w :: 'w and ctx :: preflight_context
  defines "w1 \<equiv> snd (pr_gateway_reachable p ctx w)"
  defines "w2 \<equiv> snd (pr_tunnel_up p ctx w1)"
  defines "w3 \<equiv> snd (pr_dns_route_ok p ctx w2)"
  defines "w4 \<equiv> snd (pr_observe_public_ip p ctx w3)"
  shows "\<exists>cl t. run_preflight p ctx w = (Inr cl, t) \<and>
    (permits_browsing cl \<longleftrightarrow>
      fst (pr_gateway_reachable p ctx w) = Inr True \<and>
      fst (pr_tunnel_up p ctx w1) = Inr True \<and>
      fst (pr_dns_route_ok p ctx w2) = Inr True \<and>
      good_ip ctx (fst (pr_observe_public_ip p ctx w3)) \<and>
      pc_webrtc_policy_installed ctx \<and>
      fst (pr_ipv6_blocked p ctx w4) = Inr True)"
proof -
  obtain a where a: "check_gateway p ctx w = (Inr a, w1)" "rep_id a = GatewayReady"
      "is_pass (rep_outcome a) \<longleftrightarrow> fst (pr_gateway_reachable p ctx w) = Inr True"
    unfolding check_gateway_def bind_attempt_ret w1_def by simp
  obtain b where b: "check_tunnel p ctx w1 = (Inr b, w2)" "rep_id b = TunnelReady"
      "is_pass (rep_outcome b) \<longleftrightarrow> fst (pr_tunnel_up p ctx w1) = Inr True"
    unfolding check_tunnel_def bind_attempt_ret w2_def by simp
  obtain c where c: "check_dns p ctx w2 = (Inr c, w3)" "rep_id c = DnsRouteVerified"
      "is_pass (rep_outcome c) \<longleftrightarrow> fst (pr_dns_route_ok p ctx w2) = Inr True"
    unfolding check_dns_def bind_attempt_ret w3_def by simp
  obtain d obs where d: "check_public_ip p ctx w3 = (Inr (d, obs), w4)" "rep_id d = PublicIpObserved"
      "is_pass (rep_outcome d) \<longleftrightarrow> good_ip ctx (fst (pr_observe_public_ip p ctx w3))"
    unfolding check_public_ip_eq w4_def using ip_checked_pass by (metis prod.collapse)
  obtain f where f: "check_ipv6 p ctx w4 = (Inr f, snd (pr_ipv6_blocked p ctx w4))"
      "rep_id f = Ipv6PolicyVerified"
      "is_pass (rep_outcome f) \<longleftrightarrow> fst (pr_ipv6_blocked p ctx w4) = Inr True"
    unfolding check_ipv6_def bind_attempt_ret by simp
  let ?rs = "[a, b, c, d, check_webrtc ctx, f]"
  have "run_preflight p ctx w =
      (Inr \<lparr> cl_reports = ?rs, cl_observed_ip = obs \<rparr>, snd (pr_ipv6_blocked p ctx w4))"
    unfolding run_preflight_def
    by (simp add: bind_def a(1) b(1) c(1) d(1) f(1) Let_def ret_def checklist_new_def)
  moreover have "List.map rep_id ?rs = check_all"
    using a(2) b(2) c(2) d(2) f(2) by (simp add: check_all_def)
  ultimately show ?thesis
    using check_passed_six [of ?rs obs] a(3) b(3) c(3) d(3) f(3) by auto
qed

lemma system_probe_never_permits:
  "\<exists>cl. run_preflight (system_probe linux) ctx w = (Inr cl, w) \<and> \<not> permits_browsing cl \<and> cl_status cl = PS_None"
proof -
  have "\<exists>cl. run_preflight (system_probe linux) ctx w = (Inr cl, w) \<and> \<not> check_passed cl GatewayReady"
    by (auto simp: run_preflight_def check_gateway_def check_tunnel_def check_dns_def check_ipv6_def
        check_public_ip_def bind_def attempt_def ret_def system_probe_def throw_def Let_def checklist_new_def
        check_passed_def find_report_def boolean_report_def)
  then obtain cl where cl: "run_preflight (system_probe linux) ctx w = (Inr cl, w)" "\<not> check_passed cl GatewayReady" by blast
  moreover have "\<not> permits_browsing cl" using cl(2) permits_browsing_iff all_passed_iff by blast
  ultimately show ?thesis by (auto simp: cl_status_None_iff)
qed

end
