(* ===== verification/Dir_Walk.thy ===== *)
theory Dir_Walk
  imports Fs Core_Error "HOL-Library.Multiset_Order"
begin

text \<open>
  Walking a directory tree with an explicit stack, as \<^verbatim>\<open>FileProfileStore::dir_size\<close>
  (\<^verbatim>\<open>crates/profile-store/src/store.rs\<close>) and \<^verbatim>\<open>OverwriteShredder::shred_dir\<close>
  (\<^verbatim>\<open>crates/profile-store/src/shred.rs\<close>) do.  The loops terminate because every directory
  pushed is an existing directory with a longer path than the one popped: the multiset of
  the remaining lengths decreases.
\<close>

definition io_err :: "io_error \<Rightarrow> error" where
  "io_err e = System (''io: '' @ io_text e)"

definition json_err :: "string \<Rightarrow> error" where
  "json_err m = System (''json: '' @ m)"

definition entry_dirs :: "(path \<times> bool) list \<Rightarrow> path list" where
  "entry_dirs es = List.map fst (List.filter snd es)"

definition entry_files :: "(path \<times> bool) list \<Rightarrow> path list" where
  "entry_files es = List.map fst (List.filter (\<lambda>e. \<not> snd e) es)"

definition room :: "path list \<Rightarrow> path \<Rightarrow> nat" where
  "room ds p = Suc (fold (\<lambda>d m. max (length d) m) ds 0) - length p"

definition stack_measure :: "path list \<Rightarrow> path list \<Rightarrow> nat multiset" where
  "stack_measure ds ps = mset (List.map (room ds) ps)"

lemma fold_max_ge: "(m :: nat) \<le> fold (\<lambda>d m. max (length d) m) ds m"
  by (induction ds arbitrary: m) (auto intro: order_trans [OF max.cobounded2])

lemma fold_max_mem: "d \<in> set ds \<Longrightarrow> length d \<le> fold (\<lambda>d m. max (length d) m) ds m"
proof (induction ds arbitrary: m)
  case (Cons x ds)
  then show ?case using fold_max_ge [of "max (length x) m" ds] by auto
qed simp

lemma room_less: "d \<in> set ds \<Longrightarrow> length p < length d \<Longrightarrow> room ds d < room ds p"
  using fold_max_mem [of d ds 0] by (simp add: room_def)

lemma read_dir_dirs:
  "fs_read_dir p f = (Inr es, f') \<Longrightarrow> d \<in> set (entry_dirs es) \<Longrightarrow> d \<in> set (fs_dirs f) \<and> length p < length d"
  using path_parent_shorter [of d]
  by (auto simp: fs_read_dir_def with_fault_eq entry_dirs_def no_trace_def split: option.splits fault.splits if_splits)

lemma read_dir_same_dirs: "fs_read_dir p f = (r, f') \<Longrightarrow> fs_dirs f' = fs_dirs f"
  by (auto simp: fs_read_dir_def with_fault_eq no_trace_def split: option.splits fault.splits if_splits)

lemma stack_measure_push:
  assumes "\<forall>d \<in> set new. d \<in> set ds \<and> length p < length d"
  shows "stack_measure ds (new @ st) < stack_measure ds (p # st)"
proof -
  have "mset (List.map (room ds) new) < {#room ds p#}"
    by (rule ex_gt_imp_less_multiset) (use assms in \<open>auto intro: room_less\<close>)
  then show ?thesis by (simp add: stack_measure_def add_strict_right_mono)
qed

lemma stack_measure_pop: "stack_measure ds st < stack_measure ds (p # st)"
  using stack_measure_push [of "[]" ds p st] by simp

definition walk_rel :: "(('b \<times> fs \<times> path list) \<times> ('b \<times> fs \<times> path list)) set" where
  "walk_rel = {(x, y). fs_dirs (fst (snd x)) = fs_dirs (fst (snd y)) \<and>
    stack_measure (fs_dirs (fst (snd x))) (snd (snd x)) < stack_measure (fs_dirs (fst (snd y))) (snd (snd y))}"

lemma wf_walk_rel: "wf (walk_rel :: (('b \<times> fs \<times> path list) \<times> ('b \<times> fs \<times> path list)) set)"
proof -
  have "wf (inv_image {(M :: nat multiset, N). M < N}
      (\<lambda>x :: 'b \<times> fs \<times> path list. stack_measure (fs_dirs (fst (snd x))) (snd (snd x))))"
    by (rule wf_inv_image) (simp add: wf)
  then show ?thesis by (rule wf_subset) (auto simp: inv_image_def walk_rel_def)
qed

lemma walk_rel_pop:
  "fs_dirs f' = fs_dirs f \<Longrightarrow> ((a, f', st), (b, f, p # st)) \<in> walk_rel"
  by (simp add: walk_rel_def stack_measure_pop)

lemma walk_rel_push:
  "fs_dirs f' = fs_dirs f \<Longrightarrow> \<forall>d \<in> set new. d \<in> set (fs_dirs f) \<and> length p < length d \<Longrightarrow>
    ((a, f', new @ st), (b, f, p # st)) \<in> walk_rel"
  by (simp add: walk_rel_def stack_measure_push)

section \<open>The size of a tree\<close>

text \<open>The length of one file; a file that vanished counts nothing.  Sums saturate at 64 bits.\<close>

definition add_file_len :: "path \<Rightarrow> nat \<Rightarrow> (fs, error, nat) eff" where
  "add_file_len p acc =
    bind (attempt (fs_file_len p)) (\<lambda>r. case r of
      Inr n \<Rightarrow> ret (min (acc + n) (2 ^ 64 - 1))
    | Inl e \<Rightarrow> if io_kind e = IoNotFound then ret acc else throw (io_err e))"

fun add_file_lens :: "path list \<Rightarrow> nat \<Rightarrow> (fs, error, nat) eff" where
  "add_file_lens [] acc = ret acc"
| "add_file_lens (p # ps) acc = bind (add_file_len p acc) (add_file_lens ps)"

lemma add_file_len_dirs: "fs_dirs (snd (add_file_len p n f)) = fs_dirs f"
  by (auto simp: add_file_len_def bind_def attempt_def fs_file_len_def with_fault_eq no_trace_def ret_def throw_def
      split: option.splits fault.splits if_splits)

lemma add_file_lens_dirs: "fs_dirs (snd (add_file_lens ps n f)) = fs_dirs f"
proof (induction ps arbitrary: n f)
  case (Cons p ps)
  then show ?case using add_file_len_dirs [of p n f]
    by (auto simp: bind_def split: prod.splits sum.splits)
qed (simp add: ret_def)

function dir_size_walk :: "nat \<Rightarrow> fs \<Rightarrow> path list \<Rightarrow> nat result \<times> fs" where
  "dir_size_walk acc f [] = (Inr acc, f)"
| "dir_size_walk acc f (current # stack) =
    (case fs_read_dir current f of
       (Inl e, f1) \<Rightarrow>
         if io_kind e = IoNotFound then dir_size_walk acc f1 stack else (Inl (io_err e), f1)
     | (Inr es, f1) \<Rightarrow>
         (case add_file_lens (entry_files es) acc f1 of
            (Inl e, f2) \<Rightarrow> (Inl e, f2)
          | (Inr t, f2) \<Rightarrow> dir_size_walk t f2 (rev (entry_dirs es) @ stack)))"
  by pat_completeness auto
termination
proof (relation walk_rel, rule wf_walk_rel)
  fix acc f current stack x f1 e
  assume "(x, f1) = fs_read_dir current f" "x = Inl e" "io_kind e = IoNotFound"
  then have "fs_read_dir current f = (Inl e, f1)" by simp
  then have "fs_dirs f1 = fs_dirs f" by (rule read_dir_same_dirs)
  then show "((acc, f1, stack), (acc, f, current # stack)) \<in> walk_rel" by (rule walk_rel_pop)
next
  fix acc f current stack x f1 es y f2 t
  assume "(x, f1) = fs_read_dir current f" "x = Inr es"
    and "(y, f2) = add_file_lens (entry_files es) acc f1" "y = Inr t"
  then have r: "fs_read_dir current f = (Inr es, f1)" and a: "add_file_lens (entry_files es) acc f1 = (Inr t, f2)"
    by simp_all
  have "fs_dirs f2 = fs_dirs f"
    using read_dir_same_dirs [OF r] add_file_lens_dirs [of "entry_files es" acc f1] a by simp
  then show "((t, f2, rev (entry_dirs es) @ stack), (acc, f, current # stack)) \<in> walk_rel"
    by (rule walk_rel_push) (use read_dir_dirs [OF r] in auto)
qed

definition dir_size :: "path \<Rightarrow> (fs, error, nat) eff" where
  "dir_size d = (\<lambda>f. dir_size_walk 0 f [d])"

section \<open>Collecting the files of a tree\<close>

function collect_files :: "path list \<Rightarrow> fs \<Rightarrow> path list \<Rightarrow> path list result \<times> fs" where
  "collect_files files f [] = (Inr files, f)"
| "collect_files files f (current # stack) =
    (case fs_read_dir current f of
       (Inl e, f1) \<Rightarrow> (Inl (io_err e), f1)
     | (Inr es, f1) \<Rightarrow> collect_files (files @ entry_files es) f1 (rev (entry_dirs es) @ stack))"
  by pat_completeness auto
termination
proof (relation walk_rel, rule wf_walk_rel)
  fix files f current stack x f1 es
  assume "(x, f1) = fs_read_dir current f" "x = Inr es"
  then have r: "fs_read_dir current f = (Inr es, f1)" by simp
  show "((files @ entry_files es, f1, rev (entry_dirs es) @ stack), (files, f, current # stack)) \<in> walk_rel"
    by (rule walk_rel_push) (use read_dir_same_dirs [OF r] read_dir_dirs [OF r] in auto)
qed

end
