(* ===== verification/Profile_Store.thy ===== *)
theory Profile_Store
  imports Profile Dir_Walk "HOL-Library.Char_ord" "HOL-Library.List_Lexorder" "HOL-Library.Product_Lexorder"
begin

text \<open>
  \<^verbatim>\<open>crates/profile-store/src/store.rs\<close> and \<^verbatim>\<open>shred.rs\<close>: the file-backed profile repository.

  Parameters (\<^verbatim>\<open>store_params\<close>): the root directory, the JSON codec of a profile, the UUID
  parser, the number of overwrite passes, and the sources of ids, tokens, temporary names
  and time, which read the environment.  The in-process write guard has no effect in this
  sequential model and is left out.
\<close>

record 'e store_params =
  st_root :: path
  st_encode :: "profile \<Rightarrow> string + string"
  st_decode :: "string \<Rightarrow> string + profile"
  st_parse :: "string \<Rightarrow> string + uuid"
  st_passes :: nat
  st_new_uuid :: "'e \<Rightarrow> uuid \<times> 'e"
  st_new_token :: "'e \<Rightarrow> string \<times> 'e"
  st_now :: "'e \<Rightarrow> timestamp \<times> 'e"

record 'e store_world =
  sw_fs :: fs
  sw_env :: 'e

type_synonym ('e, 'a) store = "('e store_world, error, 'a) eff"

record profile_lease =
  pl_profile :: profile_id
  pl_token :: string

definition sfs :: "'a io \<Rightarrow> ('e store_world, io_error, 'a) eff" where
  "sfs m = zoom sw_fs sw_fs_update m"

definition sfs_q :: "'a io \<Rightarrow> ('e, 'a) store" where
  "sfs_q m = map_err io_err (sfs m)"

definition senv :: "('e \<Rightarrow> 'a \<times> 'e) \<Rightarrow> ('e, 'a) store" where
  "senv g = zoom sw_env sw_env_update (run_state g)"

definition profile_dir :: "'e store_params \<Rightarrow> profile_id \<Rightarrow> path" where
  "profile_dir P i = path_join (st_root P) (profile_display i)"

definition meta_path :: "'e store_params \<Rightarrow> profile_id \<Rightarrow> path" where
  "meta_path P i = path_join (profile_dir P i) ''profile.json''"

definition lock_path :: "'e store_params \<Rightarrow> profile_id \<Rightarrow> path" where
  "lock_path P i = path_join (profile_dir P i) ''profile.lock''"

definition data_dir :: "'e store_params \<Rightarrow> profile_id \<Rightarrow> path" where
  "data_dir P i = path_join (profile_dir P i) ''data''"

definition read_meta :: "'e store_params \<Rightarrow> profile_id \<Rightarrow> ('e, profile) store" where
  "read_meta P i =
    bind (attempt (sfs (fs_read (meta_path P i)))) (\<lambda>r. case r of
      Inl e \<Rightarrow>
        if io_kind e = IoNotFound then throw (NotFound (''profile '' @ profile_display i))
        else throw (io_err e)
    | Inr bytes \<Rightarrow> (case st_decode P bytes of
        Inl m \<Rightarrow> throw (Config (''corrupt profile metadata for '' @ profile_display i @ '': '' @ m))
      | Inr p \<Rightarrow> ret p))"

definition write_meta :: "'e store_params \<Rightarrow> profile \<Rightarrow> ('e, unit) store" where
  "write_meta P p =
    (let dir = profile_dir P (pr_id p) in
     seq (sfs_q (fs_create_dir_all dir))
     (bind (lift_res (case st_encode P p of Inl m \<Rightarrow> Inl (json_err m) | Inr j \<Rightarrow> Inr j)) (\<lambda>json.
      bind (senv (st_new_uuid P)) (\<lambda>u.
      let tmp_path = path_join dir (''.'' @ uuid_simple u @ ''.tmp'') in
      seq (sfs_q (fs_write tmp_path json))
      (bind (attempt (sfs (fs_rename tmp_path (meta_path P (pr_id p))))) (\<lambda>r. case r of
         Inr _ \<Rightarrow> ret ()
       | Inl e \<Rightarrow>
           seq (attempt (sfs (fs_remove_file tmp_path)) :: (_, error, _) eff)
           (throw (io_err e))))))))"

definition is_locked :: "'e store_params \<Rightarrow> profile_id \<Rightarrow> ('e, bool) store" where
  "is_locked P i =
    bind (attempt (sfs (fs_metadata (lock_path P i)))) (\<lambda>r. case r of
      Inr _ \<Rightarrow> ret True
    | Inl e \<Rightarrow> if io_kind e = IoNotFound then ret False else throw (io_err e))"

definition load_refreshed :: "'e store_params \<Rightarrow> profile_id \<Rightarrow> ('e, profile) store" where
  "load_refreshed P i =
    bind (read_meta P i) (\<lambda>p.
    bind (zoom sw_fs sw_fs_update (dir_size (profile_dir P i))) (\<lambda>n.
    bind (is_locked P i) (\<lambda>locked.
    ret (p\<lparr>pr_storage := \<lparr> su_bytes = of_nat n \<rparr>, pr_locked := locked\<rparr>))))"

definition apply_patch :: "profile_patch \<Rightarrow> profile_spec \<Rightarrow> profile_spec result" where
  "apply_patch patch spec =
    (let s1 = (case pa_name patch of None \<Rightarrow> spec | Some n \<Rightarrow> spec\<lparr>sp_name := n\<rparr>);
         s2 = (case pa_network patch of None \<Rightarrow> s1 | Some n \<Rightarrow> s1\<lparr>sp_network := n\<rparr>);
         s3 = (case pa_protection patch of None \<Rightarrow> s2 | Some l \<Rightarrow> s2\<lparr>sp_protection := l\<rparr>);
         s4 = (case pa_permissions patch of None \<Rightarrow> s3 | Some q \<Rightarrow> s3\<lparr>sp_permissions := q\<rparr>)
     in case spec_validate s4 of Inl e \<Rightarrow> Inl e | Inr _ \<Rightarrow> Inr s4)"

definition store_create :: "'e store_params \<Rightarrow> profile_spec \<Rightarrow> ('e, profile) store" where
  "store_create P spec =
    seq (lift_res (spec_validate spec))
    (bind (senv (st_new_uuid P)) (\<lambda>u.
     let i = ProfileId u in
     bind (attempt (sfs (fs_metadata (profile_dir P i)))) (\<lambda>r.
     if is_ok r then throw (Internal (''profile dir already exists for '' @ profile_display i))
     else
       seq (sfs_q (fs_create_dir_all (data_dir P i)))
       (bind (senv (st_now P)) (\<lambda>now.
        seq (write_meta P \<lparr> pr_id = i, pr_spec = spec, pr_created_at = now, pr_last_launched = None,
               pr_storage = \<lparr> su_bytes = 0 \<rparr>, pr_locked = False \<rparr>)
        (load_refreshed P i))))))"

definition store_get :: "'e store_params \<Rightarrow> profile_id \<Rightarrow> ('e, profile) store" where
  "store_get P i = load_refreshed P i"

fun list_entries :: "'e store_params \<Rightarrow> (path \<times> bool) list \<Rightarrow> ('e, profile list) store" where
  "list_entries P [] = ret []"
| "list_entries P ((p, isdir) # es) =
    (if \<not> isdir then list_entries P es
     else (case profile_from_str (st_parse P) (path_name p) of
         Inl _ \<Rightarrow> list_entries P es
       | Inr i \<Rightarrow>
           bind (attempt (load_refreshed P i)) (\<lambda>r. case r of
             Inr prof \<Rightarrow> bind (list_entries P es) (\<lambda>ps. ret (prof # ps))
           | Inl (NotFound _) \<Rightarrow> list_entries P es
           | Inl e \<Rightarrow> throw e)))"

definition store_list :: "'e store_params \<Rightarrow> ('e, profile list) store" where
  "store_list P =
    bind (attempt (sfs (fs_read_dir (st_root P)))) (\<lambda>r. case r of
      Inl e \<Rightarrow> if io_kind e = IoNotFound then ret [] else throw (io_err e)
    | Inr es \<Rightarrow>
        bind (list_entries P es) (\<lambda>ps.
        ret (sort_key (\<lambda>p. (- pr_created_at p, profile_display (pr_id p))) ps)))"

definition store_update :: "'e store_params \<Rightarrow> profile_id \<Rightarrow> profile_patch \<Rightarrow> ('e, profile) store" where
  "store_update P i patch =
    bind (read_meta P i) (\<lambda>p.
    seq (if \<not> patch_is_empty patch
         then bind (lift_res (apply_patch patch (pr_spec p))) (\<lambda>s. write_meta P (p\<lparr>pr_spec := s\<rparr>))
         else ret ())
    (load_refreshed P i))"

section \<open>Shredding\<close>

fun overwrite_passes :: "nat \<Rightarrow> path \<Rightarrow> nat \<Rightarrow> (fs, io_error, unit) eff" where
  "overwrite_passes 0 p len = ret ()"
| "overwrite_passes (Suc k) p len =
    seq fs_sync
    (seq (fs_overwrite p (replicate len (CHR 0x00)))
    (seq fs_sync
    (seq fs_sync
    (overwrite_passes k p len))))"

definition overwrite_file :: "nat \<Rightarrow> path \<Rightarrow> (fs, error, unit) eff" where
  "overwrite_file passes p =
    bind (attempt (fs_file_len p)) (\<lambda>r. case r of
      Inl e \<Rightarrow> if io_kind e = IoNotFound then ret () else throw (io_err e)
    | Inr len \<Rightarrow>
        if len = 0 then ret ()
        else map_err io_err (seq (fs_metadata p) (overwrite_passes passes p len)))"

definition shred_dir :: "nat \<Rightarrow> path \<Rightarrow> (fs, error, unit) eff" where
  "shred_dir passes dir =
    bind (gets (\<lambda>f. is_dir f dir)) (\<lambda>isdir.
    bind (attempt (fs_metadata dir)) (\<lambda>r. case r of
      Inl e \<Rightarrow> if io_kind e = IoNotFound then ret () else throw (io_err e)
    | Inr _ \<Rightarrow>
        if \<not> isdir then map_err io_err (fs_remove_file dir)
        else
          bind (\<lambda>f. collect_files [] f [dir]) (\<lambda>files.
          bind (mapM_e (overwrite_file passes) files) (\<lambda>_.
          map_err io_err (fs_remove_dir_all dir)))))"

definition store_delete :: "'e store_params \<Rightarrow> profile_id \<Rightarrow> ('e, unit) store" where
  "store_delete P i =
    (let dir = profile_dir P i in
     bind (attempt (sfs (fs_metadata dir))) (\<lambda>r.
     if \<not> is_ok r then throw (NotFound (''profile '' @ profile_display i))
     else zoom sw_fs sw_fs_update (shred_dir (max (st_passes P) 1) dir)))"

section \<open>The single-writer lock\<close>

definition acquire_lock :: "'e store_params \<Rightarrow> profile_id \<Rightarrow> ('e, profile_lease) store" where
  "acquire_lock P i =
    bind (attempt (sfs (fs_metadata (profile_dir P i)))) (\<lambda>r.
    if \<not> is_ok r then throw (NotFound (''profile '' @ profile_display i))
    else
      bind (senv (st_new_token P)) (\<lambda>token.
      bind (attempt (sfs (fs_create_new (lock_path P i)))) (\<lambda>o1. case o1 of
        Inr _ \<Rightarrow>
          seq (sfs_q (fs_overwrite (lock_path P i) token))
          (seq (sfs_q fs_sync)
          (ret \<lparr> pl_profile = i, pl_token = token \<rparr>))
      | Inl e \<Rightarrow>
          if io_kind e = IoAlreadyExists
          then throw (Busy (''profile '' @ profile_display i @ '' is already locked''))
          else throw (io_err e))))"

definition release_lock :: "'e store_params \<Rightarrow> profile_lease \<Rightarrow> ('e, unit) store" where
  "release_lock P lease =
    (let p = lock_path P (pl_profile lease) in
     bind (attempt (sfs (fs_read p))) (\<lambda>r. case r of
       Inl e \<Rightarrow>
         if io_kind e = IoNotFound
         then throw (Precondition (''profile '' @ profile_display (pl_profile lease) @ '' is not locked''))
         else throw (io_err e)
     | Inr held \<Rightarrow>
         if held \<noteq> pl_token lease
         then throw (Precondition (''lock token mismatch for profile '' @ profile_display (pl_profile lease)))
         else sfs_q (fs_remove_file p)))"

definition touch_launch :: "'e store_params \<Rightarrow> profile_id \<Rightarrow> timestamp \<Rightarrow> ('e, unit) store" where
  "touch_launch P i at =
    bind (read_meta P i) (\<lambda>p. write_meta P (p\<lparr>pr_last_launched := Some at\<rparr>))"

end
