(* ===== verification/Profile_Lock.thy ===== *)
theory Profile_Lock
  imports Profile_Store
begin

text \<open>
  The single-writer contract of the profile store: an interface locale for exclusive leases,
  its client theory (at most one live lease per resource over any run of acquisitions and
  releases), and its interpretation on the lock files of the store.
\<close>

locale lease_lock =
  fixes acquire :: "'i \<Rightarrow> 's \<Rightarrow> (error + 'l) \<times> 's"
    and release :: "'l \<Rightarrow> 's \<Rightarrow> (error + unit) \<times> 's"
    and holder :: "'s \<Rightarrow> 'i \<Rightarrow> 't option"
    and subject :: "'l \<Rightarrow> 'i"
    and token :: "'l \<Rightarrow> 't"
    and valid :: "'i \<Rightarrow> bool"
  assumes acquire_ok: "valid i \<Longrightarrow> acquire i s = (Inr l, s') \<Longrightarrow>
      holder s i = None \<and> holder s' i = Some (token l) \<and> subject l = i"
    and acquire_err: "valid i \<Longrightarrow> acquire i s = (Inl e, s') \<Longrightarrow> holder s i = Some t \<Longrightarrow> holder s' i = Some t"
    and acquire_other: "valid i \<Longrightarrow> valid j \<Longrightarrow> j \<noteq> i \<Longrightarrow> holder (snd (acquire i s)) j = holder s j"
    and release_ok: "valid (subject l) \<Longrightarrow> release l s = (Inr u, s') \<Longrightarrow>
      holder s (subject l) = Some (token l) \<and> holder s' (subject l) = None"
    and release_err: "valid (subject l) \<Longrightarrow> release l s = (Inl e, s') \<Longrightarrow>
      holder s' (subject l) = holder s (subject l)"
    and release_other: "valid (subject l) \<Longrightarrow> valid j \<Longrightarrow> j \<noteq> subject l \<Longrightarrow>
      holder (snd (release l s)) j = holder s j"
    and lease_eq: "subject l = subject m \<Longrightarrow> token l = token m \<Longrightarrow> l = m"
begin

text \<open>The states and the live leases that a run of lock operations reaches.\<close>

inductive lock_run :: "'s \<Rightarrow> 'l list \<Rightarrow> bool" where
  run_start: "lock_run s []"
| run_acquired: "lock_run s ls \<Longrightarrow> valid i \<Longrightarrow> acquire i s = (Inr l, s') \<Longrightarrow> lock_run s' (l # ls)"
| run_refused: "lock_run s ls \<Longrightarrow> valid i \<Longrightarrow> acquire i s = (Inl e, s') \<Longrightarrow> lock_run s' ls"
| run_released: "lock_run s ls \<Longrightarrow> valid (subject l) \<Longrightarrow> release l s = (Inr u, s') \<Longrightarrow> lock_run s' (removeAll l ls)"
| run_kept: "lock_run s ls \<Longrightarrow> valid (subject l) \<Longrightarrow> release l s = (Inl e, s') \<Longrightarrow> lock_run s' ls"

lemma run_inv:
  "lock_run s ls \<Longrightarrow>
    (\<forall>l \<in> set ls. valid (subject l) \<and> holder s (subject l) = Some (token l)) \<and> distinct (List.map subject ls)"
proof (induction rule: lock_run.induct)
  case (run_start s)
  then show ?case by simp
next
  case (run_acquired s ls i l s')
  note a = acquire_ok [OF run_acquired.hyps(2,3)]
  have free: "subject m \<noteq> i" if "m \<in> set ls" for m
    using run_acquired.IH that a by auto
  have "holder s' (subject m) = Some (token m)" if "m \<in> set ls" for m
    using acquire_other [OF run_acquired.hyps(2), of "subject m" s] run_acquired free [OF that] that by auto
  then show ?case using run_acquired a free by auto
next
  case (run_refused s ls i e s')
  have "holder s' (subject m) = Some (token m)" if "m \<in> set ls" for m
  proof (cases "subject m = i")
    case True
    then show ?thesis using acquire_err [OF run_refused.hyps(2,3)] run_refused.IH that by auto
  next
    case False
    then show ?thesis
      using acquire_other [OF run_refused.hyps(2), of "subject m" s] run_refused that by auto
  qed
  then show ?case using run_refused by auto
next
  case (run_released s ls l u s')
  note r = release_ok [OF run_released.hyps(2,3)]
  have "holder s' (subject m) = Some (token m)" if "m \<in> set ls" "m \<noteq> l" for m
  proof -
    have "subject m \<noteq> subject l"
      using run_released.IH that r lease_eq [of m l] by auto
    then show ?thesis
      using release_other [OF run_released.hyps(2), of "subject m" s] run_released that by auto
  qed
  then show ?case using run_released by (auto simp: removeAll_filter_not_eq distinct_map_filter)
next
  case (run_kept s ls l e s')
  have "holder s' (subject m) = Some (token m)" if "m \<in> set ls" for m
  proof (cases "subject m = subject l")
    case True
    then show ?thesis using release_err [OF run_kept.hyps(2,3)] run_kept.IH that by auto
  next
    case False
    then show ?thesis
      using release_other [OF run_kept.hyps(2), of "subject m" s] run_kept that by auto
  qed
  then show ?case using run_kept by auto
qed

lemma exclusive: "lock_run s ls \<Longrightarrow> l \<in> set ls \<Longrightarrow> m \<in> set ls \<Longrightarrow> subject l = subject m \<Longrightarrow> l = m"
  using run_inv lease_eq by (metis option.inject)

lemma held_blocks: "lock_run s ls \<Longrightarrow> l \<in> set ls \<Longrightarrow> \<not> is_ok (fst (acquire (subject l) s))"
  using run_inv acquire_ok by (metis is_ok_iff option.distinct(1) prod.collapse)

end

section \<open>The lock files\<close>

definition lock_holder :: "'e store_params \<Rightarrow> 'e store_world \<Rightarrow> profile_id \<Rightarrow> string option" where
  "lock_holder P w i = tab_get (fs_files (sw_fs w)) (lock_path P i)"

fun wf_profile_id :: "profile_id \<Rightarrow> bool" where
  "wf_profile_id (ProfileId u) = wf_uuid u"

lemma path_join_inj:
  "path_join a b = path_join a c \<Longrightarrow> \<not> starts_with b ''/'' \<Longrightarrow> \<not> starts_with c ''/'' \<Longrightarrow> b = c"
  by (auto simp: path_join_def split: if_splits)

lemma display_no_slash: "wf_profile_id i \<Longrightarrow> \<not> starts_with (profile_display i) ''/''"
proof (cases i)
  case (ProfileId u)
  assume "wf_profile_id i"
  then have u: "length (uuid_simple u) = 32" "list_all hex_digit (uuid_simple u)"
    using ProfileId by (simp_all add: wf_uuid_def)
  then obtain c r where c: "uuid_simple u = c # r" by (cases "uuid_simple u") auto
  then have "c \<noteq> CHR ''/''" using u(2) by (auto simp: hex_digit_def Let_def)
  moreover have "8 = Suc 7" by simp
  ultimately show ?thesis using c ProfileId by (simp add: uuid_display_def Let_def)
qed

lemma lock_path_join: "lock_path P i = path_join (profile_dir P i) ''profile.lock''"
  by (simp add: lock_path_def)

lemma profile_dir_inj:
  assumes "wf_profile_id i" "wf_profile_id j" "profile_dir P i = profile_dir P j"
  shows "i = j"
proof -
  have "profile_display i = profile_display j"
    using path_join_inj [OF assms(3) [unfolded profile_dir_def]] display_no_slash assms(1,2) by blast
  then show ?thesis using assms(1,2) uuid_display_inj by (cases i; cases j) simp
qed

lemma join_suffix: "\<not> starts_with n ''/'' \<Longrightarrow> n \<noteq> [] \<Longrightarrow> a \<noteq> [] \<Longrightarrow> \<not> ends_with a ''/'' \<Longrightarrow>
    path_join a n = a @ ''/'' @ n"
  by (simp add: path_join_def)

lemma display_ends: "wf_profile_id i \<Longrightarrow> profile_display i \<noteq> [] \<and> last (profile_display i) \<noteq> CHR ''/''"
proof (cases i)
  case (ProfileId u)
  assume "wf_profile_id i"
  then have u: "length (uuid_simple u) = 32" "list_all hex_digit (uuid_simple u)"
    using ProfileId by (simp_all add: wf_uuid_def)
  then have d: "drop 20 (uuid_simple u) \<noteq> []" by auto
  then have "last (drop 20 (uuid_simple u)) \<in> set (uuid_simple u)" by (meson in_set_dropD last_in_set)
  then have "last (drop 20 (uuid_simple u)) \<noteq> CHR ''/''"
    using u(2) by (auto simp: list_all_iff hex_digit_def Let_def)
  then show ?thesis using d ProfileId by (simp add: uuid_display_def Let_def)
qed

lemma profile_dir_ends: "wf_profile_id i \<Longrightarrow> profile_dir P i \<noteq> [] \<and> \<not> ends_with (profile_dir P i) ''/''"
proof -
  assume wf: "wf_profile_id i"
  then obtain p where p: "profile_dir P i = p @ profile_display i"
    using path_join_rel display_no_slash by (metis profile_dir_def)
  then have "profile_dir P i \<noteq> []" "last (profile_dir P i) \<noteq> CHR ''/''"
    using display_ends [OF wf] by simp_all
  then show ?thesis by (auto simp: ends_with_iff)
qed

lemma lock_path_eq: "wf_profile_id i \<Longrightarrow> lock_path P i = profile_dir P i @ ''/profile.lock''"
  using join_suffix [of "''profile.lock''" "profile_dir P i"] profile_dir_ends [of i P]
  by (simp add: lock_path_def)

lemma lock_path_inj: "wf_profile_id i \<Longrightarrow> wf_profile_id j \<Longrightarrow> lock_path P i = lock_path P j \<Longrightarrow> i = j"
  using profile_dir_inj [of i j P] by (simp add: lock_path_eq)

lemma wp_sfs [wp_simps]:
  "wp (sfs m) Q E = (\<lambda>w. wp m (\<lambda>x s. Q x (w\<lparr>sw_fs := s\<rparr>)) (\<lambda>e s. E e (w\<lparr>sw_fs := s\<rparr>)) (sw_fs w))"
  by (simp add: sfs_def wp_simps)

lemma wp_sfs_q [wp_simps]:
  "wp (sfs_q m) Q E = (\<lambda>w. wp m (\<lambda>x s. Q x (w\<lparr>sw_fs := s\<rparr>)) (\<lambda>e s. E (io_err e) (w\<lparr>sw_fs := s\<rparr>)) (sw_fs w))"
  by (simp add: sfs_q_def wp_simps)

lemma wp_senv [wp_simps]:
  "wp (senv g) Q E w = Q (fst (g (sw_env w))) (w\<lparr>sw_env := snd (g (sw_env w))\<rparr>)"
  by (simp add: senv_def wp_simps split: prod.splits)

text \<open>The files other than the lock of a profile.\<close>

definition same_except :: "path \<Rightarrow> 'e store_world \<Rightarrow> 'e store_world \<Rightarrow> bool" where
  "same_except p w t \<longleftrightarrow> (\<forall>q. q \<noteq> p \<longrightarrow> tab_get (fs_files (sw_fs t)) q = tab_get (fs_files (sw_fs w)) q)"

lemma wp_acquire:
  "wp (acquire_lock P i)
    (\<lambda>l t. lock_holder P w i = None \<and> lock_holder P t i = Some (pl_token l) \<and> pl_profile l = i
       \<and> same_except (lock_path P i) w t)
    (\<lambda>e t. (\<forall>b. lock_holder P w i = Some b \<longrightarrow> lock_holder P t i = Some b)
       \<and> same_except (lock_path P i) w t) w"
  by (auto simp: acquire_lock_def wp_simps fs_wp lock_holder_def same_except_def is_file_def
      partial_file_other io_exists_def io_not_found_def split: option.splits fault.splits)

lemma wp_release:
  "wp (release_lock P l)
    (\<lambda>_ t. lock_holder P w (pl_profile l) = Some (pl_token l) \<and> lock_holder P t (pl_profile l) = None
       \<and> same_except (lock_path P (pl_profile l)) w t)
    (\<lambda>e t. lock_holder P t (pl_profile l) = lock_holder P w (pl_profile l)
       \<and> same_except (lock_path P (pl_profile l)) w t) w"
  by (auto simp: release_lock_def wp_simps fs_wp lock_holder_def same_except_def is_file_def Let_def
      io_not_found_def io_is_dir_def split: option.splits fault.splits)

lemma same_except_holder:
  "same_except (lock_path P i) w t \<Longrightarrow> wf_profile_id i \<Longrightarrow> wf_profile_id j \<Longrightarrow> j \<noteq> i \<Longrightarrow>
    lock_holder P t j = lock_holder P w j"
  using lock_path_inj [of j i P] by (auto simp: same_except_def lock_holder_def)

interpretation profile_lock: lease_lock "acquire_lock P" "release_lock P" "lock_holder P"
  "pl_profile :: profile_lease \<Rightarrow> profile_id" pl_token wf_profile_id
proof unfold_locales
  fix i s l s'
  assume "acquire_lock P i s = (Inr l, s')"
  from wp_ok [OF wp_acquire this]
  show "lock_holder P s i = None \<and> lock_holder P s' i = Some (pl_token l) \<and> pl_profile l = i" by simp
next
  fix i s e s' t
  assume a: "acquire_lock P i s = (Inl e, s')" and "lock_holder P s i = Some t"
  then show "lock_holder P s' i = Some t" using wp_err [OF wp_acquire a] by simp
next
  fix i j s
  assume v: "wf_profile_id i" "wf_profile_id j" "j \<noteq> i"
  have "wp (acquire_lock P i) (\<lambda>_. same_except (lock_path P i) s) (\<lambda>_. same_except (lock_path P i) s) s"
    by (rule wp_mono [OF wp_acquire]) auto
  from wp_state [OF this] show "lock_holder P (snd (acquire_lock P i s)) j = lock_holder P s j"
    using v by (auto intro: same_except_holder)
next
  fix l s u s'
  assume "release_lock P l s = (Inr u, s')"
  from wp_ok [OF wp_release this]
  show "lock_holder P s (pl_profile l) = Some (pl_token l) \<and> lock_holder P s' (pl_profile l) = None" by simp
next
  fix l s e s'
  assume "release_lock P l s = (Inl e, s')"
  from wp_err [OF wp_release this]
  show "lock_holder P s' (pl_profile l) = lock_holder P s (pl_profile l)" by simp
next
  fix l :: profile_lease and j s
  assume v: "wf_profile_id (pl_profile l)" "wf_profile_id j" "j \<noteq> pl_profile l"
  have "wp (release_lock P l) (\<lambda>_. same_except (lock_path P (pl_profile l)) s)
      (\<lambda>_. same_except (lock_path P (pl_profile l)) s) s"
    by (rule wp_mono [OF wp_release]) auto
  from wp_state [OF this] show "lock_holder P (snd (release_lock P l s)) j = lock_holder P s j"
    using v by (auto intro: same_except_holder)
next
  fix l m :: profile_lease
  show "pl_profile l = pl_profile m \<Longrightarrow> pl_token l = pl_token m \<Longrightarrow> l = m" by (cases l; cases m) simp
qed

text \<open>
  Runs of acquisitions and releases on the store, by any clients in any order, with the
  leases that are live: acquired and not yet successfully released.
\<close>

inductive store_run :: "'e store_params \<Rightarrow> 'e store_world \<Rightarrow> profile_lease list \<Rightarrow> bool" for P where
  store_start: "store_run P w []"
| store_acquired: "store_run P w ls \<Longrightarrow> wf_profile_id i \<Longrightarrow> acquire_lock P i w = (Inr l, w') \<Longrightarrow>
    store_run P w' (l # ls)"
| store_refused: "store_run P w ls \<Longrightarrow> wf_profile_id i \<Longrightarrow> acquire_lock P i w = (Inl e, w') \<Longrightarrow>
    store_run P w' ls"
| store_released: "store_run P w ls \<Longrightarrow> wf_profile_id (pl_profile l) \<Longrightarrow>
    release_lock P l w = (Inr u, w') \<Longrightarrow> store_run P w' (removeAll l ls)"
| store_kept: "store_run P w ls \<Longrightarrow> wf_profile_id (pl_profile l) \<Longrightarrow>
    release_lock P l w = (Inl e, w') \<Longrightarrow> store_run P w' ls"

lemma store_run_lock_run: "store_run P w ls \<Longrightarrow> profile_lock.lock_run P w ls"
  by (induction rule: store_run.induct)
     (auto intro: profile_lock.run_start profile_lock.run_acquired profile_lock.run_refused
        profile_lock.run_released profile_lock.run_kept)

text \<open>
  A profile has at most one session lease.  In any run of lock acquisitions and
  releases on the store, under any schedule of I/O faults: two live leases for the same
  profile are the same lease, and while a lease is live every further acquisition of its
  profile fails.
\<close>

lemma profile_lease_exclusive:
  assumes "store_run P w ls" and "l \<in> set ls"
  shows "(\<forall>m. m \<in> set ls \<and> pl_profile m = pl_profile l \<longrightarrow> m = l) \<and>
         \<not> is_ok (fst (acquire_lock P (pl_profile l) w))"
  using profile_lock.exclusive profile_lock.held_blocks store_run_lock_run assms by metis

definition sample_store :: "nat store_params" where
  "sample_store = \<lparr> st_root = ''/p'',
     st_encode = (\<lambda>p. Inr ''{}''), st_decode = (\<lambda>s. Inl ''eof''), st_parse = (\<lambda>s. Inr (Uuid s)),
     st_passes = 1,
     st_new_uuid = (\<lambda>n. (Uuid ''ffffffffffffffffffffffffffffffff'', Suc n)),
     st_new_token = (\<lambda>n. (dec n, Suc n)), st_now = (\<lambda>n. (int n, n)) \<rparr>"

definition sample_profile :: profile_id where
  "sample_profile = ProfileId (Uuid ''0123456789abcdef0123456789abcdef'')"

definition sample_store_world :: "nat store_world" where
  "sample_store_world = \<lparr> sw_fs = \<lparr> fs_files = [], fs_dirs = [''/p'', profile_dir sample_store sample_profile],
     fs_faults = [] \<rparr>, sw_env = 7 \<rparr>"

lemma profile_lease_exclusive_witness:
  "\<exists>l w. acquire_lock sample_store sample_profile sample_store_world = (Inr l, w) \<and>
     \<not> is_ok (fst (acquire_lock sample_store sample_profile w))"
proof -
  have wf: "wf_profile_id sample_profile"
    by (simp add: sample_profile_def wf_uuid_def hex_digit_def)
  have par: "path_parent (lock_path sample_store sample_profile) = profile_dir sample_store sample_profile"
    using lock_path_eq [OF wf, of sample_store] profile_dir_ends [OF wf, of sample_store]
    by (simp add: path_parent_def)
  have nodir: "lock_path sample_store sample_profile \<notin> set [''/p'', profile_dir sample_store sample_profile]"
    using lock_path_eq [OF wf, of sample_store]
    by (auto simp: profile_dir_def sample_store_def path_join_def ends_with_def)
  have ne: "lock_path sample_store sample_profile \<noteq> []" using lock_path_eq [OF wf, of sample_store] by simp
  have "wp (acquire_lock sample_store sample_profile) (\<lambda>_ _. True) (\<lambda>_ _. False) sample_store_world"
    using nodir ne
    by (simp add: acquire_lock_def wp_simps fs_wp sample_store_world_def fault_of_def is_dir_def is_file_def
        tick_def par)
  then obtain l w where ok: "acquire_lock sample_store sample_profile sample_store_world = (Inr l, w)"
    by (cases "acquire_lock sample_store sample_profile sample_store_world")
       (auto simp: wp_def split: sum.splits)
  then have "store_run sample_store w [l]" by (intro store_acquired [OF store_start wf])
  moreover have "pl_profile l = sample_profile" using wp_ok [OF wp_acquire ok] by simp
  ultimately show ?thesis using ok profile_lease_exclusive [of sample_store w "[l]" l] by auto
qed

end
