(* ===== verification/Browser.thy ===== *)
theory Browser
  imports Config Permissions
begin

text \<open>
  \<^verbatim>\<open>crates/aegis-core/src/browser.rs\<close>: launch requests, rendered policy bundles and their
  safety assertion.  A \<^verbatim>\<open>serde_json::Value\<close> is the datatype \<^verbatim>\<open>json\<close>.
\<close>

datatype json =
    JNull
  | JBool bool
  | JNum int
  | JStr string
  | JArr "json list"
  | JObj "(string \<times> json) list"

fun json_get :: "string \<Rightarrow> json \<Rightarrow> json option" where
  "json_get k (JObj kvs) = tab_get kvs k"
| "json_get k _ = None"

record backend_capabilities =
  bc_letterboxing :: bool
  bc_site_isolation :: bool
  bc_renderer_sandbox :: bool
  bc_webrtc_policy :: bool

record launch_request =
  lr_session :: session_id
  lr_profile :: profile_id
  lr_user_data_dir :: path
  lr_fingerprint :: fingerprint_policy
  lr_permissions :: permission_policy
  lr_proxy_endpoint :: string
  lr_render_mode :: render_mode
  lr_production :: bool

record policy_bundle =
  pb_backend :: browser_backend
  pb_managed_policies :: "(string \<times> json) list"
  pb_command_line :: "string list"
  pb_preferences :: "(string \<times> json) list"

definition forbidden_flags :: "string list" where
  "forbidden_flags = [''--no-sandbox'', ''--disable-web-security'', ''--disable-site-isolation-trials'']"

definition flag_forbidden :: "string \<Rightarrow> bool" where
  "flag_forbidden arg = list_ex (\<lambda>bad. arg = bad \<or> starts_with arg (bad @ ''='')) forbidden_flags"

fun assert_safe_args :: "bool \<Rightarrow> string list \<Rightarrow> unit result" where
  "assert_safe_args production [] = Inr ()"
| "assert_safe_args production (arg # args) =
    (if flag_forbidden arg then Inl (Config (''forbidden browser flag: '' @ arg))
     else if production \<and> starts_with arg ''--remote-debugging''
       then Inl (Config ''remote debugging must not be enabled in production builds'')
     else assert_safe_args production args)"

definition assert_safe :: "policy_bundle \<Rightarrow> bool \<Rightarrow> unit result" where
  "assert_safe b production = assert_safe_args production (pb_command_line b)"

record browser_handle =
  bh_session :: session_id
  bh_backend :: browser_backend
  bh_process_token :: string

lemma assert_safe_args_ok:
  "assert_safe_args production args = Inr () \<longleftrightarrow>
    (\<forall>a \<in> set args. \<not> flag_forbidden a \<and> \<not> (production \<and> starts_with a ''--remote-debugging''))"
  by (induction args) auto

lemma assert_safe_args_error:
  "assert_safe_args production args = Inl e \<Longrightarrow> error_class e = FC_Configuration"
  by (induction args) (auto split: if_splits)

lemma assert_safe_args_append:
  "assert_safe_args production (xs @ ys) = Inr () \<longleftrightarrow>
    assert_safe_args production xs = Inr () \<and> assert_safe_args production ys = Inr ()"
  by (auto simp: assert_safe_args_ok)

lemma flag_forbidden_iff:
  "flag_forbidden a \<longleftrightarrow> (\<exists>bad \<in> set forbidden_flags. a = bad \<or> (\<exists>v. a = bad @ ''='' @ v))"
  by (auto simp: flag_forbidden_def list_ex_iff starts_with_iff)

end
