(* ===== verification/Update.thy ===== *)
theory Update
  imports Core_Ids
begin

text \<open>
  \<^verbatim>\<open>crates/aegis-core/src/update.rs\<close>: versions with their total order, manifests and
  artifacts.
\<close>

datatype version = Version (v_major: "32 word") (v_minor: "32 word") (v_patch: "32 word")

fun version_key :: "version \<Rightarrow> nat \<times> nat \<times> nat" where
  "version_key (Version a b c) = (unat a, unat b, unat c)"

fun version_less :: "version \<Rightarrow> version \<Rightarrow> bool" where
  "version_less (Version a b c) (Version a' b' c') =
    (a < a' \<or> (a = a' \<and> (b < b' \<or> (b = b' \<and> c < c'))))"

instantiation version :: linorder
begin

definition less_version :: "version \<Rightarrow> version \<Rightarrow> bool" where
  "less_version v w = version_less v w"

definition less_eq_version :: "version \<Rightarrow> version \<Rightarrow> bool" where
  "less_eq_version v w = (version_less v w \<or> v = w)"

instance
proof
  fix u v w :: version
  show "(v < w) = (v \<le> w \<and> \<not> w \<le> v)"
    by (cases v; cases w) (auto simp: less_version_def less_eq_version_def)
  show "v \<le> v" by (simp add: less_eq_version_def)
  show "u \<le> v \<Longrightarrow> v \<le> w \<Longrightarrow> u \<le> w"
    by (cases u; cases v; cases w) (auto simp: less_eq_version_def)
  show "v \<le> w \<Longrightarrow> w \<le> v \<Longrightarrow> v = w"
    by (cases v; cases w) (auto simp: less_eq_version_def)
  show "v \<le> w \<or> w \<le> v"
    by (cases v; cases w) (auto simp: less_eq_version_def)
qed

end

definition is_newer_than :: "version \<Rightarrow> version \<Rightarrow> bool" where
  "is_newer_than v w = (w < v)"

definition version_display :: "version \<Rightarrow> string" where
  "version_display v =
    dec (unat (v_major v)) @ ''.'' @ dec (unat (v_minor v)) @ ''.'' @ dec (unat (v_patch v))"

text \<open>\<^verbatim>\<open>splitn(3, '.')\<close>: at most two splits, the rest stays in the last piece.\<close>

fun splitn :: "nat \<Rightarrow> char \<Rightarrow> string \<Rightarrow> string list" where
  "splitn 0 sep s = []"
| "splitn (Suc 0) sep s = [s]"
| "splitn (Suc (Suc n)) sep s =
    (let p = takeWhile (\<lambda>c. c \<noteq> sep) s; r = dropWhile (\<lambda>c. c \<noteq> sep) s
     in case r of [] \<Rightarrow> [p] | _ # t \<Rightarrow> p # splitn (Suc n) sep t)"

definition parse_u32 :: "string \<Rightarrow> 32 word option" where
  "parse_u32 s = (case parse_uint (2 ^ 32 - 1) s of None \<Rightarrow> None | Some n \<Rightarrow> Some (of_nat n))"

definition next_component :: "string \<Rightarrow> string list \<Rightarrow> (32 word \<times> string list) result" where
  "next_component s it = (case it of
      [] \<Rightarrow> Inl (Config (''invalid version: '' @ s))
    | p # rest \<Rightarrow> (case parse_u32 p of
          None \<Rightarrow> Inl (Config (''invalid version component in: '' @ s))
        | Some w \<Rightarrow> Inr (w, rest)))"

definition version_from_str :: "string \<Rightarrow> version result" where
  "version_from_str s =
    try_res (next_component s (splitn 3 CHR ''.'' (trim s))) (\<lambda>(a, r1).
    try_res (next_component s r1) (\<lambda>(b, r2).
    try_res (next_component s r2) (\<lambda>(c, _).
    Inr (Version a b c))))"

datatype artifact_kind = GatewayImage | BrowserImage | AppPackage

record artifact =
  ar_kind :: artifact_kind
  ar_location :: string
  ar_sha256 :: string
  ar_size :: "64 word"

datatype update_kind = Full | Delta

record update_manifest =
  um_schema :: "32 word"
  um_version :: version
  um_delta_base :: "version option"
  um_kind :: update_kind
  um_artifacts :: "artifact list"
  um_sbom :: "string option"
  um_signature :: string

record verified_artifact =
  va_version :: version
  va_artifacts :: "artifact list"

datatype apply_outcome = Applied | RolledBack

record version_info =
  vi_current :: version

lemma version_less_key: "v < w \<longleftrightarrow> version_less v w"
  by (simp add: less_version_def)

lemma zero_version_least: "\<not> v < Version 0 0 0"
  by (cases v) (simp add: less_version_def)

lemma newer_than_zero: "is_newer_than v (Version 0 0 0) \<longleftrightarrow> v \<noteq> Version 0 0 0"
  by (cases v) (auto simp: is_newer_than_def less_version_def word_gt_0)

lemma parse_u32_dec: "parse_u32 (dec (unat w)) = Some w"
proof -
  have "unat w \<le> 2 ^ 32 - 1" using unsigned_less [of w, where 'a = nat] by simp
  then have "parse_uint (2 ^ 32 - 1) (dec (unat w)) = Some (unat w)" by (rule parse_uint_dec)
  then show ?thesis by (simp add: parse_u32_def)
qed

lemma dec_no_dot: "CHR ''.'' \<notin> set (dec n)"
  using dec_digits [of "CHR ''.''" n] by auto

lemma splitn_version:
  "splitn 3 CHR ''.'' (dec a @ ''.'' @ dec b @ ''.'' @ dec c) = [dec a, dec b, dec c]"
proof -
  have tw: "takeWhile (\<lambda>x. x \<noteq> CHR ''.'') (dec n @ CHR ''.'' # t) = dec n" for n t
    using dec_no_dot [of n] by (subst takeWhile_append2) auto
  have dw: "dropWhile (\<lambda>x. x \<noteq> CHR ''.'') (dec n @ CHR ''.'' # t) = CHR ''.'' # t" for n t
    using dec_no_dot [of n] by (subst dropWhile_append2) auto
  have three: "(3 :: nat) = Suc (Suc (Suc 0))" by simp
  show ?thesis unfolding three by (simp add: Let_def tw dw)
qed

end
