(* ===== verification/Update_Client.thy ===== *)
theory Update_Client
  imports Update Fs
begin

text \<open>
  \<^verbatim>\<open>crates/update-client/src/lib.rs\<close>: the signed update client.

  SHA-256, hexadecimal decoding, ed25519 and the JSON codec are outside the repository and are
  fields of \<^verbatim>\<open>update_params\<close>, as is the transport the client was built with.  The state is the
  file system, the environment of the transport, and \<^verbatim>\<open>uc_backups\<close>, the local list of backup
  records of \<^verbatim>\<open>apply\<close>.  Bytes are characters.
\<close>

record backup =
  bk_target :: path
  bk_backup :: "path option"
  bk_wrote_new :: bool

record 'e uc_world =
  uc_fs :: fs
  uc_env :: 'e
  uc_backups :: "backup list"

type_synonym ('e, 'a) uc = "('e uc_world, error, 'a) eff"

record ('e, 'k) update_params =
  up_fetch :: "string \<Rightarrow> ('e, string) uc"
  up_sha256 :: "string \<Rightarrow> string"
  up_unhex :: "string \<Rightarrow> string option"
  up_key_of :: "string \<Rightarrow> 'k option"
  up_verify :: "'k \<Rightarrow> string \<Rightarrow> string \<Rightarrow> bool"
  up_to_json :: "update_manifest \<Rightarrow> string option"
  up_of_json :: "string \<Rightarrow> string + update_manifest"

record 'k update_client =
  cl_base_location :: string
  cl_verifying_key :: 'k
  cl_install_dir :: "path option"

definition ufs :: "(fs, 'x, 'a) eff \<Rightarrow> ('e uc_world, 'x, 'a) eff" where
  "ufs m = zoom uc_fs uc_fs_update m"

section \<open>Paths and transports\<close>

text \<open>
  \<^verbatim>\<open>Path::components\<close> without the root: the pieces between separators, empty and \<^verbatim>\<open>.\<close> pieces
  dropped.  \<^verbatim>\<open>Path::file_name\<close> is the last one unless it is \<^verbatim>\<open>..\<close>.
\<close>

definition path_comps :: "path \<Rightarrow> string list" where
  "path_comps p = List.filter (\<lambda>c. c \<noteq> [] \<and> c \<noteq> ''.'') (split_on CHR ''/'' p)"

definition file_name :: "path \<Rightarrow> string option" where
  "file_name p = (case rev (path_comps p) of
      [] \<Rightarrow> None
    | c # _ \<Rightarrow> if c = ''..'' then None else Some c)"

definition file_resolve :: "path \<Rightarrow> string \<Rightarrow> path result" where
  "file_resolve base location =
    (if starts_with location ''/''
     then Inl (System (''file transport: absolute location rejected: '' @ location))
     else if List.member (path_comps location) ''..''
     then Inl (System (''file transport: parent-dir escape rejected: '' @ location))
     else Inr (path_join base location))"

definition file_fetch :: "path \<Rightarrow> string \<Rightarrow> ('e, string) uc" where
  "file_fetch base location =
    bind (lift_res (file_resolve base location)) (\<lambda>p.
    map_err (\<lambda>e. System (''file transport: read '' @ p @ '': '' @ io_text e)) (ufs (fs_read p)))"

text \<open>The in-memory transport: a table from locations to bytes.\<close>

definition mock_fetch :: "(string \<times> string) list \<Rightarrow> string \<Rightarrow> ('e, string) uc" where
  "mock_fetch entries location = lift_res (case tab_get entries location of
      None \<Rightarrow> Inl (System (''mock transport: no entry for '' @ location))
    | Some b \<Rightarrow> Inr b)"

definition trim_end_slashes :: "string \<Rightarrow> string" where
  "trim_end_slashes s = rev (dropWhile (\<lambda>c. c = CHR ''/'') (rev s))"

definition trim_start_slashes :: "string \<Rightarrow> string" where
  "trim_start_slashes s = dropWhile (\<lambda>c. c = CHR ''/'') s"

definition resolve_url :: "string \<Rightarrow> string \<Rightarrow> string" where
  "resolve_url base_url location =
    (if starts_with location ''http://'' \<or> starts_with location ''https://'' then location
     else trim_end_slashes base_url @ ''/'' @ trim_start_slashes location)"

text \<open>
  The HTTP transport over a request function that yields the response body.  At most
  \<^verbatim>\<open>max_bytes + 1\<close> bytes are read.
\<close>

definition ureq_fetch ::
  "(string \<Rightarrow> 'e \<Rightarrow> (string + string) \<times> 'e) \<Rightarrow> 64 word \<Rightarrow> string \<Rightarrow> string \<Rightarrow> ('e, string) uc" where
  "ureq_fetch get max_bytes base_url location =
    bind (map_err System (zoom uc_env uc_env_update (get (resolve_url base_url location)))) (\<lambda>body.
    let limit = (if max_bytes = - 1 then max_bytes else max_bytes + 1);
        buf = take (unat limit) body
    in if unat max_bytes < length buf
       then throw (System (''ureq transport: body exceeds '' @ dec (unat max_bytes) @ '' bytes''))
       else ret buf)"

section \<open>Signatures and manifests\<close>

definition signing_bytes :: "('e, 'k) update_params \<Rightarrow> update_manifest \<Rightarrow> string" where
  "signing_bytes P m = (case up_to_json P (m\<lparr>um_signature := []\<rparr>) of None \<Rightarrow> [] | Some b \<Rightarrow> b)"

definition parse_verifying_key :: "('e, 'k) update_params \<Rightarrow> string \<Rightarrow> 'k result" where
  "parse_verifying_key P hex = (case up_unhex P (trim hex) of
      None \<Rightarrow> Inl (Config ''verifying key is not valid hex'')
    | Some raw \<Rightarrow>
        if length raw \<noteq> 32 then Inl (Config ''verifying key must be 32 bytes'')
        else (case up_key_of P raw of
            None \<Rightarrow> Inl (Config ''verifying key is not a valid ed25519 point'')
          | Some k \<Rightarrow> Inr k))"

definition update_client_new ::
  "('e, 'k) update_params \<Rightarrow> string \<Rightarrow> string \<Rightarrow> 'k update_client result" where
  "update_client_new P base hex = (case parse_verifying_key P hex of
      Inl e \<Rightarrow> Inl e
    | Inr k \<Rightarrow> Inr \<lparr> cl_base_location = base, cl_verifying_key = k, cl_install_dir = None \<rparr>)"

definition with_install_dir :: "path \<Rightarrow> 'k update_client \<Rightarrow> 'k update_client" where
  "with_install_dir d c = c\<lparr>cl_install_dir := Some d\<rparr>"

definition verify_signature ::
  "('e, 'k) update_params \<Rightarrow> 'k update_client \<Rightarrow> update_manifest \<Rightarrow> unit result" where
  "verify_signature P c m = (case up_unhex P (trim (um_signature m)) of
      None \<Rightarrow> Inl (Integrity ''signature is not valid hex'')
    | Some sig \<Rightarrow>
        if length sig \<noteq> 64 then Inl (Integrity ''signature has wrong length'')
        else if up_verify P (cl_verifying_key c) (signing_bytes P m) sig then Inr ()
        else Inl (Integrity ''manifest signature verification failed''))"

definition fetch_manifest :: "('e, 'k) update_params \<Rightarrow> 'k update_client \<Rightarrow> ('e, update_manifest) uc" where
  "fetch_manifest P c =
    bind (up_fetch P (cl_base_location c)) (\<lambda>bytes.
    case up_of_json P bytes of
      Inl e \<Rightarrow> throw (Integrity (''manifest is not valid JSON: '' @ e))
    | Inr m \<Rightarrow> ret m)"

definition check_for_update ::
  "('e, 'k) update_params \<Rightarrow> 'k update_client \<Rightarrow> version_info \<Rightarrow> ('e, update_manifest option) uc" where
  "check_for_update P c info =
    bind (fetch_manifest P c) (\<lambda>m.
    seq (lift_res (verify_signature P c m))
    (if \<not> is_newer_than (um_version m) (vi_current info) then ret None else ret (Some m)))"

definition wanted_hash :: "artifact \<Rightarrow> string" where
  "wanted_hash a = to_lower (trim (ar_sha256 a))"

definition check_artifact :: "('e, 'k) update_params \<Rightarrow> artifact \<Rightarrow> ('e, unit) uc" where
  "check_artifact P a =
    bind (up_fetch P (ar_location a)) (\<lambda>bytes.
    let got = up_sha256 P bytes in
    if got \<noteq> wanted_hash a
    then throw (Integrity (''artifact hash mismatch for '' @ ar_location a @ '': expected '' @ wanted_hash a
           @ '', got '' @ got))
    else ret ())"

definition verify ::
  "('e, 'k) update_params \<Rightarrow> 'k update_client \<Rightarrow> update_manifest \<Rightarrow> version_info \<Rightarrow> ('e, verified_artifact) uc" where
  "verify P c m info =
    seq (lift_res (verify_signature P c m))
    (if \<not> is_newer_than (um_version m) (vi_current info)
     then throw (Integrity (''downgrade rejected: offered '' @ version_display (um_version m)
            @ '' is not newer than installed '' @ version_display (vi_current info)))
     else
       seq (mapM_e (check_artifact P) (um_artifacts m))
       (ret \<lparr> va_version = um_version m, va_artifacts = um_artifacts m \<rparr>))"

section \<open>Applying an update\<close>

definition install_path :: "'k update_client \<Rightarrow> artifact \<Rightarrow> path result" where
  "install_path c a = (case cl_install_dir c of
      None \<Rightarrow> Inr (ar_location a)
    | Some dir \<Rightarrow> (case file_name (ar_location a) of
          None \<Rightarrow> Inl (System (''artifact location has no file name: '' @ ar_location a))
        | Some n \<Rightarrow> Inr (path_join dir n)))"

definition with_file_suffix :: "string \<Rightarrow> path \<Rightarrow> path" where
  "with_file_suffix suffix target =
    path_join (path_parent target) ((case file_name target of None \<Rightarrow> [] | Some n \<Rightarrow> n) @ suffix)"

definition backup_path_for :: "path \<Rightarrow> path" where
  "backup_path_for target = with_file_suffix ''.aegis-bak'' target"

definition tmp_path_for :: "path \<Rightarrow> path" where
  "tmp_path_for target = with_file_suffix ''.aegis-tmp'' target"

definition apply_err :: "string \<Rightarrow> path \<Rightarrow> io_error \<Rightarrow> error" where
  "apply_err what p e = System (''apply: '' @ what @ '' '' @ p @ '': '' @ io_text e)"

definition push_backup :: "backup \<Rightarrow> ('e, unit) uc" where
  "push_backup b = modify (\<lambda>w. w\<lparr>uc_backups := uc_backups w @ [b]\<rparr>)"

definition mark_last :: "backup list \<Rightarrow> backup list" where
  "mark_last bs = (if bs = [] then [] else butlast bs @ [(last bs)\<lparr>bk_wrote_new := True\<rparr>])"

definition back_up :: "path \<Rightarrow> ('e, unit) uc" where
  "back_up target =
    bind (ufs (fs_exists target)) (\<lambda>ex.
    if ex then
      seq (map_err (apply_err ''back up'' target) (ufs (fs_rename target (backup_path_for target))))
      (push_backup \<lparr> bk_target = target, bk_backup = Some (backup_path_for target), bk_wrote_new = False \<rparr>)
    else push_backup \<lparr> bk_target = target, bk_backup = None, bk_wrote_new = False \<rparr>)"

definition install_file :: "('e, 'k) update_params \<Rightarrow> artifact \<Rightarrow> path \<Rightarrow> ('e, unit) uc" where
  "install_file P a target =
    bind (up_fetch P (ar_location a)) (\<lambda>bytes.
    if up_sha256 P bytes \<noteq> wanted_hash a
    then throw (Integrity (''apply: artifact hash mismatch for '' @ ar_location a))
    else
      seq (map_err (apply_err ''write temp'' (tmp_path_for target)) (ufs (fs_write (tmp_path_for target) bytes)))
      (seq (map_err (apply_err ''install'' target) (ufs (fs_rename (tmp_path_for target) target)))
      (modify (\<lambda>w. w\<lparr>uc_backups := mark_last (uc_backups w)\<rparr>))))"

definition install_artifact :: "('e, 'k) update_params \<Rightarrow> 'k update_client \<Rightarrow> artifact \<Rightarrow> ('e, unit) uc" where
  "install_artifact P c a =
    bind (lift_res (install_path c a)) (\<lambda>target.
    seq (if path_comps target = [] then ret ()
         else map_err (apply_err ''create dir'' (path_parent target)) (ufs (fs_create_dir_all (path_parent target))))
    (seq (back_up target)
    (install_file P a target)))"

definition install_all :: "('e, 'k) update_params \<Rightarrow> 'k update_client \<Rightarrow> artifact list \<Rightarrow> ('e, unit) uc" where
  "install_all P c as = seq (modify (\<lambda>w. w\<lparr>uc_backups := []\<rparr>)) (seq (mapM_e (install_artifact P c) as) (ret ()))"

definition quietly :: "('e uc_world, io_error, 'a) eff \<Rightarrow> ('e, unit) uc" where
  "quietly m = seq (attempt m) (ret ())"

definition drop_backup :: "backup \<Rightarrow> ('e, unit) uc" where
  "drop_backup b = (case bk_backup b of None \<Rightarrow> ret () | Some p \<Rightarrow> quietly (ufs (fs_remove_file p)))"

definition roll_back_one :: "backup \<Rightarrow> ('e, unit) uc" where
  "roll_back_one b =
    seq (if bk_wrote_new b then quietly (ufs (fs_remove_file (bk_target b))) else ret ())
    (case bk_backup b of None \<Rightarrow> ret () | Some p \<Rightarrow> quietly (ufs (fs_rename p (bk_target b))))"

definition apply_update ::
  "('e, 'k) update_params \<Rightarrow> 'k update_client \<Rightarrow> verified_artifact \<Rightarrow> ('e, apply_outcome) uc" where
  "apply_update P c v =
    bind (attempt (install_all P c (va_artifacts v))) (\<lambda>r.
    bind (gets uc_backups) (\<lambda>bs. case r of
      Inr _ \<Rightarrow> seq (mapM_e drop_backup bs) (ret Applied)
    | Inl _ \<Rightarrow> seq (mapM_e roll_back_one (rev bs)) (ret RolledBack)))"

end
