(* ===== verification/Update_Apply.thy ===== *)
theory Update_Apply
  imports Update_Safety
begin

text \<open>
  Installing an update as a whole or rolling it back.  A transport is an interface: fetching
  changes neither the installed files nor the backup records; the three transports of
  \<^verbatim>\<open>crates/update-client/src/lib.rs\<close> provide it.  The rollback theorem is proved inside the
  interface over whatever transport the client was built with.
\<close>

section \<open>The transport interface\<close>

definition same_disk :: "'e uc_world \<Rightarrow> 'e uc_world \<Rightarrow> bool" where
  "same_disk w w' \<longleftrightarrow> fs_files (uc_fs w') = fs_files (uc_fs w) \<and> fs_dirs (uc_fs w') = fs_dirs (uc_fs w) \<and>
     uc_backups w' = uc_backups w"

lemma same_disk_refl [simp]: "same_disk w w"
  by (simp add: same_disk_def)

definition quiet_fetch :: "(string \<Rightarrow> ('e, string) uc) \<Rightarrow> bool" where
  "quiet_fetch fetch \<longleftrightarrow> (\<forall>l w. same_disk w (snd (fetch l w)))"

locale transport =
  fixes fetch :: "string \<Rightarrow> ('e, string) uc"
  assumes fetch_quiet: "same_disk w (snd (fetch l w))"
begin

lemma wp_fetch: "wp (fetch l) (\<lambda>_. same_disk w) (\<lambda>_. same_disk w) w"
  using fetch_quiet [of w l] by (auto simp: wp_def split: prod.splits sum.splits)

end

lemma transport_wp:
  "(\<And>l w. wp (fetch l) (\<lambda>_. same_disk w) (\<lambda>_. same_disk w) w) \<Longrightarrow> transport fetch"
  by unfold_locales (rule wp_state, simp)

lemma wp_file_fetch: "wp (file_fetch base l) (\<lambda>_. same_disk w) (\<lambda>_. same_disk w) w"
  by (auto simp: file_fetch_def wp_simps fs_wp same_disk_def split: sum.split option.split fault.split)

interpretation file_io: transport "file_fetch base"
  by (rule transport_wp) (rule wp_file_fetch)

interpretation ureq_io: transport "ureq_fetch get max_bytes base_url"
proof (rule transport_wp)
  show "wp (ureq_fetch get max_bytes base_url l) (\<lambda>_. same_disk w) (\<lambda>_. same_disk w) w" for l w
    by (auto simp: ureq_fetch_def wp_simps Let_def intro!: wp_I) (auto simp: same_disk_def)
qed

interpretation mock_io: transport "mock_fetch entries"
  by (rule transport_wp) (simp add: mock_fetch_def wp_simps split: sum.split)

section \<open>Where an update may write\<close>

text \<open>
  The targets of an update are laid out apart when targets, backups and temporary files are
  pairwise distinct paths, none of them a directory or a parent of a target.
\<close>

definition all_paths :: "path list \<Rightarrow> path list" where
  "all_paths ts = ts @ List.map backup_path_for ts @ List.map tmp_path_for ts"

definition laid_out :: "path list \<Rightarrow> fs \<Rightarrow> bool" where
  "laid_out ts f \<longleftrightarrow> distinct (all_paths ts) \<and> list_all (\<lambda>t. path_comps t \<noteq> []) ts \<and>
     list_all (\<lambda>p. \<not> is_dir f p \<and> list_all (\<lambda>t. \<not> List.member (ancestors (path_parent t)) p) ts) (all_paths ts)"

definition scratch :: "path list \<Rightarrow> path set" where
  "scratch ts = backup_path_for ` set ts \<union> tmp_path_for ` set ts"

lemma laid_outD:
  assumes "laid_out ts f" "t \<in> set ts"
  shows "path_comps t \<noteq> []" "t \<notin> scratch ts" "\<And>p. p \<in> set ts \<union> scratch ts \<Longrightarrow> \<not> is_dir f p"
    "\<And>p. p \<in> set ts \<union> scratch ts \<Longrightarrow> p \<notin> set (ancestors (path_parent t))"
    "\<And>t'. t' \<in> set ts \<Longrightarrow> backup_path_for t = backup_path_for t' \<Longrightarrow> t = t'"
    "\<And>t'. t' \<in> set ts \<Longrightarrow> tmp_path_for t \<noteq> backup_path_for t'"
    "\<And>t'. t' \<in> set ts \<Longrightarrow> tmp_path_for t = tmp_path_for t' \<Longrightarrow> t = t'"
  using assms by (auto simp: laid_out_def all_paths_def scratch_def list_all_iff distinct_map inj_on_def)

lemma laid_out_apart:
  assumes "laid_out ts f" "t \<in> set ts" "t' \<in> set ts"
  shows "t \<noteq> backup_path_for t'" "backup_path_for t' \<noteq> t" "t \<noteq> tmp_path_for t'" "tmp_path_for t' \<noteq> t"
    "tmp_path_for t \<noteq> backup_path_for t'" "backup_path_for t' \<noteq> tmp_path_for t"
  using laid_outD(2) [OF assms(1,2)] laid_outD(6) [OF assms] assms(3) unfolding scratch_def by (metis UnI1 UnI2 imageI)+

lemma laid_out_dirs: "laid_out ts f \<Longrightarrow> fs_dirs g = List.union (ancestors (path_parent t)) (fs_dirs f) \<Longrightarrow> t \<in> set ts \<Longrightarrow> laid_out ts g"
  by (auto simp: laid_out_def list_all_iff is_dir_def)

section \<open>The records suffice to undo\<close>

text \<open>
  \<^verbatim>\<open>F\<close> gives the files before the update.  Each record either left its target alone, or names the
  backup that holds the original; every other path, scratch paths apart, is untouched.
\<close>

definition undo_one :: "(path \<Rightarrow> string option) \<Rightarrow> backup \<Rightarrow> fs \<Rightarrow> bool" where
  "undo_one F b f \<longleftrightarrow> is_dir f (path_parent (bk_target b)) \<and> (case bk_backup b of
      None \<Rightarrow> \<not> bk_wrote_new b \<longrightarrow> tab_get (fs_files f) (bk_target b) = F (bk_target b)
    | Some p \<Rightarrow> p = backup_path_for (bk_target b) \<and> tab_get (fs_files f) p = F (bk_target b) \<and> F (bk_target b) \<noteq> None \<and>
        (\<not> bk_wrote_new b \<longrightarrow> tab_get (fs_files f) (bk_target b) = None))"

definition undo_ok :: "(path \<Rightarrow> string option) \<Rightarrow> path list \<Rightarrow> backup list \<Rightarrow> fs \<Rightarrow> bool" where
  "undo_ok F ts bs f \<longleftrightarrow> laid_out ts f \<and> distinct (List.map bk_target bs) \<and> bk_target ` set bs \<subseteq> set ts \<and>
     (\<forall>b \<in> set bs. undo_one F b f) \<and>
     (\<forall>q. q \<notin> bk_target ` set bs \<union> scratch ts \<longrightarrow> tab_get (fs_files f) q = F q)"

lemma undo_one_cong:
  "undo_one F b f \<Longrightarrow> fs_dirs g = fs_dirs f \<Longrightarrow>
    tab_get (fs_files g) (bk_target b) = tab_get (fs_files f) (bk_target b) \<Longrightarrow>
    tab_get (fs_files g) (backup_path_for (bk_target b)) = tab_get (fs_files f) (backup_path_for (bk_target b)) \<Longrightarrow>
    undo_one F b g"
  by (auto simp: undo_one_def is_dir_def split: option.splits)

lemma laid_out_cong: "laid_out ts f \<Longrightarrow> fs_dirs g = fs_dirs f \<Longrightarrow> laid_out ts g"
  by (simp add: laid_out_def list_all_iff is_dir_def)

text \<open>A step on the paths of one target keeps the records of the others.\<close>

lemma undo_one_other:
  assumes "undo_one F b f" "laid_out ts f" "bk_target b \<in> set ts" "t \<in> set ts" "t \<noteq> bk_target b" "fs_dirs g = fs_dirs f"
    and "\<And>q. q \<noteq> t \<Longrightarrow> q \<noteq> backup_path_for t \<Longrightarrow> q \<noteq> tmp_path_for t \<Longrightarrow> tab_get (fs_files g) q = tab_get (fs_files f) q"
  shows "undo_one F b g"
proof (rule undo_one_cong [OF assms(1,6)])
  note ap = laid_out_apart [OF assms(2,3,4)] laid_out_apart [OF assms(2,4,3)] laid_outD(5) [OF assms(2,3,4)]
  show "tab_get (fs_files g) (bk_target b) = tab_get (fs_files f) (bk_target b)"
    by (rule assms(7)) (use ap assms(5) in auto)
  show "tab_get (fs_files g) (backup_path_for (bk_target b)) = tab_get (fs_files f) (backup_path_for (bk_target b))"
    by (rule assms(7)) (use ap assms(5) in auto)
qed

lemma scratch_apart: "t \<in> set ts \<Longrightarrow> q \<notin> scratch ts \<Longrightarrow> q \<noteq> backup_path_for t \<and> q \<noteq> tmp_path_for t"
  by (auto simp: scratch_def)

lemma undo_ok_same: "undo_ok F ts bs f \<Longrightarrow> fs_files g = fs_files f \<Longrightarrow> fs_dirs g = fs_dirs f \<Longrightarrow> undo_ok F ts bs g"
  by (auto simp: undo_ok_def intro: laid_out_cong undo_one_cong)

lemma undo_ok_snoc:
  assumes "undo_ok F ts bs f" "t \<in> set ts" "t \<notin> bk_target ` set bs" "fs_dirs g = fs_dirs f" "bk_target b = t" "undo_one F b g"
    and "\<And>q. q \<noteq> t \<Longrightarrow> q \<noteq> backup_path_for t \<Longrightarrow> q \<noteq> tmp_path_for t \<Longrightarrow> tab_get (fs_files g) q = tab_get (fs_files f) q"
  shows "undo_ok F ts (bs @ [b]) g"
proof -
  have L: "laid_out ts f" using assms(1) by (simp add: undo_ok_def)
  have "undo_one F x g" if "x \<in> set bs" for x
    by (rule undo_one_other [OF _ L _ assms(2) _ assms(4,7)]) (use that assms(1,3) in \<open>auto simp: undo_ok_def\<close>)
  moreover have "tab_get (fs_files g) q = F q" if "q \<notin> insert t (bk_target ` set bs) \<union> scratch ts" for q
    using that assms(1) scratch_apart [OF assms(2), of q] by (simp add: assms(7) undo_ok_def)
  ultimately show ?thesis using assms laid_out_cong [OF L assms(4)] by (auto simp: undo_ok_def)
qed

text \<open>Once its target is back, the last record can be dropped.\<close>

lemma undo_ok_unsnoc:
  assumes "undo_ok F ts (bs @ [b]) f" "bk_target b = t" "fs_dirs g = fs_dirs f" "tab_get (fs_files g) t = F t"
    and "\<And>q. q \<noteq> t \<Longrightarrow> q \<noteq> backup_path_for t \<Longrightarrow> q \<noteq> tmp_path_for t \<Longrightarrow> tab_get (fs_files g) q = tab_get (fs_files f) q"
  shows "undo_ok F ts bs g"
proof -
  have L: "laid_out ts f" and t: "t \<in> set ts" using assms by (auto simp: undo_ok_def)
  have "undo_one F x g" if "x \<in> set bs" for x
    by (rule undo_one_other [OF _ L _ t _ assms(3,5)]) (use that assms in \<open>auto simp: undo_ok_def\<close>)
  moreover have "tab_get (fs_files g) q = F q" if "q \<notin> bk_target ` set bs \<union> scratch ts" for q
    using that assms(1,2,4) scratch_apart [OF t, of q] by (cases "q = t") (simp_all add: assms(5) undo_ok_def)
  ultimately show ?thesis using assms(1) laid_out_cong [OF L assms(3)] by (simp add: undo_ok_def)
qed

section \<open>Installing one artifact\<close>

definition ready :: "(path \<Rightarrow> string option) \<Rightarrow> path list \<Rightarrow> 'e uc_world \<Rightarrow> bool" where
  "ready F ts w \<longleftrightarrow> undo_ok F ts (uc_backups w) (uc_fs w)"

lemma ready_same: "ready F ts w \<Longrightarrow> same_disk w w' \<Longrightarrow> ready F ts w'"
  unfolding ready_def same_disk_def by (auto intro: undo_ok_same)

lemma is_dir_parent_made: "path_parent t = [] \<or> path_parent t \<in> set (ancestors (path_parent t))"
  by (auto simp: ancestors.simps [of "path_parent t"])

lemma undo_ok_dirs:
  assumes "undo_ok F ts bs f" "t \<in> set ts" "fs_files g = fs_files f"
    "fs_dirs g = List.union (ancestors (path_parent t)) (fs_dirs f)"
  shows "undo_ok F ts bs g"
proof -
  have L: "laid_out ts g" using assms by (auto simp: undo_ok_def intro: laid_out_dirs)
  have "is_dir f p \<Longrightarrow> is_dir g p" for p using assms(4) by (auto simp: is_dir_def)
  then have "undo_one F b f \<Longrightarrow> undo_one F b g" for b
    using assms(3) by (auto simp: undo_one_def split: option.splits)
  then show ?thesis using assms L by (auto simp: undo_ok_def)
qed

lemma wp_make_dir:
  assumes "ready F ts w" "t \<in> set ts"
  shows "wp (map_err (apply_err ''create dir'' (path_parent t)) (ufs (fs_create_dir_all (path_parent t))))
    (\<lambda>_ w'. ready F ts w' \<and> is_dir (uc_fs w') (path_parent t) \<and> uc_backups w' = uc_backups w \<and>
       fs_files (uc_fs w') = fs_files (uc_fs w))
    (\<lambda>_. ready F ts) w"
proof -
  have "undo_ok F ts (uc_backups w) (tick (uc_fs w))"
    using assms(1) by (auto simp: ready_def intro: undo_ok_same)
  moreover have "undo_ok F ts (uc_backups w) ((tick (uc_fs w))\<lparr>fs_dirs := List.union (ancestors (path_parent t)) (fs_dirs (uc_fs w))\<rparr>)"
    by (rule undo_ok_dirs [OF assms(1) [unfolded ready_def] assms(2)]) simp_all
  ultimately show ?thesis
    using is_dir_parent_made [of t]
    by (auto simp: wp_simps fs_wp ready_def is_dir_def split: option.split fault.split)
qed

lemma wp_back_up:
  assumes "ready F ts w" "t \<in> set ts" "t \<notin> bk_target ` set (uc_backups w)" "is_dir (uc_fs w) (path_parent t)"
  shows "wp (back_up t)
    (\<lambda>_ w'. ready F ts w' \<and> (\<exists>k. uc_backups w' = uc_backups w @ [\<lparr> bk_target = t, bk_backup = k, bk_wrote_new = False \<rparr>]) \<and>
       (\<forall>q. q \<notin> insert t (scratch ts) \<longrightarrow> tab_get (fs_files (uc_fs w')) q = tab_get (fs_files (uc_fs w)) q))
    (\<lambda>_. ready F ts) w"
proof -
  let ?f = "uc_fs w" and ?bs = "uc_backups w"
  let ?r = "\<lambda>k. \<lparr> bk_target = t, bk_backup = k, bk_wrote_new = False \<rparr>"
  have U: "undo_ok F ts ?bs ?f" using assms(1) by (simp add: ready_def)
  then have L: "laid_out ts ?f" by (simp add: undo_ok_def)
  have s: "t \<notin> scratch ts" "backup_path_for t \<in> scratch ts" "\<not> is_dir ?f t" "\<not> is_dir ?f (backup_path_for t)"
    using laid_outD(2,3) [OF L assms(2)] assms(2) by (auto simp: scratch_def)
  have Ft: "tab_get (fs_files ?f) t = F t" using U assms(3) s by (simp add: undo_ok_def)
  have none: "undo_ok F ts (?bs @ [?r None]) g" if "fs_files g = fs_files ?f" "fs_dirs g = fs_dirs ?f" for g
    by (rule undo_ok_snoc [OF U assms(2,3)]) (use that assms(4) Ft in \<open>simp_all add: undo_one_def is_dir_def\<close>)
  have some: "undo_ok F ts (?bs @ [?r (Some (backup_path_for t))]) (g\<lparr>fs_files := tab_set (backup_path_for t) c (tab_del t (fs_files ?f))\<rparr>)"
    if "fs_dirs g = fs_dirs ?f" "tab_get (fs_files ?f) t = Some c" for g c
    by (rule undo_ok_snoc [OF U assms(2,3)]) (use that assms(4) Ft s in \<open>auto simp: undo_one_def is_dir_def\<close>)
  have same: "undo_ok F ts ?bs g" if "fs_files g = fs_files ?f" "fs_dirs g = fs_dirs ?f" for g
    using undo_ok_same [OF U that] .
  show ?thesis
    using s by (auto simp: back_up_def push_backup_def wp_simps fs_wp ready_def is_file_def none some same
        split: option.split fault.split)
qed

lemma undo_ok_tmp:
  assumes "undo_ok F ts bs f" "t \<in> set ts" "fs_dirs g = fs_dirs f"
    and "\<And>q. q \<noteq> tmp_path_for t \<Longrightarrow> tab_get (fs_files g) q = tab_get (fs_files f) q"
  shows "undo_ok F ts bs g"
proof -
  have L: "laid_out ts f" using assms(1) by (simp add: undo_ok_def)
  have "undo_one F b g" if b: "b \<in> set bs" for b
  proof -
    have "bk_target b \<in> set ts" using b assms(1) by (auto simp: undo_ok_def)
    note ap = laid_out_apart [OF L this assms(2)] laid_out_apart [OF L assms(2) this]
    have "bk_target b \<noteq> tmp_path_for t" "backup_path_for (bk_target b) \<noteq> tmp_path_for t" using ap by auto
    moreover have "undo_one F b f" using b assms(1) by (simp add: undo_ok_def)
    ultimately show ?thesis by (auto intro: undo_one_cong [OF _ assms(3)] assms(4))
  qed
  moreover have "tab_get (fs_files g) q = F q" if "q \<notin> bk_target ` set bs \<union> scratch ts" for q
  proof -
    have "q \<noteq> tmp_path_for t" using that assms(2) by (auto simp: scratch_def)
    then show ?thesis using that assms(1) assms(4) by (simp add: undo_ok_def)
  qed
  ultimately show ?thesis using assms(1) laid_out_cong [OF L assms(3)] by (simp add: undo_ok_def)
qed

lemma undo_ok_written:
  assumes "undo_ok F ts (bs @ [\<lparr> bk_target = t, bk_backup = k, bk_wrote_new = False \<rparr>]) f" "fs_dirs g = fs_dirs f"
    and "\<And>q. q \<noteq> t \<Longrightarrow> q \<noteq> tmp_path_for t \<Longrightarrow> tab_get (fs_files g) q = tab_get (fs_files f) q"
  shows "undo_ok F ts (bs @ [\<lparr> bk_target = t, bk_backup = k, bk_wrote_new = True \<rparr>]) g"
proof -
  have t: "t \<in> set ts" "t \<notin> bk_target ` set bs" and L: "laid_out ts f" using assms(1) by (auto simp: undo_ok_def)
  have s: "backup_path_for t \<noteq> t" "backup_path_for t \<noteq> tmp_path_for t" "t \<noteq> tmp_path_for t"
    using laid_out_apart [OF L t(1) t(1)] by auto
  have "undo_one F b g" if b: "b \<in> set bs" for b
    by (rule undo_one_other [OF _ L _ t(1) _ assms(2)]) (use b t assms in \<open>auto simp: undo_ok_def\<close>)
  moreover have "tab_get (fs_files g) q = F q" if "q \<notin> insert t (bk_target ` set bs) \<union> scratch ts" for q
    using that assms(1) scratch_apart [OF t(1), of q] by (simp add: assms(3) undo_ok_def)
  moreover have "undo_one F \<lparr> bk_target = t, bk_backup = k, bk_wrote_new = True \<rparr> g"
    using assms s by (auto simp: undo_ok_def undo_one_def is_dir_def split: option.splits)
  ultimately show ?thesis using assms(1) laid_out_cong [OF L assms(2)] by (auto simp: undo_ok_def)
qed

text \<open>The new file is in place: fetched bytes with the wanted hash.\<close>

definition in_place :: "('e, 'k) update_params \<Rightarrow> artifact \<Rightarrow> path \<Rightarrow> fs \<Rightarrow> bool" where
  "in_place P a t f \<longleftrightarrow> (\<exists>b. tab_get (fs_files f) t = Some b \<and> up_sha256 P b = wanted_hash a)"

definition grown :: "(path \<Rightarrow> string option) \<Rightarrow> path list \<Rightarrow> path \<Rightarrow> 'e uc_world \<Rightarrow> 'e uc_world \<Rightarrow> bool" where
  "grown F ts t w w' \<longleftrightarrow> ready F ts w' \<and> bk_target ` set (uc_backups w') = insert t (bk_target ` set (uc_backups w)) \<and>
     (\<forall>q. q \<notin> insert t (scratch ts) \<longrightarrow> tab_get (fs_files (uc_fs w')) q = tab_get (fs_files (uc_fs w)) q)"

text \<open>The install paths of the artifacts, up to the ones that have none.\<close>

definition update_targets :: "'k update_client \<Rightarrow> artifact list \<Rightarrow> path list" where
  "update_targets c as = concat (List.map (\<lambda>a. case install_path c a of Inl _ \<Rightarrow> [] | Inr t \<Rightarrow> [t]) as)"

locale update_host = transport "up_fetch P" for P :: "('e, 'k) update_params"
begin

lemma wp_install_file:
  assumes "ready F ts w" "uc_backups w = bs @ [\<lparr> bk_target = t, bk_backup = k, bk_wrote_new = False \<rparr>]"
  shows "wp (install_file P a t) (\<lambda>_ w'. grown F ts t w w' \<and> in_place P a t (uc_fs w')) (\<lambda>_. ready F ts) w"
  unfolding install_file_def
proof (rule wp_then [OF wp_fetch])
  fix e w' assume "same_disk w w'"
  then show "ready F ts w'" using assms(1) ready_same by blast
next
  fix bytes and w1 :: "'e uc_world" assume same: "same_disk w w1"
  let ?f = "uc_fs w1"
  have U: "undo_ok F ts (bs @ [\<lparr> bk_target = t, bk_backup = k, bk_wrote_new = False \<rparr>]) ?f" and b1: "uc_backups w1 = uc_backups w"
    using ready_same [OF assms(1) same] assms(2) same by (simp_all add: ready_def same_disk_def)
  then have t: "t \<in> set ts" and L: "laid_out ts ?f" and d: "is_dir ?f (path_parent t)"
    by (auto simp: undo_ok_def undo_one_def)
  have s: "tmp_path_for t \<noteq> t" "\<not> is_dir ?f t" "tmp_path_for t \<in> scratch ts"
    using laid_out_apart [OF L t t] laid_outD(3) [OF L t] t by (auto simp: scratch_def)
  have tmp: "undo_ok F ts (bs @ [\<lparr> bk_target = t, bk_backup = k, bk_wrote_new = False \<rparr>]) g"
    if "fs_dirs g = fs_dirs ?f" "\<And>q. q \<noteq> tmp_path_for t \<Longrightarrow> tab_get (fs_files g) q = tab_get (fs_files ?f) q" for g
    by (rule undo_ok_tmp [OF U t]) (use that in auto)
  have new: "undo_ok F ts (bs @ [\<lparr> bk_target = t, bk_backup = k, bk_wrote_new = True \<rparr>]) g"
    if "fs_dirs g = fs_dirs ?f" "\<And>q. q \<noteq> t \<Longrightarrow> q \<noteq> tmp_path_for t \<Longrightarrow> tab_get (fs_files g) q = tab_get (fs_files ?f) q" for g
    by (rule undo_ok_written [OF U]) (use that in auto)
  show "wp (if up_sha256 P bytes \<noteq> wanted_hash a then throw (Integrity (''apply: artifact hash mismatch for '' @ ar_location a))
      else seq (map_err (apply_err ''write temp'' (tmp_path_for t)) (ufs (fs_write (tmp_path_for t) bytes)))
        (seq (map_err (apply_err ''install'' t) (ufs (fs_rename (tmp_path_for t) t)))
        (modify (\<lambda>w. w\<lparr>uc_backups := mark_last (uc_backups w)\<rparr>))))
    (\<lambda>_ w'. grown F ts t w w' \<and> in_place P a t (uc_fs w')) (\<lambda>_. ready F ts) w1"
    using s d b1 same assms(2)
    by (auto simp: wp_simps fs_wp ready_def grown_def in_place_def mark_last_def same_disk_def
          partial_file_other is_dir_def [of "_\<lparr>fs_files := _\<rparr>"] fault_of_def
          split: option.split fault.split intro!: tmp new)
qed

lemma wp_install_artifact:
  assumes "ready F ts w" "install_path c a = Inr t" "t \<in> set ts" "t \<notin> bk_target ` set (uc_backups w)"
  shows "wp (install_artifact P c a) (\<lambda>_ w'. grown F ts t w w' \<and> in_place P a t (uc_fs w')) (\<lambda>_. ready F ts) w"
proof -
  have "path_comps t \<noteq> []" using assms(1,3) laid_outD(1) by (auto simp: ready_def undo_ok_def)
  then have "install_artifact P c a w = seq (map_err (apply_err ''create dir'' (path_parent t)) (ufs (fs_create_dir_all (path_parent t))))
      (seq (back_up t) (install_file P a t)) w"
    by (simp add: install_artifact_def assms(2) bind_def lift_res_def)
  moreover have "wp (seq (map_err (apply_err ''create dir'' (path_parent t)) (ufs (fs_create_dir_all (path_parent t))))
      (seq (back_up t) (install_file P a t))) (\<lambda>_ w'. grown F ts t w w' \<and> in_place P a t (uc_fs w')) (\<lambda>_. ready F ts) w"
  proof (rule wp_next [OF wp_make_dir [OF assms(1,3)]])
    fix w1 :: "'e uc_world" assume *: "ready F ts w1 \<and> is_dir (uc_fs w1) (path_parent t) \<and> uc_backups w1 = uc_backups w \<and>
       fs_files (uc_fs w1) = fs_files (uc_fs w)"
    show "wp (seq (back_up t) (install_file P a t)) (\<lambda>_ w'. grown F ts t w w' \<and> in_place P a t (uc_fs w')) (\<lambda>_. ready F ts) w1"
    proof (rule wp_next [OF wp_back_up])
      fix w2 :: "'e uc_world" assume 2: "ready F ts w2 \<and> (\<exists>k. uc_backups w2 = uc_backups w1 @ [\<lparr> bk_target = t, bk_backup = k, bk_wrote_new = False \<rparr>]) \<and>
         (\<forall>q. q \<notin> insert t (scratch ts) \<longrightarrow> tab_get (fs_files (uc_fs w2)) q = tab_get (fs_files (uc_fs w1)) q)"
      then obtain k where "uc_backups w2 = uc_backups w1 @ [\<lparr> bk_target = t, bk_backup = k, bk_wrote_new = False \<rparr>]" by blast
      then show "wp (install_file P a t) (\<lambda>_ w'. grown F ts t w w' \<and> in_place P a t (uc_fs w')) (\<lambda>_. ready F ts) w2"
        using * 2 by (intro wp_mono [OF wp_install_file [of F ts w2 "uc_backups w1" t k a]]) (auto simp: grown_def)
    qed (use * assms in auto)
  qed auto
  ultimately show ?thesis by (simp add: wp_def)
qed

lemma wp_install_loop:
  assumes "ready F ts w" "set (update_targets c as) \<subseteq> set ts" "distinct (update_targets c as)"
    and "set (update_targets c as) \<inter> bk_target ` set (uc_backups w) = {}"
  shows "wp (mapM_e (install_artifact P c) as)
    (\<lambda>_ w'. ready F ts w' \<and> (\<forall>a \<in> set as. \<exists>t. install_path c a = Inr t \<and> in_place P a t (uc_fs w')) \<and>
       (\<forall>q. q \<notin> set (update_targets c as) \<union> scratch ts \<longrightarrow> tab_get (fs_files (uc_fs w')) q = tab_get (fs_files (uc_fs w)) q))
    (\<lambda>_. ready F ts) w"
  using assms
proof (induction as arbitrary: w)
  case Nil
  then show ?case by (simp add: wp_ret)
next
  case (Cons a as)
  show ?case
  proof (cases "install_path c a")
    case (Inl e)
    then show ?thesis using Cons.prems by (simp add: install_artifact_def wp_simps)
  next
    case (Inr t)
    then have ts: "update_targets c (a # as) = t # update_targets c as" by (simp add: update_targets_def)
    show ?thesis
      unfolding mapM_e.simps
    proof (rule wp_then [OF wp_install_artifact [OF Cons.prems(1) Inr]])
      fix y and w1 :: "'e uc_world" assume w1: "grown F ts t w w1 \<and> in_place P a t (uc_fs w1)"
      have "t \<notin> scratch ts"
        using Cons.prems ts by (auto simp: ready_def undo_ok_def dest: laid_outD(2))
      then show "wp (bind (mapM_e (install_artifact P c) as) (\<lambda>ys. ret (y # ys)))
          (\<lambda>_ w'. ready F ts w' \<and> (\<forall>a \<in> set (a # as). \<exists>t. install_path c a = Inr t \<and> in_place P a t (uc_fs w')) \<and>
             (\<forall>q. q \<notin> set (update_targets c (a # as)) \<union> scratch ts \<longrightarrow> tab_get (fs_files (uc_fs w')) q = tab_get (fs_files (uc_fs w)) q))
          (\<lambda>_. ready F ts) w1"
        using Cons.prems ts w1 Inr unfolding wp_bind wp_ret
        by (intro wp_mono [OF Cons.IH]) (auto simp: grown_def in_place_def)
    qed (use Cons.prems ts in auto)
  qed
qed

lemma wp_install_all:
  assumes "laid_out (update_targets c as) (uc_fs w)"
  defines "F \<equiv> tab_get (fs_files (uc_fs w))" and "ts \<equiv> update_targets c as"
  shows "wp (install_all P c as)
    (\<lambda>_ w'. ready F ts w' \<and> (\<forall>a \<in> set as. \<exists>t. install_path c a = Inr t \<and> in_place P a t (uc_fs w')) \<and>
       (\<forall>q. q \<notin> set ts \<union> scratch ts \<longrightarrow> tab_get (fs_files (uc_fs w')) q = F q))
    (\<lambda>_. ready F ts) w"
proof -
  have "ready F ts (w\<lparr>uc_backups := []\<rparr>)" using assms by (simp add: ready_def undo_ok_def)
  moreover have "distinct ts" using assms by (simp add: laid_out_def all_paths_def)
  ultimately show ?thesis
    unfolding install_all_def
    by (simp add: wp_simps, intro wp_mono [OF wp_install_loop [of F ts]]) (auto simp: ts_def F_def)
qed

end

section \<open>Finishing and rolling back\<close>

lemma wp_drop_backups:
  fixes w :: "'e uc_world"
  assumes "\<forall>b \<in> set bs. \<forall>p. bk_backup b = Some p \<longrightarrow> p \<in> S" "\<forall>q. q \<notin> S \<longrightarrow> tab_get (fs_files (uc_fs w)) q = G q"
  shows "wp (mapM_e drop_backup bs) (\<lambda>_ w'. \<forall>q. q \<notin> S \<longrightarrow> tab_get (fs_files (uc_fs w')) q = G q)
    (\<lambda>_ w'. \<forall>q. q \<notin> S \<longrightarrow> tab_get (fs_files (uc_fs w')) q = G q) w"
proof (rule wp_mapM_inv)
  fix b and w :: "'e uc_world" assume "b \<in> set bs" "\<forall>q. q \<notin> S \<longrightarrow> tab_get (fs_files (uc_fs w)) q = G q"
  then show "wp (drop_backup b) (\<lambda>_ w'. \<forall>q. q \<notin> S \<longrightarrow> tab_get (fs_files (uc_fs w')) q = G q)
      (\<lambda>_ w'. \<forall>q. q \<notin> S \<longrightarrow> tab_get (fs_files (uc_fs w')) q = G q) w"
    using assms(1) by (auto simp: drop_backup_def wp_simps fs_wp split: option.split fault.split)
qed (use assms(2) in simp)

text \<open>No record lost an original: the existence check that found nothing was right.\<close>

definition honest :: "(path \<Rightarrow> string option) \<Rightarrow> backup list \<Rightarrow> bool" where
  "honest F bs \<longleftrightarrow> list_all (\<lambda>b. bk_backup b = None \<longrightarrow> F (bk_target b) = None) bs"

definition calm :: "'e uc_world \<Rightarrow> bool" where
  "calm w \<longleftrightarrow> fs_faults (uc_fs w) = []"

lemma wp_quiet_remove:
  "calm w \<Longrightarrow> wp (quietly (ufs (fs_remove_file t)))
    (\<lambda>_ w'. calm w' \<and> fs_dirs (uc_fs w') = fs_dirs (uc_fs w) \<and> tab_get (fs_files (uc_fs w')) t = None \<and>
       (\<forall>q. q \<noteq> t \<longrightarrow> tab_get (fs_files (uc_fs w')) q = tab_get (fs_files (uc_fs w)) q)) (\<lambda>_ _. False) w"
  by (auto simp: wp_simps fs_wp calm_def fault_of_def tick_def is_file_def)

lemma wp_quiet_rename:
  "calm w \<Longrightarrow> tab_get (fs_files (uc_fs w)) p = Some c \<Longrightarrow> \<not> is_dir (uc_fs w) t \<Longrightarrow> is_dir (uc_fs w) (path_parent t) \<Longrightarrow>
    wp (quietly (ufs (fs_rename p t)))
    (\<lambda>_ w'. calm w' \<and> fs_dirs (uc_fs w') = fs_dirs (uc_fs w) \<and> tab_get (fs_files (uc_fs w')) t = Some c \<and>
       (\<forall>q. q \<noteq> t \<longrightarrow> q \<noteq> p \<longrightarrow> tab_get (fs_files (uc_fs w')) q = tab_get (fs_files (uc_fs w)) q)) (\<lambda>_ _. False) w"
  by (auto simp: wp_simps fs_wp calm_def fault_of_def) (simp_all add: tick_def)

lemma wp_roll_back_one:
  assumes "undo_ok F ts (bs @ [b]) (uc_fs w)" "honest F [b]" "calm w"
  shows "wp (roll_back_one b) (\<lambda>_ w'. undo_ok F ts bs (uc_fs w') \<and> calm w') (\<lambda>_ _. False) w"
proof -
  let ?t = "bk_target b"
  have L: "laid_out ts (uc_fs w)" and t: "?t \<in> set ts" and one: "undo_one F b (uc_fs w)" using assms(1) by (auto simp: undo_ok_def)
  have "\<not> is_dir (uc_fs w) ?t" using laid_outD(3) [OF L t] t by simp
  note ap = laid_out_apart [OF L t t] this
  let ?Q = "\<lambda>w'. calm w' \<and> fs_dirs (uc_fs w') = fs_dirs (uc_fs w) \<and>
      tab_get (fs_files (uc_fs w')) ?t = (if bk_wrote_new b then None else tab_get (fs_files (uc_fs w)) ?t) \<and>
      (\<forall>q. q \<noteq> ?t \<longrightarrow> tab_get (fs_files (uc_fs w')) q = tab_get (fs_files (uc_fs w)) q)"
  have restored: "undo_ok F ts bs (uc_fs w')" if "fs_dirs (uc_fs w') = fs_dirs (uc_fs w)" "tab_get (fs_files (uc_fs w')) ?t = F ?t"
    "\<And>q. q \<noteq> ?t \<Longrightarrow> q \<noteq> backup_path_for ?t \<Longrightarrow> tab_get (fs_files (uc_fs w')) q = tab_get (fs_files (uc_fs w)) q" for w'
    by (rule undo_ok_unsnoc [OF assms(1) refl]) (use that in auto)
  show ?thesis
    unfolding roll_back_one_def
  proof (rule wp_next [of _ "\<lambda>_. ?Q" "\<lambda>_ _. False"])
    show "wp (if bk_wrote_new b then quietly (ufs (fs_remove_file ?t)) else ret ()) (\<lambda>_. ?Q) (\<lambda>_ _. False) w"
      using assms(3) wp_quiet_remove by (simp add: wp_ret) blast
  next
    fix w1 assume Q: "?Q w1"
    show "wp (case bk_backup b of None \<Rightarrow> ret () | Some p \<Rightarrow> quietly (ufs (fs_rename p ?t)))
        (\<lambda>_ w'. undo_ok F ts bs (uc_fs w') \<and> calm w') (\<lambda>_ _. False) w1"
    proof (cases "bk_backup b")
      case None
      then have "undo_ok F ts bs (uc_fs w1)"
        using one Q assms(2) by (intro restored) (auto simp: undo_one_def honest_def)
      then show ?thesis using None Q by (simp add: wp_ret)
    next
      case (Some p)
      then obtain c where p: "p = backup_path_for ?t" "tab_get (fs_files (uc_fs w)) p = Some c" "F ?t = Some c"
        "is_dir (uc_fs w) (path_parent ?t)"
        using one by (auto simp: undo_one_def)
      have d: "is_dir (uc_fs w1) x = is_dir (uc_fs w) x" for x using Q by (simp add: is_dir_def)
      have "tab_get (fs_files (uc_fs w1)) p = Some c" using Q p ap by simp
      then have "wp (quietly (ufs (fs_rename p ?t))) (\<lambda>_ w'. undo_ok F ts bs (uc_fs w') \<and> calm w') (\<lambda>_ _. False) w1"
        using Q p ap d by (intro wp_mono [OF wp_quiet_rename]) (auto intro!: restored)
      then show ?thesis using Some by simp
    qed
  qed auto
qed

lemma wp_roll_back:
  "undo_ok F ts bs (uc_fs w) \<Longrightarrow> honest F bs \<Longrightarrow> calm w \<Longrightarrow>
    wp (mapM_e roll_back_one (rev bs)) (\<lambda>_ w'. undo_ok F ts [] (uc_fs w')) (\<lambda>_ _. False) w"
proof (induction bs arbitrary: w rule: rev_induct)
  case Nil
  then show ?case by (simp add: wp_ret)
next
  case (snoc b bs)
  show ?case
    unfolding rev_append rev.simps append.simps mapM_e.simps
    by (rule wp_then [OF wp_roll_back_one [OF snoc.prems(1)]])
       (use snoc in \<open>auto simp: honest_def wp_bind wp_ret\<close>)
qed

section \<open>Applying an update\<close>

lemma wp_finish: "wp (mapM_e f bs) (\<lambda>_. Q) (\<lambda>_. Q) w \<Longrightarrow> (\<And>x s. x \<in> set bs \<Longrightarrow> \<exists>s'. f x s = (Inr (), s')) \<Longrightarrow>
    \<exists>w'. mapM_e f bs w = (Inr (replicate (length bs) ()), w') \<and> Q w'"
proof (induction bs arbitrary: w)
  case Nil
  then show ?case by (simp add: wp_def ret_def)
next
  case (Cons b bs)
  from Cons.prems(2) [of b w] obtain w1 where 1: "f b w = (Inr (), w1)" by auto
  have "wp (mapM_e f bs) (\<lambda>_. Q) (\<lambda>_. Q) w1"
    using Cons.prems(1) 1 by (simp add: wp_def bind_def ret_def split: prod.splits sum.splits)
  then show ?case using Cons.IH [of w1] Cons.prems(2) 1 by (auto simp: bind_def ret_def)
qed

lemma drop_backup_total: "\<exists>w'. drop_backup b w = (Inr (), w')"
  by (cases "bk_backup b") (auto simp: drop_backup_def quietly_def seq_def bind_def attempt_def ret_def split: prod.splits)

lemma roll_back_one_total: "\<exists>w'. roll_back_one b w = (Inr (), w')"
  by (cases "bk_backup b")
     (auto simp: roll_back_one_def quietly_def seq_def bind_def attempt_def ret_def split: prod.splits)

lemma quiet_host: "quiet_fetch (up_fetch P) \<Longrightarrow> update_host P"
  by (simp add: update_host_def transport_def quiet_fetch_def)

interpretation file_host: update_host "P\<lparr>up_fetch := file_fetch base\<rparr>"
  by (simp add: update_host_def file_io.transport_axioms)

interpretation ureq_host: update_host "P\<lparr>up_fetch := ureq_fetch get max_bytes base_url\<rparr>"
  by (simp add: update_host_def ureq_io.transport_axioms)

lemma apply_runs:
  "install_all P c (va_artifacts v) w = (r, w1) \<Longrightarrow>
    apply_update P c v w = (case r of
        Inr _ \<Rightarrow> seq (mapM_e drop_backup (uc_backups w1)) (ret Applied) w1
      | Inl _ \<Rightarrow> seq (mapM_e roll_back_one (rev (uc_backups w1))) (ret RolledBack) w1)"
  by (auto simp: apply_update_def bind_def attempt_def gets_def split: sum.split)

lemma mapM_total: "(\<And>x s. \<exists>s'. f x s = (Inr (), s')) \<Longrightarrow> \<exists>w'. mapM_e f bs w = (Inr (replicate (length bs) ()), w')"
  using wp_finish [of f bs "\<lambda>_. True" w] by auto

lemma apply_total: "\<exists>out w'. apply_update P c v w = (Inr out, w') \<and>
    (out = Applied \<longleftrightarrow> is_ok (fst (install_all P c (va_artifacts v) w)))"
proof -
  obtain r w1 where "install_all P c (va_artifacts v) w = (r, w1)" by fastforce
  moreover obtain w2 where "mapM_e drop_backup (uc_backups w1) w1 = (Inr (replicate (length (uc_backups w1)) ()), w2)"
    using mapM_total [of drop_backup, OF drop_backup_total] by blast
  moreover obtain w3 where "mapM_e roll_back_one (rev (uc_backups w1)) w1 = (Inr (replicate (length (rev (uc_backups w1))) ()), w3)"
    using mapM_total [of roll_back_one, OF roll_back_one_total] by blast
  ultimately show ?thesis
    by (cases r) (simp_all add: apply_runs seq_def bind_def ret_def)
qed

section \<open>A sample update\<close>

definition sample_va :: "artifact list \<Rightarrow> verified_artifact" where
  "sample_va as = \<lparr> va_version = Version 1 2 0, va_artifacts = as \<rparr>"

definition sample_old :: "nat uc_world" where
  "sample_old = sample_uc [(''/i/app'', ''old'')]"

lemma sample_quiet: "quiet_fetch (up_fetch sample_params)"
  by (auto simp: quiet_fetch_def sample_params_def throw_def ret_def)

lemma sample_wanted: "wanted_hash (sample_artifact ''app'') = ''app''" "wanted_hash (sample_artifact ''down'') = ''down''"
  by (simp_all add: wanted_hash_def sample_artifact_def trim_plain plain_char_def ascii_ws_def to_lower_def ascii_lower_def)

lemma sample_targets:
  "update_targets sample_client [sample_artifact ''app''] = [''/i/app'']"
  "update_targets sample_client [sample_artifact ''app'', sample_artifact ''down''] = [''/i/app'', ''/i/down'']"
  by code_simp+

lemma sample_laid_out: "laid_out [''/i/app''] (uc_fs sample_old)" "laid_out [''/i/app'', ''/i/down''] (uc_fs sample_old)"
  by code_simp+


lemma sample_applied: "\<exists>w'. apply_update sample_params sample_client (sample_va [sample_artifact ''app'']) sample_old = (Inr Applied, w')"
proof -
  have "fst (apply_update sample_params sample_client (sample_va [sample_artifact ''app'']) sample_old) = Inr Applied" by code_simp
  then show ?thesis by (cases "apply_update sample_params sample_client (sample_va [sample_artifact ''app'']) sample_old") simp
qed



definition sample_stopped :: "nat uc_world" where
  "sample_stopped = sample_old\<lparr>uc_fs := \<lparr>fs_files = [(''/i/app.aegis-bak'', ''old''), (''/i/app'', ''data:app'')],
       fs_dirs = [''/'', ''/i''], fs_faults = []\<rparr>,
     uc_backups := [\<lparr>bk_target = ''/i/app'', bk_backup = Some ''/i/app.aegis-bak'', bk_wrote_new = True\<rparr>,
       \<lparr>bk_target = ''/i/down'', bk_backup = None, bk_wrote_new = False\<rparr>]\<rparr>"

lemma sample_stops:
  "install_all sample_params sample_client [sample_artifact ''app'', sample_artifact ''down''] sample_old
     = (Inl (System ''offline''), sample_stopped)"
  by code_simp


text \<open>
  The layout matters.  Two artifacts with one file name share a backup path: the second backup
  replaces the first, and the rollback that follows removes the file the user had.
\<close>

theorem shared_target_loses_original:
  "tab_get (fs_files (uc_fs sample_old)) ''/i/app'' = Some ''old'' \<and>
   (case apply_update sample_params sample_client
        (sample_va [sample_artifact ''app'', (sample_artifact ''app'')\<lparr>ar_sha256 := ''zz''\<rparr>]) sample_old of
      (out, w) \<Rightarrow> out = Inr RolledBack \<and> fs_files (uc_fs w) = [])"
  by code_simp

section \<open>Transports are contained\<close>

text \<open>
  The file transport stays below its base.  A fetch that succeeds read the file at the base
  extended by a relative location without a parent component, and changed nothing; the bytes
  are that file's.
\<close>

lemma file_fetch_contained:
  assumes "file_fetch base l w = (Inr b, w')"
  shows "\<exists>rest. tab_get (fs_files (uc_fs w)) (base @ rest) = Some b \<and> \<not> starts_with l ''/'' \<and>
     ''..'' \<notin> set (path_comps l) \<and> (rest = l \<or> rest = CHR ''/'' # l) \<and> same_disk w w'"
proof -
  have "wp (file_fetch base l) (\<lambda>b w'. tab_get (fs_files (uc_fs w)) (path_join base l) = Some b \<and> \<not> starts_with l ''/'' \<and>
     ''..'' \<notin> set (path_comps l)) (\<lambda>_ _. True) w"
    by (auto simp: file_fetch_def file_resolve_def wp_simps fs_wp split: option.split fault.split)
  from wp_ok [OF this assms] have *: "tab_get (fs_files (uc_fs w)) (path_join base l) = Some b" "\<not> starts_with l ''/''"
    "''..'' \<notin> set (path_comps l)" by auto
  moreover have "path_join base l = base @ l \<or> path_join base l = base @ CHR ''/'' # l"
    using * by (auto simp: path_join_def)
  moreover have "same_disk w w'" using wp_ok [OF wp_file_fetch assms] .
  ultimately show ?thesis by metis
qed

lemma file_fetch_contained_witness:
  "\<exists>w'. file_fetch ''/i'' ''app'' sample_old = (Inr ''old'', w') \<and> same_disk sample_old w'"
proof -
  have *: "file_fetch ''/i'' ''app'' sample_old = (Inr ''old'', sample_old)" by code_simp
  then show ?thesis using file_fetch_contained [OF *] by blast
qed

text \<open>
  The HTTP transport is bounded.  For every maximum, the largest 64-bit value included, a
  fetch that succeeds returns the whole body of the response and at most the maximum of bytes;
  a longer body is an error.
\<close>

lemma ureq_fetch_bounded:
  assumes "get (resolve_url base l) (uc_env w) = (Inr body, env)" "length body < 2 ^ 64"
  shows "fst (ureq_fetch get max_bytes base l w) = (if length body \<le> unat max_bytes then Inr body
     else Inl (System (''ureq transport: body exceeds '' @ dec (unat max_bytes) @ '' bytes'')))"
proof -
  have "unat (- 1 :: 64 word) = 2 ^ 64 - 1" by (simp add: unsigned_minus_1_eq_mask mask_eq_exp_minus_1)
  moreover have "max_bytes \<noteq> - 1 \<Longrightarrow> unat (max_bytes + 1) = unat max_bytes + 1"
    by (metis add.commute add_eq_0_iff2 unatSuc Suc_eq_plus1_left Suc_eq_plus1)
  ultimately show ?thesis
    using assms by (simp add: ureq_fetch_def bind_def map_err_def zoom_def Let_def throw_def ret_def)
qed

lemma ureq_fetch_bounded_witness:
  "fst (ureq_fetch (\<lambda>u n. (Inr ''bytes'', n)) 4 ''http://h/'' ''m'' (sample_uc [])) = Inl (System (''ureq transport: body exceeds '' @ dec 4 @ '' bytes''))"
  using ureq_fetch_bounded [of "\<lambda>u n. (Inr ''bytes'', n)" "''http://h/''" "''m''" "sample_uc []" "''bytes''" 0 4]
  by (simp add: sample_uc_def)

text \<open>
  Only signed, newer manifests are offered.  When \<^verbatim>\<open>check\<close> returns a manifest, its signature
  verified under the client's key and its version is newer than the installed one; a manifest
  with a bad signature is an integrity error even when it offers nothing new.
\<close>

lemma check_for_update_sound:
  "case check_for_update P c info w of
     (Inr (Some m), _) \<Rightarrow> verify_signature P c m = Inr () \<and> vi_current info < um_version m
   | (Inr None, _) \<Rightarrow> \<exists>m w1. fetch_manifest P c w = (Inr m, w1) \<and> verify_signature P c m = Inr () \<and>
       um_version m \<le> vi_current info
   | (Inl e, _) \<Rightarrow> (case fetch_manifest P c w of
         (Inl e', _) \<Rightarrow> e = e'
       | (Inr m, _) \<Rightarrow> verify_signature P c m = Inl e \<and> error_class e = FC_Integrity)"
proof -
  obtain r w1 where "fetch_manifest P c w = (r, w1)" by fastforce
  then show ?thesis
    by (cases r; cases "verify_signature P c (projr r)")
       (auto simp: check_for_update_def bind_def seq_def lift_res_def ret_def is_newer_than_def not_less
        dest: verify_signature_class)
qed

end
