(* ===== verification/Events.thy ===== *)
theory Events
  imports Profile Session Preflight
begin

text \<open>
  \<^verbatim>\<open>crates/aegis-core/src/events.rs\<close>: audit records, and the kebab-case names the daemon
  writes into them.
\<close>

datatype severity = Info | Notice | Warning | Critical

datatype event_kind =
    EvSessionState string
  | EvPreflightCheck string string
  | EvKillSwitch string
  | EvTunnel string
  | EvVm string string
  | EvProfile string
  | EvFailClosed failure_class string
  | EvIntegrity string string

record audit_record =
  au_at :: timestamp
  au_severity :: severity
  au_session :: "session_id option"
  au_profile :: "profile_id option"
  au_kind :: event_kind

definition audit_new :: "timestamp \<Rightarrow> severity \<Rightarrow> event_kind \<Rightarrow> audit_record" where
  "audit_new at sev kind =
    \<lparr> au_at = at, au_severity = sev, au_session = None, au_profile = None, au_kind = kind \<rparr>"

definition with_session :: "session_id \<Rightarrow> audit_record \<Rightarrow> audit_record" where
  "with_session i r = r\<lparr>au_session := Some i\<rparr>"

definition with_profile :: "profile_id \<Rightarrow> audit_record \<Rightarrow> audit_record" where
  "with_profile i r = r\<lparr>au_profile := Some i\<rparr>"

definition state_name :: "session_state \<Rightarrow> string" where
  "state_name s = (case s of
      Requested \<Rightarrow> ''requested'' | Provisioning \<Rightarrow> ''provisioning''
    | GatewayStarting \<Rightarrow> ''gateway-starting'' | S_Preflight \<Rightarrow> ''preflight''
    | Browsing \<Rightarrow> ''browsing'' | Closing \<Rightarrow> ''closing''
    | Destroyed \<Rightarrow> ''destroyed'' | Failed \<Rightarrow> ''failed'')"

definition outcome_name :: "check_outcome \<Rightarrow> string" where
  "outcome_name c = (case c of Pass \<Rightarrow> ''pass'' | Fail \<Rightarrow> ''fail'' | Skipped \<Rightarrow> ''skipped'')"

end
