(* ===== verification/Orchestrator.thy ===== *)
theory Orchestrator
  imports Events Gateway Vm Browser Network_Audit Profile_Store
begin

text \<open>
  \<^verbatim>\<open>crates/aegis-daemon/src/orchestrator.rs\<close>: the session orchestrator.

  The injected capabilities are the record \<^verbatim>\<open>caps\<close>: one computation over the world \<^verbatim>\<open>'w\<close> per
  trait method the orchestrator calls (\<^verbatim>\<open>aegis-core/src/traits.rs\<close>), plus the clock, the id
  generator, one environment variable and the removal of a host directory.  The state is the
  enforcement policy, the session table with its poison flags, the world, and the trace
  \<^verbatim>\<open>or_calls\<close> of every capability call with its outcome, oldest first; the trace is written by
  \<^verbatim>\<open>call\<close> only and read by no operation.

  Each public operation runs to completion: the model is sequential.
\<close>

section \<open>Capabilities\<close>

record 'w backend_ops =
  bb_render :: "launch_request \<Rightarrow> policy_bundle result"
  bb_launch :: "launch_request \<Rightarrow> policy_bundle \<Rightarrow> ('w, error, browser_handle) eff"
  bb_is_running :: "browser_handle \<Rightarrow> ('w, error, bool) eff"
  bb_terminate :: "browser_handle \<Rightarrow> ('w, error, unit) eff"

record 'w caps =
  cap_provision :: "provision_request \<Rightarrow> ('w, error, vm_handle) eff"
  cap_vm_start :: "vm_id \<Rightarrow> ('w, error, unit) eff"
  cap_vm_shutdown :: "vm_id \<Rightarrow> shutdown_mode \<Rightarrow> ('w, error, unit) eff"
  cap_vm_destroy :: "vm_id \<Rightarrow> ('w, error, destroy_report) eff"
  cap_configure :: "gateway_config \<Rightarrow> ('w, error, unit) eff"
  cap_apply_firewall :: "firewall_policy \<Rightarrow> ('w, error, unit) eff"
  cap_engage :: "('w, error, unit) eff"
  cap_health :: "('w, error, gateway_health) eff"
  cap_preflight :: "preflight_context \<Rightarrow> ('w, error, checklist) eff"
  cap_browser :: "'w backend_ops"
  cap_host_browser :: "'w backend_ops option"
  cap_host_browser_path :: "string option"
  cap_host_firefox :: "'w backend_ops option"
  cap_proxy_reachable :: "string \<Rightarrow> 16 word \<Rightarrow> ('w, error, bool) eff"
  cap_get_profile :: "profile_id \<Rightarrow> ('w, error, profile) eff"
  cap_acquire_lock :: "profile_id \<Rightarrow> ('w, error, profile_lease) eff"
  cap_release_lock :: "profile_lease \<Rightarrow> ('w, error, unit) eff"
  cap_touch_launch :: "profile_id \<Rightarrow> timestamp \<Rightarrow> ('w, error, unit) eff"
  cap_generate_key :: "('w, error, string) eff"
  cap_audit :: "audit_record \<Rightarrow> ('w, error, unit) eff"
  cap_now :: "'w \<Rightarrow> timestamp \<times> 'w"
  cap_new_uuid :: "'w \<Rightarrow> uuid \<times> 'w"
  cap_host_proxy_var :: "'w \<Rightarrow> string option"
  cap_remove_dir_all :: "path \<Rightarrow> ('w, io_error, unit) eff"

datatype cap_call =
    C_get_profile profile_id bool
  | C_acquire profile_id "profile_lease option"
  | C_release profile_lease bool
  | C_generate_key bool
  | C_provision vm_role "vm_id option"
  | C_configure bool
  | C_apply_firewall firewall_policy bool
  | C_vm_start vm_id bool
  | C_preflight "checklist option"
  | C_proxy_reachable bool
  | C_launch isolation_level "browser_handle option"
  | C_is_running
  | C_terminate browser_handle
  | C_vm_shutdown vm_id
  | C_vm_destroy vm_id bool
  | C_engage bool
  | C_touch_launch
  | C_audit audit_record
  | C_remove_dir path

datatype session_mode =
    ModeFullVm
  | ModeHostProcess path bool browser_backend

record session_entry =
  en_profile :: profile_id
  en_state :: session_state
  en_lease :: profile_lease
  en_mode :: session_mode
  en_gateway_vm :: "vm_id option"
  en_browser_vm :: "vm_id option"
  en_browser_handle :: "browser_handle option"
  en_protection :: protection_status
  en_public_ip :: "string option"
  en_checklist :: "checklist option"
  en_ram_key :: string

record 'w orch =
  or_enforcement :: enforcement
  or_enforcement_poisoned :: bool
  or_sessions :: "(session_id \<times> session_entry) list"
  or_poisoned :: bool
  or_world :: 'w
  or_calls :: "cap_call list"

type_synonym ('w, 'a) om = "('w orch, error, 'a) eff"

definition orch_new :: "app_config \<Rightarrow> 'w \<Rightarrow> 'w orch" where
  "orch_new cfg w = \<lparr> or_enforcement = cfg_enforcement cfg, or_enforcement_poisoned = False,
     or_sessions = [], or_poisoned = False, or_world = w, or_calls = [] \<rparr>"

text \<open>Run a capability on the world and record the call.\<close>

definition ok_of :: "'e + 'a \<Rightarrow> 'a option" where
  "ok_of r = (case r of Inl _ \<Rightarrow> None | Inr x \<Rightarrow> Some x)"

definition call :: "('e + 'a \<Rightarrow> cap_call) \<Rightarrow> ('w, 'e, 'a) eff \<Rightarrow> ('w orch, 'e, 'a) eff" where
  "call c m = (\<lambda>s. case m (or_world s) of
      (r, w) \<Rightarrow> (r, s\<lparr>or_world := w, or_calls := or_calls s @ [c r]\<rparr>))"

definition now :: "'w caps \<Rightarrow> ('w, timestamp) om" where
  "now C = zoom or_world or_world_update (run_state (cap_now C))"

definition new_uuid :: "'w caps \<Rightarrow> ('w, uuid) om" where
  "new_uuid C = zoom or_world or_world_update (run_state (cap_new_uuid C))"

definition ignore :: "('w orch, 'e, 'a) eff \<Rightarrow> ('w, unit) om" where
  "ignore m = seq (attempt m) (ret ())"

section \<open>The host proxy\<close>

record host_proxy =
  hp_endpoint :: string
  hp_probe_host :: string
  hp_probe_port :: "16 word"

fun after_last :: "string \<Rightarrow> string \<Rightarrow> string option" where
  "after_last sep [] = None"
| "after_last sep (c # cs) = (case after_last sep cs of
      Some r \<Rightarrow> Some r
    | None \<Rightarrow> if starts_with (c # cs) sep then Some (drop (length sep) (c # cs)) else None)"

fun rsplit_once :: "char \<Rightarrow> string \<Rightarrow> (string \<times> string) option" where
  "rsplit_once sep [] = None"
| "rsplit_once sep (c # cs) = (case rsplit_once sep cs of
      Some (a, b) \<Rightarrow> Some (c # a, b)
    | None \<Rightarrow> if c = sep then Some ([], cs) else None)"

definition parse_u16 :: "string \<Rightarrow> 16 word option" where
  "parse_u16 s = (case parse_uint 65535 s of None \<Rightarrow> None | Some n \<Rightarrow> Some (of_nat n))"

definition quoted :: "string \<Rightarrow> string" where
  "quoted s = [CHR 0x27] @ s @ [CHR 0x27]"

definition host_proxy_parse :: "string \<Rightarrow> host_proxy result" where
  "host_proxy_parse endpoint =
    (let authority = (case after_last ''://'' endpoint of Some a \<Rightarrow> a | None \<Rightarrow> endpoint)
     in case rsplit_once CHR '':'' authority of
          None \<Rightarrow> Inl (Config (''host proxy '' @ quoted endpoint @ '' is missing a host:port''))
        | Some (host, port) \<Rightarrow> (case parse_u16 port of
            None \<Rightarrow> Inl (Config (''host proxy '' @ quoted endpoint @ '' has an invalid port''))
          | Some p \<Rightarrow>
              if host = [] then Inl (Config (''host proxy '' @ quoted endpoint @ '' is missing a host''))
              else Inr \<lparr> hp_endpoint = endpoint, hp_probe_host = host, hp_probe_port = p \<rparr>))"

definition host_proxy_endpoint :: "'w caps \<Rightarrow> network_mode \<Rightarrow> ('w, host_proxy) om" where
  "host_proxy_endpoint C m = (case m of
      Tor _ \<Rightarrow>
        bind (gets (\<lambda>s. cap_host_proxy_var C (or_world s))) (\<lambda>v.
        lift_res (host_proxy_parse (case v of
            Some e \<Rightarrow> if trim e = [] then ''socks5h://127.0.0.1:9050'' else e
          | None \<Rightarrow> ''socks5h://127.0.0.1:9050'')))
    | Proxy cfg \<Rightarrow>
        let scheme = (case px_protocol cfg of Socks5 \<Rightarrow> ''socks5h'' | HttpConnect \<Rightarrow> ''http'')
        in lift_res (host_proxy_parse (scheme @ ''://'' @ px_host cfg @ '':'' @ dec (unat (px_port cfg))))
    | Vpn _ \<Rightarrow> throw (Unsupported ''host mode needs Tor or a proxy, not a VPN''))"

section \<open>Enforcement\<close>

definition get_enforcement :: "'w orch \<Rightarrow> enforcement" where
  "get_enforcement s = (if or_enforcement_poisoned s then enforcement_secure else or_enforcement s)"

definition set_enforcement :: "enforcement \<Rightarrow> ('w, enforcement) om" where
  "set_enforcement e = (\<lambda>s.
    if or_enforcement_poisoned s then (Inl (Internal ''enforcement lock poisoned''), s)
    else (Inr e, s\<lparr>or_enforcement := e\<rparr>))"

section \<open>Audit and the session table\<close>

definition audit :: "'w caps \<Rightarrow> audit_record \<Rightarrow> ('w, unit) om" where
  "audit C r = ignore (call (\<lambda>_. C_audit r) (cap_audit C r))"

definition audit_state :: "'w caps \<Rightarrow> session_id \<Rightarrow> profile_id \<Rightarrow> session_state \<Rightarrow> ('w, unit) om" where
  "audit_state C i p st =
    bind (now C) (\<lambda>t.
    audit C (with_profile p (with_session i (audit_new t Info (EvSessionState (state_name st))))))"

definition lock_sessions :: "('w, (session_id \<times> session_entry) list) om" where
  "lock_sessions = (\<lambda>s.
    if or_poisoned s then (Inl (Internal ''session table lock poisoned''), s)
    else (Inr (or_sessions s), s))"

definition put_entry :: "session_id \<Rightarrow> session_entry \<Rightarrow> ('w, unit) om" where
  "put_entry i en = modify (\<lambda>s. s\<lparr>or_sessions := tab_set i en (or_sessions s)\<rparr>)"

definition transition :: "'w caps \<Rightarrow> session_id \<Rightarrow> session_state \<Rightarrow> ('w, unit) om" where
  "transition C i nxt =
    bind lock_sessions (\<lambda>table. case tab_get table i of
      None \<Rightarrow> throw (NotFound (''session '' @ session_display i))
    | Some en \<Rightarrow>
        if \<not> can_transition_to (en_state en) nxt
        then throw (Internal (''illegal session transition '' @ session_state_debug (en_state en)
               @ '' -> '' @ session_state_debug nxt))
        else
          seq (put_entry i (en\<lparr>en_state := nxt\<rparr>))
          (audit_state C i (en_profile en) nxt))"

definition update_entry :: "session_id \<Rightarrow> (session_entry \<Rightarrow> session_entry) \<Rightarrow> ('w, unit) om" where
  "update_entry i g =
    bind lock_sessions (\<lambda>table. case tab_get table i of
      None \<Rightarrow> ret ()
    | Some en \<Rightarrow> put_entry i (g en))"

definition set_entry :: "session_id \<Rightarrow> (session_entry \<Rightarrow> session_entry) \<Rightarrow> ('w, unit) om" where
  "set_entry i g =
    bind lock_sessions (\<lambda>table. case tab_get table i of
      None \<Rightarrow> throw (Internal ''session vanished'')
    | Some en \<Rightarrow> put_entry i (g en))"

definition set_vm :: "session_id \<Rightarrow> vm_role \<Rightarrow> vm_id \<Rightarrow> ('w, unit) om" where
  "set_vm i role vm = set_entry i (\<lambda>en. case role of
      RoleGateway \<Rightarrow> en\<lparr>en_gateway_vm := Some vm\<rparr>
    | RoleBrowser \<Rightarrow> en\<lparr>en_browser_vm := Some vm\<rparr>)"

definition set_browser_handle :: "session_id \<Rightarrow> browser_handle \<Rightarrow> ('w, unit) om" where
  "set_browser_handle i h = set_entry i (\<lambda>en. en\<lparr>en_browser_handle := Some h\<rparr>)"

definition entry_summary :: "session_id \<Rightarrow> session_entry \<Rightarrow> session_summary" where
  "entry_summary i en = \<lparr> ss_id = i, ss_profile = en_profile en, ss_state = en_state en,
     ss_protection = en_protection en, ss_public_ip = en_public_ip en \<rparr>"

section \<open>The fail-closed hinge\<close>

definition fail_closed :: "'w caps \<Rightarrow> session_id option \<Rightarrow> error \<Rightarrow> ('w, error) om" where
  "fail_closed C session err =
    (if \<not> requires_killswitch err then ret err
     else
       seq (ignore (call (\<lambda>r. C_engage (is_ok r)) (cap_engage C)))
       (bind (now C) (\<lambda>t.
        let record0 = audit_new t Critical (EvFailClosed (error_class err) (error_display err)) in
        bind (case session of
            None \<Rightarrow> ret record0
          | Some i \<Rightarrow>
              bind (attempt lock_sessions) (\<lambda>r.
              let profile = (case r of
                    Inl _ \<Rightarrow> None
                  | Inr table \<Rightarrow> map_option en_profile (tab_get table i));
                  record1 = with_session i record0
              in ret (case profile of None \<Rightarrow> record1 | Some p \<Rightarrow> with_profile p record1)))
        (\<lambda>rec.
        seq (audit C rec)
        (bind (now C) (\<lambda>t2.
         seq (audit C (audit_new t2 Critical (EvKillSwitch ''engaged'')))
         (ret err)))))))"

section \<open>Requests derived from the configuration and the profile\<close>

definition gateway_base_image :: "app_config \<Rightarrow> string" where
  "gateway_base_image cfg = (case cfg_images cfg of
      Some imgs \<Rightarrow> img_path (imgs_gateway imgs)
    | None \<Rightarrow> path_join (images_dir (cfg_paths cfg)) ''gateway-base.qcow2'')"

definition browser_base_image :: "app_config \<Rightarrow> string" where
  "browser_base_image cfg = (case cfg_images cfg of
      Some imgs \<Rightarrow> img_path (imgs_browser imgs)
    | None \<Rightarrow> path_join (images_dir (cfg_paths cfg)) ''browser-base.qcow2'')"

definition provision_request_for :: "app_config \<Rightarrow> vm_role \<Rightarrow> instance_id \<Rightarrow> provision_request" where
  "provision_request_for cfg role inst =
    (let (backing, resources) = (case role of
           RoleGateway \<Rightarrow> (gateway_base_image cfg, resources_gateway)
         | RoleBrowser \<Rightarrow> (browser_base_image cfg, resources_browser));
         overlay = path_join (runtime_dir (cfg_paths cfg)) (instance_slug inst @ ''-overlay.qcow2'')
     in \<lparr> vr_instance_id = inst,
          vr_role = role,
          vr_resources = resources,
          vr_disk = \<lparr> dl_backing_image = backing, dl_overlay_path = overlay,
                      dl_destroy_on_close = True, dl_read_only_root = True \<rparr>,
          vr_gpu = VirtioGpu,
          vr_isolation = hardened,
          vr_isolated_network = cfg_network_prefix cfg @ ''-net'' \<rparr>)"

definition provision_request :: "'w caps \<Rightarrow> app_config \<Rightarrow> vm_role \<Rightarrow> ('w, provision_request) om" where
  "provision_request C cfg role =
    bind (new_uuid C) (\<lambda>u. ret (provision_request_for cfg role (InstanceId u)))"

definition gateway_config_of :: "network_config \<Rightarrow> gateway_config" where
  "gateway_config_of n = \<lparr>
    gc_mode = net_mode n,
    gc_dns = net_dns n,
    gc_ipv6 = net_ipv6 n,
    gc_downstream_cidr = ''10.152.152.0/24'',
    gc_gateway_address = ''10.152.152.1'' \<rparr>"

definition browser_launch_request :: "session_id \<Rightarrow> profile \<Rightarrow> gateway_config \<Rightarrow> launch_request" where
  "browser_launch_request i p gw = \<lparr>
    lr_session = i,
    lr_profile = pr_id p,
    lr_user_data_dir = ''/home/user/.aegis/profile'',
    lr_fingerprint = level_policy (sp_protection (pr_spec p)),
    lr_permissions = sp_permissions (pr_spec p),
    lr_proxy_endpoint = (case gc_mode gw of
        Tor _ \<Rightarrow> ''socks5://'' @ gc_gateway_address gw @ '':9050''
      | _ \<Rightarrow> ''socks5://'' @ gc_gateway_address gw @ '':1080''),
    lr_render_mode = RenderSoftware,
    lr_production = True \<rparr>"

definition host_backend_for :: "'w caps \<Rightarrow> browser_backend \<Rightarrow> 'w backend_ops result" where
  "host_backend_for C engine = (case engine of
      Chromium \<Rightarrow> (case cap_host_browser C of
          Some b \<Rightarrow> Inr b
        | None \<Rightarrow> Inl (Config (''this profile requests the Chromium engine in host mode, but no host ''
            @ ''Chromium/Edge browser was located; install Chrome/Chromium/Edge or set ''
            @ ''AEGIS_BROWSER_BIN'')))
    | Firefox \<Rightarrow> (case cap_host_firefox C of
          Some b \<Rightarrow> Inr b
        | None \<Rightarrow> Inl (Config (''this profile requests the Firefox engine in host mode, but no host Firefox / ''
            @ ''Tor Browser was located; install Firefox / the Tor Browser bundle or set ''
            @ ''AEGIS_FIREFOX_BIN''))))"

section \<open>Driving a full-VM session\<close>

definition audit_checks ::
  "'w caps \<Rightarrow> session_id \<Rightarrow> profile_id \<Rightarrow> check_report list \<Rightarrow> ('w, unit) om" where
  "audit_checks C i p reports =
    seq (mapM_e (\<lambda>r. bind (now C) (\<lambda>t.
          audit C (with_profile p (with_session i
            (audit_new t (if is_pass (rep_outcome r) then Info else Warning)
              (EvPreflightCheck (check_str (rep_id r)) (outcome_name (rep_outcome r)))))))) reports)
        (ret ())"

definition record_checklist :: "session_id \<Rightarrow> checklist \<Rightarrow> ('w, unit) om" where
  "record_checklist i cl = update_entry i (\<lambda>en. en\<lparr>
     en_protection := cl_status cl,
     en_public_ip := map_option ip_addr (cl_observed_ip cl),
     en_checklist := Some cl\<rparr>)"

definition preflight_refusal :: "checklist \<Rightarrow> error" where
  "preflight_refusal cl = NetworkContainment
    (''preflight did not permit browsing; failing checks: [''
      @ join_with '', '' (List.map check_str (failures cl)) @ '']'')"

definition final_summary :: "string \<Rightarrow> session_id \<Rightarrow> ('w, session_summary) om" where
  "final_summary msg i = bind lock_sessions (\<lambda>table. case tab_get table i of
      Some en \<Rightarrow> ret (entry_summary i en)
    | None \<Rightarrow> throw (Internal msg))"

definition provision_vm :: "'w caps \<Rightarrow> app_config \<Rightarrow> session_id \<Rightarrow> vm_role \<Rightarrow> ('w, vm_handle) om" where
  "provision_vm C cfg i role =
    bind (provision_request C cfg role) (\<lambda>req.
    bind (call (\<lambda>r. C_provision role (map_option vh_id (ok_of r))) (cap_provision C req)) (\<lambda>h.
    seq (set_vm i role (vh_id h)) (ret h)))"

text \<open>The middle part of both start routines: render, assert, launch, store, observe.\<close>

definition run_launch ::
  "isolation_level \<Rightarrow> string \<Rightarrow> 'w backend_ops \<Rightarrow> session_id \<Rightarrow> launch_request \<Rightarrow> ('w, unit) om" where
  "run_launch level msg B i req =
    bind (lift_res (bb_render B req)) (\<lambda>bundle.
    seq (lift_res (assert_safe bundle (lr_production req)))
    (bind (call (\<lambda>r. C_launch level (ok_of r)) (bb_launch B req bundle)) (\<lambda>h.
    seq (set_browser_handle i h)
    (bind (call (\<lambda>_. C_is_running) (bb_is_running B h)) (\<lambda>alive.
     if \<not> alive then throw (System msg) else ret ())))))"

definition touch :: "'w caps \<Rightarrow> profile_id \<Rightarrow> ('w, unit) om" where
  "touch C p = bind (now C) (\<lambda>t. ignore (call (\<lambda>_. C_touch_launch) (cap_touch_launch C p t)))"

definition preflight_context_of :: "session_id \<Rightarrow> gateway_config \<Rightarrow> preflight_context" where
  "preflight_context_of i gw = \<lparr>
    pc_session = i,
    pc_gateway_address = gc_gateway_address gw,
    pc_mode_label = network_label (gc_mode gw),
    pc_dns = gc_dns gw,
    pc_ipv6 = gc_ipv6 gw,
    pc_webrtc_policy_installed = True,
    pc_host_public_ip = None \<rparr>"

definition drive_start :: "'w caps \<Rightarrow> app_config \<Rightarrow> session_id \<Rightarrow> profile \<Rightarrow> ('w, session_summary) om" where
  "drive_start C cfg i p =
    seq (transition C i Provisioning)
    (bind (provision_vm C cfg i RoleGateway) (\<lambda>gw.
    bind (provision_vm C cfg i RoleBrowser) (\<lambda>br.
    seq (transition C i GatewayStarting)
    (let gc = gateway_config_of (sp_network (pr_spec p)); fw = fail_closed_policy gc in
    seq (call (\<lambda>r. C_configure (is_ok r)) (cap_configure C gc))
    (seq (call (\<lambda>r. C_apply_firewall fw (is_ok r)) (cap_apply_firewall C fw))
    (seq (call (\<lambda>r. C_vm_start (vh_id gw) (is_ok r)) (cap_vm_start C (vh_id gw)))
    (seq (call (\<lambda>r. C_vm_start (vh_id br) (is_ok r)) (cap_vm_start C (vh_id br)))
    (seq (transition C i S_Preflight)
    (bind (call (\<lambda>r. C_preflight (ok_of r))
            (cap_preflight C (preflight_context_of i gc))) (\<lambda>cl.
    seq (audit_checks C i (pr_id p) (cl_reports cl))
    (seq (record_checklist i cl)
    (if \<not> permits_browsing cl then throw (preflight_refusal cl)
     else
       seq (run_launch FullVm ''browser launch returned without a live browser process''
              (cap_browser C) i (browser_launch_request i p gc))
       (seq (transition C i Browsing)
       (seq (touch C (pr_id p))
       (final_summary ''session vanished during start'' i)))))))))))))))"

section \<open>Driving a host-process session\<close>

definition host_checklist :: checklist where
  "host_checklist = checklist_new (List.map (\<lambda>i. case i of
      TunnelReady \<Rightarrow> report_pass i ''host proxy endpoint reached; VM tunnel isolation is not available''
    | GatewayReady \<Rightarrow> report_skipped i ''host-process mode has no dedicated gateway VM''
    | _ \<Rightarrow> report_skipped i ''not measured by the reduced host-process preflight'') check_all)"

definition host_user_data_dir :: "app_config \<Rightarrow> profile \<Rightarrow> path" where
  "host_user_data_dir cfg p =
    path_join (path_join (runtime_dir (cfg_paths cfg)) ''host-profiles'') (profile_display (pr_id p))"

definition host_launch_request :: "app_config \<Rightarrow> session_id \<Rightarrow> profile \<Rightarrow> host_proxy \<Rightarrow> launch_request" where
  "host_launch_request cfg i p proxy = \<lparr>
    lr_session = i,
    lr_profile = pr_id p,
    lr_user_data_dir = host_user_data_dir cfg p,
    lr_fingerprint = level_policy (sp_protection (pr_spec p)),
    lr_permissions = sp_permissions (pr_spec p),
    lr_proxy_endpoint = hp_endpoint proxy,
    lr_render_mode = RenderSoftware,
    lr_production = True \<rparr>"

definition proxy_unreachable :: "host_proxy \<Rightarrow> error" where
  "proxy_unreachable proxy = NetworkContainment
    (''host-mode proxy at '' @ hp_probe_host proxy @ '':'' @ dec (unat (hp_probe_port proxy))
      @ '' is not reachable; refusing to launch the host browser ''
      @ ''(it would leak onto the host''@ [CHR 0x27] @ ''s default route)'')"

definition audit_event ::
  "'w caps \<Rightarrow> session_id \<Rightarrow> profile_id \<Rightarrow> severity \<Rightarrow> event_kind \<Rightarrow> ('w, unit) om" where
  "audit_event C i p sev ev =
    bind (now C) (\<lambda>t. audit C (with_profile p (with_session i (audit_new t sev ev))))"

definition drive_start_host ::
  "'w caps \<Rightarrow> app_config \<Rightarrow> session_id \<Rightarrow> profile \<Rightarrow> ('w, session_summary) om" where
  "drive_start_host C cfg i p =
    (let engine = sp_browser (pr_spec p) in
    bind (lift_res (host_backend_for C engine)) (\<lambda>B.
    bind (host_proxy_endpoint C (net_mode (sp_network (pr_spec p)))) (\<lambda>proxy.
    seq (transition C i Provisioning)
    (seq (transition C i GatewayStarting)
    (seq (transition C i S_Preflight)
    (bind (call (\<lambda>r. C_proxy_reachable (r = Inr True))
            (cap_proxy_reachable C (hp_probe_host proxy) (hp_probe_port proxy))) (\<lambda>reachable.
    if \<not> reachable then throw (proxy_unreachable proxy)
    else
      seq (audit_event C i (pr_id p) Info (EvPreflightCheck ''host_proxy_reachable'' ''pass''))
      (seq (update_entry i (\<lambda>en. en\<lparr>en_protection := PS_Partial, en_checklist := Some host_checklist\<rparr>))
      (seq (update_entry i (\<lambda>en. en\<lparr>en_mode :=
              ModeHostProcess (host_user_data_dir cfg p) (is_ephemeral (sp_kind (pr_spec p))) engine\<rparr>))
      (seq (run_launch HostProcess ''host browser launch returned without a live browser process''
              B i (host_launch_request cfg i p proxy))
      (seq (transition C i Browsing)
      (seq (audit_event C i (pr_id p) Warning (EvSessionState
              (''host-process browsing (reduced protection: '' @ isolation_label HostProcess @ '')'')))
      (seq (touch C (pr_id p))
      (final_summary ''session vanished during host start'' i))))))))))))))"

section \<open>Teardown\<close>

definition backend_of :: "'w caps \<Rightarrow> session_mode \<Rightarrow> 'w backend_ops result" where
  "backend_of C m = (case m of
      ModeHostProcess _ _ engine \<Rightarrow> host_backend_for C engine
    | ModeFullVm \<Rightarrow> Inr (cap_browser C))"

definition teardown_browser :: "'w caps \<Rightarrow> session_mode \<Rightarrow> browser_handle option \<Rightarrow> ('w, unit) om" where
  "teardown_browser C mode handle = (case handle of
      None \<Rightarrow> ret ()
    | Some h \<Rightarrow> (case backend_of C mode of
          Inl _ \<Rightarrow> ret ()
        | Inr B \<Rightarrow> ignore (call (\<lambda>_. C_terminate h) (bb_terminate B h))))"

definition teardown_dir :: "'w caps \<Rightarrow> session_mode \<Rightarrow> ('w, unit) om" where
  "teardown_dir C mode = (case mode of
      ModeHostProcess dir True _ \<Rightarrow> ignore (call (\<lambda>_. C_remove_dir dir) (cap_remove_dir_all C dir))
    | _ \<Rightarrow> ret ())"

definition role_name :: "vm_role \<Rightarrow> string" where
  "role_name r = (case r of RoleGateway \<Rightarrow> ''gateway'' | RoleBrowser \<Rightarrow> ''browser'')"

definition teardown_vm ::
  "'w caps \<Rightarrow> session_id \<Rightarrow> profile_id \<Rightarrow> vm_role \<Rightarrow> vm_id option \<Rightarrow> ('w, unit) om" where
  "teardown_vm C i p role vm = (case vm of
      None \<Rightarrow> ret ()
    | Some v \<Rightarrow>
        seq (ignore (call (\<lambda>_. C_vm_shutdown v) (cap_vm_shutdown C v Forced)))
        (bind (attempt (call (\<lambda>r. C_vm_destroy v (is_ok r)) (cap_vm_destroy C v)
                 :: (_, error, destroy_report) eff)) (\<lambda>r. case r of
            Inl _ \<Rightarrow> ret ()
          | Inr _ \<Rightarrow> audit_event C i p Info (EvVm (role_name role) ''destroyed''))))"

definition teardown_final :: "'w caps \<Rightarrow> session_id \<Rightarrow> profile_id \<Rightarrow> bool \<Rightarrow> ('w, unit) om" where
  "teardown_final C i p mark_failed =
    (let final = (if mark_failed then Failed else Destroyed) in
     seq (audit_state C i p final)
     (ignore (update_entry i (\<lambda>en. en\<lparr>en_state := final, en_browser_handle := None,
        en_gateway_vm := None, en_browser_vm := None\<rparr>))))"

definition teardown :: "'w caps \<Rightarrow> session_id \<Rightarrow> bool \<Rightarrow> ('w, unit) om" where
  "teardown C i mark_failed =
    bind (attempt lock_sessions) (\<lambda>r. case r of
      Inl _ \<Rightarrow> ret ()
    | Inr table \<Rightarrow> (case tab_get table i of
        None \<Rightarrow> ret ()
      | Some en \<Rightarrow>
          seq (put_entry i (en\<lparr>en_browser_handle := None\<rparr>))
          (seq (teardown_browser C (en_mode en) (en_browser_handle en))
          (seq (teardown_dir C (en_mode en))
          (seq (teardown_vm C i (en_profile en) RoleBrowser (en_browser_vm en))
          (seq (teardown_vm C i (en_profile en) RoleGateway (en_gateway_vm en))
          (seq (ignore (call (\<lambda>r. C_release (en_lease en) (is_ok r)) (cap_release_lock C (en_lease en))))
          (teardown_final C i (en_profile en) mark_failed))))))))"

section \<open>Starting and stopping a session\<close>

definition host_refusal :: error where
  "host_refusal = Config (''host-browser mode is disabled; enable it in advanced settings / config ''
     @ ''(config enforcement --host-browser on) before starting a host-isolation '' @ ''profile'')"

definition choose_mode :: "'w caps \<Rightarrow> enforcement \<Rightarrow> profile \<Rightarrow> bool result" where
  "choose_mode C e p = (case sp_isolation (pr_spec p) of
      FullVm \<Rightarrow> Inr False
    | HostProcess \<Rightarrow>
        if \<not> allow_host_browser e then Inl host_refusal
        else (case host_backend_for C (sp_browser (pr_spec p)) of
            Inl err \<Rightarrow> Inl err
          | Inr _ \<Rightarrow> Inr True))"

definition new_entry :: "profile_id \<Rightarrow> profile_lease \<Rightarrow> string \<Rightarrow> session_entry" where
  "new_entry p lease key = \<lparr>
    en_profile = p, en_state = Requested, en_lease = lease, en_mode = ModeFullVm,
    en_gateway_vm = None, en_browser_vm = None, en_browser_handle = None,
    en_protection = PS_None, en_public_ip = None, en_checklist = None, en_ram_key = key \<rparr>"

definition register :: "session_id \<Rightarrow> session_entry \<Rightarrow> ('w, unit) om" where
  "register i en = bind lock_sessions (\<lambda>_. put_entry i en)"

definition make_key :: "'w caps \<Rightarrow> profile_lease \<Rightarrow> ('w, string) om" where
  "make_key C lease =
    bind (attempt (call (\<lambda>r. C_generate_key (is_ok r)) (cap_generate_key C))) (\<lambda>r. case r of
      Inr k \<Rightarrow> ret k
    | Inl e \<Rightarrow> seq (ignore (call (\<lambda>r. C_release lease (is_ok r)) (cap_release_lock C lease))) (throw e))"

definition drive ::
  "'w caps \<Rightarrow> app_config \<Rightarrow> bool \<Rightarrow> session_id \<Rightarrow> profile \<Rightarrow> ('w, session_summary) om" where
  "drive C cfg host_mode i p =
    bind (attempt (if host_mode then drive_start_host C cfg i p else drive_start C cfg i p)) (\<lambda>r.
    case r of
      Inr summary \<Rightarrow> ret summary
    | Inl e \<Rightarrow>
        bind (fail_closed C (Some i) e) (\<lambda>err.
        seq (teardown C i True) (throw err)))"

definition start_session :: "'w caps \<Rightarrow> app_config \<Rightarrow> profile_id \<Rightarrow> ('w, session_summary) om" where
  "start_session C cfg pid =
    bind (call (\<lambda>r. C_get_profile pid (is_ok r)) (cap_get_profile C pid)) (\<lambda>p.
    bind (gets get_enforcement) (\<lambda>e.
    bind (lift_res (choose_mode C e p)) (\<lambda>host_mode.
    bind (call (\<lambda>r. C_acquire pid (ok_of r)) (cap_acquire_lock C pid)) (\<lambda>lease.
    bind (new_uuid C) (\<lambda>u.
    let i = SessionId u in
    bind (make_key C lease) (\<lambda>key.
    seq (register i (new_entry pid lease key))
    (seq (audit_state C i pid Requested)
    (drive C cfg host_mode i p))))))))"

definition unknown_session :: "session_id \<Rightarrow> error" where
  "unknown_session i = NotFound (''session '' @ session_display i)"

definition stop_session :: "'w caps \<Rightarrow> session_id \<Rightarrow> ('w, session_summary) om" where
  "stop_session C i =
    bind lock_sessions (\<lambda>table.
    seq (guard_e (tab_get table i \<noteq> None) (unknown_session i))
    (seq (ignore (transition C i Closing))
    (seq (teardown C i False)
    (bind lock_sessions (\<lambda>table2. case tab_get table2 i of
        Some en \<Rightarrow> ret (entry_summary i en)
      | None \<Rightarrow> throw (unknown_session i))))))"

section \<open>Read-only views\<close>

record status_dto =
  st_version :: string
  st_platform :: string
  st_isolation_level :: isolation_level
  st_enforcement :: enforcement
  st_host_browser_available :: bool
  st_host_browser_path :: "string option"

definition status :: "string \<Rightarrow> string \<Rightarrow> 'w caps \<Rightarrow> 'w orch \<Rightarrow> status_dto" where
  "status version platform C s = (let e = get_enforcement s in \<lparr>
     st_version = version,
     st_platform = platform,
     st_isolation_level = isolation_level e,
     st_enforcement = e,
     st_host_browser_available = (\<not> Option.is_none (cap_host_browser C)),
     st_host_browser_path = cap_host_browser_path C \<rparr>)"

definition list_sessions :: "'w orch \<Rightarrow> session_summary list" where
  "list_sessions s = (if or_poisoned s then [] else List.map (\<lambda>(i, en). entry_summary i en) (or_sessions s))"

definition session_state :: "session_id \<Rightarrow> 'w orch \<Rightarrow> session_state option" where
  "session_state i s = (if or_poisoned s then None else map_option en_state (tab_get (or_sessions s) i))"

definition session_checklist :: "session_id \<Rightarrow> 'w orch \<Rightarrow> checklist option" where
  "session_checklist i s =
    (if or_poisoned s then None else Option.bind (tab_get (or_sessions s) i) en_checklist)"

definition gateway_health :: "'w caps \<Rightarrow> ('w, gateway_health) om" where
  "gateway_health C = zoom or_world or_world_update (cap_health C)"

definition browser_liveness :: "'w caps \<Rightarrow> session_id \<Rightarrow> ('w, bool option) om" where
  "browser_liveness C i =
    bind lock_sessions (\<lambda>table. case tab_get table i of
      None \<Rightarrow> throw (unknown_session i)
    | Some en \<Rightarrow> (case en_browser_handle en of
          None \<Rightarrow> ret None
        | Some h \<Rightarrow>
            bind (lift_res (backend_of C (en_mode en))) (\<lambda>B.
            bind (call (\<lambda>_. C_is_running) (bb_is_running B h)) (\<lambda>b. ret (Some b)))))"

end
