(* ===== verification/Handler.thy ===== *)
theory Handler
  imports Orchestrator Session Update
begin

text \<open>
  \<^verbatim>\<open>crates/aegis-daemon/src/handler.rs\<close> over the messages of \<^verbatim>\<open>crates/aegis-ipc/src/protocol.rs\<close>:
  every request is dispatched to an orchestrator operation, to the profile store or to the
  update client.  \<^verbatim>\<open>services\<close> bundles the orchestrator's capabilities with the trait methods only
  the handler calls.
\<close>

section \<open>Messages\<close>

datatype request =
    ReqListProfiles
  | ReqCreateProfile profile_spec
  | ReqUpdateProfile profile_id profile_patch
  | ReqDeleteProfile profile_id
  | ReqStartSession session_request
  | ReqStopSession session_id
  | ReqListSessions
  | ReqGetDiagnostics session_id
  | ReqDoctor
  | ReqCheckUpdate version_info
  | ReqApplyUpdate update_manifest
  | ReqGetStatus
  | ReqGetEnforcement
  | ReqSetEnforcement enforcement

definition op_name :: "request \<Rightarrow> string" where
  "op_name q = (case q of
      ReqListProfiles \<Rightarrow> ''list-profiles''
    | ReqCreateProfile _ \<Rightarrow> ''create-profile''
    | ReqUpdateProfile _ _ \<Rightarrow> ''update-profile''
    | ReqDeleteProfile _ \<Rightarrow> ''delete-profile''
    | ReqStartSession _ \<Rightarrow> ''start-session''
    | ReqStopSession _ \<Rightarrow> ''stop-session''
    | ReqListSessions \<Rightarrow> ''list-sessions''
    | ReqGetDiagnostics _ \<Rightarrow> ''get-diagnostics''
    | ReqDoctor \<Rightarrow> ''doctor''
    | ReqCheckUpdate _ \<Rightarrow> ''check-update''
    | ReqApplyUpdate _ \<Rightarrow> ''apply-update''
    | ReqGetStatus \<Rightarrow> ''get-status''
    | ReqGetEnforcement \<Rightarrow> ''get-enforcement''
    | ReqSetEnforcement _ \<Rightarrow> ''set-enforcement'')"

datatype response =
    RespProfiles "profile list"
  | RespProfile profile
  | RespOk
  | RespSession session_summary
  | RespSessions "session_summary list"
  | RespDiagnostics protection_status checklist "diagnostic_item list"
  | RespDoctor checklist
  | RespUpdateAvailable "update_manifest option"
  | RespUpdateApplied apply_outcome
  | RespStatus status_dto
  | RespEnforcement enforcement
  | RespError string failure_class

definition from_error :: "error \<Rightarrow> response" where
  "from_error e = RespError (error_display e) (error_class e)"

definition is_error :: "response \<Rightarrow> bool" where
  "is_error r = (case r of RespError _ _ \<Rightarrow> True | _ \<Rightarrow> False)"

definition resp_error_class :: "response \<Rightarrow> failure_class option" where
  "resp_error_class r = (case r of RespError _ c \<Rightarrow> Some c | _ \<Rightarrow> None)"

definition response_of_result :: "response result \<Rightarrow> response" where
  "response_of_result r = (case r of Inr resp \<Rightarrow> resp | Inl e \<Rightarrow> from_error e)"

section \<open>Self-check\<close>

text \<open>\<^verbatim>\<open>aegis_core::self_check\<close>: the compiled-in defaults have not drifted.\<close>

definition self_check :: "string list" where
  "self_check =
    (if \<not> is_hardened hardened then [''default IsolationPolicy is not fully hardened''] else [])
    @ (if fp_validate fp_balanced \<noteq> None then [''balanced fingerprint policy is invalid''] else [])
    @ (if fp_validate fp_strict \<noteq> None then [''strict fingerprint policy is invalid''] else [])
    @ List.map (\<lambda>f. ''hard-blocked device class is not blocked by default'')
        (List.filter (\<lambda>f. is_hard_blocked f \<and> effective secure_default ''https://example'' f \<noteq> Block) feature_all)"

definition doctor_checklist :: "string list \<Rightarrow> checklist" where
  "doctor_checklist problems = checklist_new (List.map (\<lambda>c.
     if problems = [] then report_pass c ''self-check ok''
     else report_skipped c ''self-check found a drifted invariant'') check_all)"

section \<open>Diagnostics\<close>

definition unknown_checklist :: checklist where
  "unknown_checklist = checklist_new
     (List.map (\<lambda>i. report_skipped i ''runtime preflight has not reported this check'') check_all)"

definition item :: "string \<Rightarrow> health_level \<Rightarrow> string \<Rightarrow> evidence_state \<Rightarrow> diagnostic_item" where
  "item key level detail ev = with_evidence ev (diagnostic_new key level detail)"

definition configured_item :: "string \<Rightarrow> string \<Rightarrow> diagnostic_item" where
  "configured_item key detail = item key HealthUnknown detail Configured"

definition storage_detail :: "profile_type \<Rightarrow> string" where
  "storage_detail k = (case k of
      Ephemeral \<Rightarrow> ''disposable overlay selected; backing medium and teardown are not live-attested''
    | Persistent \<Rightarrow> ''persistent profile selected; no live LUKS2 volume attestation received'')"

definition configured_profile_items :: "profile \<Rightarrow> diagnostic_item list" where
  "configured_profile_items p =
    (let sp = pr_spec p; pv = preview_from_spec sp;
         engine = (case sp_browser sp of Chromium \<Rightarrow> ''chromium'' | Firefox \<Rightarrow> ''firefox'');
         environment = (case sp_isolation sp of FullVm \<Rightarrow> ''linux'' | HostProcess \<Rightarrow> ''host'');
         protection = to_lower (level_label (pv_protection pv));
         cohort = engine @ ''-'' @ environment @ ''-'' @ protection @ ''-v1'';
         cpu = (case pv_hardware_concurrency pv of Some v \<Rightarrow> dec (unat v) | None \<Rightarrow> ''guest-derived'')
     in [configured_item ''isolation'' (pv_isolation_label pv),
         configured_item ''browser_engine'' (backend_label (sp_browser sp)),
         configured_item ''cohort_profile'' cohort,
         configured_item ''protection_level'' (level_label (pv_protection pv)),
         configured_item ''profile_persistence'' (profile_type_label (sp_kind sp)),
         configured_item ''render_mode'' ''software/virtual rendering requested; runtime renderer not measured'',
         configured_item ''devices'' (if pv_device_apis_blocked pv
           then ''host device APIs blocked by configured browser policy''
           else ''device APIs are not blocked by the configured policy''),
         configured_item ''site_user_agent''
           (''real '' @ backend_label (sp_browser sp) @ '' engine version; exact runtime value not measured''),
         configured_item ''site_timezone'' (pv_timezone pv),
         configured_item ''site_language'' (pv_language pv),
         configured_item ''site_cpu'' (cpu @ '' logical CPUs''),
         configured_item ''site_webgl'' (pv_webgl pv),
         configured_item ''site_webgpu'' (if pv_webgpu_enabled pv then ''enabled'' else ''disabled''),
         configured_item ''site_canvas'' (pv_canvas pv),
         configured_item ''site_media_devices''
           (if pv_limit_media_devices pv then ''enumeration limited'' else ''enumeration not limited''),
         item ''site_viewport'' HealthUnknown ''not reported by a Browser VM runtime probe'' EvUnknown,
         item ''storage_encryption'' HealthUnknown (storage_detail (sp_kind sp)) EvUnknown])"

definition check_key :: "check_id \<Rightarrow> string" where
  "check_key i = (case i of
      GatewayReady \<Rightarrow> ''gateway''
    | TunnelReady \<Rightarrow> ''tunnel''
    | DnsRouteVerified \<Rightarrow> ''dns''
    | PublicIpObserved \<Rightarrow> ''public_ip_route''
    | WebrtcPolicyLoaded \<Rightarrow> ''webrtc''
    | Ipv6PolicyVerified \<Rightarrow> ''ipv6'')"

definition check_item :: "checklist \<Rightarrow> check_id \<Rightarrow> diagnostic_item" where
  "check_item cl i = (case find_report cl i of
      Some r \<Rightarrow> (case rep_outcome r of
          Pass \<Rightarrow> item (check_key i) HealthOk (rep_detail r) Verified
        | Fail \<Rightarrow> item (check_key i) HealthDown (rep_detail r) Measured
        | Skipped \<Rightarrow> item (check_key i) HealthUnknown (rep_detail r) EvUnknown)
    | None \<Rightarrow> item (check_key i) HealthUnknown ''required runtime check is missing'' EvUnknown)"

definition ip_item :: "ip_observation option \<Rightarrow> diagnostic_item" where
  "ip_item ob = (case ob of
      Some x \<Rightarrow> item ''site_public_ip'' (if ip_via_tunnel x \<and> ip_differs_from_host x then HealthOk else HealthDown) (ip_addr x) Measured
    | None \<Rightarrow> item ''site_public_ip'' HealthUnknown ''not observed from the browser network path'' EvUnknown)"

definition checklist_items :: "checklist \<Rightarrow> diagnostic_item list" where
  "checklist_items cl = List.map (check_item cl) check_all @ [ip_item (cl_observed_ip cl)]"

definition gateway_items :: "isolation_level \<Rightarrow> error + gateway_health \<Rightarrow> diagnostic_item list" where
  "gateway_items lvl r = (case lvl of
      HostProcess \<Rightarrow> [item ''kill_switch'' HealthUnknown ''no Gateway VM kill switch in reduced host-process mode'' EvUnknown]
    | FullVm \<Rightarrow> (case r of
        Inr h \<Rightarrow>
          [item ''firewall'' (if gh_firewall_applied h then HealthOk else HealthDown)
             (if gh_firewall_applied h then ''gateway reports a loaded firewall''
              else ''gateway reports that the firewall is not loaded'')
             (if gh_firewall_applied h then Verified else Measured),
           item ''kill_switch'' (case gh_killswitch h of Armed \<Rightarrow> HealthOk | Engaged \<Rightarrow> Degraded)
             (case gh_killswitch h of
                Armed \<Rightarrow> ''armed; tunnel-only traffic allowed''
              | Engaged \<Rightarrow> ''engaged; browser traffic is cut'') Measured]
      | Inl _ \<Rightarrow> [item ''kill_switch'' HealthUnknown ''gateway runtime health is unavailable'' EvUnknown]))"

definition browser_item :: "error + bool option \<Rightarrow> diagnostic_item" where
  "browser_item r = (case r of
      Inr (Some True) \<Rightarrow> item ''browser_process'' HealthOk ''browser process is alive'' Measured
    | Inr (Some False) \<Rightarrow> item ''browser_process'' HealthDown ''browser process is not running'' Measured
    | Inr None \<Rightarrow> item ''browser_process'' HealthUnknown ''browser process has not been started'' EvUnknown
    | Inl _ \<Rightarrow> item ''browser_process'' HealthUnknown ''browser liveness probe failed'' EvUnknown)"

section \<open>Dispatch\<close>

record 'w services =
  sv_caps :: "'w caps"
  sv_config :: app_config
  sv_version :: string
  sv_platform :: string
  sv_list :: "('w, error, profile list) eff"
  sv_create :: "profile_spec \<Rightarrow> ('w, error, profile) eff"
  sv_update :: "profile_id \<Rightarrow> profile_patch \<Rightarrow> ('w, error, profile) eff"
  sv_delete :: "profile_id \<Rightarrow> ('w, error, unit) eff"
  sv_check_update :: "version_info \<Rightarrow> ('w, error, update_manifest option) eff"
  sv_verify :: "update_manifest \<Rightarrow> version_info \<Rightarrow> ('w, error, verified_artifact) eff"
  sv_apply :: "verified_artifact \<Rightarrow> ('w, error, apply_outcome) eff"

definition in_world :: "('w, error, 'a) eff \<Rightarrow> ('w, 'a) om" where
  "in_world m = zoom or_world or_world_update m"

definition get_diagnostics :: "'w services \<Rightarrow> session_id \<Rightarrow> ('w, response) om" where
  "get_diagnostics S i =
    bind (gets list_sessions) (\<lambda>all. case List.find (\<lambda>x. ss_id x = i) all of
      None \<Rightarrow> throw (NotFound (''session '' @ session_display i))
    | Some summary \<Rightarrow>
        bind (in_world (cap_get_profile (sv_caps S) (ss_profile summary))) (\<lambda>p.
        bind (gets (session_checklist i)) (\<lambda>c.
        let cl = (case c of Some cl \<Rightarrow> cl | None \<Rightarrow> unknown_checklist) in
        bind (if sp_isolation (pr_spec p) = FullVm then attempt (gateway_health (sv_caps S)) else ret (Inl (Unsupported []))) (\<lambda>h.
        bind (attempt (browser_liveness (sv_caps S) i)) (\<lambda>b.
        ret (RespDiagnostics (ss_protection summary) cl
          (configured_profile_items p @ checklist_items cl
           @ gateway_items (sp_isolation (pr_spec p)) h @ [browser_item b])))))))"

definition dispatch :: "'w services \<Rightarrow> request \<Rightarrow> ('w, response) om" where
  "dispatch S q = (case q of
      ReqListProfiles \<Rightarrow> bind (in_world (sv_list S)) (\<lambda>ps. ret (RespProfiles ps))
    | ReqCreateProfile spec \<Rightarrow> bind (in_world (sv_create S spec)) (\<lambda>p. ret (RespProfile p))
    | ReqUpdateProfile i patch \<Rightarrow> bind (in_world (sv_update S i patch)) (\<lambda>p. ret (RespProfile p))
    | ReqDeleteProfile i \<Rightarrow> seq (in_world (sv_delete S i)) (ret RespOk)
    | ReqStartSession sr \<Rightarrow> bind (start_session (sv_caps S) (sv_config S) (rq_profile sr)) (\<lambda>x. ret (RespSession x))
    | ReqStopSession i \<Rightarrow> bind (stop_session (sv_caps S) i) (\<lambda>x. ret (RespSession x))
    | ReqListSessions \<Rightarrow> bind (gets list_sessions) (\<lambda>xs. ret (RespSessions xs))
    | ReqGetDiagnostics i \<Rightarrow> get_diagnostics S i
    | ReqDoctor \<Rightarrow> ret (RespDoctor (doctor_checklist self_check))
    | ReqGetStatus \<Rightarrow> bind (gets (status (sv_version S) (sv_platform S) (sv_caps S))) (\<lambda>x. ret (RespStatus x))
    | ReqGetEnforcement \<Rightarrow> bind (gets get_enforcement) (\<lambda>e. ret (RespEnforcement e))
    | ReqSetEnforcement e \<Rightarrow> bind (set_enforcement e) (\<lambda>x. ret (RespEnforcement x))
    | ReqCheckUpdate info \<Rightarrow> bind (in_world (sv_check_update S info)) (\<lambda>m. ret (RespUpdateAvailable m))
    | ReqApplyUpdate m \<Rightarrow>
        let info = \<lparr> vi_current = Version 0 0 0 \<rparr> in
        bind (in_world (sv_verify S m info)) (\<lambda>v.
        bind (in_world (sv_apply S v)) (\<lambda>outcome. ret (RespUpdateApplied outcome))))"

definition handle :: "'w services \<Rightarrow> request \<Rightarrow> 'w orch \<Rightarrow> response \<times> 'w orch" where
  "handle S q s = (case dispatch S q s of (r, s') \<Rightarrow> (response_of_result r, s'))"

end
