(* ===== verification/Ipc_Frame.thy ===== *)
theory Ipc_Frame
  imports Fs Core_Error
begin

text \<open>
  \<^verbatim>\<open>crates/aegis-ipc/src/frame.rs\<close>: length-prefixed frames over a byte stream.

  A stream end holds the bytes that will still arrive (and the error that follows them, or the
  end of the stream), the bytes written so far, and a schedule of faults for the write calls: a
  failing write may let a prefix out.  The JSON codec is a pair of parameters: an encoder and a
  decoder, both of which may fail with a message.
\<close>

record stream =
  str_in :: string
  str_end :: "io_error option"
  str_out :: string
  str_faults :: "(nat \<times> io_error) option list"

type_synonym 'a encoder = "'a \<Rightarrow> string + string"
type_synonym 'a decoder = "string \<Rightarrow> string + 'a"

definition max_frame_len :: nat where
  "max_frame_len = 16 * 1024 * 1024"

datatype frame_error =
    FrameClosed
  | FrameTooLarge nat nat
  | FrameIo io_error
  | FrameDecode string

definition is_closed :: "frame_error \<Rightarrow> bool" where
  "is_closed e = (case e of FrameClosed \<Rightarrow> True | _ \<Rightarrow> False)"

definition frame_error_into :: "frame_error \<Rightarrow> error" where
  "frame_error_into e = (case e of
      FrameClosed \<Rightarrow> System ''connection closed''
    | FrameTooLarge len bound \<Rightarrow> System (''oversized frame: '' @ dec len @ '' > '' @ dec bound)
    | FrameIo err \<Rightarrow> System (''io: '' @ io_text err)
    | FrameDecode msg \<Rightarrow> System (''decode: '' @ msg))"

section \<open>Exact reads and whole writes\<close>

datatype read_error = UnexpectedEof | ReadFailed io_error

definition read_exact :: "nat \<Rightarrow> (stream, read_error, string) eff" where
  "read_exact n = (\<lambda>s.
    if n \<le> length (str_in s) then (Inr (take n (str_in s)), s\<lparr>str_in := drop n (str_in s)\<rparr>)
    else (Inl (case str_end s of None \<Rightarrow> UnexpectedEof | Some e \<Rightarrow> ReadFailed e), s\<lparr>str_in := []\<rparr>))"

definition write_all :: "string \<Rightarrow> (stream, io_error, unit) eff" where
  "write_all b = (\<lambda>s. case str_faults s of
      [] \<Rightarrow> (Inr (), s\<lparr>str_out := str_out s @ b\<rparr>)
    | None # r \<Rightarrow> (Inr (), s\<lparr>str_out := str_out s @ b, str_faults := r\<rparr>)
    | Some (k, e) # r \<Rightarrow> (Inl e, s\<lparr>str_out := str_out s @ take k b, str_faults := r\<rparr>))"

text \<open>\<^verbatim>\<open>u32::to_be_bytes\<close> and \<^verbatim>\<open>u32::from_be_bytes\<close>.\<close>

definition be_bytes :: "32 word \<Rightarrow> string" where
  "be_bytes w = List.map (\<lambda>k. char_of (unat w div 256 ^ k)) [3, 2, 1, 0]"

definition from_be :: "string \<Rightarrow> 32 word" where
  "from_be s = foldl (\<lambda>a c. a * 256 + of_nat (of_char c)) 0 s"

definition horner :: "string \<Rightarrow> nat" where
  "horner s = foldl (\<lambda>a c. a * 256 + of_char c) 0 s"

lemma horner_snoc: "horner (s @ [c]) = horner s * 256 + of_char c"
  by (simp add: horner_def)

lemma from_be_horner: "from_be s = of_nat (horner s)"
proof (induction s rule: rev_induct)
  case Nil
  show ?case by (simp add: from_be_def horner_def)
next
  case (snoc c s)
  then show ?case by (simp add: from_be_def horner_snoc)
qed

lemma length_be_bytes [simp]: "length (be_bytes w) = 4"
  by (simp add: be_bytes_def)

lemma horner_be: "horner (be_bytes w) = unat w"
proof -
  let ?n = "unat w"
  have "?n < 2 ^ 32" using unsigned_less [of w] by simp
  then have top: "?n div 16777216 mod 256 = ?n div 16777216" by simp
  moreover have "?n div 16777216 = ?n div 65536 div 256" "?n div 65536 = ?n div 256 div 256"
    by (simp_all flip: div_mult2_eq)
  ultimately have "((?n div 16777216 mod 256 * 256 + ?n div 65536 mod 256) * 256 + ?n div 256 mod 256) * 256 + ?n mod 256 = ?n"
    by (simp only: div_mult_mod_eq)
  then show ?thesis by (simp add: horner_def be_bytes_def top)
qed

lemma from_be_bytes [simp]: "from_be (be_bytes w) = w"
  by (simp add: from_be_horner horner_be)

lemma horner_less: "horner s < 256 ^ length s"
proof (induction s rule: rev_induct)
  case Nil
  then show ?case by (simp add: horner_def)
next
  case (snoc c s)
  have "horner s * 256 + of_char c < (horner s + 1) * 256" by simp
  moreover have "horner s + 1 \<le> 256 ^ length s" using snoc by simp
  then have "(horner s + 1) * 256 \<le> 256 ^ length s * 256" by (rule mult_le_mono1)
  ultimately have "horner s * 256 + of_char c < 256 ^ length s * 256" by (rule less_le_trans)
  then show ?case by (simp add: horner_snoc mult.commute)
qed

lemma horner_div: "horner (s @ [c]) div 256 = horner s" "char_of (horner (s @ [c])) = c"
proof -
  show "horner (s @ [c]) div 256 = horner s" by (simp add: horner_snoc)
  have "horner (s @ [c]) mod 256 = of_char c" by (simp add: horner_snoc)
  then show "char_of (horner (s @ [c])) = c" by (metis char_of_mod_256 char_of_char)
qed

lemma be_bytes_from [simp]: "length s = 4 \<Longrightarrow> be_bytes (from_be s) = s"
proof -
  assume len: "length s = 4"
  then obtain a b c d where s: "s = [a, b, c, d]" by (auto simp: numeral_eq_Suc length_Suc_conv)
  have n: "unat (from_be s) = horner s"
    using horner_less [of s] len by (simp add: from_be_horner unat_of_nat take_bit_nat_eq_self)
  have "horner s div 256 = horner [a, b, c]" "horner [a, b, c] div 256 = horner [a, b]" "horner [a, b] div 256 = horner [a]"
    using horner_div(1) [of "[a, b, c]" d] horner_div(1) [of "[a, b]" c] horner_div(1) [of "[a]" b] by (simp_all add: s)
  moreover have "horner s div 65536 = horner s div 256 div 256" "horner s div 16777216 = horner s div 256 div 256 div 256"
    by (simp_all flip: div_mult2_eq)
  ultimately show ?thesis
    using horner_div(2) [of "[a, b, c]" d] horner_div(2) [of "[a, b]" c] horner_div(2) [of "[a]" b] horner_div(2) [of "[]" a]
    by (simp add: be_bytes_def n) (simp add: s)
qed

section \<open>Frames\<close>

definition read_frame :: "'a decoder \<Rightarrow> (stream, frame_error, 'a) eff" where
  "read_frame decode =
    bind (map_err (\<lambda>e. case e of UnexpectedEof \<Rightarrow> FrameClosed | ReadFailed err \<Rightarrow> FrameIo err) (read_exact 4)) (\<lambda>hdr.
    let len = unat (from_be hdr) in
    if max_frame_len < len then throw (FrameTooLarge len max_frame_len)
    else
      bind (map_err (\<lambda>e. FrameIo (case e of UnexpectedEof \<Rightarrow> IoError IoOther ''early eof'' | ReadFailed err \<Rightarrow> err))
        (read_exact len)) (\<lambda>body.
      case decode body of Inl m \<Rightarrow> throw (FrameDecode m) | Inr x \<Rightarrow> ret x))"

definition write_frame :: "'a encoder \<Rightarrow> 'a \<Rightarrow> (stream, frame_error, unit) eff" where
  "write_frame encode x =
    bind (map_err FrameDecode (lift_res (encode x))) (\<lambda>body.
    if max_frame_len < length body then throw (FrameTooLarge (length body) max_frame_len)
    else
      seq (map_err FrameIo (write_all (be_bytes (of_nat (length body)))))
      (seq (map_err FrameIo (write_all body))
      (map_err FrameIo (write_all []))))"

text \<open>The bytes of one frame.\<close>

definition frame :: "string \<Rightarrow> string" where
  "frame body = be_bytes (of_nat (length body)) @ body"

lemma frame_len: "length body \<le> max_frame_len \<Longrightarrow> unat (of_nat (length body) :: 32 word) = length body"
  by (simp add: max_frame_len_def unat_of_nat take_bit_nat_eq_self)

text \<open>Reading one frame off the front of the input.\<close>

lemma read_frame_step:
  assumes "str_in s = frame body @ rest" "length body \<le> max_frame_len"
  shows "read_frame decode s = (case decode body of Inl m \<Rightarrow> Inl (FrameDecode m) | Inr x \<Rightarrow> Inr x, s\<lparr>str_in := rest\<rparr>)"
  using assms frame_len [OF assms(2)]
  by (simp add: read_frame_def bind_def map_err_def read_exact_def frame_def Let_def throw_def ret_def not_less split: sum.split)

lemma read_frame_end: "str_in s = [] \<Longrightarrow> read_frame decode s =
    (Inl (case str_end s of None \<Rightarrow> FrameClosed | Some e \<Rightarrow> FrameIo e), s)"
  by (cases s) (simp add: read_frame_def bind_def map_err_def read_exact_def split: option.split)

lemma read_frame_progress: "read_frame decode s = (Inr x, s') \<Longrightarrow> length (str_in s') < length (str_in s)"
  by (auto simp: read_frame_def bind_def map_err_def read_exact_def throw_def ret_def Let_def
      split: if_splits sum.splits prod.splits)

lemma wp_write_all: "str_in t = X \<Longrightarrow> wp (write_all b) (\<lambda>_ t. str_in t = X) (\<lambda>_ t. str_in t = X) t"
  by (auto simp: wp_def write_all_def split: list.split option.split)

lemma write_frame_in: "str_in (snd (write_frame encode x s)) = str_in s"
proof -
  have "wp (write_frame encode x) (\<lambda>_ t. str_in t = str_in s) (\<lambda>_ t. str_in t = str_in s) s"
    by (cases "encode x")
       (auto simp: write_frame_def wp_simps intro!: wp_mono [OF wp_write_all])
  then show ?thesis by (rule wp_state)
qed

lemma write_frame_ok:
  assumes "encode x = Inr body" "length body \<le> max_frame_len" "str_faults s = []"
  shows "write_frame encode x s = (Inr (), s\<lparr>str_out := str_out s @ frame body\<rparr>)"
  using assms by (simp add: write_frame_def bind_def seq_def map_err_def lift_res_def write_all_def frame_def not_less)

text \<open>
  C20: frames round-trip.  A value that encodes to at most 16 MiB, written to a sound stream,
  puts exactly its frame on the wire; an end that receives these bytes, whatever follows them,
  reads the value back and leaves what follows.
\<close>

theorem frame_roundtrip:
  assumes "encode x = Inr body" "decode body = Inr x" "length body \<le> max_frame_len" "str_faults s = []"
  shows "\<exists>bytes. write_frame encode x s = (Inr (), s\<lparr>str_out := str_out s @ bytes\<rparr>) \<and>
     (\<forall>rest r. str_in r = bytes @ rest \<longrightarrow> read_frame decode r = (Inr x, r\<lparr>str_in := rest\<rparr>))"
  using write_frame_ok [of encode, OF assms(1,3,4)] read_frame_step [OF _ assms(3), of _ _ decode] assms(2) by auto

definition empty_stream :: stream where
  "empty_stream = \<lparr> str_in = [], str_end = None, str_out = [], str_faults = [] \<rparr>"

lemma frame_roundtrip_witness:
  "\<exists>bytes. write_frame Inr ''hi'' empty_stream = (Inr (), empty_stream\<lparr>str_out := bytes\<rparr>) \<and>
     read_frame Inr (empty_stream\<lparr>str_in := bytes @ ''next''\<rparr>) = (Inr ''hi'', empty_stream\<lparr>str_in := ''next''\<rparr>)"
  using frame_roundtrip [of Inr "''hi''" "''hi''" Inr empty_stream]
  by (force simp: empty_stream_def max_frame_len_def)

text \<open>
  C21: reading is bounded.  Whatever arrives, a read consumes at most four bytes more than the
  16 MiB bound, a header that declares more is refused before the body is touched, and each
  value that is returned was decoded from a body within the bound.
\<close>

theorem read_frame_bounded:
  "case read_frame decode s of (r, s') \<Rightarrow>
     (\<exists>used. str_in s = used @ str_in s' \<and> length used \<le> 4 + max_frame_len) \<and>
     (case r of
        Inr x \<Rightarrow> \<exists>body rest. str_in s = frame body @ rest \<and> length body \<le> max_frame_len \<and> decode body = Inr x
      | Inl (FrameTooLarge len _) \<Rightarrow> max_frame_len < len \<and> str_in s' = drop 4 (str_in s)
      | Inl _ \<Rightarrow> True)"
proof (cases "length (str_in s) < 4")
  case True
  then show ?thesis
    by (auto simp: read_frame_def bind_def map_err_def read_exact_def split: option.split)
next
  case False
  define hdr rest where "hdr = take 4 (str_in s)" and "rest = drop 4 (str_in s)"
  let ?len = "unat (from_be hdr)"
  have s: "str_in s = hdr @ rest" and "length hdr = 4" using False by (simp_all add: hdr_def rest_def)
  then have hdr: "be_bytes (from_be hdr) = hdr" by simp
  show ?thesis
  proof (cases "?len \<le> max_frame_len \<and> ?len \<le> length rest")
    case True
    then have "str_in s = frame (take ?len rest) @ drop ?len rest"
      using s hdr by (simp add: frame_def min_absorb2)
    moreover have "length (take ?len rest) \<le> max_frame_len" "length (frame (take ?len rest)) \<le> 4 + max_frame_len"
      using True by (simp_all add: frame_def)
    ultimately show ?thesis using read_frame_step [of s "take ?len rest" "drop ?len rest" decode]
      by (auto split: sum.split)
  next
    case False
    have "length hdr + length rest \<le> 4 + max_frame_len" if "?len \<le> max_frame_len"
      using False that \<open>length hdr = 4\<close> by simp
    then show ?thesis using False s \<open>length hdr = 4\<close>
      by (auto simp: read_frame_def bind_def map_err_def read_exact_def Let_def throw_def split: option.split)
  qed
qed

end
