(* ===== verification/Ipc_Server.thy ===== *)
theory Ipc_Server
  imports Ipc_Frame
begin

text \<open>
  \<^verbatim>\<open>crates/aegis-ipc/src/server.rs\<close> and \<^verbatim>\<open>client.rs\<close>: the connection loop, the accept loop and
  the client call.

  A connection is the stream with everything its peer will ever send, so the loop of
  \<^verbatim>\<open>serve_connection\<close> ends: each round consumes at least the four bytes of a header.  The handler
  is a function on the daemon state.  An accept loop works off the list of connections that
  arrive; connections, which the program serves on concurrent tasks, are served one after the
  other.
\<close>

section \<open>One connection\<close>

lemma write_frame_keeps: "write_frame encode x s = (r, s') \<Longrightarrow> str_in s' = str_in s"
  using write_frame_in [of encode x s] by simp

function serve_connection ::
  "'q decoder \<Rightarrow> 'r encoder \<Rightarrow> ('q \<Rightarrow> 's \<Rightarrow> 'r \<times> 's) \<Rightarrow> stream \<Rightarrow> 's \<Rightarrow> (frame_error + unit) \<times> stream \<times> 's" where
  "serve_connection decode encode handle st d = (case read_frame decode st of
      (Inl e, st1) \<Rightarrow> (if e = FrameClosed then Inr () else Inl e, st1, d)
    | (Inr req, st1) \<Rightarrow> (case handle req d of (resp, d1) \<Rightarrow> (case write_frame encode resp st1 of
          (Inl e, st2) \<Rightarrow> (Inl e, st2, d1)
        | (Inr _, st2) \<Rightarrow> serve_connection decode encode handle st2 d1)))"
  by pat_completeness auto
termination
  by (relation "measure (\<lambda>(_, _, _, st, _). length (str_in st))")
     (auto dest!: read_frame_progress [OF sym] write_frame_keeps [OF sym])

declare serve_connection.simps [simp del]

text \<open>The specification: the replies to a sequence of requests and the state they leave.\<close>

fun replies :: "('q \<Rightarrow> 's \<Rightarrow> 'r \<times> 's) \<Rightarrow> 'q list \<Rightarrow> 's \<Rightarrow> 'r list \<times> 's" where
  "replies handle [] d = ([], d)"
| "replies handle (q # qs) d = (case handle q d of (r, d1) \<Rightarrow> (case replies handle qs d1 of (rs, d2) \<Rightarrow> (r # rs, d2)))"

definition decoded :: "'a decoder \<Rightarrow> string \<Rightarrow> 'a \<Rightarrow> bool" where
  "decoded decode b x \<longleftrightarrow> length b \<le> max_frame_len \<and> decode b = Inr x"

definition encoded :: "'a encoder \<Rightarrow> 'a \<Rightarrow> string \<Rightarrow> bool" where
  "encoded encode x b \<longleftrightarrow> length b \<le> max_frame_len \<and> encode x = Inr b"

definition frames :: "string list \<Rightarrow> string" where
  "frames bs = concat (List.map frame bs)"

lemma frames_simps [simp]: "frames [] = []" "frames (b # bs) = frame b @ frames bs"
  by (simp_all add: frames_def)

lemma serve_prefix:
  assumes "list_all2 (decoded decode) bodies reqs" "replies handle reqs d = (rs, d')"
    "list_all2 (encoded encode) rs outs" "str_in s = frames bodies @ tail" "str_faults s = []"
  shows "serve_connection decode encode handle s d
    = serve_connection decode encode handle (s\<lparr>str_in := tail, str_out := str_out s @ frames outs\<rparr>) d'"
  using assms
proof (induction bodies reqs arbitrary: d rs outs s rule: list_all2_induct)
  case Nil
  moreover have "s\<lparr>str_in := str_in s\<rparr> = s" by simp
  ultimately show ?case by (auto simp del: stream.surjective)
next
  case (Cons b bs q qs)
  obtain r d1 where h: "handle q d = (r, d1)" by fastforce
  obtain rs1 where r: "rs = r # rs1" "replies handle qs d1 = (rs1, d')"
    using Cons.prems(1) h by (auto split: prod.splits)
  obtain o1 outs1 where out: "outs = o1 # outs1" "encoded encode r o1" "list_all2 (encoded encode) rs1 outs1"
    using Cons.prems(2) r by (auto simp: list_all2_Cons1)
  let ?s1 = "s\<lparr>str_in := frames bs @ tail\<rparr>"
  let ?s2 = "?s1\<lparr>str_out := str_out s @ frame o1\<rparr>"
  have "read_frame decode s = (Inr q, ?s1)"
    using Cons.hyps(1) Cons.prems(3) by (subst read_frame_step) (auto simp: decoded_def)
  moreover have "write_frame encode r ?s1 = (Inr (), ?s2)"
    using out(2) Cons.prems(4) by (subst write_frame_ok) (auto simp: encoded_def)
  ultimately have "serve_connection decode encode handle s d = serve_connection decode encode handle ?s2 d1"
    by (simp add: serve_connection.simps [of decode encode handle s] h)
  also have "\<dots> = serve_connection decode encode handle (?s2\<lparr>str_in := tail, str_out := str_out ?s2 @ frames outs1\<rparr>) d'"
    by (rule Cons.IH [OF r(2) out(3)]) (use Cons.prems(4) in auto)
  finally show ?case by (simp add: out(1))
qed

lemma serve_all:
  assumes "list_all2 (decoded decode) bodies reqs" "replies handle reqs d = (rs, d')"
    "list_all2 (encoded encode) rs outs"
    "s = \<lparr> str_in = frames bodies, str_end = None, str_out = [], str_faults = [] \<rparr>"
  shows "serve_connection decode encode handle s d
    = (Inr (), \<lparr> str_in = [], str_end = None, str_out = frames outs, str_faults = [] \<rparr>, d')"
  using serve_prefix [OF assms(1,2,3), of s "[]"] assms(4)
  by (simp add: serve_connection.simps [of _ _ _ "_\<lparr>str_in := _\<rparr>"] read_frame_end)
     (simp add: serve_connection.simps read_frame_end)

text \<open>
  C22: a connection answers every request once, in order.  When well-formed request frames
  arrive and then the peer closes, the connection ends cleanly, the bytes sent back are the
  frames of the specification's replies in the same order, and the daemon state is the one the
  requests leave one after the other.
\<close>

theorem serve_lockstep:
  assumes "list_all2 (decoded decode) bodies reqs" "replies handle reqs d = (rs, d')"
    "list_all2 (encoded encode) rs outs"
    "s = \<lparr> str_in = frames bodies, str_end = None, str_out = [], str_faults = [] \<rparr>"
  shows "serve_connection decode encode handle s d
    = (Inr (), \<lparr> str_in = [], str_end = None, str_out = frames outs, str_faults = [] \<rparr>, d')"
  using assms by (rule serve_all)

text \<open>
  C23: a protocol fault ends the connection.  After any number of answered requests, a frame
  whose body does not decode, or whose header declares more than 16 MiB, ends the connection
  with that error; the requests before it were answered and have had their effect, and nothing
  behind it is ever handled.
\<close>

theorem serve_fault_ends:
  assumes "list_all2 (decoded decode) bodies reqs" "replies handle reqs d = (rs, d')"
    "list_all2 (encoded encode) rs outs" "str_in s = frames bodies @ bad @ rest" "str_faults s = []" "str_out s = []"
    and "(\<exists>body m. bad = frame body \<and> length body \<le> max_frame_len \<and> decode body = Inl m \<and> e = FrameDecode m) \<or>
      length bad = 4 \<and> max_frame_len < unat (from_be bad) \<and> e = FrameTooLarge (unat (from_be bad)) max_frame_len"
  shows "\<exists>s'. serve_connection decode encode handle s d = (Inl e, s', d') \<and> str_out s' = frames outs \<and> str_in s' = rest"
proof -
  let ?s = "s\<lparr>str_in := bad @ rest, str_out := frames outs\<rparr>"
  have "read_frame decode ?s = (Inl e, ?s\<lparr>str_in := rest\<rparr>) \<and> e \<noteq> FrameClosed"
    using assms(7)
  proof (elim disjE exE conjE)
    fix body m assume "bad = frame body" "length body \<le> max_frame_len" "decode body = Inl m" "e = FrameDecode m"
    then show ?thesis by (simp add: read_frame_step [where body = body and rest = rest])
  next
    assume "length bad = 4" "max_frame_len < unat (from_be bad)" "e = FrameTooLarge (unat (from_be bad)) max_frame_len"
    then show ?thesis by (simp add: read_frame_def bind_def map_err_def read_exact_def throw_def)
  qed
  then show ?thesis
    using serve_prefix [OF assms(1,2,3), of s "bad @ rest"] assms(4,5,6)
    by (simp add: serve_connection.simps [of _ _ _ ?s])
qed

section \<open>The client call\<close>

definition client_call :: "'q encoder \<Rightarrow> 'r decoder \<Rightarrow> 'q \<Rightarrow> (stream, frame_error, 'r) eff" where
  "client_call encode decode req = seq (write_frame encode req) (read_frame decode)"

text \<open>
  Client and server fit together.  The frame a client writes, delivered to a connection of
  the daemon, makes the daemon handle exactly that request; the bytes the daemon sends,
  delivered to the client, make the call return exactly the handler's reply.
\<close>

lemma client_server_roundtrip:
  assumes "encoded enc_q req b" "decoded dec_q b req"
    and "handle req d = (resp, d')" "encoded enc_r resp b'" "decoded dec_r b' resp"
  shows "\<exists>request reply.
     (\<forall>c. str_faults c = [] \<longrightarrow> str_in c = reply \<longrightarrow>
        client_call enc_q dec_r req c = (Inr resp, c\<lparr>str_in := [], str_out := str_out c @ request\<rparr>)) \<and>
     serve_connection dec_q enc_r handle \<lparr> str_in = request, str_end = None, str_out = [], str_faults = [] \<rparr> d
       = (Inr (), \<lparr> str_in = [], str_end = None, str_out = reply, str_faults = [] \<rparr>, d')"
proof (intro exI conjI allI impI)
  fix c :: stream assume c: "str_faults c = []" "str_in c = frame b'"
  have "write_frame enc_q req c = (Inr (), c\<lparr>str_out := str_out c @ frame b\<rparr>)"
    using assms(1) c by (subst write_frame_ok) (auto simp: encoded_def)
  moreover have "read_frame dec_r (c\<lparr>str_out := x\<rparr>) = (Inr resp, c\<lparr>str_out := x, str_in := []\<rparr>)" for x
    using assms(5) c by (subst read_frame_step [of _ b' "[]"]) (auto simp: decoded_def)
  ultimately show "client_call enc_q dec_r req c = (Inr resp, c\<lparr>str_in := [], str_out := str_out c @ frame b\<rparr>)"
    by (simp add: client_call_def seq_def bind_def)
next
  show "serve_connection dec_q enc_r handle \<lparr> str_in = frame b, str_end = None, str_out = [], str_faults = [] \<rparr> d
      = (Inr (), \<lparr> str_in = [], str_end = None, str_out = frame b', str_faults = [] \<rparr>, d')"
    using serve_all [of dec_q "[b]" "[req]" handle d "[resp]" d' enc_r "[b']"] assms by simp
qed

definition echo :: "string \<Rightarrow> nat \<Rightarrow> string \<times> nat" where
  "echo q n = (q @ ''!'', n + 1)"

definition picky :: "string decoder" where
  "picky b = (if b = ''bad'' then Inl ''expected value'' else Inr b)"

lemma echo_codec:
  "encoded Inr ''hi'' ''hi''" "encoded Inr ''hi!'' ''hi!''" "decoded picky ''hi'' ''hi''" "decoded picky ''hi!'' ''hi!''"
  by (simp_all add: encoded_def decoded_def max_frame_len_def picky_def)

lemma client_server_roundtrip_witness:
  "\<exists>request reply. (\<exists>c. client_call Inr picky ''hi'' (empty_stream\<lparr>str_in := reply\<rparr>) = (Inr ''hi!'', c)) \<and>
     (\<exists>s'. serve_connection picky Inr echo (empty_stream\<lparr>str_in := request\<rparr>) 0 = (Inr (), s', 1))"
  using client_server_roundtrip [OF echo_codec(1,3) _ echo_codec(2,4), of echo 0 1]
  by (force simp: echo_def empty_stream_def)

lemma serve_lockstep_witness:
  "serve_connection picky Inr echo (empty_stream\<lparr>str_in := frames [''hi'', ''hi'']\<rparr>) 0
     = (Inr (), empty_stream\<lparr>str_out := frames [''hi!'', ''hi!'']\<rparr>, 2)"
  using serve_lockstep [of picky "[''hi'', ''hi'']" "[''hi'', ''hi'']" echo 0 "[''hi!'', ''hi!'']" 2 Inr "[''hi!'', ''hi!'']"] echo_codec
  by (simp add: echo_def empty_stream_def)

lemma serve_fault_ends_witness:
  "\<exists>s'. serve_connection picky Inr echo (empty_stream\<lparr>str_in := frames [''hi''] @ frame ''bad'' @ frame ''hi''\<rparr>) 0
     = (Inl (FrameDecode ''expected value''), s', 1) \<and> str_out s' = frames [''hi!'']"
  using serve_fault_ends [of picky "[''hi'']" "[''hi'']" echo 0 "[''hi!'']" 1 Inr "[''hi!'']" "empty_stream\<lparr>str_in := frames [''hi''] @ frame ''bad'' @ frame ''hi''\<rparr>"
      "frame ''bad''" "frame ''hi''" "FrameDecode ''expected value''"] echo_codec
  by (force simp: echo_def empty_stream_def max_frame_len_def picky_def)

section \<open>Accepting connections\<close>

text \<open>
  \<^verbatim>\<open>Listener::accept\<close>: work off the arriving peers.  \<^verbatim>\<open>admit\<close> says of one arrival whether it is
  dropped (\<^verbatim>\<open>None\<close>), is an accept error, or becomes a connection.
\<close>

fun accept :: "('i \<Rightarrow> (error + 'c) option) \<Rightarrow> 'i list \<Rightarrow> ((error + 'c) \<times> 'i list) option" where
  "accept admit [] = None"
| "accept admit (x # xs) = (case admit x of None \<Rightarrow> accept admit xs | Some r \<Rightarrow> Some (r, xs))"

lemma accept_less: "accept admit q = Some (r, q') \<Longrightarrow> length q' < length q"
  by (induction q) (force split: option.splits)+

function serve ::
  "('i \<Rightarrow> (error + 'c) option) \<Rightarrow> ('c \<Rightarrow> 's \<Rightarrow> 's) \<Rightarrow> 'i list \<Rightarrow> 's \<Rightarrow> error option \<times> 'c list \<times> 's" where
  "serve admit run q d = (case accept admit q of
      None \<Rightarrow> (None, [], d)
    | Some (Inl e, _) \<Rightarrow> (Some e, [], d)
    | Some (Inr c, q') \<Rightarrow> (case serve admit run q' (run c d) of (e, cs, d') \<Rightarrow> (e, c # cs, d')))"
  by pat_completeness auto
termination
  by (relation "measure (\<lambda>(_, _, q, _). length q)") (auto dest!: accept_less)

declare serve.simps [simp del]

lemma serve_nil [simp]: "serve admit run [] d = (None, [], d)"
  by (simp add: serve.simps)

lemma serve_cons [simp]: "serve admit run (x # xs) d = (case admit x of
      None \<Rightarrow> serve admit run xs d
    | Some (Inl e) \<Rightarrow> (Some e, [], d)
    | Some (Inr c) \<Rightarrow> (case serve admit run xs (run c d) of (e, cs, d') \<Rightarrow> (e, c # cs, d')))"
proof (cases "admit x")
  case None
  then show ?thesis by (simp add: serve.simps [of admit run "x # xs"] serve.simps [of admit run xs])
next
  case (Some r)
  then show ?thesis by (cases r) (simp_all add: serve.simps [of admit run "x # xs"])
qed

text \<open>A listener contract: the connections that get through are those its policy authorises.\<close>

locale listener =
  fixes admit :: "'i \<Rightarrow> (error + 'c) option" and authorised :: "'i \<Rightarrow> 'c \<Rightarrow> bool"
  assumes admit_authorised: "admit x = Some (Inr c) \<longleftrightarrow> authorised x c"
begin

lemma serve_authorised: "serve admit run q d = (e, cs, d') \<Longrightarrow> c \<in> set cs \<Longrightarrow> \<exists>x \<in> set q. authorised x c"
  by (induction q arbitrary: d e cs d')
     (force split: option.splits sum.splits prod.splits simp flip: admit_authorised)+

lemma serve_state: "serve admit run q d = (e, cs, d') \<Longrightarrow> d' = fold run cs d"
  by (induction q arbitrary: d e cs d') (force split: option.splits sum.splits prod.splits)+

text \<open>As long as accepting works, nobody authorised is turned away, whatever other connections do.\<close>

lemma serve_complete: "serve admit run q d = (None, cs, d') \<Longrightarrow> x \<in> set q \<Longrightarrow> authorised x c \<Longrightarrow> c \<in> set cs"
  by (induction q arbitrary: d cs d')
     (force split: option.splits sum.splits prod.splits simp flip: admit_authorised)+

end

end
