(* ===== verification/Ipc_Transport.thy ===== *)
theory Ipc_Transport
  imports Ipc_Server Config
begin

text \<open>
  \<^verbatim>\<open>crates/aegis-ipc/src/transport.rs\<close>: who may connect.  The Unix listener admits peers by the
  uid the kernel reports; the development transport for other systems admits loopback peers
  that present the shared token.
\<close>

unbundle bit_operations_syntax

section \<open>Unix sockets\<close>

record auth_policy =
  au_self_uid :: "32 word"
  au_allowed_uid :: "32 word option"

definition same_uid :: "32 word \<Rightarrow> auth_policy" where
  "same_uid u = \<lparr> au_self_uid = u, au_allowed_uid = None \<rparr>"

definition with_allowed :: "32 word \<Rightarrow> 32 word \<Rightarrow> auth_policy" where
  "with_allowed u v = \<lparr> au_self_uid = u, au_allowed_uid = Some v \<rparr>"

definition permits :: "auth_policy \<Rightarrow> 32 word \<Rightarrow> bool" where
  "permits p u = (u = au_self_uid p \<or> au_allowed_uid p = Some u)"

definition bind_socket :: "path \<Rightarrow> (fs, io_error, unit) eff \<Rightarrow> (fs, error, unit) eff" where
  "bind_socket p sys_bind =
    bind (fs_exists p) (\<lambda>ex.
    seq (if ex then seq (attempt (fs_remove_file p)) (ret ()) else ret ())
    (map_err (\<lambda>e. System (''bind unix socket: '' @ io_text e)) sys_bind))"

definition peer_uid :: "io_error + 32 word \<Rightarrow> 32 word result" where
  "peer_uid cred = (case cred of Inl e \<Rightarrow> Inl (System (''SO_PEERCRED: '' @ io_text e)) | Inr u \<Rightarrow> Inr u)"

text \<open>An arrival: the accept error, or a stream with the answer of \<^verbatim>\<open>SO_PEERCRED\<close>.\<close>

type_synonym unix_arrival = "io_error + (stream \<times> (io_error + 32 word))"

definition unix_admit :: "auth_policy \<Rightarrow> unix_arrival \<Rightarrow> (error + stream) option" where
  "unix_admit p a = (case a of
      Inl e \<Rightarrow> Some (Inl (System (''accept: '' @ io_text e)))
    | Inr (st, cred) \<Rightarrow> (case peer_uid cred of
          Inr u \<Rightarrow> if permits p u then Some (Inr st) else None
        | Inl _ \<Rightarrow> None))"

definition unix_authorised :: "auth_policy \<Rightarrow> unix_arrival \<Rightarrow> stream \<Rightarrow> bool" where
  "unix_authorised p a st = (\<exists>u. a = Inr (st, Inr u) \<and> (u = au_self_uid p \<or> au_allowed_uid p = Some u))"

interpretation unix_socket: listener "unix_admit p" "unix_authorised p"
  by unfold_locales
     (auto simp: unix_admit_def unix_authorised_def permits_def peer_uid_def split: sum.splits)

section \<open>Tokens\<close>

definition max_token_len :: nat where
  "max_token_len = 512"

text \<open>\<^verbatim>\<open>utf8\<close> is the standard library's UTF-8 check of \<^verbatim>\<open>read_to_string\<close>.\<close>

definition read_token :: "(string \<Rightarrow> bool) \<Rightarrow> path \<Rightarrow> (fs, error, string) eff" where
  "read_token utf8 p =
    bind (map_err (\<lambda>e. System (''read token file: '' @ io_text e)) (fs_read p)) (\<lambda>raw.
    seq (guard_e (utf8 raw) (System (''read token file: stream did not contain valid UTF-8'')))
    (let token = trim raw in
     if token = [] then throw (Config ''token file is empty'')
     else if max_token_len < length token then throw (Config ''token is too long'')
     else ret token))"

definition byte_at :: "string \<Rightarrow> nat \<Rightarrow> 8 word" where
  "byte_at s i = (if i < length s then of_nat (of_char (s ! i)) else 0)"

definition tokens_match :: "string \<Rightarrow> string \<Rightarrow> bool" where
  "tokens_match a b =
    (let diff = (of_nat (length a XOR length b) :: 8 word);
         n = max (length a) (length b)
     in foldl (\<lambda>diff i. diff OR (byte_at a i XOR byte_at b i)) diff [0..<n] = 0)"

lemma foldl_or_zero: "foldl (\<lambda>d i. d OR f i) (d0 :: 8 word) xs = 0 \<longleftrightarrow> d0 = 0 \<and> (\<forall>i \<in> set xs. f i = 0)"
  by (induction xs arbitrary: d0) (auto simp: or_eq_0_iff)

lemma xor_zero: "(x :: 8 word) XOR y = 0 \<longleftrightarrow> x = y"
  by (metis xor.assoc xor.left_neutral xor.right_neutral xor_self_eq)

lemma byte_at_eq: "i < length s \<Longrightarrow> byte_at s i = of_nat (of_char (s ! i))"
  by (simp add: byte_at_def)

lemma unat_byte: "unat (of_nat (of_char c) :: 8 word) = of_char c"
  by (simp add: unat_of_nat take_bit_nat_eq_self)

lemma byte_inj: "(of_nat (of_char c) :: 8 word) = of_nat (of_char c') \<longleftrightarrow> c = c'"
  by (metis unat_byte of_char_eq_iff)

lemma byte_zero: "(of_nat (of_char c) :: 8 word) = 0 \<longleftrightarrow> c = CHR 0x00"
  using byte_inj [of c "CHR 0x00"] by simp

lemma len_xor: "(of_nat (m XOR n) :: 8 word) = 0 \<longleftrightarrow> m mod 256 = n mod 256"
proof -
  have "(of_nat (m XOR n) :: 8 word) = 0 \<longleftrightarrow> take_bit 8 (m XOR n) = 0"
    by (simp add: word_of_nat_eq_0_iff take_bit_eq_mod dvd_eq_mod_eq_0)
  also have "\<dots> \<longleftrightarrow> take_bit 8 m = take_bit 8 n"
    unfolding take_bit_xor by (metis xor.assoc xor.left_neutral xor.right_neutral xor_self_eq)
  finally show ?thesis by (simp add: take_bit_eq_mod)
qed

lemma tokens_match_iff: "tokens_match a b \<longleftrightarrow> length a mod 256 = length b mod 256 \<and>
    (\<forall>i < max (length a) (length b). byte_at a i = byte_at b i)"
  by (auto simp: tokens_match_def Let_def foldl_or_zero len_xor xor_zero)

lemma tokens_match_shorter:
  assumes "tokens_match a b" "CHR 0x00 \<notin> set b"
  shows "length b \<le> length a"
proof (rule ccontr)
  assume "\<not> length b \<le> length a"
  then have "length a < length b" by simp
  then have "byte_at b (length a) = byte_at a (length a)" using assms(1) by (simp add: tokens_match_iff)
  then have "b ! length a = CHR 0x00" using \<open>length a < length b\<close> by (simp add: byte_at_def byte_zero)
  then show False using assms(2) \<open>length a < length b\<close> nth_mem by metis
qed



text \<open>
  The difference of the lengths is truncated to eight bits and the shorter token padded with
  zeros, so a token followed by 256 NUL bytes is taken for the token.
\<close>

lemma tokens_match_padded: "tokens_match a (a @ replicate 256 (CHR 0x00))"
  by (auto simp: tokens_match_iff byte_at_def nth_append byte_zero)

section \<open>The development transport\<close>

datatype handshake = Handshake (hs_token: string)
datatype handshake_ack = HandshakeAck (ha_ok: bool)

definition authorize :: "handshake decoder \<Rightarrow> handshake_ack encoder \<Rightarrow> string \<Rightarrow> (stream, error, bool) eff" where
  "authorize decode encode token =
    bind (map_err frame_error_into (read_frame decode)) (\<lambda>hs.
    let ok = tokens_match (hs_token hs) token in
    seq (map_err frame_error_into (write_frame encode (HandshakeAck ok)))
    (ret ok))"

text \<open>An arrival: the accept error, or whether the peer is loopback and its stream.\<close>

type_synonym tcp_arrival = "io_error + (bool \<times> stream)"

definition tcp_admit :: "handshake decoder \<Rightarrow> handshake_ack encoder \<Rightarrow> string \<Rightarrow> tcp_arrival \<Rightarrow> (error + stream) option" where
  "tcp_admit decode encode token a = (case a of
      Inl e \<Rightarrow> Some (Inl (System (''accept: '' @ io_text e)))
    | Inr (loopback, st) \<Rightarrow>
        if \<not> loopback then None
        else (case authorize decode encode token st of
            (Inr True, st') \<Rightarrow> Some (Inr st')
          | (Inr False, _) \<Rightarrow> None
          | (Inl _, _) \<Rightarrow> None))"

definition tcp_authorised :: "handshake decoder \<Rightarrow> handshake_ack encoder \<Rightarrow> string \<Rightarrow> tcp_arrival \<Rightarrow> stream \<Rightarrow> bool" where
  "tcp_authorised decode encode token a st' = (\<exists>st. a = Inr (True, st) \<and> authorize decode encode token st = (Inr True, st'))"

interpretation tcp_dev: listener "tcp_admit decode encode token" "tcp_authorised decode encode token"
  by unfold_locales
     (auto simp: tcp_admit_def tcp_authorised_def split: sum.splits prod.splits bool.splits if_splits)

definition tcp_connect :: "handshake encoder \<Rightarrow> handshake_ack decoder \<Rightarrow> string \<Rightarrow> (stream, error, unit) eff" where
  "tcp_connect encode decode token =
    seq (map_err frame_error_into (write_frame encode (Handshake token)))
    (bind (map_err frame_error_into (read_frame decode)) (\<lambda>ack.
     if \<not> ha_ok ack then throw (Precondition ''ipc token handshake rejected'') else ret ()))"

lemma authorize_token:
  assumes "authorize decode encode token st = (Inr True, st')"
  shows "\<exists>t st1. read_frame decode st = (Inr (Handshake t), st1) \<and> tokens_match t token"
  using assms
  by (cases "fst (read_frame decode st)"; cases "projr (fst (read_frame decode st))")
     (auto simp: authorize_def bind_def seq_def map_err_def Let_def ret_def split: prod.splits sum.splits)

text \<open>
  C25: on the Unix socket only the configured users are served, and all of them.  Whatever peers
  arrive, in whatever order and with whatever requests, every connection that is served belongs
  to a peer whose kernel-reported uid is the daemon's or the one allowed in addition; unless
  accepting itself fails, every such peer is served.
\<close>

theorem unix_serves_authorised:
  assumes "serve (unix_admit p) run q d = (e, cs, d')"
  shows "(\<forall>st \<in> set cs. \<exists>u. Inr (st, Inr u) \<in> set q \<and> (u = au_self_uid p \<or> au_allowed_uid p = Some u)) \<and>
     (e = None \<longrightarrow> (\<forall>st u. Inr (st, Inr u) \<in> set q \<longrightarrow> u = au_self_uid p \<or> au_allowed_uid p = Some u \<longrightarrow> st \<in> set cs)) \<and>
     d' = fold run cs d"
proof (intro conjI ballI allI impI)
  fix st assume "st \<in> set cs"
  from unix_socket.serve_authorised [OF assms this]
  show "\<exists>u. Inr (st, Inr u) \<in> set q \<and> (u = au_self_uid p \<or> au_allowed_uid p = Some u)"
    by (auto simp: unix_authorised_def)
next
  fix st u assume "e = None" and "Inr (st, Inr u) \<in> set q" "u = au_self_uid p \<or> au_allowed_uid p = Some u"
  then show "st \<in> set cs"
    using unix_socket.serve_complete [OF assms [unfolded \<open>e = None\<close>], of "Inr (st, Inr u)" st] by (simp add: unix_authorised_def)
qed (rule unix_socket.serve_state [OF assms])

lemma unix_serves_authorised_witness:
  "fst (snd (serve (unix_admit (same_uid 1000)) (\<lambda>c n. n + 1)
      [Inr (empty_stream, Inr 1000), Inr (empty_stream\<lparr>str_in := ''x''\<rparr>, Inr 0)] (0 :: nat))) = [empty_stream] \<and>
   (\<exists>u. (u :: 32 word) = au_self_uid (same_uid 1000) \<or> au_allowed_uid (same_uid 1000) = Some u)"
proof -
  have *: "serve (unix_admit (same_uid 1000)) (\<lambda>c n. n + 1)
      [Inr (empty_stream, Inr 1000), Inr (empty_stream\<lparr>str_in := ''x''\<rparr>, Inr 0)] (0 :: nat) = (None, [empty_stream], 1)"
    by (simp add: unix_admit_def permits_def same_uid_def peer_uid_def)
  from unix_serves_authorised [OF *] show ?thesis using * by auto
qed

end
