(* ===== verification/Orchestrator_Trace.thy ===== *)
theory Orchestrator_Trace
  imports Orchestrator
begin

text \<open>
  The calculus the orchestrator's properties are proved in: what a routine appends to the
  call trace, the launch protocol as an automaton over that trace, and the resources a trace
  has acquired and not yet given back.
\<close>

lemma ok_of_simps [simp]: "ok_of (Inr x) = Some x" "ok_of (Inl e) = None"
  by (simp_all add: ok_of_def)

section \<open>The launch protocol\<close>

text \<open>
  How far the current start has come.  A step that fails, comes out of order, or tears
  something down leads back to \<^verbatim>\<open>Idle\<close>; a browser launch is rejected unless every step before
  it has succeeded in order.
\<close>

datatype gate =
    Idle | Leased | HaveGateway | HaveBoth | GwConfigured | Firewalled | GatewayUp | BothUp
  | ClearedVm | ClearedHost

definition advance :: "gate \<Rightarrow> gate \<Rightarrow> gate \<Rightarrow> bool \<Rightarrow> gate option" where
  "advance g frm nxt ok = Some (if ok \<and> g = frm then nxt else Idle)"

fun gate_next :: "gate \<Rightarrow> cap_call \<Rightarrow> gate option" where
  "gate_next g (C_acquire _ l) = Some (if Option.is_none l then Idle else Leased)"
| "gate_next g (C_provision RoleGateway v) = advance g Leased HaveGateway (\<not> Option.is_none v)"
| "gate_next g (C_provision RoleBrowser v) = advance g HaveGateway HaveBoth (\<not> Option.is_none v)"
| "gate_next g (C_configure ok) = advance g HaveBoth GwConfigured ok"
| "gate_next g (C_apply_firewall p ok) = advance g GwConfigured Firewalled (ok \<and> fw_validate p = None)"
| "gate_next g (C_vm_start _ ok) =
    Some (if ok \<and> g = Firewalled then GatewayUp else if ok \<and> g = GatewayUp then BothUp else Idle)"
| "gate_next g (C_preflight cl) =
    advance g BothUp ClearedVm (case cl of None \<Rightarrow> False | Some c \<Rightarrow> permits_browsing c)"
| "gate_next g (C_proxy_reachable ok) = advance g Leased ClearedHost ok"
| "gate_next g (C_launch FullVm _) = (if g = ClearedVm then Some Idle else None)"
| "gate_next g (C_launch HostProcess _) = (if g = ClearedHost then Some Idle else None)"
| "gate_next g (C_engage _) = Some Idle"
| "gate_next g (C_vm_shutdown _) = Some Idle"
| "gate_next g (C_vm_destroy _ _) = Some Idle"
| "gate_next g _ = Some g"

fun gate_after :: "gate \<Rightarrow> cap_call list \<Rightarrow> gate option" where
  "gate_after g [] = Some g"
| "gate_after g (c # cs) = (case gate_next g c of None \<Rightarrow> None | Some g' \<Rightarrow> gate_after g' cs)"

lemma gate_after_append:
  "gate_after g (cs @ ds) = (case gate_after g cs of None \<Rightarrow> None | Some g' \<Rightarrow> gate_after g' ds)"
  by (induction cs arbitrary: g) (auto split: option.splits)

text \<open>Calls that can never be rejected: everything but a launch.\<close>

fun is_launch :: "cap_call \<Rightarrow> bool" where
  "is_launch (C_launch _ _) = True"
| "is_launch _ = False"

lemma gate_next_total: "\<not> is_launch c \<Longrightarrow> gate_next g c \<noteq> None"
  by (cases "(g, c)" rule: gate_next.cases) (auto simp: advance_def)

lemma gate_after_total: "list_all (\<lambda>c. \<not> is_launch c) cs \<Longrightarrow> gate_after g cs \<noteq> None"
proof (induction cs arbitrary: g)
  case (Cons c cs)
  then show ?case using gate_next_total [of c g] by auto
qed simp

section \<open>Resources\<close>

datatype resource = R_vm vm_id | R_browser browser_handle | R_lease profile_lease

fun gains :: "cap_call \<Rightarrow> resource set" where
  "gains (C_provision _ (Some v)) = {R_vm v}"
| "gains (C_launch _ (Some h)) = {R_browser h}"
| "gains (C_acquire _ (Some l)) = {R_lease l}"
| "gains _ = {}"

fun drops :: "cap_call \<Rightarrow> resource set" where
  "drops (C_vm_destroy v _) = {R_vm v}"
| "drops (C_terminate h) = {R_browser h}"
| "drops (C_release l _) = {R_lease l}"
| "drops _ = {}"

fun held_from :: "resource set \<Rightarrow> cap_call list \<Rightarrow> resource set" where
  "held_from H [] = H"
| "held_from H (c # cs) = held_from ((H - drops c) \<union> gains c) cs"

definition held :: "cap_call list \<Rightarrow> resource set" where
  "held cs = held_from {} cs"

lemma held_from_append: "held_from H (cs @ ds) = held_from (held_from H cs) ds"
  by (induction cs arbitrary: H) simp_all

lemma held_snoc [simp]: "held (cs @ [c]) = (held cs - drops c) \<union> gains c"
  by (simp add: held_def held_from_append)

lemma held_nil [simp]: "held [] = {}"
  by (simp add: held_def)

section \<open>What a routine appends to the trace\<close>

definition emits :: "(cap_call \<Rightarrow> bool) \<Rightarrow> ('w orch, 'e, 'a) eff \<Rightarrow> bool" where
  "emits P m \<longleftrightarrow> (\<forall>s. \<exists>ds. or_calls (snd (m s)) = or_calls s @ ds \<and> list_all P ds)"

named_theorems emits_intros \<open>what a routine appends to the call trace\<close>

lemma emits_quiet: "(\<And>s. or_calls (snd (m s)) = or_calls s) \<Longrightarrow> emits P m"
  by (auto simp: emits_def intro!: exI [of _ "[]"])

lemma emits_ret [emits_intros]: "emits P (ret x)"
  by (rule emits_quiet) (simp add: ret_def)

lemma emits_throw [emits_intros]: "emits P (throw x)"
  by (rule emits_quiet) (simp add: throw_def)

lemma emits_lift_res [emits_intros]: "emits P (lift_res r)"
  by (rule emits_quiet) (simp add: lift_res_def)

lemma emits_gets [emits_intros]: "emits P (gets f)"
  by (rule emits_quiet) (simp add: gets_def)

lemma emits_guard [emits_intros]: "emits P (guard_e b e)"
  by (simp add: guard_e_def emits_ret emits_throw)

lemma emits_bind [emits_intros]:
  assumes "emits P m" "\<And>x. emits P (f x)"
  shows "emits P (bind m f)"
  unfolding emits_def
proof
  fix s
  obtain ds where 1: "or_calls (snd (m s)) = or_calls s @ ds" "list_all P ds"
    using assms(1) by (auto simp: emits_def)
  show "\<exists>ds. or_calls (snd (bind m f s)) = or_calls s @ ds \<and> list_all P ds"
  proof (cases "m s")
    case (Pair r t)
    show ?thesis
    proof (cases r)
      case (Inl e)
      then show ?thesis using 1 Pair by (auto simp: bind_def)
    next
      case (Inr x)
      obtain es where "or_calls (snd (f x t)) = or_calls t @ es" "list_all P es"
        using assms(2) [of x] by (auto simp: emits_def)
      then show ?thesis using 1 Pair Inr by (auto simp: bind_def intro!: exI [of _ "ds @ es"])
    qed
  qed
qed

lemma emits_seq [emits_intros]: "emits P m \<Longrightarrow> emits P n \<Longrightarrow> emits P (seq m n)"
  by (simp add: seq_def emits_bind)

lemma emits_attempt [emits_intros]: "emits P m \<Longrightarrow> emits P (attempt m)"
  unfolding emits_def attempt_def by (metis (no_types, lifting) case_prod_conv snd_conv surj_pair)

lemma emits_ignore [emits_intros]: "emits P m \<Longrightarrow> emits P (ignore m)"
  by (simp add: ignore_def emits_seq emits_attempt emits_ret)

lemma emits_call [emits_intros]: "(\<And>r. P (c r)) \<Longrightarrow> emits P (call c m)"
  by (auto simp: emits_def call_def split: prod.splits)

lemma emits_mapM [emits_intros]: "(\<And>x. emits P (f x)) \<Longrightarrow> emits P (mapM_e f xs)"
  by (induction xs) (simp_all add: emits_ret emits_bind)

lemma emits_option [emits_intros]:
  "emits P m \<Longrightarrow> (\<And>x. emits P (g x)) \<Longrightarrow> emits P (case r of None \<Rightarrow> m | Some x \<Rightarrow> g x)"
  by (cases r) simp_all

lemma emits_sum [emits_intros]:
  "(\<And>x. emits P (f x)) \<Longrightarrow> (\<And>x. emits P (g x)) \<Longrightarrow> emits P (case r of Inl x \<Rightarrow> f x | Inr x \<Rightarrow> g x)"
  by (cases r) simp_all

lemma emits_if [emits_intros]: "emits P m \<Longrightarrow> emits P n \<Longrightarrow> emits P (if b then m else n)"
  by simp

lemma emits_now [emits_intros]: "emits P (now C)"
  by (rule emits_quiet) (simp add: now_def zoom_def run_state_def split: prod.splits)

lemma emits_new_uuid [emits_intros]: "emits P (new_uuid C)"
  by (rule emits_quiet) (simp add: new_uuid_def zoom_def run_state_def split: prod.splits)

lemma emits_lock [emits_intros]: "emits P lock_sessions"
  by (rule emits_quiet) (simp add: lock_sessions_def)

lemma emits_put [emits_intros]: "emits P (put_entry i en)"
  by (rule emits_quiet) (simp add: put_entry_def modify_def)

lemma emits_conj: "emits P m \<Longrightarrow> (\<And>c. P c \<Longrightarrow> Q c) \<Longrightarrow> emits Q m"
  unfolding emits_def by (meson list.pred_mono_strong)

lemma emits_run: "emits P m \<Longrightarrow> m s = (r, t) \<Longrightarrow> \<exists>ds. or_calls t = or_calls s @ ds \<and> list_all P ds"
  unfolding emits_def by (metis snd_conv)

end
