(* ===== verification/Orchestrator_Safety.thy ===== *)
theory Orchestrator_Safety
  imports Orchestrator_Trace
begin

text \<open>
  What a run of the orchestrator guarantees: the launch protocol, the state of every entry of
  the session table, and the release of what a failed start or a stop acquired.
\<close>

lemma tab_set_idem [simp]: "tab_set k v (tab_set k u t) = tab_set k v t"
  by (induction t rule: tab_set.induct) auto

section \<open>The state during a start\<close>

text \<open>
  \<^verbatim>\<open>at s0 i en g H t\<close>: since \<^verbatim>\<open>s0\<close> only the entry of session \<^verbatim>\<open>i\<close> changed, it is now \<^verbatim>\<open>en\<close>; the
  launch protocol has reached \<^verbatim>\<open>g\<close>; nothing outside \<^verbatim>\<open>H\<close> is held that was not held in \<^verbatim>\<open>s0\<close>.
\<close>

definition at ::
  "'w orch \<Rightarrow> session_id \<Rightarrow> session_entry \<Rightarrow> gate \<Rightarrow> resource set \<Rightarrow> 'w orch \<Rightarrow> bool" where
  "at s0 i en g H t \<longleftrightarrow>
    \<not> or_poisoned t \<and> or_sessions t = tab_set i en (or_sessions s0) \<and>
    gate_after Idle (or_calls t) = Some g \<and> held (or_calls t) \<subseteq> held (or_calls s0) \<union> H \<and>
    or_enforcement t = or_enforcement s0 \<and> or_enforcement_poisoned t = or_enforcement_poisoned s0"

definition entry_res :: "session_entry \<Rightarrow> resource set" where
  "entry_res en = {R_lease (en_lease en)} \<union> R_vm ` set_option (en_gateway_vm en)
     \<union> R_vm ` set_option (en_browser_vm en) \<union> R_browser ` set_option (en_browser_handle en)"

lemma at_world [simp]: "at s0 i en g H (t\<lparr>or_world := w\<rparr>) = at s0 i en g H t"
  by (simp add: at_def)

lemma at_mono: "at s0 i en g H t \<Longrightarrow> H \<subseteq> K \<Longrightarrow> at s0 i en g K t"
  by (auto simp: at_def)

lemma at_snoc:
  "at s0 i en g H t \<Longrightarrow> gate_next g c = Some g' \<Longrightarrow>
    at s0 i en g' (H \<union> gains c) (t\<lparr>or_world := w, or_calls := or_calls t @ [c]\<rparr>)"
  by (auto simp: at_def gate_after_append)

lemma at_drop:
  "at s0 i en g H t \<Longrightarrow> gate_next g c = Some g' \<Longrightarrow> gains c = {} \<Longrightarrow>
    at s0 i en g' (H - drops c) (t\<lparr>or_world := w, or_calls := or_calls t @ [c]\<rparr>)"
  by (auto simp: at_def gate_after_append)

lemma at_call:
  "at s0 i en g H t \<Longrightarrow> gate_next g c = Some g' \<and> gains c = {} \<Longrightarrow>
    at s0 i en g' H (t\<lparr>or_world := w, or_calls := or_calls t @ [c]\<rparr>)"
  by (auto simp: at_def gate_after_append)

lemma at_put: "at s0 i en g H t \<Longrightarrow> at s0 i en' g H (t\<lparr>or_sessions := tab_set i en' (or_sessions t)\<rparr>)"
  by (simp add: at_def)

lemma at_get: "at s0 i en g H t \<Longrightarrow> tab_get (or_sessions t) i = Some en \<and> \<not> or_poisoned t"
  by (simp add: at_def)

section \<open>Weakest preconditions of the basic steps\<close>

lemma wp_callI:
  assumes "\<And>x w. Q x (s\<lparr>or_world := w, or_calls := or_calls s @ [c (Inr x)]\<rparr>)"
    and "\<And>e w. E e (s\<lparr>or_world := w, or_calls := or_calls s @ [c (Inl e)]\<rparr>)"
  shows "wp (call c m) Q E s"
proof (cases "m (or_world s)")
  case (Pair r w)
  then show ?thesis using assms by (cases r) (simp_all add: wp_def call_def)
qed

lemma wp_nowI: "(\<And>t w. Q t (s\<lparr>or_world := w\<rparr>)) \<Longrightarrow> wp (now C) Q E s"
  by (auto simp: now_def wp_simps split: prod.splits)

lemma wp_uuidI: "(\<And>t w. Q t (s\<lparr>or_world := w\<rparr>)) \<Longrightarrow> wp (new_uuid C) Q E s"
  by (auto simp: new_uuid_def wp_simps split: prod.splits)

lemma wp_lock [wp_simps]:
  "wp lock_sessions Q E s =
    (if or_poisoned s then E (Internal ''session table lock poisoned'') s else Q (or_sessions s) s)"
  by (simp add: wp_def lock_sessions_def)

lemma wp_put [wp_simps]:
  "wp (put_entry i en) Q E s = Q () (s\<lparr>or_sessions := tab_set i en (or_sessions s)\<rparr>)"
  by (simp add: put_entry_def wp_simps)

lemma wp_ignore [wp_simps]: "wp (ignore m) Q E = wp m (\<lambda>_. Q ()) (\<lambda>_. Q ())"
  by (simp add: ignore_def wp_simps)

lemma wp_any:
  assumes "\<And>x t. P t \<Longrightarrow> Q x t" "\<And>e t. P t \<Longrightarrow> E e t" "wp m (\<lambda>_. P) (\<lambda>_. P) s"
  shows "wp m Q E s"
  by (rule wp_mono [OF assms(3)]) (simp_all add: assms)

text \<open>Steps that leave the session, the protocol and the resources alone, and never fail.\<close>

definition quiet :: "('w orch, 'e, 'a) eff \<Rightarrow> bool" where
  "quiet m \<longleftrightarrow> (\<forall>s0 i en g H s. at s0 i en g H s \<longrightarrow> wp m (\<lambda>_. at s0 i en g H) (\<lambda>_ _. False) s)"

lemma quiet_seq: "quiet m \<Longrightarrow> quiet n \<Longrightarrow> quiet (seq m n)"
  unfolding quiet_def by (intro allI impI, rule wp_next) blast+

lemma quiet_bind: "quiet m \<Longrightarrow> (\<And>x. quiet (f x)) \<Longrightarrow> quiet (bind m f)"
  unfolding quiet_def by (intro allI impI, rule wp_then) blast+

lemma quiet_ret: "quiet (ret x)"
  by (simp add: quiet_def wp_simps)

lemma quiet_now: "quiet (now C)"
  by (auto simp: quiet_def intro: wp_nowI)

lemma quiet_call: "(\<And>g r. gate_next g (c r) = Some g \<and> gains (c r) = {}) \<Longrightarrow> quiet (ignore (call c m))"
  unfolding quiet_def wp_ignore by (intro allI impI wp_callI; rule at_call; simp)

lemma quiet_mapM: "(\<And>x. quiet (f x)) \<Longrightarrow> quiet (mapM_e f xs)"
  by (induction xs) (simp_all add: quiet_ret quiet_bind)

lemma quiet_audit: "quiet (audit C r)"
  unfolding audit_def by (rule quiet_call) simp

lemmas quiet_rules = quiet_seq quiet_bind quiet_ret quiet_now quiet_mapM quiet_audit

lemma quiet_audit_state: "quiet (audit_state C i p st)"
  unfolding audit_state_def by (intro quiet_rules)

lemma quiet_audit_event: "quiet (audit_event C i p sev ev)"
  unfolding audit_event_def by (intro quiet_rules)

lemma quiet_audit_checks: "quiet (audit_checks C i p rs)"
  unfolding audit_checks_def by (intro quiet_rules)

lemma quiet_touch: "quiet (touch C p)"
  unfolding touch_def by (intro quiet_rules quiet_call) simp

lemma wp_quiet:
  "at s0 i en g H s \<Longrightarrow> quiet m \<Longrightarrow> wp m (\<lambda>_. at s0 i en g H) (\<lambda>_ _. False) s"
  by (simp add: quiet_def)

lemma wp_quiet_seq:
  "at s0 i en g H s \<Longrightarrow> quiet m \<Longrightarrow> (\<And>t. at s0 i en g H t \<Longrightarrow> wp n Q E t) \<Longrightarrow> wp (seq m n) Q E s"
  by (rule wp_next [OF wp_quiet]) auto

lemma wp_transition:
  "at s0 i en g H s \<Longrightarrow> can_transition_to (en_state en) st \<Longrightarrow>
    (\<And>t. at s0 i (en\<lparr>en_state := st\<rparr>) g H t \<Longrightarrow> wp n Q E t) \<Longrightarrow> wp (seq (transition C i st) n) Q E s"
  apply (frule at_get)
  apply (simp add: transition_def wp_simps)
  apply (rule wp_mono [OF wp_quiet [OF at_put quiet_audit_state]])
    apply assumption
   apply simp_all
  done

lemma wp_update:
  "at s0 i en g H s \<Longrightarrow> (\<And>t. at s0 i (f en) g H t \<Longrightarrow> wp n Q E t) \<Longrightarrow>
    wp (seq (update_entry i f) n) Q E s"
  by (frule at_get) (simp add: update_entry_def wp_simps at_put)

lemma wp_step:
  assumes "at s0 i en g H s" "\<And>r. gate_next g (c r) = Some (g' r) \<and> gains (c r) = {}"
    and "\<And>x t. at s0 i en (g' (Inr x)) H t \<Longrightarrow> wp (f x) Q E t"
    and "\<And>e t. at s0 i en (g' (Inl e)) H t \<Longrightarrow> E e t"
  shows "wp (bind (call c m) f) Q E s"
proof (rule wp_then [where Q' = "\<lambda>x. at s0 i en (g' (Inr x)) H" and E' = "\<lambda>e. at s0 i en (g' (Inl e)) H"])
  show "wp (call c m) (\<lambda>x. at s0 i en (g' (Inr x)) H) (\<lambda>e. at s0 i en (g' (Inl e)) H) s"
    by (rule wp_callI; rule at_call [OF assms(1) assms(2)])
qed (use assms in auto)

lemma wp_step_seq:
  assumes "at s0 i en g H s" "\<And>r. gate_next g (c r) = Some (g' r) \<and> gains (c r) = {}"
    and "\<And>x t. at s0 i en (g' (Inr x)) H t \<Longrightarrow> wp n Q E t"
    and "\<And>e t. at s0 i en (g' (Inl e)) H t \<Longrightarrow> E e t"
  shows "wp (seq (call c m) n) Q E s"
  unfolding seq_def by (rule wp_step) (use assms in auto)

section \<open>The two start routines\<close>

text \<open>What holds when a start routine fails, and when it succeeds.\<close>

definition same_owner :: "session_entry \<Rightarrow> session_entry \<Rightarrow> bool" where
  "same_owner en en0 \<longleftrightarrow> en_profile en = en_profile en0 \<and> en_lease en = en_lease en0"

definition stuck :: "'w caps \<Rightarrow> 'w orch \<Rightarrow> session_id \<Rightarrow> session_entry \<Rightarrow> 'w orch \<Rightarrow> bool" where
  "stuck C s0 i en0 t \<longleftrightarrow> (\<exists>en g. at s0 i en g (entry_res en) t \<and> same_owner en en0 \<and>
     is_ok (backend_of C (en_mode en)))"

lemma stuckI:
  "at s0 i en g (entry_res en) t \<Longrightarrow> same_owner en en0 \<Longrightarrow> is_ok (backend_of C (en_mode en)) \<Longrightarrow>
    stuck C s0 i en0 t"
  by (auto simp: stuck_def)

definition started_vm :: "session_entry \<Rightarrow> bool" where
  "started_vm en \<longleftrightarrow> en_state en = Browsing \<and> en_mode en = ModeFullVm \<and>
     en_browser_handle en \<noteq> None \<and> en_gateway_vm en \<noteq> None \<and> en_browser_vm en \<noteq> None \<and>
     en_protection en = PS_Active \<and> (\<exists>cl. en_checklist en = Some cl \<and> permits_browsing cl)"

definition started_host :: "'w caps \<Rightarrow> session_entry \<Rightarrow> bool" where
  "started_host C en \<longleftrightarrow> en_state en = Browsing \<and>
     (\<exists>dir e b. en_mode en = ModeHostProcess dir e b \<and> is_ok (host_backend_for C b)) \<and>
     en_browser_handle en \<noteq> None \<and> en_gateway_vm en = None \<and> en_browser_vm en = None \<and>
     en_protection en = PS_Partial"

definition finished :: "'w orch \<Rightarrow> session_id \<Rightarrow> session_entry \<Rightarrow> session_summary \<Rightarrow> session_entry \<Rightarrow> 'w orch \<Rightarrow> bool" where
  "finished s0 i en0 x en t \<longleftrightarrow> at s0 i en Idle (entry_res en) t \<and> same_owner en en0 \<and> x = entry_summary i en"

lemma wp_provision_vm:
  assumes at: "at s0 i en g H s"
    and role: "(role = RoleGateway \<and> g = Leased \<and> g' = HaveGateway) \<or>
               (role = RoleBrowser \<and> g = HaveGateway \<and> g' = HaveBoth)"
    and ok: "\<And>h t. at s0 i (case role of RoleGateway \<Rightarrow> en\<lparr>en_gateway_vm := Some (vh_id h)\<rparr>
                  | RoleBrowser \<Rightarrow> en\<lparr>en_browser_vm := Some (vh_id h)\<rparr>) g' (insert (R_vm (vh_id h)) H) t
               \<Longrightarrow> wp (f h) Q E t"
    and err: "\<And>e t. at s0 i en Idle H t \<Longrightarrow> E e t"
  shows "wp (bind (provision_vm C cfg i role) f) Q E s"
proof -
  have "wp (provision_vm C cfg i role) (\<lambda>h. wp (f h) Q E) E s"
    unfolding provision_vm_def provision_request_def wp_bind wp_ret
  proof (intro wp_uuidI wp_callI)
    fix u w h w'
    let ?t = "s\<lparr>or_world := w, or_world := w', or_calls := or_calls (s\<lparr>or_world := w\<rparr>) @ [C_provision role (map_option vh_id (ok_of (Inr h :: error + vm_handle)))]\<rparr>"
    have a: "at s0 i en g' (insert (R_vm (vh_id h)) H) ?t"
      using at_snoc [OF at, of "C_provision role (Some (vh_id h))" g' w'] role
      by (auto simp: advance_def)
    show "wp (seq (set_vm i role (vh_id h)) (ret h)) (\<lambda>h. wp (f h) Q E) E ?t"
      using at_get [OF a] at_put [OF a] by (auto simp: set_vm_def set_entry_def wp_simps intro!: ok)
  next
    fix u w e w'
    show "E e (s\<lparr>or_world := w, or_world := w', or_calls := or_calls (s\<lparr>or_world := w\<rparr>)
        @ [C_provision role (map_option vh_id (ok_of (Inl e :: error + vm_handle)))]\<rparr>)"
      using at_call [OF at, of "C_provision role None" Idle w'] role
      by (auto simp: advance_def intro!: err)
  qed
  then show ?thesis by (simp add: wp_bind)
qed

lemma wp_launch:
  assumes at: "at s0 i en g (entry_res en) s" and none: "en_browser_handle en = None"
    and gate: "(level = FullVm \<and> g = ClearedVm) \<or> (level = HostProcess \<and> g = ClearedHost)"
    and ok: "\<And>h t. at s0 i (en\<lparr>en_browser_handle := Some h\<rparr>) Idle (entry_res (en\<lparr>en_browser_handle := Some h\<rparr>)) t
               \<Longrightarrow> wp n Q E t"
    and err: "\<And>e hd g t. at s0 i (en\<lparr>en_browser_handle := hd\<rparr>) g (entry_res (en\<lparr>en_browser_handle := hd\<rparr>)) t \<Longrightarrow> E e t"
  shows "wp (seq (run_launch level msg B i req) n) Q E s"
proof -
  have same: "en\<lparr>en_browser_handle := None\<rparr> = en" using none by (cases en) simp
  have err0: "at s0 i en g' (entry_res en) t \<Longrightarrow> E e t" for e g' t
    using err [of None g' t e] same by simp
  have after: "wp (seq (set_browser_handle i h) (bind (call (\<lambda>_. C_is_running) (bb_is_running B h))
        (\<lambda>alive. if \<not> alive then throw (System msg) else ret ()))) (\<lambda>_. wp n Q E) E t"
    if a: "at s0 i en Idle (insert (R_browser h) (entry_res en)) t" for h t
  proof -
    let ?en = "en\<lparr>en_browser_handle := Some h\<rparr>"
    have res: "insert (R_browser h) (entry_res en) = entry_res ?en"
      using none by (auto simp: entry_res_def)
    from at_put [OF a, of ?en]
    have b: "at s0 i ?en Idle (entry_res ?en) (t\<lparr>or_sessions := tab_set i ?en (or_sessions t)\<rparr>)"
      by (simp only: res)
    have c: "at s0 i ?en Idle (entry_res ?en)
        (t\<lparr>or_sessions := tab_set i ?en (or_sessions t), or_world := w, or_calls := or_calls t @ [C_is_running]\<rparr>)" for w
      using at_call [OF b, of C_is_running Idle w] by simp
    show ?thesis using at_get [OF a] c
      by (auto simp: set_browser_handle_def set_entry_def wp_simps intro!: wp_callI ok err)
  qed
  have call: "wp (call (\<lambda>r. C_launch level (ok_of r)) (bb_launch B req b))
      (\<lambda>h. at s0 i en Idle (insert (R_browser h) (entry_res en))) (\<lambda>_. at s0 i en Idle (entry_res en)) s" for b
  proof (rule wp_callI)
    fix h w
    show "at s0 i en Idle (insert (R_browser h) (entry_res en))
        (s\<lparr>or_world := w, or_calls := or_calls s @ [C_launch level (ok_of (Inr h))]\<rparr>)"
      using at_snoc [OF at, of "C_launch level (Some h)" Idle w] gate by auto
  next
    fix e w
    show "at s0 i en Idle (entry_res en)
        (s\<lparr>or_world := w, or_calls := or_calls s @ [C_launch level (ok_of (Inl e :: error + browser_handle))]\<rparr>)"
      using at_call [OF at, of "C_launch level None" Idle w] gate by auto
  qed
  have "wp (run_launch level msg B i req) (\<lambda>_. wp n Q E) E s"
    unfolding run_launch_def
    by (auto simp: wp_bind [of "lift_res _"] wp_seq [of "lift_res _"] wp_lift_res split: sum.splits
        intro!: wp_then [OF call] err0 [OF at] after dest: err0)
  then show ?thesis by (simp add: wp_seq)
qed

definition fresh_entry :: "session_entry \<Rightarrow> bool" where
  "fresh_entry en \<longleftrightarrow> en_state en = Requested \<and> en_mode en = ModeFullVm \<and> en_gateway_vm en = None \<and>
     en_browser_vm en = None \<and> en_browser_handle en = None"

lemma stuck_at:
  "at s0 i en g H t \<Longrightarrow> H \<subseteq> entry_res en \<Longrightarrow> same_owner en en0 \<Longrightarrow> is_ok (backend_of C (en_mode en)) \<Longrightarrow>
    stuck C s0 i en0 t"
  by (meson at_mono stuckI)

lemma wp_final:
  "at s0 i en Idle (entry_res en) t \<Longrightarrow> same_owner en en0 \<Longrightarrow>
    wp (final_summary msg i) (\<lambda>x t. finished s0 i en0 x en t) E t"
  by (frule at_get) (simp add: final_summary_def wp_simps finished_def)

lemma backend_full [simp]: "is_ok (backend_of C ModeFullVm)"
  by (simp add: backend_of_def)

lemma backend_host [simp]:
  "backend_of C (ModeHostProcess d e b) = host_backend_for C b"
  by (simp add: backend_of_def)

lemmas wp_provision_gateway = wp_provision_vm [where role = RoleGateway and g = Leased and g' = HaveGateway, simplified]
lemmas wp_provision_browser = wp_provision_vm [where role = RoleBrowser and g = HaveGateway and g' = HaveBoth, simplified]

lemma wp_finish_vm:
  assumes "at s0 i en Idle (entry_res en) s" and "same_owner en en0" and "en_state en = S_Preflight"
    and "started_vm (en\<lparr>en_state := Browsing\<rparr>)"
  shows "wp (seq (transition C i Browsing) (seq (touch C q) (final_summary msg i)))
    (\<lambda>x t. \<exists>en. finished s0 i en0 x en t \<and> started_vm en) E s"
  apply (rule wp_transition [OF assms(1)])
   apply (simp add: assms(3))
  apply (erule wp_quiet_seq [OF _ quiet_touch])
  apply (rule wp_mono [OF wp_final [where en = "en\<lparr>en_state := Browsing\<rparr>" and en0 = en0]])
  using assms by (auto simp: same_owner_def entry_res_def)

text \<open>The part of \<^verbatim>\<open>drive_start\<close> after a preflight that returned a checklist.\<close>

lemma wp_after_preflight:
  assumes at: "at s0 i en g H s" and g: "g = (if permits_browsing cl then ClearedVm else Idle)"
    and H: "H = entry_res en" and same: "same_owner en en0" and st: "en_state en = S_Preflight"
    and mode: "en_mode en = ModeFullVm" and vms: "en_gateway_vm en \<noteq> None" "en_browser_vm en \<noteq> None"
    and none: "en_browser_handle en = None"
  shows "wp (seq (audit_checks C i q (cl_reports cl))
      (seq (record_checklist i cl)
      (if \<not> permits_browsing cl then throw (preflight_refusal cl)
       else seq (run_launch FullVm m (cap_browser C) i req)
         (seq (transition C i Browsing) (seq (touch C q) (final_summary msg i))))))
    (\<lambda>x t. \<exists>en. finished s0 i en0 x en t \<and> started_vm en) (\<lambda>_. stuck C s0 i en0) s"
  unfolding record_checklist_def
proof (rule wp_quiet_seq [OF at quiet_audit_checks], erule wp_update)
  fix t
  let ?en = "en\<lparr>en_protection := cl_status cl, en_public_ip := map_option ip_addr (cl_observed_ip cl),
      en_checklist := Some cl\<rparr>"
  let ?h = "\<lambda>hd. ?en\<lparr>en_browser_handle := hd\<rparr>"
  assume a: "at s0 i ?en g H t"
  have r: "H = entry_res ?en" by (simp add: H entry_res_def)
  have same': "same_owner (?h hd) en0" for hd using same by (simp add: same_owner_def)
  show "wp (if \<not> permits_browsing cl then throw (preflight_refusal cl)
       else seq (run_launch FullVm m (cap_browser C) i req)
         (seq (transition C i Browsing) (seq (touch C q) (final_summary msg i))))
    (\<lambda>x t. \<exists>en. finished s0 i en0 x en t \<and> started_vm en) (\<lambda>_. stuck C s0 i en0) t"
  proof (cases "permits_browsing cl")
    case False
    then show ?thesis using a r same mode by (auto simp: wp_throw same_owner_def intro: stuckI)
  next
    case True
    have act: "cl_status cl = PS_Active" using True by (simp add: permits_browsing_def)
    have "wp (seq (run_launch FullVm m (cap_browser C) i req)
         (seq (transition C i Browsing) (seq (touch C q) (final_summary msg i))))
      (\<lambda>x t. \<exists>en. finished s0 i en0 x en t \<and> started_vm en) (\<lambda>_. stuck C s0 i en0) t"
    proof (rule wp_launch)
      show "at s0 i ?en g (entry_res ?en) t" using a r by simp
      show "en_browser_handle ?en = None" using none by simp
      show "(FullVm = FullVm \<and> g = ClearedVm) \<or> (FullVm = HostProcess \<and> g = ClearedHost)"
        using g True by simp
    next
      fix h u
      assume "at s0 i (?h (Some h)) Idle (entry_res (?h (Some h))) u"
      then show "wp (seq (transition C i Browsing) (seq (touch C q) (final_summary msg i)))
        (\<lambda>x t. \<exists>en. finished s0 i en0 x en t \<and> started_vm en) (\<lambda>_. stuck C s0 i en0) u"
        using same' st mode vms True act by (intro wp_finish_vm [where en = "?h (Some h)"]) (simp_all add: started_vm_def)
    next
      fix e hd g' u
      assume "at s0 i (?h hd) g' (entry_res (?h hd)) u"
      then show "stuck C s0 i en0 u" using same' mode by (intro stuckI [where en = "?h hd"]) simp_all
    qed
    then show ?thesis using True by simp
  qed
qed

lemma wp_drive_start:
  assumes at: "at s0 i en0 Leased (entry_res en0) s" and fresh: "fresh_entry en0"
  shows "wp (drive_start C cfg i p)
    (\<lambda>x t. \<exists>en. finished s0 i en0 x en t \<and> started_vm en) (\<lambda>_. stuck C s0 i en0) s"
  using fresh unfolding drive_start_def Let_def fresh_entry_def
  apply -
  apply (rule wp_transition [OF at], simp)
  apply (erule wp_provision_gateway)
   apply (erule wp_provision_browser)
    apply (erule wp_transition, simp)
    apply (erule wp_step_seq [where g' = "\<lambda>r. if is_ok r then GwConfigured else Idle"])
      apply (simp add: advance_def)
     apply simp
     apply (erule wp_step_seq [where g' = "\<lambda>r. if is_ok r then Firewalled else Idle"])
       apply (simp add: advance_def)
      apply simp
      apply (erule wp_step_seq [where g' = "\<lambda>r. if is_ok r then GatewayUp else Idle"], simp)
       apply simp
       apply (erule wp_step_seq [where g' = "\<lambda>r. if is_ok r then BothUp else Idle"], simp)
        apply simp
        apply (erule wp_transition, simp)
        apply (erule wp_step [where g' = "\<lambda>r. if (case r of Inl _ \<Rightarrow> False | Inr c \<Rightarrow> permits_browsing c)
            then ClearedVm else Idle"])
          apply (simp add: advance_def split: sum.splits)
         apply (erule wp_after_preflight)
                apply simp
               apply (auto simp: entry_res_def same_owner_def) [1]
  by ((auto simp: same_owner_def) | (erule stuck_at; auto simp: entry_res_def same_owner_def))+

text \<open>The part of \<^verbatim>\<open>drive_start_host\<close> after the proxy answered.\<close>

lemma wp_after_proxy:
  assumes at: "at s0 i en ClearedHost (entry_res en) s" and same: "same_owner en en0"
    and st: "en_state en = S_Preflight" and B: "host_backend_for C b = Inr B"
    and none: "en_browser_handle en = None" "en_gateway_vm en = None" "en_browser_vm en = None"
    and mode: "en_mode en = ModeFullVm"
  shows "wp (seq (update_entry i (\<lambda>en. en\<lparr>en_protection := PS_Partial, en_checklist := Some host_checklist\<rparr>))
      (seq (update_entry i (\<lambda>en. en\<lparr>en_mode := ModeHostProcess dir eph b\<rparr>))
      (seq (run_launch HostProcess m B i req)
      (seq (transition C i Browsing)
      (seq (audit_event C i q Warning ev)
      (seq (touch C q) (final_summary msg i)))))))
    (\<lambda>x t. \<exists>en. finished s0 i en0 x en t \<and> started_host C en) (\<lambda>_. stuck C s0 i en0) s"
proof (rule wp_update [OF at], erule wp_update)
  let ?en = "en\<lparr>en_protection := PS_Partial, en_checklist := Some host_checklist,
     en_mode := ModeHostProcess dir eph b\<rparr>"
  let ?h = "\<lambda>hd. ?en\<lparr>en_browser_handle := hd\<rparr>"
  fix t assume a: "at s0 i ?en ClearedHost (entry_res en) t"
  have r: "entry_res ?en = entry_res en" by (simp add: entry_res_def)
  show "wp (seq (run_launch HostProcess m B i req)
      (seq (transition C i Browsing)
      (seq (audit_event C i q Warning ev)
      (seq (touch C q) (final_summary msg i)))))
    (\<lambda>x t. \<exists>en. finished s0 i en0 x en t \<and> started_host C en) (\<lambda>_. stuck C s0 i en0) t"
  proof (rule wp_launch [where en = ?en and g = ClearedHost])
    show "at s0 i ?en ClearedHost (entry_res ?en) t" using a r by simp
    show "en_browser_handle ?en = None" using none by simp
  next
    fix h u
    assume "at s0 i (?h (Some h)) Idle (entry_res (?h (Some h))) u"
    then show "wp (seq (transition C i Browsing) (seq (audit_event C i q Warning ev)
        (seq (touch C q) (final_summary msg i))))
      (\<lambda>x t. \<exists>en. finished s0 i en0 x en t \<and> started_host C en) (\<lambda>_. stuck C s0 i en0) u"
      apply (rule wp_transition)
       apply (simp add: st)
      apply (erule wp_quiet_seq [OF _ quiet_audit_event])
      apply (erule wp_quiet_seq [OF _ quiet_touch])
      apply (rule wp_mono [OF wp_final [where en = "?h (Some h)\<lparr>en_state := Browsing\<rparr>" and en0 = en0]])
      using same none B by (auto simp: same_owner_def entry_res_def started_host_def)
  next
    fix e hd g' u
    assume "at s0 i (?h hd) g' (entry_res (?h hd)) u"
    then show "stuck C s0 i en0 u"
      using same B by (intro stuckI [where en = "?h hd"]) (simp_all add: same_owner_def)
  qed simp
qed

lemma wp_proxy_answer:
  assumes at: "at s0 i en (if x then ClearedHost else Idle) (entry_res en) s" and same: "same_owner en en0"
    and st: "en_state en = S_Preflight" and B: "host_backend_for C b = Inr B"
    and none: "en_browser_handle en = None" "en_gateway_vm en = None" "en_browser_vm en = None"
    and mode: "en_mode en = ModeFullVm"
  shows "wp (if \<not> x then throw err else seq (audit_event C i q Info ev1)
      (seq (update_entry i (\<lambda>en. en\<lparr>en_protection := PS_Partial, en_checklist := Some host_checklist\<rparr>))
      (seq (update_entry i (\<lambda>en. en\<lparr>en_mode := ModeHostProcess dir eph b\<rparr>))
      (seq (run_launch HostProcess m B i req)
      (seq (transition C i Browsing)
      (seq (audit_event C i q Warning ev)
      (seq (touch C q) (final_summary msg i))))))))
    (\<lambda>x t. \<exists>en. finished s0 i en0 x en t \<and> started_host C en) (\<lambda>_. stuck C s0 i en0) s"
proof (cases x)
  case True
  have "at s0 i en ClearedHost (entry_res en) s" using at True by simp
  then show ?thesis
    by (simp only: True not_True_eq_False if_False)
       (erule wp_quiet_seq [OF _ quiet_audit_event], erule wp_after_proxy [OF _ same st B none mode])
next
  case False
  then show ?thesis using stuckI [OF at same] mode by (simp add: wp_throw)
qed

lemma wp_host_proxy:
  "(\<And>x. Q x s) \<Longrightarrow> (\<And>e. E e s) \<Longrightarrow> wp (host_proxy_endpoint C nm) Q E s"
  by (auto simp: host_proxy_endpoint_def wp_simps Let_def split: network_mode.splits sum.splits option.splits)

lemma wp_drive_start_host:
  assumes at: "at s0 i en0 Leased (entry_res en0) s" and fresh: "fresh_entry en0"
  shows "wp (drive_start_host C cfg i p)
    (\<lambda>x t. \<exists>en. finished s0 i en0 x en t \<and> started_host C en) (\<lambda>_. stuck C s0 i en0) s"
proof (cases "host_backend_for C (sp_browser (pr_spec p))")
  case (Inl e)
  then show ?thesis using fresh stuckI [OF at]
    by (simp add: drive_start_host_def Let_def wp_bind wp_lift_res same_owner_def fresh_entry_def)
next
  case (Inr B)
  have "stuck C s0 i en0 s"
    using stuckI [OF at] fresh by (simp add: same_owner_def fresh_entry_def)
  then show ?thesis
    using fresh Inr unfolding drive_start_host_def Let_def fresh_entry_def wp_bind [of "lift_res _"] wp_lift_res
    apply (simp add: wp_bind [of "host_proxy_endpoint _ _"])
    apply (rule wp_host_proxy)
     apply (rule wp_transition [OF at], simp)
     apply (erule wp_transition, simp)
     apply (erule wp_transition, simp)
     apply (erule wp_step [where g' = "\<lambda>r. if r = Inr True then ClearedHost else Idle"])
       apply (simp add: advance_def)
      apply (rule wp_proxy_answer [where en = "en0\<lparr>en_state := S_Preflight\<rparr>"])
    by (auto simp: entry_res_def same_owner_def elim!: stuck_at)
qed

section \<open>The fail-closed hinge and teardown\<close>

definition torn :: "session_entry \<Rightarrow> bool \<Rightarrow> session_entry" where
  "torn en mf = en\<lparr>en_state := (if mf then Failed else Destroyed), en_browser_handle := None,
     en_gateway_vm := None, en_browser_vm := None\<rparr>"

lemma wp_ignored_call:
  assumes at: "at s0 i en g H s" and g: "\<And>r. gate_next g (c r) = Some g' \<and> gains (c r) = {} \<and> drops (c r) = D"
  shows "wp (ignore (call c m)) (\<lambda>_. at s0 i en g' (H - D)) E s"
  unfolding wp_ignore
proof (rule wp_callI)
  fix x w
  show "at s0 i en g' (H - D) (s\<lparr>or_world := w, or_calls := or_calls s @ [c (Inr x)]\<rparr>)"
    using at_drop [OF at, of "c (Inr x)" g'] g [of "Inr x"] by simp
next
  fix e w
  show "at s0 i en g' (H - D) (s\<lparr>or_world := w, or_calls := or_calls s @ [c (Inl e)]\<rparr>)"
    using at_drop [OF at, of "c (Inl e)" g'] g [of "Inl e"] by simp
qed

lemma wp_fail_closed:
  assumes at: "at s0 i en g H s"
  shows "wp (fail_closed C so e) (\<lambda>x t. x = e \<and> (\<exists>g'. at s0 i en g' H t)) (\<lambda>_ _. False) s"
proof (cases "requires_killswitch e")
  case False
  then show ?thesis using at by (auto simp: fail_closed_def wp_ret)
next
  case True
  have quiet1: "quiet (case so of None \<Rightarrow> ret r0 | Some i \<Rightarrow> bind (attempt lock_sessions) (\<lambda>r. ret (f i r)))"
    for r0 and f :: "session_id \<Rightarrow> error + (session_id \<times> session_entry) list \<Rightarrow> audit_record"
    by (auto simp: quiet_def wp_simps at_def split: option.split)
  have tail: "wp (bind (now C) (\<lambda>t. bind (case so of None \<Rightarrow> ret (r0 t) | Some i \<Rightarrow>
        bind (attempt lock_sessions) (\<lambda>r. ret (f t i r)))
      (\<lambda>rec. seq (audit C rec) (bind (now C) (\<lambda>t2. seq (audit C (ev t2)) (ret e))))))
     (\<lambda>x t. x = e \<and> (\<exists>g'. at s0 i en g' H t)) (\<lambda>_ _. False) t"
    if "at s0 i en Idle H t" for t r0 ev and
      f :: "timestamp \<Rightarrow> session_id \<Rightarrow> error + (session_id \<times> session_entry) list \<Rightarrow> audit_record"
    apply (rule wp_then [OF wp_quiet [OF that quiet_now]])
     apply (erule wp_then [OF wp_quiet [OF _ quiet1]])
      apply (erule wp_quiet_seq [OF _ quiet_audit])
      apply (erule wp_then [OF wp_quiet [OF _ quiet_now]])
       apply (erule wp_quiet_seq [OF _ quiet_audit])
       apply (auto simp: wp_ret)
    done
  show ?thesis unfolding fail_closed_def
    apply (simp only: True not_True_eq_False if_False Let_def)
    apply (rule wp_next [OF wp_ignored_call [OF at, where g' = Idle and D = "{}"]])
      apply simp
     apply (rule tail)
     apply simp_all
    done
qed

lemma wp_teardown_browser:
  assumes at: "at s0 i en g H s" and ok: "ho = None \<or> is_ok (backend_of C mode)"
  shows "wp (teardown_browser C mode ho) (\<lambda>_. at s0 i en g (H - R_browser ` set_option ho)) E s"
proof (cases ho)
  case None
  then show ?thesis using at by (simp add: teardown_browser_def wp_ret)
next
  case (Some h)
  obtain B where "backend_of C mode = Inr B" using ok Some by (auto simp: is_ok_iff)
  then show ?thesis
    using wp_ignored_call [OF at, where g' = g and D = "{R_browser h}" and c = "\<lambda>_. C_terminate h"] Some
    by (simp add: teardown_browser_def)
qed

lemma wp_teardown_dir:
  "at s0 i en g H s \<Longrightarrow> wp (teardown_dir C mode) (\<lambda>_. at s0 i en g H) E s"
  using wp_ignored_call [where g' = g and D = "{}" and c = "\<lambda>_. C_remove_dir d" for d]
  by (fastforce simp: teardown_dir_def wp_ret split: session_mode.split bool.split)

lemma wp_teardown_vm:
  assumes at: "at s0 i en g H s"
  shows "wp (teardown_vm C i p role vm) (\<lambda>_ t. \<exists>g'. at s0 i en g' (H - R_vm ` set_option vm) t) E s"
proof (cases vm)
  case None
  then show ?thesis using at by (auto simp: teardown_vm_def wp_ret)
next
  case (Some v)
  have "wp (seq (ignore (call (\<lambda>_. C_vm_shutdown v) (cap_vm_shutdown C v Forced)))
        (bind (attempt (call (\<lambda>r. C_vm_destroy v (is_ok r)) (cap_vm_destroy C v) :: (_, error, destroy_report) eff))
        (\<lambda>r. case r of Inl _ \<Rightarrow> ret () | Inr _ \<Rightarrow> audit_event C i p Info (EvVm (role_name role) ''destroyed''))))
      (\<lambda>_ t. \<exists>g'. at s0 i en g' (H - {R_vm v}) t) E s"
  proof (rule wp_next [OF wp_ignored_call [OF at, where g' = Idle and D = "{}"]])
    fix t assume "at s0 i en Idle (H - {}) t"
    then have a: "at s0 i en Idle H t" by simp
    have d: "at s0 i en Idle (H - {R_vm v}) (t\<lparr>or_world := w, or_calls := or_calls t @ [C_vm_destroy v b]\<rparr>)" for w b
      using at_drop [OF a, of "C_vm_destroy v b" Idle w] by simp
    have e: "wp (audit_event C i p Info (EvVm (role_name role) ''destroyed''))
        (\<lambda>_ t. \<exists>g'. at s0 i en g' (H - {R_vm v}) t) E u" if "at s0 i en Idle (H - {R_vm v}) u" for u
      by (rule wp_mono [OF wp_quiet [OF that quiet_audit_event]]) auto
    show "wp (bind (attempt (call (\<lambda>r. C_vm_destroy v (is_ok r)) (cap_vm_destroy C v) :: (_, error, destroy_report) eff))
        (\<lambda>r. case r of Inl _ \<Rightarrow> ret () | Inr _ \<Rightarrow> audit_event C i p Info (EvVm (role_name role) ''destroyed'')))
      (\<lambda>_ t. \<exists>g'. at s0 i en g' (H - {R_vm v}) t) E t"
      unfolding wp_bind wp_attempt
      by (rule wp_callI) (use d e in \<open>auto simp: wp_ret\<close>)
  qed simp_all
  then show ?thesis by (simp add: teardown_vm_def Some)
qed

lemma wp_teardown_final:
  assumes at: "at s0 i en g H s"
  shows "wp (teardown_final C i p mf) (\<lambda>_. at s0 i (torn en mf) g H) E s"
proof -
  have *: "wp (ignore (update_entry i (\<lambda>en. torn en mf))) (\<lambda>_. at s0 i (torn en mf) g H) E t"
    if "at s0 i en g H t" for t
    using at_get [OF that] at_put [OF that] by (simp add: wp_simps update_entry_def)
  show ?thesis
    unfolding teardown_final_def Let_def torn_def [symmetric]
    by (rule wp_quiet_seq [OF at quiet_audit_state]) (rule *)
qed

lemma wp_teardown:
  assumes at: "at s0 i en g (entry_res en) s"
    and ok: "en_browser_handle en = None \<or> is_ok (backend_of C (en_mode en))"
  shows "wp (teardown C i mf) (\<lambda>_ t. \<exists>g'. at s0 i (torn en mf) g' {} t) (\<lambda>_ _. False) s"
proof -
  let ?en = "en\<lparr>en_browser_handle := None\<rparr>" and ?s = "s\<lparr>or_sessions := tab_set i (en\<lparr>en_browser_handle := None\<rparr>) (or_sessions s)\<rparr>"
  let ?H1 = "entry_res en - R_browser ` set_option (en_browser_handle en)"
  let ?H2 = "?H1 - R_vm ` set_option (en_browser_vm en)"
  let ?H3 = "?H2 - R_vm ` set_option (en_gateway_vm en)"
  have t: "torn ?en mf = torn en mf" by (simp add: torn_def)
  have none: "?H3 - {R_lease (en_lease en)} = {}" by (auto simp: entry_res_def)
  have a0: "at s0 i ?en g (entry_res en) ?s" using at_put [OF at] .
  have "wp (seq (teardown_browser C (en_mode en) (en_browser_handle en))
          (seq (teardown_dir C (en_mode en))
          (seq (teardown_vm C i (en_profile en) RoleBrowser (en_browser_vm en))
          (seq (teardown_vm C i (en_profile en) RoleGateway (en_gateway_vm en))
          (seq (ignore (call (\<lambda>r. C_release (en_lease en) (is_ok r)) (cap_release_lock C (en_lease en))))
          (teardown_final C i (en_profile en) mf))))))
      (\<lambda>_ t. \<exists>g'. at s0 i (torn en mf) g' {} t) (\<lambda>_ _. False) ?s"
    apply (rule wp_next [OF wp_teardown_browser [OF a0 ok, where E = "\<lambda>_ _. False"]])
     apply (rule wp_next [OF wp_teardown_dir [where E = "\<lambda>_ _. False"]], assumption)
      apply (rule wp_next [OF wp_teardown_vm [where E = "\<lambda>_ _. False"]], assumption)
       apply (erule exE)
       apply (rule wp_next [OF wp_teardown_vm [where E = "\<lambda>_ _. False"]], assumption)
        apply (erule exE)
        apply (rule wp_next [OF wp_ignored_call [where D = "{R_lease (en_lease en)}" and E = "\<lambda>_ _. False"]], assumption)
          apply simp
         apply (rule wp_mono [OF wp_teardown_final [where E = "\<lambda>_ _. False"]], assumption)
          apply (auto simp: none t)
    done
  then show ?thesis
    using at_get [OF at] by (simp add: teardown_def wp_bind wp_attempt wp_lock wp_seq [of "put_entry _ _"] wp_put)
qed

section \<open>Starting and stopping\<close>

definition start_ok :: "'w caps \<Rightarrow> 'w orch \<Rightarrow> profile_id \<Rightarrow> session_summary \<Rightarrow> 'w orch \<Rightarrow> bool" where
  "start_ok C s pid x t \<longleftrightarrow> (\<exists>en. at s (ss_id x) en Idle (entry_res en) t \<and> en_profile en = pid \<and>
     x = entry_summary (ss_id x) en \<and>
     (started_vm en \<or> started_host C en \<and> allow_host_browser (get_enforcement s)))"

definition start_refused :: "'w orch \<Rightarrow> 'w orch \<Rightarrow> bool" where
  "start_refused s t \<longleftrightarrow> or_sessions t = or_sessions s \<and> or_poisoned t = or_poisoned s \<and>
     gate_after Idle (or_calls t) \<noteq> None \<and>
     (held (or_calls t) \<subseteq> held (or_calls s) \<or>
       or_poisoned s \<and> (\<exists>l. held (or_calls t) \<subseteq> insert (R_lease l) (held (or_calls s))))"

definition start_failed :: "'w orch \<Rightarrow> profile_id \<Rightarrow> 'w orch \<Rightarrow> bool" where
  "start_failed s pid t \<longleftrightarrow> (\<exists>i en g. at s i (torn en True) g {} t \<and> en_profile en = pid)"

lemma wp_drive:
  assumes at: "at s0 i en0 Leased (entry_res en0) s" and fresh: "fresh_entry en0"
  shows "wp (drive C cfg hm i p)
    (\<lambda>x t. \<exists>en. finished s0 i en0 x en t \<and> (started_vm en \<or> started_host C en \<and> hm))
    (\<lambda>e t. \<exists>en. (\<exists>g. at s0 i (torn en True) g {} t) \<and> same_owner en en0) s"
proof -
  have fail: "wp (bind (fail_closed C (Some i) e) (\<lambda>err. seq (teardown C i True) (throw err))) Q
      (\<lambda>e t. \<exists>en. (\<exists>g. at s0 i (torn en True) g {} t) \<and> same_owner en en0) t"
    if "stuck C s0 i en0 t" for e t and Q :: "session_summary \<Rightarrow> _"
  proof -
    from that obtain en g where a: "at s0 i en g (entry_res en) t" "same_owner en en0"
      "en_browser_handle en = None \<or> is_ok (backend_of C (en_mode en))" by (auto simp: stuck_def)
    show ?thesis
      apply (rule wp_then [OF wp_fail_closed [OF a(1)]])
       apply (elim conjE exE)
       apply (rule wp_next [OF wp_teardown [OF _ a(3)]], assumption)
        using a(2) by (auto simp: wp_throw)
  qed
  have vm: "wp (attempt (drive_start C cfg i p)) (\<lambda>r t. case r of Inl e \<Rightarrow> stuck C s0 i en0 t
      | Inr x \<Rightarrow> \<exists>en. finished s0 i en0 x en t \<and> started_vm en) E s"
    for E :: "error \<Rightarrow> 'a orch \<Rightarrow> bool"
    unfolding wp_attempt by (rule wp_mono [OF wp_drive_start [OF assms]]) auto
  have host: "wp (attempt (drive_start_host C cfg i p)) (\<lambda>r t. case r of Inl e \<Rightarrow> stuck C s0 i en0 t
      | Inr x \<Rightarrow> \<exists>en. finished s0 i en0 x en t \<and> started_host C en) E s"
    for E :: "error \<Rightarrow> 'a orch \<Rightarrow> bool"
    unfolding wp_attempt by (rule wp_mono [OF wp_drive_start_host [OF assms]]) auto
  show ?thesis
  proof (cases hm)
    case True
    then show ?thesis unfolding drive_def
      by (simp only: if_True, intro wp_then [OF host [where E = "\<lambda>_ _. False"]])
         (auto split: sum.splits simp: wp_ret simp del: not_None_eq intro: fail)
  next
    case False
    then show ?thesis unfolding drive_def
      by (simp only: if_False, intro wp_then [OF vm [where E = "\<lambda>_ _. False"]])
         (auto split: sum.splits simp: wp_ret simp del: not_None_eq intro: fail)
  qed
qed

lemma choose_mode_host: "choose_mode C e p = Inr True \<Longrightarrow> allow_host_browser e"
  by (simp add: choose_mode_def split: isolation_level.splits if_splits sum.splits)

text \<open>Between the acquired lease and the registered entry.\<close>

lemma wp_make_key:
  assumes gate: "gate_after Idle (or_calls s) = Some Leased"
  shows "wp (make_key C l)
    (\<lambda>_ t. or_sessions t = or_sessions s \<and> or_poisoned t = or_poisoned s \<and> or_enforcement t = or_enforcement s \<and>
       or_enforcement_poisoned t = or_enforcement_poisoned s \<and>
       gate_after Idle (or_calls t) = Some Leased \<and> held (or_calls t) = held (or_calls s))
    (\<lambda>_ t. or_sessions t = or_sessions s \<and> or_poisoned t = or_poisoned s \<and>
       gate_after Idle (or_calls t) = Some Leased \<and> held (or_calls t) = held (or_calls s) - {R_lease l}) s"
  unfolding make_key_def wp_bind wp_attempt
  by (rule wp_callI)
     (auto simp: wp_simps gate_after_append gate held_def held_from_append intro!: wp_callI)

lemma fresh_new_entry [simp]: "fresh_entry (new_entry p l k)"
  by (simp add: fresh_entry_def new_entry_def)

lemma new_entry_simps [simp]: "en_profile (new_entry p l k) = p" "en_lease (new_entry p l k) = l"
  by (simp_all add: new_entry_def)

lemma entry_res_new [simp]: "entry_res (new_entry p l k) = {R_lease l}"
  by (simp add: entry_res_def new_entry_def)

lemma wp_start:
  fixes s :: "'w orch"
  assumes gate: "gate_after Idle (or_calls s) \<noteq> None"
  shows "wp (start_session C cfg pid) (start_ok C s pid)
    (\<lambda>e t. start_refused s t \<or> start_failed s pid t) s"
proof -
  let ?P = "\<lambda>g (H :: resource set) (t :: 'w orch). or_sessions t = or_sessions s \<and> or_poisoned t = or_poisoned s \<and>
       or_enforcement t = or_enforcement s \<and> or_enforcement_poisoned t = or_enforcement_poisoned s \<and>
       gate_after Idle (or_calls t) = Some g \<and> held (or_calls t) \<subseteq> held (or_calls s) \<union> H"
  have tail: "wp (seq (register i (new_entry pid l k)) (seq (audit_state C i pid Requested) (drive C cfg hm i p)))
      (start_ok C s pid) (\<lambda>e t. start_refused s t \<or> start_failed s pid t) t"
    if "?P Leased {R_lease l} t" and hm: "choose_mode C (get_enforcement s) p = Inr hm" for t l k hm i p
  proof (cases "or_poisoned s")
    case True
    then show ?thesis using that(1) by (auto simp: wp_simps register_def start_refused_def)
  next
    case False
    let ?en = "new_entry pid l k"
    have a: "at s i ?en Leased (entry_res ?en) (t\<lparr>or_sessions := tab_set i ?en (or_sessions t)\<rparr>)"
      using that(1) False by (simp add: at_def)
    have "wp (seq (audit_state C i pid Requested) (drive C cfg hm i p))
        (start_ok C s pid) (\<lambda>e t. start_refused s t \<or> start_failed s pid t)
        (t\<lparr>or_sessions := tab_set i ?en (or_sessions t)\<rparr>)"
      apply (rule wp_quiet_seq [OF a quiet_audit_state])
      apply (rule wp_mono [OF wp_drive], assumption)
      using choose_mode_host [of C "get_enforcement s" p] hm
      by (auto simp: start_ok_def start_failed_def finished_def same_owner_def entry_summary_def)
    then show ?thesis using that(1) False by (simp add: register_def wp_simps)
  qed
  obtain g0 where g0: "gate_after Idle (or_calls s) = Some g0" using gate by auto
  show ?thesis
    unfolding start_session_def Let_def
  proof (rule wp_then [where Q' = "\<lambda>_. ?P g0 {}" and E' = "\<lambda>_ t. start_refused s t"])
    show "wp (call (\<lambda>r. C_get_profile pid (is_ok r)) (cap_get_profile C pid)) (\<lambda>_. ?P g0 {}) (\<lambda>_ t. start_refused s t) s"
      by (rule wp_callI) (auto simp: gate_after_append g0 start_refused_def)
  next
    fix p t assume P: "?P g0 {} t"
    have ge: "get_enforcement t = get_enforcement s" using P by (simp add: get_enforcement_def)
    have refused: "start_refused s t" using P by (auto simp: start_refused_def)
    have acq: "wp (bind (call (\<lambda>r. C_acquire pid (ok_of r)) (cap_acquire_lock C pid)) (\<lambda>lease. bind (new_uuid C) (\<lambda>u.
        bind (make_key C lease) (\<lambda>key. seq (register (SessionId u) (new_entry pid lease key))
         (seq (audit_state C (SessionId u) pid Requested) (drive C cfg hm (SessionId u) p))))))
        (start_ok C s pid) (\<lambda>e t. start_refused s t \<or> start_failed s pid t) t"
      if hm: "choose_mode C (get_enforcement s) p = Inr hm" for hm
    proof (rule wp_then [where Q' = "\<lambda>l. ?P Leased {R_lease l}" and E' = "\<lambda>_ t. start_refused s t"])
      show "wp (call (\<lambda>r. C_acquire pid (ok_of r)) (cap_acquire_lock C pid)) (\<lambda>l. ?P Leased {R_lease l})
          (\<lambda>_ t. start_refused s t) t"
        by (rule wp_callI) (use P in \<open>auto simp: gate_after_append start_refused_def\<close>)
    next
      fix l u assume L: "?P Leased {R_lease l} u"
      show "wp (bind (new_uuid C) (\<lambda>u. bind (make_key C l) (\<lambda>key. seq (register (SessionId u) (new_entry pid l key))
         (seq (audit_state C (SessionId u) pid Requested) (drive C cfg hm (SessionId u) p)))))
        (start_ok C s pid) (\<lambda>e t. start_refused s t \<or> start_failed s pid t) u"
        unfolding wp_bind [of "new_uuid C"]
      proof (rule wp_uuidI)
        fix v w
        show "wp (bind (make_key C l) (\<lambda>key. seq (register (SessionId v) (new_entry pid l key))
             (seq (audit_state C (SessionId v) pid Requested) (drive C cfg hm (SessionId v) p))))
          (start_ok C s pid) (\<lambda>e t. start_refused s t \<or> start_failed s pid t) (u\<lparr>or_world := w\<rparr>)"
          by (rule wp_then [OF wp_make_key]) (use L tail hm in \<open>auto simp: start_refused_def\<close>)
      qed
    qed simp
    show "wp (bind (gets get_enforcement) (\<lambda>e. bind (lift_res (choose_mode C e p)) (\<lambda>hm.
        bind (call (\<lambda>r. C_acquire pid (ok_of r)) (cap_acquire_lock C pid)) (\<lambda>lease. bind (new_uuid C) (\<lambda>u.
        bind (make_key C lease) (\<lambda>key. seq (register (SessionId u) (new_entry pid lease key))
         (seq (audit_state C (SessionId u) pid Requested) (drive C cfg hm (SessionId u) p))))))))
        (start_ok C s pid) (\<lambda>e t. start_refused s t \<or> start_failed s pid t) t"
      using acq refused by (auto simp: wp_bind [of "gets _"] wp_bind [of "lift_res _"] wp_gets wp_lift_res ge split: sum.split)
  qed simp
qed

lemma tab_set_same: "tab_get t k = Some v \<Longrightarrow> tab_set k v t = t"
  by (induction t k rule: tab_get.induct) (auto split: if_splits)

lemma held_without: "\<exists>cs'. held cs' = held cs - entry_res en"
proof -
  let ?drops = "[C_release (en_lease en) True]
    @ (case en_gateway_vm en of None \<Rightarrow> [] | Some v \<Rightarrow> [C_vm_destroy v True])
    @ (case en_browser_vm en of None \<Rightarrow> [] | Some v \<Rightarrow> [C_vm_destroy v True])
    @ (case en_browser_handle en of None \<Rightarrow> [] | Some h \<Rightarrow> [C_terminate h])"
  have "held (cs @ ?drops) = held cs - entry_res en"
    by (auto simp: held_def held_from_append entry_res_def split: option.splits)
  then show ?thesis ..
qed

lemma wp_stop:
  assumes get: "tab_get (or_sessions s) i = Some en" and unp: "\<not> or_poisoned s"
    and gate: "gate_after Idle (or_calls s) \<noteq> None"
    and ok: "en_browser_handle en = None \<or> is_ok (backend_of C (en_mode en))"
  shows "wp (stop_session C i)
    (\<lambda>x t. (\<exists>st g. at s i (torn (en\<lparr>en_state := st\<rparr>) False) g {} t \<and>
        x = entry_summary i (torn (en\<lparr>en_state := st\<rparr>) False)) \<and>
      held (or_calls t) \<subseteq> held (or_calls s) - entry_res en) (\<lambda>_ _. False) s"
proof -
  obtain cs where cs: "held cs = held (or_calls s) - entry_res en" using held_without by blast
  obtain g0 where g0: "gate_after Idle (or_calls s) = Some g0" using gate by auto
  let ?s = "s\<lparr>or_calls := cs\<rparr>"
  have a: "at ?s i en g0 (entry_res en) s"
    using get unp g0 by (auto simp: at_def tab_set_same cs)
  have closing: "wp (ignore (transition C i Closing))
      (\<lambda>_ t. \<exists>st. at ?s i (en\<lparr>en_state := st\<rparr>) g0 (entry_res en) t) (\<lambda>_ _. False) s"
  proof (cases "can_transition_to (en_state en) Closing")
    case True
    from wp_transition [OF a this, of "ret ()" "\<lambda>_ t. \<exists>st. at ?s i (en\<lparr>en_state := st\<rparr>) g0 (entry_res en) t"]
    show ?thesis unfolding wp_ignore wp_seq wp_ret by (rule wp_mono) auto
  next
    case False
    have "en\<lparr>en_state := en_state en\<rparr> = en" by simp
    then show ?thesis using False a at_get [OF a] unfolding transition_def wp_simps
      by (auto simp: wp_simps intro!: exI [of _ "en_state en"])
  qed
  have fin: "wp (bind lock_sessions (\<lambda>tb. case tab_get tb i of Some en \<Rightarrow> ret (entry_summary i en)
      | None \<Rightarrow> throw (unknown_session i)))
    (\<lambda>x t. (\<exists>st g. at ?s i (torn (en\<lparr>en_state := st\<rparr>) False) g {} t \<and>
        x = entry_summary i (torn (en\<lparr>en_state := st\<rparr>) False))) (\<lambda>_ _. False) t"
    if "at ?s i (torn (en\<lparr>en_state := st\<rparr>) False) g {} t" for st g t
    using that at_get [OF that] by (auto simp: wp_simps)
  have "wp (stop_session C i)
    (\<lambda>x t. (\<exists>st g. at ?s i (torn (en\<lparr>en_state := st\<rparr>) False) g {} t \<and>
        x = entry_summary i (torn (en\<lparr>en_state := st\<rparr>) False))) (\<lambda>_ _. False) s"
    unfolding stop_session_def
    apply (simp add: wp_bind [of lock_sessions] wp_lock unp get wp_seq [of "guard_e _ _"] wp_guard_e)
    apply (rule wp_next [OF closing])
     apply (elim exE)
     apply (rule wp_next [OF wp_teardown [where mf = False]])
        apply (erule at_mono)
        apply (simp add: entry_res_def)
       apply (simp add: ok)
      apply (elim exE)
      apply (rule wp_mono [OF fin], assumption, blast)
     apply simp_all
    done
  then show ?thesis
    by (rule wp_mono) (auto simp: at_def cs)
qed

end
