(* ===== verification/Orchestrator_Sample.thy ===== *)
theory Orchestrator_Sample
  imports Orchestrator_Trace
begin

text \<open>
  A concrete instance of the capabilities: every component answers with success, the world is
  a counter.  It serves to exhibit runs in which the properties' hypotheses hold.
\<close>

definition sample_pid :: profile_id where
  "sample_pid = ProfileId (Uuid ''p'')"

definition sample_spec :: profile_spec where
  "sample_spec = spec_ephemeral ''work''"

definition sample_stored :: "isolation_level \<Rightarrow> profile" where
  "sample_stored lvl = \<lparr> pr_id = sample_pid, pr_spec = with_isolation lvl sample_spec, pr_created_at = 0,
     pr_last_launched = None, pr_storage = \<lparr> su_bytes = 0 \<rparr>, pr_locked = False \<rparr>"

definition sample_backend :: "nat backend_ops" where
  "sample_backend = \<lparr>
     bb_render = (\<lambda>r. Inr \<lparr> pb_backend = Chromium, pb_managed_policies = [], pb_command_line = [], pb_preferences = [] \<rparr>),
     bb_launch = (\<lambda>r b. ret \<lparr> bh_session = lr_session r, bh_backend = Chromium, bh_process_token = ''1'' \<rparr>),
     bb_is_running = (\<lambda>h. ret True), bb_terminate = (\<lambda>h. ret ()) \<rparr>"

definition sample_checklist :: "check_outcome \<Rightarrow> checklist" where
  "sample_checklist r = checklist_new (List.map (\<lambda>i. \<lparr> rep_id = i, rep_outcome = r, rep_detail = [] \<rparr>) check_all)"

definition sample_gateway_health :: gateway_health where
  "sample_gateway_health = \<lparr> gh_gateway_up = True, gh_firewall_applied = True, gh_tunnel = tunnel_status_up,
     gh_killswitch = Armed \<rparr>"

definition sample_caps :: "isolation_level \<Rightarrow> check_outcome \<Rightarrow> nat caps" where
  "sample_caps lvl r = \<lparr>
     cap_provision = (\<lambda>q n. (Inr \<lparr> vh_id = VmId (Uuid (dec n)), vh_instance_id = vr_instance_id q, vh_role = vr_role q,
        vh_domain_name = [], vh_state = VmDefined \<rparr>, Suc n)),
     cap_vm_start = (\<lambda>v. ret ()), cap_vm_shutdown = (\<lambda>v m. ret ()),
     cap_vm_destroy = (\<lambda>v. ret \<lparr> dr_id = v, dr_overlay_shredded = True, dr_domain_undefined = True \<rparr>),
     cap_configure = (\<lambda>g. ret ()), cap_apply_firewall = (\<lambda>p. ret ()), cap_engage = ret (),
     cap_health = ret sample_gateway_health,
     cap_preflight = (\<lambda>c. ret (sample_checklist r)),
     cap_browser = sample_backend, cap_host_browser = Some sample_backend, cap_host_browser_path = None,
     cap_host_firefox = None, cap_proxy_reachable = (\<lambda>h p. ret (is_pass r)),
     cap_get_profile = (\<lambda>p. ret (sample_stored lvl)),
     cap_acquire_lock = (\<lambda>p. ret \<lparr> pl_profile = p, pl_token = ''t'' \<rparr>), cap_release_lock = (\<lambda>l. ret ()),
     cap_touch_launch = (\<lambda>p t. ret ()), cap_generate_key = ret [], cap_audit = (\<lambda>a. ret ()),
     cap_now = (\<lambda>n. (int n, n)), cap_new_uuid = (\<lambda>n. (Uuid (dec n), Suc n)), cap_host_proxy_var = (\<lambda>n. None),
     cap_remove_dir_all = (\<lambda>p. ret ()) \<rparr>"

definition sample_config :: app_config where
  "sample_config = app_config_default\<lparr>cfg_enforcement := enforcement_host_browser\<rparr>"

definition sample_state :: "nat orch" where
  "sample_state = orch_new sample_config 0"

text \<open>
  Running a computation by rewriting, call by value: a continuation is not rewritten before
  it is applied.
\<close>

lemma lazy_cong:
  "m = m' \<Longrightarrow> s = s' \<Longrightarrow> bind m f s = bind m' f s'"
  "m = m' \<Longrightarrow> s = s' \<Longrightarrow> seq m n s = seq m' n s'"
  "m = m' \<Longrightarrow> s = s' \<Longrightarrow> attempt m s = attempt m' s'"
  by simp_all

lemma run_bind:
  "bind m f s = (case m s of (Inl e, t) \<Rightarrow> (Inl e, t) | (Inr x, t) \<Rightarrow> f x t)"
  "seq m n s = (case m s of (Inl e, t) \<Rightarrow> (Inl e, t) | (Inr x, t) \<Rightarrow> n t)"
  by (simp_all add: bind_def seq_def)

lemma run_basic:
  "attempt m s = (case m s of (r, t) \<Rightarrow> (Inr r, t))"
  "ret x s = (Inr x, s)" "throw e s = (Inl e, s)" "modify g s = (Inr (), g s)"
  "lift_res r s = (r, s)" "guard_e b e s = (if b then (Inr (), s) else (Inl e, s))"
  by (simp_all add: attempt_def ret_def throw_def modify_def lift_res_def guard_e_def)

lemma run_parts:
  "gets f s = (Inr (f s), s)" "run_state h s = (case h s of (x, t) \<Rightarrow> (Inr x, t))"
  "zoom sel upd m u = (case m (sel u) of (r, t) \<Rightarrow> (r, upd (\<lambda>_. t) u))"
  by (simp_all add: gets_def run_state_def zoom_def)

lemmas run_simps = run_bind run_basic run_parts

lemma call_run: "call c m s = (case m (or_world s) of (r, w) \<Rightarrow> (r, s\<lparr>or_world := w, or_calls := or_calls s @ [c r]\<rparr>))"
  by (simp add: call_def)

lemmas orch_run_defs = start_session_def choose_mode_def make_key_def register_def drive_def drive_start_def
  drive_start_host_def transition_def provision_vm_def provision_request_def set_vm_def set_entry_def
  set_browser_handle_def run_launch_def audit_def audit_state_def audit_event_def audit_checks_def
  record_checklist_def update_entry_def touch_def final_summary_def now_def new_uuid_def fail_closed_def
  teardown_def teardown_browser_def teardown_dir_def teardown_vm_def teardown_final_def host_proxy_endpoint_def
  host_backend_for_def backend_of_def stop_session_def

lemmas sample_defs = sample_backend_def sample_stored_def sample_spec_def sample_state_def
  sample_checklist_def sample_config_def spec_ephemeral_def with_isolation_def app_config_default_def
  enforcement_host_browser_def orch_new_def get_enforcement_def new_entry_def

lemma sample_caps_sel:
  "cap_provision (sample_caps lvl r) = (\<lambda>q n. (Inr \<lparr> vh_id = VmId (Uuid (dec n)), vh_instance_id = vr_instance_id q, vh_role = vr_role q, vh_domain_name = [], vh_state = VmDefined \<rparr>, Suc n))"
  "cap_vm_start (sample_caps lvl r) = (\<lambda>v. ret ())"
  "cap_vm_shutdown (sample_caps lvl r) = (\<lambda>v m. ret ())"
  "cap_vm_destroy (sample_caps lvl r) = (\<lambda>v. ret \<lparr> dr_id = v, dr_overlay_shredded = True, dr_domain_undefined = True \<rparr>)"
  "cap_configure (sample_caps lvl r) = (\<lambda>g. ret ())"
  "cap_apply_firewall (sample_caps lvl r) = (\<lambda>p. ret ())"
  "cap_engage (sample_caps lvl r) = ret ()"
  "cap_health (sample_caps lvl r) = ret sample_gateway_health"
  "cap_preflight (sample_caps lvl r) = (\<lambda>c. ret (sample_checklist r))"
  "cap_browser (sample_caps lvl r) = sample_backend"
  "cap_host_browser (sample_caps lvl r) = Some sample_backend"
  "cap_host_browser_path (sample_caps lvl r) = None"
  "cap_host_firefox (sample_caps lvl r) = None"
  "cap_proxy_reachable (sample_caps lvl r) = (\<lambda>h p. ret (is_pass r))"
  "cap_get_profile (sample_caps lvl r) = (\<lambda>p. ret (sample_stored lvl))"
  "cap_acquire_lock (sample_caps lvl r) = (\<lambda>p. ret \<lparr> pl_profile = p, pl_token = ''t'' \<rparr>)"
  "cap_release_lock (sample_caps lvl r) = (\<lambda>l. ret ())"
  "cap_touch_launch (sample_caps lvl r) = (\<lambda>p t. ret ())"
  "cap_generate_key (sample_caps lvl r) = ret []"
  "cap_audit (sample_caps lvl r) = (\<lambda>a. ret ())"
  "cap_now (sample_caps lvl r) = (\<lambda>n. (int n, n))"
  "cap_new_uuid (sample_caps lvl r) = (\<lambda>n. (Uuid (dec n), Suc n))"
  "cap_host_proxy_var (sample_caps lvl r) = (\<lambda>n. None)"
  "cap_remove_dir_all (sample_caps lvl r) = (\<lambda>p. ret ())"
  by (simp_all add: sample_caps_def)

lemmas check_defs = permits_browsing_def cl_status_def all_passed_def check_passed_def find_report_def is_pass_def
  checklist_new_def check_all_def assert_safe_def browser_launch_request_def failures_def

lemma default_proxy: "host_proxy_parse ''socks5h://127.0.0.1:9050'' =
    Inr \<lparr> hp_endpoint = ''socks5h://127.0.0.1:9050'', hp_probe_host = ''127.0.0.1'', hp_probe_port = 9050 \<rparr>"
  by (simp add: host_proxy_parse_def parse_u16_def parse_uint_def digit_val_def Let_def)

lemma refusal_contains: "requires_killswitch (preflight_refusal cl)"
    "\<exists>m. preflight_refusal cl = NetworkContainment m"
  by (simp_all add: preflight_refusal_def)

lemmas run_defs = refusal_contains default_proxy network_default_def network_from_mode_def orch_run_defs sample_defs sample_caps_sel run_simps call_run Let_def lock_sessions_def
  put_entry_def ignore_def check_defs

definition sample_run :: "isolation_level \<Rightarrow> check_outcome \<Rightarrow> (error + session_summary) \<times> nat orch" where
  "sample_run lvl r = start_session (sample_caps lvl r) sample_config sample_pid sample_state"

lemma sample_run_vm: "is_ok (fst (sample_run FullVm Pass))"
  by (simp add: sample_run_def run_defs cong: lazy_cong)

lemma sample_run_launches: "\<exists>h. C_launch FullVm h \<in> set (or_calls (snd (sample_run FullVm Pass)))"
  by (simp add: sample_run_def run_defs cong: lazy_cong)

lemma sample_run_host: "is_ok (fst (sample_run HostProcess Pass))"
  by (simp add: sample_run_def run_defs cong: lazy_cong)

lemma sample_run_fails: "\<exists>m. fst (sample_run FullVm Fail) = Inl (NetworkContainment m)"
  by (simp add: sample_run_def run_defs cong: lazy_cong)

lemma sample_run_changes: "or_sessions (snd (sample_run FullVm Fail)) \<noteq> or_sessions sample_state"
  by (simp add: sample_run_def run_defs cong: lazy_cong)

lemma sample_run_mode: "\<forall>(i, en) \<in> set (or_sessions (snd (sample_run FullVm Pass))). en_mode en = ModeFullVm"
  by (simp add: sample_run_def run_defs cong: lazy_cong)

end
