(* ===== verification/Orchestrator_Props.thy ===== *)
theory Orchestrator_Props
  imports Orchestrator_Safety Orchestrator_Sample
begin

text \<open>
  The properties of the orchestrator: every state its public operations reach, and what each
  start and stop leaves behind.
\<close>

section \<open>Operations and reachable states\<close>

datatype orch_op =
    OpStart profile_id
  | OpStop session_id
  | OpLiveness session_id
  | OpSetEnforcement enforcement

fun orch_exec :: "'w caps \<Rightarrow> app_config \<Rightarrow> orch_op \<Rightarrow> 'w orch \<Rightarrow> 'w orch" where
  "orch_exec C cfg (OpStart p) s = snd (start_session C cfg p s)"
| "orch_exec C cfg (OpStop i) s = snd (stop_session C i s)"
| "orch_exec C cfg (OpLiveness i) s = snd (browser_liveness C i s)"
| "orch_exec C cfg (OpSetEnforcement e) s = snd (set_enforcement e s)"

text \<open>
  Between two operations the world may change in any way (other clients, time), and either
  lock may become poisoned.
\<close>

inductive orch_reachable :: "'w caps \<Rightarrow> app_config \<Rightarrow> 'w orch \<Rightarrow> bool" for C cfg where
  reach_new: "orch_reachable C cfg (orch_new cfg w)"
| reach_op: "orch_reachable C cfg s \<Longrightarrow> orch_reachable C cfg (orch_exec C cfg op s)"
| reach_world: "orch_reachable C cfg s \<Longrightarrow> orch_reachable C cfg (s\<lparr>or_world := w\<rparr>)"
| reach_poison: "orch_reachable C cfg s \<Longrightarrow> orch_reachable C cfg (s\<lparr>or_poisoned := True\<rparr>)"
| reach_poison_policy: "orch_reachable C cfg s \<Longrightarrow> orch_reachable C cfg (s\<lparr>or_enforcement_poisoned := True\<rparr>)"

definition ended :: "session_entry \<Rightarrow> bool" where
  "ended en \<longleftrightarrow> en_state en \<in> {Failed, Destroyed} \<and> en_browser_handle en = None \<and>
     en_gateway_vm en = None \<and> en_browser_vm en = None"

definition entry_ok :: "'w caps \<Rightarrow> session_entry \<Rightarrow> bool" where
  "entry_ok C en \<longleftrightarrow> started_vm en \<or> started_host C en \<or> ended en"

definition orch_inv :: "'w caps \<Rightarrow> 'w orch \<Rightarrow> bool" where
  "orch_inv C s \<longleftrightarrow> gate_after Idle (or_calls s) \<noteq> None \<and> (\<forall>en \<in> snd ` set (or_sessions s). entry_ok C en)"

lemma set_tab_set: "set (tab_set k v t) \<subseteq> insert (k, v) (set t)"
  by (induction t rule: tab_set.induct) (auto split: if_splits)

lemma ended_torn [simp]: "ended (torn en mf)"
  by (simp add: ended_def torn_def)

lemma entry_ok_backend: "entry_ok C en \<Longrightarrow> en_browser_handle en = None \<or> is_ok (backend_of C (en_mode en))"
  by (auto simp: entry_ok_def started_vm_def started_host_def ended_def)

lemma at_inv: "at s i en g H t \<Longrightarrow> orch_inv C s \<Longrightarrow> entry_ok C en \<Longrightarrow> orch_inv C t"
  using set_tab_set [of i en "or_sessions s"] by (fastforce simp: at_def orch_inv_def)

lemma inv_get: "orch_inv C s \<Longrightarrow> tab_get (or_sessions s) i = Some en \<Longrightarrow> entry_ok C en"
  by (force simp: orch_inv_def dest: tab_get_mem)

lemma start_inv:
  assumes "orch_inv C s"
  shows "wp (start_session C cfg p) (\<lambda>_. orch_inv C) (\<lambda>_. orch_inv C) s"
proof (rule wp_mono [OF wp_start])
  show "gate_after Idle (or_calls s) \<noteq> None" using assms by (simp add: orch_inv_def)
  show "orch_inv C t" if "start_ok C s p x t" for x t
    using that assms by (auto simp: start_ok_def entry_ok_def intro: at_inv)
  have "orch_inv C t" if "start_refused s t" for t
    using that assms by (simp add: start_refused_def orch_inv_def)
  moreover have "orch_inv C t" if "start_failed s p t" for t
    using that assms by (auto simp: start_failed_def entry_ok_def intro: at_inv)
  ultimately show "orch_inv C t" if "start_refused s t \<or> start_failed s p t" for t
    using that by blast
qed

lemma stop_inv:
  assumes inv: "orch_inv C s"
  shows "wp (stop_session C i) (\<lambda>_. orch_inv C) (\<lambda>_. orch_inv C) s"
proof (cases "or_poisoned s \<or> tab_get (or_sessions s) i = None")
  case True
  then show ?thesis using inv by (auto simp: stop_session_def wp_simps)
next
  case False
  then obtain en where en: "tab_get (or_sessions s) i = Some en" by auto
  show ?thesis
  proof (rule wp_mono [OF wp_stop [OF en]])
    show "orch_inv C t" if "(\<exists>st g. at s i (torn (en\<lparr>en_state := st\<rparr>) False) g {} t \<and> x = f st) \<and> R t"
      for t x and f :: "session_state \<Rightarrow> session_summary" and R
      using that inv by (auto simp: entry_ok_def intro: at_inv)
  qed (use False inv entry_ok_backend [OF inv_get [OF inv en]] in \<open>auto simp: orch_inv_def\<close>)
qed

lemma liveness_inv: "orch_inv C s \<Longrightarrow> wp (browser_liveness C i) (\<lambda>_. orch_inv C) (\<lambda>_. orch_inv C) s"
  by (auto simp: browser_liveness_def wp_simps orch_inv_def gate_after_append
      split: option.splits sum.splits intro!: wp_callI)

lemma exec_inv: "orch_inv C s \<Longrightarrow> orch_inv C (orch_exec C cfg op s)"
  by (cases op)
     (simp_all add: wp_state [OF start_inv] wp_state [OF stop_inv] wp_state [OF liveness_inv],
      simp add: set_enforcement_def orch_inv_def)

lemma reachable_inv: "orch_reachable C cfg s \<Longrightarrow> orch_inv C s"
  by (induction rule: orch_reachable.induct)
     (simp_all add: exec_inv, simp_all add: orch_inv_def orch_new_def)

text \<open>What a prefix of the trace that clears a launch must contain.\<close>

lemma cleared_vm_history:
  "gate_after Idle xs = Some ClearedVm \<Longrightarrow>
    \<exists>a b cl. xs = a @ C_preflight (Some cl) # b \<and> permits_browsing cl \<and> gate_after Idle a = Some BothUp"
proof (induction xs rule: rev_induct)
  case (snoc c xs)
  then obtain g where g: "gate_after Idle xs = Some g" "gate_next g c = Some ClearedVm"
    by (auto simp: gate_after_append split: option.splits)
  show ?case
  proof (cases "g = ClearedVm")
    case True
    then obtain a b cl where "xs = a @ C_preflight (Some cl) # b" "permits_browsing cl"
      "gate_after Idle a = Some BothUp" using snoc.IH g by auto
    then show ?thesis by (intro exI [of _ a] exI [of _ "b @ [c]"] exI [of _ cl]) simp
  next
    case False
    then have "\<exists>cl. c = C_preflight (Some cl) \<and> permits_browsing cl \<and> g = BothUp"
      using g(2) by (cases "(g, c)" rule: gate_next.cases) (auto simp: advance_def split: if_splits option.splits)
    then show ?thesis using g(1) by (metis append_is_Nil_conv)
  qed
qed simp

lemma cleared_host_history:
  "gate_after Idle xs = Some ClearedHost \<Longrightarrow> \<exists>a b. xs = a @ C_proxy_reachable True # b"
proof (induction xs rule: rev_induct)
  case (snoc c xs)
  then obtain g where g: "gate_after Idle xs = Some g" "gate_next g c = Some ClearedHost"
    by (auto simp: gate_after_append split: option.splits)
  show ?case
  proof (cases "g = ClearedHost")
    case True
    then show ?thesis using snoc.IH g by (metis append_Cons append_assoc)
  next
    case False
    then have "c = C_proxy_reachable True"
      using g(2) by (cases "(g, c)" rule: gate_next.cases) (auto simp: advance_def split: if_splits option.splits)
    then show ?thesis by auto
  qed
qed simp

lemma launch_history:
  assumes "gate_after Idle (xs @ C_launch level h # ys) \<noteq> None"
  shows "case level of
      FullVm \<Rightarrow> gate_after Idle xs = Some ClearedVm \<and>
        (\<exists>a b cl. xs = a @ C_preflight (Some cl) # b \<and> permits_browsing cl \<and> gate_after Idle a = Some BothUp)
    | HostProcess \<Rightarrow> gate_after Idle xs = Some ClearedHost \<and> (\<exists>a b. xs = a @ C_proxy_reachable True # b)"
proof -
  obtain g where "gate_after Idle xs = Some g" "gate_next g (C_launch level h) \<noteq> None"
    using assms by (auto simp: gate_after_append split: option.splits)
  then show ?thesis using cleared_vm_history cleared_host_history
    by (cases level) (auto split: if_splits)
qed

text \<open>
  No browser is launched before its containment is in place.  In every state the
  orchestrator reaches, whatever the capabilities return, each full-VM launch in the call
  trace comes after: the lease acquired, the gateway VM and then the browser VM provisioned,
  the gateway configured, a valid firewall policy applied, both VMs started, and a preflight
  whose checklist permits browsing, each successful, in this order, with no kill switch and
  no VM teardown in between.  Each host launch comes after an acquired lease and a proxy
  that answered.
\<close>

lemma launch_gated:
  assumes "orch_reachable C cfg s" and "or_calls s = xs @ C_launch level h # ys"
  shows "case level of
      FullVm \<Rightarrow> gate_after Idle xs = Some ClearedVm \<and>
        (\<exists>a b cl. xs = a @ C_preflight (Some cl) # b \<and> permits_browsing cl \<and> gate_after Idle a = Some BothUp)
    | HostProcess \<Rightarrow> gate_after Idle xs = Some ClearedHost \<and> (\<exists>a b. xs = a @ C_proxy_reachable True # b)"
  by (rule launch_history [of xs level h ys]) (use reachable_inv [OF assms(1)] assms(2) in \<open>simp add: orch_inv_def\<close>)

section \<open>The kill switch comes first\<close>

fun is_cleanup :: "cap_call \<Rightarrow> bool" where
  "is_cleanup (C_audit _) = True"
| "is_cleanup (C_terminate _) = True"
| "is_cleanup (C_remove_dir _) = True"
| "is_cleanup (C_vm_shutdown _) = True"
| "is_cleanup (C_vm_destroy _ _) = True"
| "is_cleanup (C_release _ _) = True"
| "is_cleanup _ = False"

definition cut_then_cleanup :: "'w orch \<Rightarrow> 'w orch \<Rightarrow> bool" where
  "cut_then_cleanup s t \<longleftrightarrow>
    (\<exists>cs r ds. or_calls t = or_calls s @ cs @ C_engage r # ds \<and> list_all is_cleanup ds)"

definition extends :: "'w orch \<Rightarrow> 'w orch \<Rightarrow> bool" where
  "extends s t \<longleftrightarrow> (\<exists>cs. or_calls t = or_calls s @ cs)"

lemma extends_refl [simp]: "extends s s"
  by (simp add: extends_def)

lemma wp_emits:
  assumes "emits P m"
  shows "wp m (\<lambda>_ t. \<exists>ds. or_calls t = or_calls s @ ds \<and> list_all P ds)
    (\<lambda>_ t. \<exists>ds. or_calls t = or_calls s @ ds \<and> list_all P ds) s"
  by (rule wp_I; drule emits_run [OF assms]; assumption)

lemma wp_extends:
  assumes "emits (\<lambda>_. True) m" "extends s u"
  shows "wp m (\<lambda>_. extends s) (\<lambda>_. extends s) u"
  by (rule wp_mono [OF wp_emits [OF assms(1)]]) (use assms(2) in \<open>auto simp: extends_def\<close>)

lemma wp_cleanup:
  assumes "emits is_cleanup m" "cut_then_cleanup s u"
  shows "wp m (\<lambda>_. cut_then_cleanup s) (\<lambda>_. cut_then_cleanup s) u"
proof -
  obtain cs r ds where "or_calls u = or_calls s @ cs @ C_engage r # ds" "list_all is_cleanup ds"
    using assms(2) by (auto simp: cut_then_cleanup_def)
  then have "cut_then_cleanup s t" if "or_calls t = or_calls u @ es" "list_all is_cleanup es" for t es
    using that unfolding cut_then_cleanup_def
    by (intro exI [of _ cs] exI [of _ r] exI [of _ "ds @ es"]) simp
  then show ?thesis by (intro wp_mono [OF wp_emits [OF assms(1)]]) auto
qed

lemma emits_update [emits_intros]: "emits P (update_entry i f)"
  unfolding update_entry_def by (intro emits_intros)

lemma emits_audit: "(\<And>r. P (C_audit r)) \<Longrightarrow> emits P (audit C r)"
  unfolding audit_def by (intro emits_intros)

lemma emits_audits:
  assumes "\<And>r. P (C_audit r)"
  shows "emits P (audit_state C i p st)" "emits P (audit_event C i p sev ev)"
  unfolding audit_state_def audit_event_def by (intro emits_intros emits_audit assms)+

lemma emits_teardown_dir: "emits is_cleanup (teardown_dir C mode)"
proof (cases mode)
  case (ModeHostProcess d e b)
  then show ?thesis by (cases e) (simp_all add: teardown_dir_def emits_ignore emits_call emits_ret)
qed (simp add: teardown_dir_def emits_ret)

lemma emits_teardown: "emits is_cleanup (teardown C i mf)"
  unfolding teardown_def teardown_browser_def teardown_vm_def teardown_final_def Let_def
  by (intro emits_intros emits_audits emits_teardown_dir; simp)

text \<open>Routines that cannot fail.\<close>

definition total :: "('s, 'e, 'a) eff \<Rightarrow> bool" where
  "total m \<longleftrightarrow> (\<forall>s. wp m (\<lambda>_ _. True) (\<lambda>_ _. False) s)"

lemma total_wp: "total m \<Longrightarrow> wp m (\<lambda>_ _. True) (\<lambda>_ _. False) s"
  by (simp add: total_def)

lemma total_ret: "total (ret x)"
  by (simp add: total_def wp_ret)

lemma total_attempt: "total (attempt m)"
  by (simp add: total_def wp_attempt)

lemma total_bind: "total m \<Longrightarrow> (\<And>x. total (f x)) \<Longrightarrow> total (bind m f)"
  by (auto simp: total_def intro: wp_then)

lemma total_seq: "total m \<Longrightarrow> total n \<Longrightarrow> total (seq m n)"
  by (simp add: seq_def total_bind)

lemma total_ignore: "total (ignore m)"
  by (simp add: ignore_def total_seq total_attempt total_ret)

lemma total_basic: "total (now C)" "total (put_entry i en)" "total (audit C r)"
  by (auto simp: total_def wp_put audit_def total_ignore [unfolded total_def] intro: wp_nowI)

lemma total_option: "total m \<Longrightarrow> (\<And>x. total (g x)) \<Longrightarrow> total (case r of None \<Rightarrow> m | Some x \<Rightarrow> g x)"
  by (cases r) simp_all

lemma total_sum: "(\<And>x. total (f x)) \<Longrightarrow> (\<And>x. total (g x)) \<Longrightarrow> total (case r of Inl x \<Rightarrow> f x | Inr x \<Rightarrow> g x)"
  by (cases r) simp_all

lemmas total_rules = total_ret total_attempt total_bind total_seq total_ignore total_basic total_option total_sum

lemma total_dir: "total (teardown_dir C mode)"
  by (cases mode; simp add: teardown_dir_def total_rules split: bool.split)

lemma total_teardown: "total (teardown C i mf)"
  unfolding teardown_def teardown_browser_def teardown_vm_def teardown_final_def audit_event_def audit_state_def Let_def
  by (intro total_rules total_dir)

lemma wp_fail_closed_value: "wp (fail_closed C so e) (\<lambda>x t. x = e) (\<lambda>_ _. False) u"
  by (auto simp: fail_closed_def audit_def wp_simps Let_def split: option.split intro!: wp_callI wp_nowI)

lemma wp_fail_closed_cuts:
  assumes "extends s u"
  shows "wp (fail_closed C so e) (\<lambda>x t. x = e \<and> (requires_killswitch e \<longrightarrow> cut_then_cleanup s t)) (\<lambda>_ _. False) u"
proof (cases "requires_killswitch e")
  case False
  then show ?thesis by (simp add: fail_closed_def wp_ret)
next
  case True
  have cut: "wp (ignore (call (\<lambda>r. C_engage (is_ok r)) (cap_engage C))) (\<lambda>_. cut_then_cleanup s) (\<lambda>_. cut_then_cleanup s) u"
    unfolding wp_ignore using assms
    by (intro wp_callI) (force simp: extends_def cut_then_cleanup_def)+
  have "wp (fail_closed C so e) (\<lambda>_. cut_then_cleanup s) (\<lambda>_. cut_then_cleanup s) u"
    unfolding fail_closed_def Let_def
    apply (simp only: True not_True_eq_False if_False)
    apply (rule wp_next [OF cut])
     apply (rule wp_cleanup)
      apply (intro emits_intros emits_audit)
        apply simp_all
    done
  from wp_conj [OF this wp_fail_closed_value] show ?thesis
    by (rule wp_mono) auto
qed

lemma emits_drive_start: "emits (\<lambda>_. True) (drive_start C cfg i p)"
  unfolding drive_start_def Let_def transition_def provision_vm_def provision_request_def set_vm_def set_entry_def
    audit_checks_def record_checklist_def run_launch_def set_browser_handle_def touch_def final_summary_def
  by (intro emits_intros emits_audits emits_audit TrueI)

lemma emits_host_proxy: "emits P (host_proxy_endpoint C nm)"
  by (cases nm) (simp_all add: host_proxy_endpoint_def Let_def emits_intros)

lemma emits_drive_start_host: "emits (\<lambda>_. True) (drive_start_host C cfg i p)"
  unfolding drive_start_host_def Let_def transition_def run_launch_def set_browser_handle_def set_entry_def
    touch_def final_summary_def
  by (intro emits_intros emits_audits emits_audit emits_host_proxy TrueI)

lemma wp_drive_cuts:
  assumes "extends s u"
  shows "wp (drive C cfg hm i p) (\<lambda>_ _. True) (\<lambda>e t. requires_killswitch e \<longrightarrow> cut_then_cleanup s t) u"
proof -
  have fail: "wp (bind (fail_closed C (Some i) e) (\<lambda>err. seq (teardown C i True) (throw err))) (\<lambda>_ _. True)
      (\<lambda>e t. requires_killswitch e \<longrightarrow> cut_then_cleanup s t) t" if "extends s t" for e t
  proof (rule wp_then [OF wp_fail_closed_cuts [OF that]])
    fix x t assume a: "x = e \<and> (requires_killswitch e \<longrightarrow> cut_then_cleanup s t)"
    note quietly = total_wp [OF total_teardown]
    show "wp (seq (teardown C i True) (throw x)) (\<lambda>_ _. True)
        (\<lambda>e t. requires_killswitch e \<longrightarrow> cut_then_cleanup s t) t"
    proof (cases "requires_killswitch e")
      case True
      have "wp (teardown C i True) (\<lambda>_. cut_then_cleanup s) (\<lambda>_ _. False) t"
        by (rule wp_mono [OF wp_conj [OF wp_cleanup [OF emits_teardown] quietly]]) (use a True in auto)
      then show ?thesis unfolding wp_seq wp_throw by (rule wp_mono) auto
    next
      case False
      then show ?thesis unfolding wp_seq wp_throw using a by (intro wp_mono [OF quietly]) auto
    qed
  qed simp
  let ?m = "if hm then drive_start_host C cfg i p else drive_start C cfg i p"
  have "emits (\<lambda>_. True) (attempt ?m :: ('a orch, error, error + session_summary) eff)"
    by (intro emits_intros emits_drive_start emits_drive_start_host)
  from wp_conj [OF wp_extends [OF this assms] total_wp [OF total_attempt]]
  have A: "wp (attempt ?m) (\<lambda>_. extends s) (\<lambda>(_ :: error) _. False) u" by (rule wp_mono) auto
  show ?thesis
    unfolding drive_def by (rule wp_then [OF A]) (auto split: sum.splits simp: wp_ret intro: fail)
qed

definition keeps :: "'w orch \<Rightarrow> 'w orch \<Rightarrow> bool" where
  "keeps s u \<longleftrightarrow> or_sessions u = or_sessions s \<and> extends s u"

lemma keeps_simps [simp]:
  "keeps s s" "keeps s (u\<lparr>or_world := w\<rparr>) = keeps s u"
  by (simp_all add: keeps_def extends_def)

lemma keeps_snoc: "keeps s u \<Longrightarrow> keeps s (u\<lparr>or_world := w, or_calls := or_calls u @ cs\<rparr>)"
  by (auto simp: keeps_def extends_def)

lemma wp_keeps_call: "keeps s u \<Longrightarrow> wp (call c m) (\<lambda>_. keeps s) (\<lambda>_. keeps s) u"
  by (rule wp_callI) (simp_all add: keeps_snoc)

lemma wp_keeps_key:
  assumes "keeps s u"
  shows "wp (make_key C l) (\<lambda>_. keeps s) (\<lambda>_. keeps s) u"
proof -
  have keep: "keeps s (u\<lparr>or_world := w, or_calls := or_calls u @ cs\<rparr>)" for w cs
    using assms by (rule keeps_snoc)
  have "wp (ignore (call c m)) (\<lambda>_. keeps s) E t" if "keeps s t" for c and m :: "('a, error, unit) eff" and E t
    unfolding wp_ignore by (rule wp_callI) (use that in \<open>simp_all add: keeps_snoc\<close>)
  then show ?thesis
    unfolding make_key_def wp_bind wp_attempt
    by (intro wp_callI) (simp_all add: keep wp_ret wp_throw wp_seq)
qed

lemma wp_start_cuts:
  "wp (start_session C cfg pid) (\<lambda>_ _. True)
    (\<lambda>e t. requires_killswitch e \<longrightarrow> or_sessions t = or_sessions s \<or> cut_then_cleanup s t) s"
proof -
  let ?E = "\<lambda>e t. requires_killswitch e \<longrightarrow> or_sessions t = or_sessions s \<or> cut_then_cleanup s t"
  have drive: "wp (seq (audit_state C i pid Requested) (drive C cfg hm i p)) (\<lambda>_ _. True) ?E t"
    if "extends s t" for i p hm t
  proof (rule wp_next [where Q' = "\<lambda>_. extends s" and E' = "\<lambda>_ _. False"])
    have "emits (\<lambda>_. True) (audit_state C i pid Requested)" by (rule emits_audits) simp
    moreover have "total (audit_state C i pid Requested)" unfolding audit_state_def by (intro total_rules)
    ultimately show "wp (audit_state C i pid Requested) (\<lambda>_. extends s) (\<lambda>_ _. False) t"
      using wp_conj [OF wp_extends [OF _ that] total_wp] by (blast intro: wp_mono)
    show "wp (drive C cfg hm i p) (\<lambda>_ _. True) ?E u" if "extends s u" for u
      by (rule wp_mono [OF wp_drive_cuts [OF that]]) auto
  qed simp
  have reg: "wp (seq (register i en) (seq (audit_state C i pid Requested) (drive C cfg hm i p))) (\<lambda>_ _. True) ?E t"
    if "keeps s t" for i en hm p t
  proof -
    have "extends s (t\<lparr>or_sessions := tab_set i en (or_sessions t)\<rparr>)"
      using that by (simp add: keeps_def extends_def)
    from drive [OF this] show ?thesis
      using that unfolding wp_seq [of "register _ _"] by (simp add: register_def wp_bind wp_lock wp_put keeps_def)
  qed
  show ?thesis
    unfolding start_session_def Let_def
    apply (rule wp_then [OF wp_keeps_call [of s]], simp)
     apply (simp add: wp_bind [of "gets _"] wp_gets wp_bind [of "lift_res _"] wp_lift_res split: sum.split)
     apply (intro conjI allI impI)
      apply (simp add: keeps_def)
     apply (rule wp_then [OF wp_keeps_call [of s]], assumption)
      apply (simp add: wp_bind [of "new_uuid _"])
      apply (rule wp_uuidI)
      apply (rule wp_then [OF wp_keeps_key [of s]], simp)
       apply (erule reg)
      apply (simp_all add: keeps_def)
    done
qed

section \<open>Witnesses and the remaining properties\<close>

definition sample_after :: "isolation_level \<Rightarrow> check_outcome \<Rightarrow> nat orch" where
  "sample_after lvl r = orch_exec (sample_caps lvl r) sample_config (OpStart sample_pid) sample_state"

lemma sample_reachable [simp]:
  "orch_reachable (sample_caps lvl r) sample_config sample_state"
  "orch_reachable (sample_caps lvl r) sample_config (sample_after lvl r)"
proof -
  show "orch_reachable (sample_caps lvl r) sample_config sample_state"
    unfolding sample_state_def by (rule reach_new)
  then show "orch_reachable (sample_caps lvl r) sample_config (sample_after lvl r)"
    unfolding sample_after_def by (rule reach_op)
qed

lemma sample_after_run: "sample_after lvl r = snd (sample_run lvl r)"
  by (simp add: sample_after_def sample_run_def)

lemma launch_gated_witness:
  "\<exists>xs h ys. or_calls (sample_after FullVm Pass) = xs @ C_launch FullVm h # ys \<and>
     gate_after Idle xs = Some ClearedVm"
proof -
  obtain h where "C_launch FullVm h \<in> set (or_calls (sample_after FullVm Pass))"
    using sample_run_launches by (auto simp: sample_after_run)
  then obtain xs ys where e: "or_calls (sample_after FullVm Pass) = xs @ C_launch FullVm h # ys"
    by (auto dest: split_list)
  from launch_gated [OF sample_reachable(2) e] e show ?thesis by auto
qed

text \<open>
  C7: a start that succeeds has a running, protected session.  The returned summary is that
  of a session of this profile in state \<^verbatim>\<open>Browsing\<close> with a stored browser handle; it is either
  a full-VM session with both VMs recorded, a checklist that permits browsing and status
  active, or, only if the enforcement policy admits host mode, a host-process session, whose
  status is never better than partial.
\<close>

theorem start_session_browsing:
  assumes "orch_reachable C cfg s" and "start_session C cfg pid s = (Inr x, t)"
  shows "\<exists>en. tab_get (or_sessions t) (ss_id x) = Some en \<and> x = entry_summary (ss_id x) en \<and>
     ss_state x = Browsing \<and> ss_profile x = pid \<and> en_browser_handle en \<noteq> None \<and>
     (started_vm en \<or> started_host C en \<and> allow_host_browser (get_enforcement s))"
proof -
  have "start_ok C s pid x t"
    using wp_ok [OF wp_start assms(2)] reachable_inv [OF assms(1)] by (simp add: orch_inv_def)
  then obtain en where en: "at s (ss_id x) en Idle (entry_res en) t" "en_profile en = pid"
    "x = entry_summary (ss_id x) en" "started_vm en \<or> started_host C en \<and> allow_host_browser (get_enforcement s)"
    by (auto simp: start_ok_def)
  have "ss_state x = en_state en" "ss_profile x = en_profile en"
    by (subst en(3), simp add: entry_summary_def)+
  then show ?thesis using at_get [OF en(1)] en by (auto simp: started_vm_def started_host_def)
qed

lemma start_session_browsing_witness:
  "\<exists>x t. start_session (sample_caps HostProcess Pass) sample_config sample_pid sample_state = (Inr x, t) \<and>
     ss_state x = Browsing"
proof -
  obtain x t where e: "start_session (sample_caps HostProcess Pass) sample_config sample_pid sample_state = (Inr x, t)"
    using sample_run_host unfolding sample_run_def is_ok_iff by (metis prod.collapse)
  from start_session_browsing [OF sample_reachable(1) e] e show ?thesis by blast
qed




lemma sample_unpoisoned: "\<not> or_poisoned sample_state"
  by (simp add: sample_state_def orch_new_def)

lemma sample_started: "\<exists>x en. start_session (sample_caps FullVm Pass) sample_config sample_pid sample_state
      = (Inr x, sample_after FullVm Pass) \<and> \<not> or_poisoned (sample_after FullVm Pass) \<and>
     tab_get (or_sessions (sample_after FullVm Pass)) (ss_id x) = Some en \<and> started_vm en"
proof -
  obtain x where "fst (sample_run FullVm Pass) = Inr x"
    using sample_run_vm by (auto simp: is_ok_iff)
  then have e: "start_session (sample_caps FullVm Pass) sample_config sample_pid sample_state
      = (Inr x, sample_after FullVm Pass)"
    unfolding sample_after_run sample_run_def by (metis prod.collapse)
  have "start_ok (sample_caps FullVm Pass) sample_state sample_pid x (sample_after FullVm Pass)"
    using wp_ok [OF wp_start e] by (simp add: sample_state_def orch_new_def)
  moreover have "en_mode en = ModeFullVm" if "tab_get (or_sessions (sample_after FullVm Pass)) (ss_id x) = Some en" for en
    using that sample_run_mode e unfolding sample_after_run by (auto dest: tab_get_mem)
  ultimately show ?thesis using e by (fastforce simp: start_ok_def started_host_def dest: at_get)
qed




text \<open>
  C2: containment failures cut the network first.  When a start fails with an error that
  requires the kill switch, either no session had been registered, or the kill switch was
  engaged and every later call of this start is clean-up: auditing, terminating the browser,
  powering off and destroying VMs, removing the host directory, releasing the lease.
\<close>

theorem containment_failure_cuts:
  assumes "start_session C cfg pid s = (Inl e, t)" and "requires_killswitch e"
  shows "or_sessions t = or_sessions s \<or>
     (\<exists>cs r ds. or_calls t = or_calls s @ cs @ C_engage r # ds \<and> list_all is_cleanup ds)"
  using wp_err [OF wp_start_cuts assms(1)] assms(2) by (simp add: cut_then_cleanup_def)

lemma containment_failure_cuts_witness:
  "\<exists>cs r ds. or_calls (sample_after FullVm Fail) = or_calls sample_state @ cs @ C_engage r # ds \<and> list_all is_cleanup ds"
proof -
  obtain m where "fst (sample_run FullVm Fail) = Inl (NetworkContainment m)" using sample_run_fails by blast
  then have e: "start_session (sample_caps FullVm Fail) sample_config sample_pid sample_state
      = (Inl (NetworkContainment m), sample_after FullVm Fail)"
    unfolding sample_after_run sample_run_def by (metis prod.collapse)
  from containment_failure_cuts [OF e] sample_run_changes show ?thesis by (simp add: sample_after_run)
qed

lemma get_enforcement_calls [simp]:
  "get_enforcement (s\<lparr>or_world := w, or_calls := cs\<rparr>) = get_enforcement s"
  by (simp add: get_enforcement_def)

text \<open>
  Host mode is opt-in.  When the enforcement policy in force does not allow the host
  browser, or its lock is poisoned, starting a host-process profile is refused with a
  configuration error before anything else happens: the only call made is the profile lookup.
\<close>

lemma host_mode_refused:
  assumes "or_enforcement_poisoned s \<or> \<not> allow_host_browser (or_enforcement s)"
    and "cap_get_profile C pid (or_world s) = (Inr p, w)" and "sp_isolation (pr_spec p) = HostProcess"
  shows "start_session C cfg pid s =
    (Inl host_refusal, s\<lparr>or_world := w, or_calls := or_calls s @ [C_get_profile pid True]\<rparr>)"
proof -
  have "\<not> allow_host_browser (get_enforcement s)"
    using assms(1) by (auto simp: get_enforcement_def enforcement_secure_def)
  then show ?thesis
    using assms(2,3) unfolding start_session_def
    by (simp add: run_simps call_run choose_mode_def cong: lazy_cong)
qed

lemma host_mode_refused_witness:
  "fst (start_session (sample_caps HostProcess Pass) app_config_default sample_pid (orch_new app_config_default 0))
    = Inl host_refusal"
  by (subst host_mode_refused [where p = "sample_stored HostProcess" and w = 0])
     (simp_all add: sample_caps_sel ret_def orch_new_def app_config_default_def enforcement_secure_def
       sample_stored_def with_isolation_def)

text \<open>
  A poisoned session table leaks the profile lock.  With a poisoned table a start that
  reads the profile, passes the mode choice, acquires the lease and draws a key returns an
  internal error through the early return of the registration block, and never gives the
  lease back.
\<close>

lemma poisoned_start_leaks_lease:
  assumes "or_poisoned s" and "cap_get_profile C pid (or_world s) = (Inr p, w1)"
    and "choose_mode C (get_enforcement s) p = Inr hm"
    and "cap_acquire_lock C pid w1 = (Inr l, w2)"
    and "cap_generate_key C (snd (cap_new_uuid C w2)) = (Inr k, w3)"
  shows "\<exists>t. start_session C cfg pid s = (Inl (Internal ''session table lock poisoned''), t) \<and>
     R_lease l \<in> held (or_calls t)"
proof -
  obtain u v where u: "cap_new_uuid C w2 = (u, v)" by fastforce
  show ?thesis
    using assms u unfolding start_session_def
    by (simp add: run_simps call_run Let_def new_uuid_def make_key_def register_def
        lock_sessions_def held_def held_from_append cong: lazy_cong)
qed

lemma poisoned_start_leaks_lease_witness:
  "\<exists>t l. start_session (sample_caps FullVm Pass) sample_config sample_pid (sample_state\<lparr>or_poisoned := True\<rparr>)
      = (Inl (Internal ''session table lock poisoned''), t) \<and> R_lease l \<in> held (or_calls t)"
  using poisoned_start_leaks_lease [where C = "sample_caps FullVm Pass" and s = "sample_state\<lparr>or_poisoned := True\<rparr>"
      and pid = sample_pid and cfg = sample_config and hm = False and k = "[]" and p = "sample_stored FullVm"
      and ?w1.0 = 0 and ?w2.0 = 0 and ?w3.0 = 1 and l = "\<lparr> pl_profile = sample_pid, pl_token = ''t'' \<rparr>"]
  by (simp add: sample_caps_sel ret_def sample_state_def orch_new_def choose_mode_def sample_stored_def
      with_isolation_def) blast

end
