(* ===== verification/Daemon.thy ===== *)
theory Daemon
  imports Handler Ipc_Transport Orchestrator_Props Update_Safety
begin

text \<open>
  The daemon as a whole: the request handler behind the connection loop behind a listener.
  Whatever peers send, the orchestrator only ever reaches the states its own operations reach,
  so the containment gate holds for the whole program.
\<close>

section \<open>The handler keeps the orchestrator's invariants\<close>

abbreviation reached :: "'w services \<Rightarrow> 'w orch \<Rightarrow> bool" where
  "reached S \<equiv> orch_reachable (sv_caps S) (sv_config S)"

lemma in_world_reachable: "reached S s \<Longrightarrow> wp (in_world m) (\<lambda>_. reached S) (\<lambda>_. reached S) s"
  by (rule wp_I) (auto simp: in_world_def zoom_def split: prod.splits intro: reach_world)

lemma start_reachable: "reached S s \<Longrightarrow> wp (start_session (sv_caps S) (sv_config S) p) (\<lambda>_. reached S) (\<lambda>_. reached S) s"
  using reach_op [of "sv_caps S" "sv_config S" s "OpStart p"] by (auto simp: wp_def split: prod.splits sum.splits)

lemma stop_reachable: "reached S s \<Longrightarrow> wp (stop_session (sv_caps S) i) (\<lambda>_. reached S) (\<lambda>_. reached S) s"
  using reach_op [of "sv_caps S" "sv_config S" s "OpStop i"] by (auto simp: wp_def split: prod.splits sum.splits)

lemma liveness_reachable: "reached S s \<Longrightarrow> wp (browser_liveness (sv_caps S) i) (\<lambda>_. reached S) (\<lambda>_. reached S) s"
  using reach_op [of "sv_caps S" "sv_config S" s "OpLiveness i"] by (auto simp: wp_def split: prod.splits sum.splits)

lemma policy_reachable: "reached S s \<Longrightarrow> wp (set_enforcement e) (\<lambda>_. reached S) (\<lambda>_. reached S) s"
  using reach_op [of "sv_caps S" "sv_config S" s "OpSetEnforcement e"] by (auto simp: wp_def split: prod.splits sum.splits)

lemma health_reachable: "reached S s \<Longrightarrow> wp (gateway_health (sv_caps S)) (\<lambda>_. reached S) (\<lambda>_. reached S) s"
  using in_world_reachable by (simp add: gateway_health_def in_world_def)

lemma dispatch_reachable: "reached S s \<Longrightarrow> wp (dispatch S q) (\<lambda>_. reached S) (\<lambda>_. reached S) s"
  by (cases q)
     (auto simp: dispatch_def get_diagnostics_def wp_simps Let_def split: option.split
      intro!: wp_mono [OF in_world_reachable] wp_mono [OF start_reachable] wp_mono [OF stop_reachable]
        wp_mono [OF liveness_reachable] wp_mono [OF policy_reachable] wp_mono [OF health_reachable])

lemma handle_reachable: "reached S s \<Longrightarrow> reached S (snd (handle S q s))"
  using wp_state [OF dispatch_reachable [of S s q]] by (cases "dispatch S q s") (simp add: handle_def)

lemma serve_connection_inv:
  assumes "\<And>q d. I d \<Longrightarrow> I (snd (h q d))" and "I d"
  shows "I (snd (snd (serve_connection decode encode h st d)))"
  using assms
proof (induction decode encode h st d rule: serve_connection.induct)
  case (1 decode encode h st d)
  obtain r st1 where read: "read_frame decode st = (r, st1)" by fastforce
  show ?case
  proof (cases r)
    case (Inl e)
    then show ?thesis using read 1 by (simp add: serve_connection.simps [of decode encode h st])
  next
    case (Inr q)
    obtain resp d1 where hd1: "h q d = (resp, d1)" by fastforce
    obtain w st2 where wr: "write_frame encode resp st1 = (w, st2)" by fastforce
    have "I d1" using 1(2) [OF 1(3), of q] hd1 by simp
    then show ?thesis
      using read Inr hd1 wr 1(1) [OF read [symmetric, unfolded Inr] refl hd1 [symmetric] wr [symmetric]] 1(2)
      by (cases w) (simp_all add: serve_connection.simps [of decode encode h st])
  qed
qed

lemma serve_inv:
  assumes "\<And>c d. I d \<Longrightarrow> I (run c d)" and "I d" and "serve admit run q d = (e, cs, d')"
  shows "I d'"
  using assms(2,3)
proof (induction q arbitrary: d e cs d')
  case (Cons x q)
  show ?case
  proof (cases "\<exists>c. admit x = Some (Inr c)")
    case True
    then obtain c e' cs' where "admit x = Some (Inr c)" "serve admit run q (run c d) = (e', cs', d')"
      using Cons.prems by (auto split: prod.splits)
    then show ?thesis using Cons.IH [of "run c d"] Cons.prems(1) assms(1) by blast
  next
    case False
    then show ?thesis using Cons by (auto split: option.splits sum.splits)
  qed
qed simp

definition sample_services :: "isolation_level \<Rightarrow> check_outcome \<Rightarrow> nat services" where
  "sample_services lvl r = \<lparr> sv_caps = sample_caps lvl r, sv_config = sample_config, sv_version = ''0.1.0'', sv_platform = ''linux'',
     sv_list = ret [], sv_create = (\<lambda>_. throw (Busy [])), sv_update = (\<lambda>_ _. throw (Busy [])), sv_delete = (\<lambda>_. ret ()),
     sv_check_update = (\<lambda>_. ret None), sv_verify = (\<lambda>_ _. throw (Integrity [])), sv_apply = (\<lambda>_. ret RolledBack) \<rparr>"

section \<open>Honest diagnostics\<close>

text \<open>What must have been observed for an item to be shown as healthy.\<close>

definition grounded :: "'w services \<Rightarrow> session_id \<Rightarrow> checklist \<Rightarrow> diagnostic_item \<Rightarrow> bool" where
  "grounded S i cl it \<longleftrightarrow>
    (\<exists>c. di_key it = check_key c \<and> check_passed cl c \<and> di_evidence it = Verified) \<or>
    (di_key it = ''site_public_ip'' \<and> (\<exists>x. cl_observed_ip cl = Some x \<and> ip_via_tunnel x \<and> ip_differs_from_host x)) \<or>
    (di_key it = ''firewall'' \<and> (\<exists>s h s'. gateway_health (sv_caps S) s = (Inr h, s') \<and> gh_firewall_applied h)) \<or>
    (di_key it = ''kill_switch'' \<and> (\<exists>s h s'. gateway_health (sv_caps S) s = (Inr h, s') \<and> gh_killswitch h = Armed)) \<or>
    (di_key it = ''browser_process'' \<and> (\<exists>s s'. browser_liveness (sv_caps S) i s = (Inr (Some True), s')))"

lemma item_simps [simp]: "di_key (item k l d ev) = k" "di_level (item k l d ev) = l" "di_evidence (item k l d ev) = ev"
  by (simp_all add: item_def with_evidence_def diagnostic_new_def)

lemma configured_not_ok: "it \<in> set (configured_profile_items p) \<Longrightarrow> di_level it = HealthUnknown"
  by (auto simp: configured_profile_items_def Let_def configured_item_def)

lemma check_item_grounded: "di_level (check_item cl c) = HealthOk \<Longrightarrow> grounded S i cl (check_item cl c)"
  by (auto simp: grounded_def check_item_def check_passed_def is_pass_def split: option.splits check_outcome.splits)

lemma checklist_grounded: "it \<in> set (checklist_items cl) \<Longrightarrow> di_level it = HealthOk \<Longrightarrow> grounded S i cl it"
  by (auto simp: checklist_items_def ip_item_def check_item_grounded split: option.splits if_splits)
     (auto simp: grounded_def)

lemma gateway_grounded:
  assumes "gateway_health (sv_caps S) s = (h, s')" "it \<in> set (gateway_items lvl h)" "di_level it = HealthOk"
  shows "grounded S i cl it"
proof -
  obtain x where "h = Inr x"
    "di_key it = ''firewall'' \<and> gh_firewall_applied x \<or> di_key it = ''kill_switch'' \<and> gh_killswitch x = Armed"
    using assms(2,3) by (auto simp: gateway_items_def split: isolation_level.splits sum.splits if_splits killswitch_state.splits)
  then show ?thesis using assms(1) unfolding grounded_def by blast
qed

lemma browser_grounded:
  assumes "browser_liveness (sv_caps S) i s = (b, s')" "di_level (browser_item b) = HealthOk"
  shows "grounded S i cl (browser_item b)"
proof -
  have "b = Inr (Some True)" "di_key (browser_item b) = ''browser_process''"
    using assms(2) by (auto simp: browser_item_def split: sum.splits option.splits bool.splits)
  then show ?thesis using assms(1) unfolding grounded_def by blast
qed

lemma wp_gateway_items: "wp (if lvl = FullVm then attempt (gateway_health (sv_caps S)) else ret (Inl (Unsupported [])))
    (\<lambda>h t. or_sessions t = or_sessions s \<and> or_poisoned t = or_poisoned s \<and>
       (\<forall>it \<in> set (gateway_items lvl h). di_level it = HealthOk \<longrightarrow> grounded S i cl it)) (\<lambda>_ _. False) s"
proof (cases lvl)
  case FullVm
  obtain h s1 where g: "gateway_health (sv_caps S) s = (h, s1)" by fastforce
  then have "or_sessions s1 = or_sessions s" "or_poisoned s1 = or_poisoned s"
    by (auto simp: gateway_health_def zoom_def split: prod.splits)
  then show ?thesis using gateway_grounded [OF g] FullVm by (simp add: wp_def attempt_def g)
qed (simp add: wp_ret gateway_items_def)

text \<open>
  C27: diagnostics never show green without evidence.  Every item of a diagnostics reply that is
  reported healthy rests on an observation: a passed check of the reported checklist, an
  address seen through the tunnel, the health answer of the gateway, or a liveness probe that
  saw the browser run; the checklist is the one the session's preflight stored, or the
  unknown one.
\<close>

theorem diagnostics_grounded:
  assumes "dispatch S (ReqGetDiagnostics i) s = (Inr (RespDiagnostics prot cl items), s')"
  shows "(\<forall>it \<in> set items. di_level it = HealthOk \<longrightarrow> grounded S i cl it) \<and>
     cl = (case session_checklist i s of Some c \<Rightarrow> c | None \<Rightarrow> unknown_checklist)"
proof -
  have same: "wp (in_world m) (\<lambda>_ t. or_sessions t = or_sessions s \<and> or_poisoned t = or_poisoned s) (\<lambda>_ _. True) s" for m :: "('a, error, profile) eff"
    by (auto simp: in_world_def zoom_def intro!: wp_I split: prod.splits)
  have "wp (get_diagnostics S i) (\<lambda>r t. \<forall>prot cl items. r = RespDiagnostics prot cl items \<longrightarrow>
      (\<forall>it \<in> set items. di_level it = HealthOk \<longrightarrow> grounded S i cl it) \<and>
      cl = (case session_checklist i s of Some c \<Rightarrow> c | None \<Rightarrow> unknown_checklist)) (\<lambda>_ _. True) s"
  proof (cases "List.find (\<lambda>x. ss_id x = i) (list_sessions s)")
    case None
    then show ?thesis by (simp add: get_diagnostics_def wp_simps)
  next
    case (Some summary)
    have rest: "wp (bind (if lvl = FullVm then attempt (gateway_health (sv_caps S)) else ret (Inl (Unsupported []))) (\<lambda>h.
        bind (attempt (browser_liveness (sv_caps S) i)) (\<lambda>b.
        ret (RespDiagnostics (ss_protection summary) cl (configured_profile_items p @ checklist_items cl @ gateway_items lvl h @ [browser_item b])))))
      (\<lambda>r t. \<forall>prot cl' items. r = RespDiagnostics prot cl' items \<longrightarrow> (\<forall>it \<in> set items. di_level it = HealthOk \<longrightarrow> grounded S i cl' it) \<and> cl' = cl)
      (\<lambda>_ _. True) t" for lvl cl p t
    proof (rule wp_then [OF wp_gateway_items])
      fix h and u :: "'a orch" assume *: "or_sessions u = or_sessions t \<and> or_poisoned u = or_poisoned t \<and>
        (\<forall>it \<in> set (gateway_items lvl h). di_level it = HealthOk \<longrightarrow> grounded S i cl it)"
      obtain b u' where b: "browser_liveness (sv_caps S) i u = (b, u')" by fastforce
      show "wp (bind (attempt (browser_liveness (sv_caps S) i)) (\<lambda>b.
          ret (RespDiagnostics (ss_protection summary) cl (configured_profile_items p @ checklist_items cl @ gateway_items lvl h @ [browser_item b]))))
        (\<lambda>r t. \<forall>prot cl' items. r = RespDiagnostics prot cl' items \<longrightarrow> (\<forall>it \<in> set items. di_level it = HealthOk \<longrightarrow> grounded S i cl' it) \<and> cl' = cl)
        (\<lambda>_ _. True) u"
        using * browser_grounded [OF b] configured_not_ok checklist_grounded
        by (fastforce simp: wp_def bind_def attempt_def b ret_def)
    qed simp
    show ?thesis
      unfolding get_diagnostics_def wp_bind wp_gets
      by (simp add: Some, rule wp_then [OF same], simp only: wp_bind [of "gets _"] wp_gets Let_def)
         (rule wp_mono [OF rest], auto simp: session_checklist_def)
  qed
  then show ?thesis using assms by (auto simp: dispatch_def wp_def)
qed

definition sample_sid :: session_id where
  "sample_sid = SessionId (Uuid ''s'')"

definition sample_entry :: session_entry where
  "sample_entry = (new_entry sample_pid \<lparr> pl_profile = sample_pid, pl_token = ''t'' \<rparr> [])
     \<lparr>en_browser_handle := Some \<lparr> bh_session = sample_sid, bh_backend = Chromium, bh_process_token = ''1'' \<rparr>\<rparr>"

definition sample_tracked :: "nat orch" where
  "sample_tracked = sample_state\<lparr>or_sessions := [(sample_sid, sample_entry)]\<rparr>"

lemma diagnostics_grounded_witness:
  "\<exists>prot items s'. dispatch (sample_services FullVm Pass) (ReqGetDiagnostics sample_sid) sample_tracked
       = (Inr (RespDiagnostics prot unknown_checklist items), s') \<and>
     (\<forall>it \<in> set items. di_level it = HealthOk \<longrightarrow> grounded (sample_services FullVm Pass) sample_sid unknown_checklist it)"
proof -
  have "\<exists>prot cl items s'. dispatch (sample_services FullVm Pass) (ReqGetDiagnostics sample_sid) sample_tracked
      = (Inr (RespDiagnostics prot cl items), s')"
    by (simp add: dispatch_def get_diagnostics_def sample_tracked_def sample_entry_def list_sessions_def entry_summary_def
        session_checklist_def in_world_def gateway_health_def browser_liveness_def backend_of_def sample_services_def
        run_defs cong: lazy_cong)
  then obtain prot cl items s' where *: "dispatch (sample_services FullVm Pass) (ReqGetDiagnostics sample_sid) sample_tracked
      = (Inr (RespDiagnostics prot cl items), s')" by blast
  have "session_checklist sample_sid sample_tracked = None"
    by (simp add: session_checklist_def sample_tracked_def sample_entry_def new_entry_def sample_state_def orch_new_def)
  then show ?thesis using diagnostics_grounded [OF *] * by auto
qed

section \<open>Updates through the daemon\<close>

text \<open>
  The handler verifies an update against version 0.0.0: whatever is installed, every signed
  manifest with intact artifacts and any other version passes, so an older release installs.
\<close>

lemma apply_request_ignores_installed:
  assumes "um_version m \<noteq> Version 0 0 0" "verify_signature P c m = Inr ()"
  shows "verify P c m \<lparr> vi_current = Version 0 0 0 \<rparr>
    = seq (mapM_e (check_artifact P) (um_artifacts m)) (ret \<lparr> va_version = um_version m, va_artifacts = um_artifacts m \<rparr>)"
proof -
  have "is_newer_than (um_version m) (Version 0 0 0)"
    using assms(1) by (cases "um_version m") (auto simp: is_newer_than_def less_version_def word_gt_0)
  then show ?thesis by (simp add: verify_def assms(2) seq_def bind_def lift_res_def)
qed

section \<open>The whole daemon\<close>

definition daemon_run ::
  "'w services \<Rightarrow> ('i \<Rightarrow> (error + stream) option) \<Rightarrow> request decoder \<Rightarrow> response encoder \<Rightarrow> 'i list \<Rightarrow> 'w orch
     \<Rightarrow> error option \<times> stream list \<times> 'w orch" where
  "daemon_run S admit decode encode =
     serve admit (\<lambda>st d. snd (snd (serve_connection decode encode (handle S) st d)))"

lemma daemon_reachable:
  "reached S d \<Longrightarrow> daemon_run S admit decode encode q d = (e, cs, s) \<Longrightarrow> reached S s"
  unfolding daemon_run_def
  by (erule serve_inv [rotated 2]) (auto intro: serve_connection_inv handle_reachable)


definition sample_decode :: "request decoder" where
  "sample_decode b = (if b = ''start'' then Inr (ReqStartSession \<lparr> rq_profile = sample_pid, rq_unlock_ref = None \<rparr>) else Inl ''eof'')"

definition sample_peer :: stream where
  "sample_peer = empty_stream\<lparr>str_in := frame ''start''\<rparr>"

lemma sample_daemon:
  "\<exists>e cs. daemon_run (sample_services FullVm Pass) (unix_admit (same_uid 0)) sample_decode (\<lambda>_. Inr ''ok'') [Inr (sample_peer, Inr 0)]
     (orch_new sample_config 0) = (e, cs, sample_after FullVm Pass)"
proof -
  let ?h = "handle (sample_services FullVm Pass)" and ?q = "ReqStartSession \<lparr> rq_profile = sample_pid, rq_unlock_ref = None \<rparr>"
  obtain x where "start_session (sample_caps FullVm Pass) sample_config sample_pid sample_state = (Inr x, sample_after FullVm Pass)"
    using sample_run_vm unfolding sample_run_def is_ok_iff sample_after_def orch_exec.simps by (metis prod.collapse)
  then have h: "?h ?q sample_state = (RespSession x, sample_after FullVm Pass)"
    by (simp add: handle_def dispatch_def sample_services_def bind_def ret_def response_of_result_def)
  have "serve_connection sample_decode (\<lambda>_. Inr ''ok'') ?h sample_peer sample_state
      = (Inr (), empty_stream\<lparr>str_out := frames [''ok'']\<rparr>, sample_after FullVm Pass)"
    using serve_prefix [of sample_decode "[''start'']" "[?q]" ?h sample_state "[RespSession x]" "sample_after FullVm Pass" "\<lambda>_. Inr ''ok''" "[''ok'']" sample_peer "[]"] h
    by (simp add: decoded_def encoded_def sample_decode_def max_frame_len_def sample_peer_def empty_stream_def
        serve_connection.simps [where d = "sample_after FullVm Pass"] read_frame_end)
  then show ?thesis
    by (simp add: daemon_run_def unix_admit_def peer_uid_def permits_def same_uid_def flip: sample_state_def)
qed


end
