(* ===== verification/Launcher_Policy.thy ===== *)
theory Launcher_Policy
  imports Orchestrator
begin

text \<open>
  \<^verbatim>\<open>crates/browser-launcher/src/chromium.rs\<close> and \<^verbatim>\<open>firefox.rs\<close>, the pure part: what a launch
  request is rendered to.  A \<^verbatim>\<open>BTreeMap\<close> is an association list sorted by key, as the order of
  its iteration shows in \<^verbatim>\<open>user.js\<close>.
\<close>

section \<open>Sorted maps and JSON text\<close>

fun str_less :: "string \<Rightarrow> string \<Rightarrow> bool" where
  "str_less s [] = False"
| "str_less [] (d # ds) = True"
| "str_less (c # cs) (d # ds) = ((of_char c :: nat) < of_char d \<or> c = d \<and> str_less cs ds)"

fun bt_insert :: "string \<Rightarrow> 'v \<Rightarrow> (string \<times> 'v) list \<Rightarrow> (string \<times> 'v) list" where
  "bt_insert k v [] = [(k, v)]"
| "bt_insert k v ((k', v') # t) =
    (if k = k' then (k, v) # t
     else if str_less k k' then (k, v) # (k', v') # t
     else (k', v') # bt_insert k v t)"

definition bt_of :: "(string \<times> 'v) list \<Rightarrow> (string \<times> 'v) list" where
  "bt_of kvs = fold (\<lambda>(k, v). bt_insert k v) kvs []"

lemma tab_get_bt_insert [simp]: "tab_get (bt_insert k v t) k' = (if k' = k then Some v else tab_get t k')"
  by (induction k v t rule: bt_insert.induct) auto

lemma tab_get_bt_of: "tab_get (bt_of kvs) k = tab_get (rev kvs) k"
proof -
  have app: "tab_get (xs @ ys) k = (case tab_get xs k of None \<Rightarrow> tab_get ys k | Some v \<Rightarrow> Some v)" for xs ys :: "(string \<times> 'a) list"
    by (induction xs k rule: tab_get.induct) auto
  have "tab_get (fold (\<lambda>(k, v). bt_insert k v) kvs t) k = (case tab_get (rev kvs) k of None \<Rightarrow> tab_get t k | Some v \<Rightarrow> Some v)" for t
    by (induction kvs arbitrary: t) (auto simp: app split: option.splits)
  then show ?thesis by (simp add: bt_of_def split: option.splits)
qed

text \<open>\<^verbatim>\<open>serde_json\<close>'s compact text of a value.\<close>

definition hex_char :: "nat \<Rightarrow> char" where
  "hex_char n = ''0123456789abcdef'' ! n"

definition json_escape :: "char \<Rightarrow> string" where
  "json_escape c = (let k = of_char c :: nat in
     if k = 0x22 then [CHR 0x5C, CHR 0x22]
     else if k = 0x5C then [CHR 0x5C, CHR 0x5C]
     else if k = 8 then [CHR 0x5C, CHR ''b'']
     else if k = 9 then [CHR 0x5C, CHR ''t'']
     else if k = 10 then [CHR 0x5C, CHR ''n'']
     else if k = 12 then [CHR 0x5C, CHR ''f'']
     else if k = 13 then [CHR 0x5C, CHR ''r'']
     else if k < 32 then [CHR 0x5C, CHR ''u'', CHR ''0'', CHR ''0'', hex_char (k div 16), hex_char (k mod 16)]
     else [c])"

definition json_string :: "string \<Rightarrow> string" where
  "json_string s = CHR 0x22 # concat (List.map json_escape s) @ [CHR 0x22]"

fun json_text :: "json \<Rightarrow> string" where
  "json_text JNull = ''null''"
| "json_text (JBool b) = (if b then ''true'' else ''false'')"
| "json_text (JNum n) = show_int n"
| "json_text (JStr s) = json_string s"
| "json_text (JArr xs) = ''['' @ join_with '','' (List.map json_text xs) @ '']''"
| "json_text (JObj kvs) = ''{'' @ join_with '','' (List.map (\<lambda>(k, v). json_string k @ '':'' @ json_text v) kvs) @ ''}''"

section \<open>Chromium\<close>

definition managed_policy_file :: string where
  "managed_policy_file = ''aegis-managed.json''"

definition setting_block :: int where
  "setting_block = 2"

definition setting_ask :: int where
  "setting_ask = 3"

definition chromium_command_line :: "launch_request \<Rightarrow> string list" where
  "chromium_command_line r = (let fp = lr_fingerprint r in
    [''--user-data-dir='' @ lr_user_data_dir r,
     ''--proxy-server='' @ lr_proxy_endpoint r,
     ''--proxy-bypass-list='',
     ''--force-webrtc-ip-handling-policy=disable_non_proxied_udp'',
     ''--disable-sync'',
     ''--disable-background-networking'',
     ''--disable-component-update'',
     ''--disable-domain-reliability'',
     ''--disable-breakpad'',
     ''--no-pings'',
     ''--no-default-browser-check'',
     ''--no-first-run'',
     ''--disable-first-run-ui'',
     ''--metrics-recording-only'',
     ''--disable-features=Translate,MediaRouter,OptimizationHints'',
     ''--site-per-process'',
     ''--enable-features=StrictOriginIsolation'',
     ''--lang='' @ fp_primary_language fp,
     ''--accept-lang='' @ fp_primary_language fp]
    @ (if fp_webgl fp = WebGlDisabled then [''--disable-webgl'', ''--disable-webgl2''] else [])
    @ (if \<not> fp_webgpu_enabled fp then [''--disable-features=WebGPU,WebGPUService'', ''--disable-webgpu''] else [])
    @ (if fp_level fp = Strict then [''--disable-3d-apis''] else []))"

definition content_setting :: "permission_state \<Rightarrow> int" where
  "content_setting st = (case st of
      Allow \<Rightarrow> 1 | ConfinedToVm \<Rightarrow> 1 | Limited \<Rightarrow> 1
    | Ask \<Rightarrow> setting_ask
    | Block \<Rightarrow> setting_block | Quarantine \<Rightarrow> setting_block)"

definition chromium_managed :: "launch_request \<Rightarrow> (string \<times> json) list" where
  "chromium_managed r = (let
      perm = (\<lambda>f. effective (lr_permissions r) ''https://example.invalid'' f);
      policy = bt_of
       [(''SyncDisabled'', JBool True),
        (''MetricsReportingEnabled'', JBool False),
        (''BrowserSignin'', JNum 0),
        (''RemoteDebuggingAllowed'', JBool False),
        (''BackgroundModeEnabled'', JBool False),
        (''PromotionalTabsEnabled'', JBool False),
        (''SpellCheckServiceEnabled'', JBool False),
        (''UrlKeyedAnonymizedDataCollectionEnabled'', JBool False),
        (''SafeBrowsingExtendedReportingEnabled'', JBool False),
        (''DefaultGeolocationSetting'', JNum (if perm Location = Allow then 1 else setting_block)),
        (''DefaultSensorsSetting'', JNum setting_block),
        (''AudioCaptureAllowed'', JBool (perm Microphone = Allow)),
        (''VideoCaptureAllowed'', JBool (perm Camera = Allow)),
        (''DefaultWebBluetoothGuardSetting'', JNum setting_block),
        (''DefaultWebUsbGuardSetting'', JNum setting_block),
        (''DefaultSerialGuardSetting'', JNum setting_block),
        (''DefaultHidGuardSetting'', JNum setting_block),
        (''DefaultNotificationsSetting'', JNum (content_setting (perm Notifications))),
        (''DefaultClipboardSetting'', JNum (content_setting (perm ClipboardRead))),
        (''PromptForDownloadLocation'', JBool True),
        (''DownloadRestrictions'', JNum 0),
        (''DefaultPopupsSetting'', JNum setting_block),
        (''DefaultInsecureContentSetting'', JNum setting_block),
        (''BlockThirdPartyCookies'', JBool True)];
      obj = bt_insert ''DefaultWebHidGuardSetting'' (JNum setting_block) policy
    in bt_insert managed_policy_file (JObj obj) [])"

definition fingerprint_refusal :: "string \<Rightarrow> error" where
  "fingerprint_refusal reason = Config (''invalid fingerprint policy: '' @ reason)"

definition render_chromium_policy :: "launch_request \<Rightarrow> policy_bundle result" where
  "render_chromium_policy r = (case fp_validate (lr_fingerprint r) of
      Some reason \<Rightarrow> Inl (fingerprint_refusal reason)
    | None \<Rightarrow>
        let bundle = \<lparr> pb_backend = Chromium, pb_managed_policies = chromium_managed r,
              pb_command_line = chromium_command_line r, pb_preferences = [] \<rparr>
        in (case assert_safe bundle (lr_production r) of Inl e \<Rightarrow> Inl e | Inr _ \<Rightarrow> Inr bundle))"

definition chromium_capabilities :: backend_capabilities where
  "chromium_capabilities = \<lparr> bc_letterboxing = False, bc_site_isolation = True, bc_renderer_sandbox = True, bc_webrtc_policy = True \<rparr>"

section \<open>Firefox\<close>

definition prefs_file :: string where
  "prefs_file = ''user.js''"

definition parse_socks_endpoint :: "string \<Rightarrow> (string \<times> 16 word) result" where
  "parse_socks_endpoint endpoint =
    (let authority = (case after_last ''://'' endpoint of Some a \<Rightarrow> a | None \<Rightarrow> endpoint)
     in case rsplit_once CHR '':'' authority of
          None \<Rightarrow> Inl (Config (''Firefox proxy endpoint '' @ quoted endpoint @ '' is missing a host:port''))
        | Some (host, port) \<Rightarrow>
            if host = [] then Inl (Config (''Firefox proxy endpoint '' @ quoted endpoint @ '' is missing a host''))
            else (case parse_u16 port of
                None \<Rightarrow> Inl (Config (''Firefox proxy endpoint '' @ quoted endpoint @ '' has an invalid port''))
              | Some p \<Rightarrow> Inr (host, p)))"

definition firefox_pref_list :: "fingerprint_policy \<Rightarrow> string \<Rightarrow> 16 word \<Rightarrow> (string \<times> json) list" where
  "firefox_pref_list fp host port =
    [(''network.proxy.type'', JNum 1),
     (''network.proxy.socks'', JStr host),
     (''network.proxy.socks_port'', JNum (uint port)),
     (''network.proxy.socks_version'', JNum 5),
     (''network.proxy.socks_remote_dns'', JBool True),
     (''network.proxy.no_proxies_on'', JStr []),
     (''network.trr.mode'', JNum 5),
     (''media.peerconnection.enabled'', JBool False),
     (''media.peerconnection.ice.no_host'', JBool True),
     (''media.peerconnection.ice.default_address_only'', JBool True),
     (''privacy.resistFingerprinting'', JBool True),
     (''privacy.resistFingerprinting.letterboxing'', JBool (fp_letterbox fp = LetterboxOn \<or> fp_level fp = Strict)),
     (''privacy.firstparty.isolate'', JBool True),
     (''privacy.trackingprotection.enabled'', JBool True),
     (''webgl.disabled'', JBool (fp_webgl fp = WebGlDisabled)),
     (''dom.webgpu.enabled'', JBool False),
     (''dom.webbluetooth.enabled'', JBool (\<not> fp_block_device_apis fp)),
     (''dom.webusb.enabled'', JBool (\<not> fp_block_device_apis fp)),
     (''dom.serial.enabled'', JBool (\<not> fp_block_device_apis fp)),
     (''dom.webmidi.enabled'', JBool (\<not> fp_block_device_apis fp)),
     (''device.sensors.enabled'', JBool (\<not> fp_disable_sensors fp)),
     (''dom.battery.enabled'', JBool (\<not> fp_disable_battery fp)),
     (''intl.accept_languages'', JStr (fp_primary_language fp)),
     (''javascript.use_us_english_locale'', JBool True),
     (''toolkit.telemetry.enabled'', JBool False),
     (''toolkit.telemetry.unified'', JBool False),
     (''toolkit.telemetry.archive.enabled'', JBool False),
     (''datareporting.healthreport.uploadEnabled'', JBool False),
     (''datareporting.policy.dataSubmissionEnabled'', JBool False),
     (''app.shield.optoutstudies.enabled'', JBool False),
     (''browser.newtabpage.activity-stream.feeds.telemetry'', JBool False),
     (''browser.newtabpage.activity-stream.telemetry'', JBool False),
     (''identity.fxaccounts.enabled'', JBool False),
     (''services.sync.enabled'', JBool False),
     (''app.update.enabled'', JBool False),
     (''app.update.auto'', JBool False),
     (''app.update.service.enabled'', JBool False),
     (''extensions.update.enabled'', JBool False),
     (''browser.search.update'', JBool False)]"

definition firefox_preferences :: "launch_request \<Rightarrow> (string \<times> json) list result" where
  "firefox_preferences r = (case parse_socks_endpoint (lr_proxy_endpoint r) of
      Inl e \<Rightarrow> Inl e
    | Inr (host, port) \<Rightarrow> Inr (bt_of (firefox_pref_list (lr_fingerprint r) host port)))"

definition firefox_command_line :: "launch_request \<Rightarrow> string list" where
  "firefox_command_line r = [''-no-remote'', ''-new-instance'', ''-profile'', lr_user_data_dir r]"

definition pref_line :: "string \<times> json \<Rightarrow> string" where
  "pref_line kv = (case kv of (k, v) \<Rightarrow> ''user_pref('' @ [CHR 0x22] @ k @ [CHR 0x22] @ '', '' @ json_text v @ '');'')"

definition render_user_js :: "(string \<times> json) list \<Rightarrow> string" where
  "render_user_js prefs =
    ''// Generated by Aegis Private Browser. Do not edit; regenerated on every launch.'' @ newline
    @ concat (List.map (\<lambda>kv. pref_line kv @ newline) prefs)"

definition render_firefox_policy :: "launch_request \<Rightarrow> policy_bundle result" where
  "render_firefox_policy r = (case fp_validate (lr_fingerprint r) of
      Some reason \<Rightarrow> Inl (fingerprint_refusal reason)
    | None \<Rightarrow> (case firefox_preferences r of
        Inl e \<Rightarrow> Inl e
      | Inr prefs \<Rightarrow>
          let bundle = \<lparr> pb_backend = Firefox, pb_managed_policies = [],
                pb_command_line = firefox_command_line r, pb_preferences = prefs \<rparr>
          in (case assert_safe bundle (lr_production r) of Inl e \<Rightarrow> Inl e | Inr _ \<Rightarrow> Inr bundle)))"

definition firefox_capabilities :: backend_capabilities where
  "firefox_capabilities = \<lparr> bc_letterboxing = True, bc_site_isolation = True, bc_renderer_sandbox = True, bc_webrtc_policy = True \<rparr>"

end
