(* ===== verification/Launcher_Run.thy ===== *)
theory Launcher_Run
  imports Launcher_Policy Fs
begin

text \<open>
  \<^verbatim>\<open>crates/browser-launcher/src/runner.rs\<close>, \<^verbatim>\<open>host_runner.rs\<close> and the launching half of
  \<^verbatim>\<open>chromium.rs\<close> and \<^verbatim>\<open>firefox.rs\<close>.

  A runner is an interface of three operations.  The operating system's process calls are
  parameters; the host runner records every process it starts in the ghost trace
  \<^verbatim>\<open>hs_spawned\<close>, which no operation reads.
\<close>

record launch_spec =
  ls_program :: string
  ls_args :: "string list"
  ls_env :: "(string \<times> string) list"

record 'r runner_ops =
  rn_start :: "string \<Rightarrow> launch_spec \<Rightarrow> ('r, error, string) eff"
  rn_is_running :: "string \<Rightarrow> ('r, error, bool) eff"
  rn_stop :: "string \<Rightarrow> ('r, error, unit) eff"

section \<open>Runners that start nothing\<close>

definition no_guest_channel :: string where
  "no_guest_channel = ''browser launch requires the Linux guest channel (Browser VM); not available on this platform''"

definition guest_runner :: "'r runner_ops" where
  "guest_runner = \<lparr> rn_start = (\<lambda>_ _. throw (Unsupported no_guest_channel)),
     rn_is_running = (\<lambda>_. throw (Unsupported no_guest_channel)), rn_stop = (\<lambda>_. throw (Unsupported no_guest_channel)) \<rparr>"

definition no_runner_reason :: string where
  "no_runner_reason = ''this FirefoxBackend was built without a runner; construct it with FirefoxBackend::with_runner (e.g. a HostBrowserRunner) to launch''"

definition no_runner :: "'r runner_ops" where
  "no_runner = \<lparr> rn_start = (\<lambda>_ _. throw (Unsupported no_runner_reason)),
     rn_is_running = (\<lambda>_. throw (Unsupported no_runner_reason)), rn_stop = (\<lambda>_. throw (Unsupported no_runner_reason)) \<rparr>"

section \<open>The mock runner\<close>

record mock_state =
  mk_next :: nat
  mk_running :: "(string \<times> bool) list"
  mk_launched :: "(string \<times> launch_spec) list"
  mk_fail_start :: bool

definition mock_new :: mock_state where
  "mock_new = \<lparr> mk_next = 0, mk_running = [], mk_launched = [], mk_fail_start = False \<rparr>"

definition mock_failing :: mock_state where
  "mock_failing = mock_new\<lparr>mk_fail_start := True\<rparr>"

definition mock_mark_stopped :: "string \<Rightarrow> mock_state \<Rightarrow> mock_state" where
  "mock_mark_stopped token s = (case tab_get (mk_running s) token of
      Some _ \<Rightarrow> s\<lparr>mk_running := tab_set token False (mk_running s)\<rparr>
    | None \<Rightarrow> s)"

definition mock_start :: "string \<Rightarrow> launch_spec \<Rightarrow> (mock_state, error, string) eff" where
  "mock_start slug sp = (\<lambda>s.
    if mk_fail_start s then (Inl (System ''mock runner: spawn refused''), s)
    else let n = mk_next s + 1; token = ''mock-proc-'' @ dec n in
      (Inr token, s\<lparr>mk_next := n, mk_running := tab_set token True (mk_running s), mk_launched := mk_launched s @ [(slug, sp)]\<rparr>))"

definition mock_is_running :: "string \<Rightarrow> (mock_state, error, bool) eff" where
  "mock_is_running token = (\<lambda>s. case tab_get (mk_running s) token of
      Some b \<Rightarrow> (Inr b, s)
    | None \<Rightarrow> (Inl (NotFound (''unknown process token: '' @ token)), s))"

definition mock_stop :: "string \<Rightarrow> (mock_state, error, unit) eff" where
  "mock_stop token = modify (\<lambda>s. s\<lparr>mk_running := tab_set token False (mk_running s)\<rparr>)"

definition mock_runner :: "mock_state runner_ops" where
  "mock_runner = \<lparr> rn_start = mock_start, rn_is_running = mock_is_running, rn_stop = mock_stop \<rparr>"

section \<open>The host runner\<close>

text \<open>
  \<^verbatim>\<open>os_pid\<close> is \<^verbatim>\<open>Child::id\<close>; \<^verbatim>\<open>os_try_wait\<close> answers whether the child has exited; the child is
  whatever handle the operating system gives.
\<close>

record ('os, 'c) process_os =
  os_spawn :: "path \<Rightarrow> string list \<Rightarrow> (string \<times> string) list \<Rightarrow> ('os, io_error, 'c) eff"
  os_pid :: "'os \<Rightarrow> 'c \<Rightarrow> 32 word option"
  os_try_wait :: "'c \<Rightarrow> ('os, io_error, bool) eff"
  os_kill :: "'c \<Rightarrow> ('os, io_error, unit) eff"

record ('os, 'c) host_state =
  hs_binary :: path
  hs_children :: "(string \<times> 'c) list"
  hs_os :: 'os
  hs_spawned :: "(path \<times> string list \<times> (string \<times> string) list) list"

definition with_binary :: "path \<Rightarrow> 'os \<Rightarrow> ('os, 'c) host_state" where
  "with_binary b os = \<lparr> hs_binary = b, hs_children = [], hs_os = os, hs_spawned = [] \<rparr>"

definition in_os :: "('os, 'e, 'a) eff \<Rightarrow> (('os, 'c) host_state, 'e, 'a) eff" where
  "in_os m = zoom hs_os hs_os_update m"

definition spawn_child :: "('os, 'c) process_os \<Rightarrow> launch_spec \<Rightarrow> (('os, 'c) host_state, io_error, 'c) eff" where
  "spawn_child K sp = (\<lambda>s. case os_spawn K (hs_binary s) (ls_args sp) (ls_env sp) (hs_os s) of
      (Inl e, o1) \<Rightarrow> (Inl e, s\<lparr>hs_os := o1\<rparr>)
    | (Inr c, o1) \<Rightarrow> (Inr c, s\<lparr>hs_os := o1, hs_spawned := hs_spawned s @ [(hs_binary s, ls_args sp, ls_env sp)]\<rparr>))"

definition host_start :: "('os, 'c) process_os \<Rightarrow> string \<Rightarrow> launch_spec \<Rightarrow> (('os, 'c) host_state, error, string) eff" where
  "host_start K slug sp =
    bind (map_err (\<lambda>e. System (''failed to launch host browser: '' @ io_text e)) (spawn_child K sp)) (\<lambda>c.
    bind (gets (\<lambda>s. os_pid K (hs_os s) c)) (\<lambda>p. case p of
      None \<Rightarrow> throw (System ''host browser exited before yielding a pid'')
    | Some pid \<Rightarrow>
        let token = dec (unat pid) in
        seq (modify (\<lambda>s. s\<lparr>hs_children := tab_set token c (hs_children s)\<rparr>))
        (ret token)))"

definition host_is_running :: "('os, 'c) process_os \<Rightarrow> string \<Rightarrow> (('os, 'c) host_state, error, bool) eff" where
  "host_is_running K token =
    bind (gets (\<lambda>s. tab_get (hs_children s) token)) (\<lambda>r. case r of
      None \<Rightarrow> throw (NotFound (''unknown process token: '' @ token))
    | Some c \<Rightarrow>
        bind (map_err (\<lambda>e. System (''failed to poll host browser: '' @ io_text e)) (in_os (os_try_wait K c))) (\<lambda>exited.
        ret (\<not> exited)))"

definition host_stop :: "('os, 'c) process_os \<Rightarrow> string \<Rightarrow> (('os, 'c) host_state, error, unit) eff" where
  "host_stop K token =
    bind (gets (\<lambda>s. tab_get (hs_children s) token)) (\<lambda>r. case r of
      None \<Rightarrow> ret ()
    | Some c \<Rightarrow>
        seq (modify (\<lambda>s. s\<lparr>hs_children := tab_del token (hs_children s)\<rparr>))
        (bind (attempt (in_os (os_try_wait K c))) (\<lambda>w.
         if w = Inr True then ret ()
         else map_err (\<lambda>e. System (''failed to terminate host browser: '' @ io_text e)) (in_os (os_kill K c)))))"

definition host_runner :: "('os, 'c) process_os \<Rightarrow> ('os, 'c) host_state runner_ops" where
  "host_runner K = \<lparr> rn_start = host_start K, rn_is_running = host_is_running K, rn_stop = host_stop K \<rparr>"

section \<open>Finding the binary\<close>

record resolver_env =
  re_var :: "string \<Rightarrow> string option"
  re_is_file :: "path \<Rightarrow> bool"
  re_which :: "string \<Rightarrow> path option"

text \<open>\<^verbatim>\<open>SystemEnv\<close> over the process environment and the file system.\<close>

definition system_env :: "(string \<Rightarrow> string option) \<Rightarrow> (path \<Rightarrow> bool) \<Rightarrow> resolver_env" where
  "system_env getenv file = \<lparr>
     re_var = (\<lambda>k. case getenv k of Some v \<Rightarrow> if trim v = [] then None else Some v | None \<Rightarrow> None),
     re_is_file = file,
     re_which = (\<lambda>p. case getenv ''PATH'' of
         None \<Rightarrow> None
       | Some v \<Rightarrow> List.find file (List.map (\<lambda>d. path_join d p) (split_on CHR '':'' v))) \<rparr>"

definition first_some :: "('a \<Rightarrow> 'b option) \<Rightarrow> 'a list \<Rightarrow> 'b option" where
  "first_some f xs = (case List.find (\<lambda>x. f x \<noteq> None) xs of None \<Rightarrow> None | Some x \<Rightarrow> f x)"

definition search_default_browser :: "resolver_env \<Rightarrow> path option" where
  "search_default_browser E = first_some (re_which E)
     [''chromium'', ''chromium-browser'', ''google-chrome'', ''google-chrome-stable'', ''brave-browser'']"

definition resolve_with :: "string \<Rightarrow> (resolver_env \<Rightarrow> path option) \<Rightarrow> string \<Rightarrow> string option \<Rightarrow> resolver_env \<Rightarrow> path result" where
  "resolve_with var search missing override_bin E =
    (case Option.bind override_bin (\<lambda>s. if trim s = [] then None else Some (trim s)) of
       Some p \<Rightarrow> Inr p
     | None \<Rightarrow> (case re_var E var of
         Some p \<Rightarrow> Inr p
       | None \<Rightarrow> (case search E of Some p \<Rightarrow> Inr p | None \<Rightarrow> Inl (NotFound missing))))"

definition resolve_browser_binary :: "string option \<Rightarrow> resolver_env \<Rightarrow> path result" where
  "resolve_browser_binary = resolve_with ''AEGIS_BROWSER_BIN'' search_default_browser
     ''no Chromium-family browser found on this host; set AEGIS_BROWSER_BIN or install Chrome/Chromium/Edge''"

definition search_firefox_unix :: "resolver_env \<Rightarrow> path option" where
  "search_firefox_unix E =
    (case (case re_var E ''HOME'' of
        None \<Rightarrow> None
      | Some home \<Rightarrow> List.find (re_is_file E) (List.map (path_join home)
          [''tor-browser/Browser/start-tor-browser'',
           ''Desktop/tor-browser/Browser/start-tor-browser'',
           ''Downloads/tor-browser/Browser/start-tor-browser'',
           ''.local/share/torbrowser/tbb/x86_64/tor-browser/Browser/start-tor-browser''])) of
       Some p \<Rightarrow> Some p
     | None \<Rightarrow> first_some (re_which E) [''tor-browser'', ''firefox'', ''firefox-esr'', ''firefox-bin''])"

definition resolve_firefox_binary :: "string option \<Rightarrow> resolver_env \<Rightarrow> path result" where
  "resolve_firefox_binary = resolve_with ''AEGIS_FIREFOX_BIN'' search_firefox_unix
     ''no Firefox or Tor Browser found on this host; set AEGIS_FIREFOX_BIN or install Firefox / the Tor Browser bundle''"

definition host_runner_new :: "string option \<Rightarrow> resolver_env \<Rightarrow> 'os \<Rightarrow> ('os, 'c) host_state result" where
  "host_runner_new override_bin E os = (case resolve_browser_binary override_bin E of
      Inl e \<Rightarrow> Inl e
    | Inr b \<Rightarrow> Inr (with_binary b os))"

section \<open>Backends\<close>

record 'r backend_world =
  bw_fs :: fs
  bw_runner :: 'r

definition in_runner :: "('r, 'e, 'a) eff \<Rightarrow> ('r backend_world, 'e, 'a) eff" where
  "in_runner m = zoom bw_runner bw_runner_update m"

definition in_fs :: "(fs, 'e, 'a) eff \<Rightarrow> ('r backend_world, 'e, 'a) eff" where
  "in_fs m = zoom bw_fs bw_fs_update m"

definition launch_spec_of :: "string \<Rightarrow> launch_request \<Rightarrow> policy_bundle \<Rightarrow> launch_spec" where
  "launch_spec_of program r b = (let fp = lr_fingerprint r; lang = fp_primary_language fp in \<lparr>
     ls_program = program,
     ls_args = pb_command_line b,
     ls_env = (case fp_timezone fp of Some tz \<Rightarrow> [(''TZ'', tz)] | None \<Rightarrow> [])
       @ [(''LANG'', List.map (\<lambda>c. if c = CHR ''-'' then CHR ''_'' else c) lang @ ''.UTF-8''), (''LANGUAGE'', lang)] \<rparr>)"

definition chromium_launch :: "'r runner_ops \<Rightarrow> string \<Rightarrow> string \<Rightarrow> launch_request \<Rightarrow> policy_bundle
    \<Rightarrow> ('r backend_world, error, browser_handle) eff" where
  "chromium_launch R program slug r b =
    seq (lift_res (assert_safe b (lr_production r)))
    (seq (guard_e (pb_backend b = Chromium) (Config ''bundle backend does not match ChromiumBackend''))
    (bind (in_runner (rn_start R slug (launch_spec_of program r b))) (\<lambda>token.
     ret \<lparr> bh_session = lr_session r, bh_backend = Chromium, bh_process_token = token \<rparr>)))"

definition write_user_js :: "path \<Rightarrow> (string \<times> json) list \<Rightarrow> (fs, error, unit) eff" where
  "write_user_js dir prefs =
    seq (map_err (\<lambda>e. System (''failed to create Firefox profile dir '' @ dir @ '': '' @ io_text e)) (fs_create_dir_all dir))
    (let p = path_join dir prefs_file in
     map_err (\<lambda>e. System (''failed to write Firefox '' @ prefs_file @ '' at '' @ p @ '': '' @ io_text e))
       (fs_write p (render_user_js prefs)))"

definition firefox_launch :: "'r runner_ops \<Rightarrow> string \<Rightarrow> string \<Rightarrow> launch_request \<Rightarrow> policy_bundle
    \<Rightarrow> ('r backend_world, error, browser_handle) eff" where
  "firefox_launch R program slug r b =
    seq (lift_res (assert_safe b (lr_production r)))
    (seq (guard_e (pb_backend b = Firefox) (Config ''bundle backend does not match FirefoxBackend''))
    (seq (in_fs (write_user_js (lr_user_data_dir r) (pb_preferences b)))
    (bind (in_runner (rn_start R slug (launch_spec_of program r b))) (\<lambda>token.
     ret \<lparr> bh_session = lr_session r, bh_backend = Firefox, bh_process_token = token \<rparr>))))"

definition chromium_ops :: "'r runner_ops \<Rightarrow> string \<Rightarrow> string \<Rightarrow> 'r backend_world backend_ops" where
  "chromium_ops R program slug = \<lparr>
     bb_render = render_chromium_policy,
     bb_launch = chromium_launch R program slug,
     bb_is_running = (\<lambda>h. in_runner (rn_is_running R (bh_process_token h))),
     bb_terminate = (\<lambda>h. in_runner (rn_stop R (bh_process_token h))) \<rparr>"

definition firefox_ops :: "'r runner_ops \<Rightarrow> string \<Rightarrow> string \<Rightarrow> 'r backend_world backend_ops" where
  "firefox_ops R program slug = \<lparr>
     bb_render = render_firefox_policy,
     bb_launch = firefox_launch R program slug,
     bb_is_running = (\<lambda>h. in_runner (rn_is_running R (bh_process_token h))),
     bb_terminate = (\<lambda>h. in_runner (rn_stop R (bh_process_token h))) \<rparr>"

end
