(* ===== verification/Launcher_Safety.thy ===== *)
theory Launcher_Safety
  imports Launcher_Policy
begin

text \<open>
  What the rendered policies guarantee, whatever strings a request carries.
\<close>

section \<open>Chromium\<close>

lemma chromium_args_safe: "assert_safe_args production (chromium_command_line r) = Inr ()"
  by (auto simp: chromium_command_line_def Let_def assert_safe_args_append flag_forbidden_def forbidden_flags_def)

lemma render_chromium_ok:
  "render_chromium_policy r = Inr b \<longleftrightarrow> fp_validate (lr_fingerprint r) = None \<and>
     b = \<lparr> pb_backend = Chromium, pb_managed_policies = chromium_managed r,
           pb_command_line = chromium_command_line r, pb_preferences = [] \<rparr>"
  by (auto simp: render_chromium_policy_def assert_safe_def chromium_args_safe split: option.splits)

lemma chromium_managed_get:
  "\<exists>obj. chromium_managed r = [(managed_policy_file, JObj obj)] \<and>
    (\<forall>k \<in> {''DefaultWebBluetoothGuardSetting'', ''DefaultWebUsbGuardSetting'', ''DefaultSerialGuardSetting'',
        ''DefaultHidGuardSetting'', ''DefaultWebHidGuardSetting'', ''DefaultSensorsSetting''}. tab_get obj k = Some (JNum 2)) \<and>
    tab_get obj ''RemoteDebuggingAllowed'' = Some (JBool False) \<and> tab_get obj ''SyncDisabled'' = Some (JBool True) \<and>
    tab_get obj ''AudioCaptureAllowed'' = Some (JBool (effective (lr_permissions r) ''https://example.invalid'' Microphone = Allow)) \<and>
    tab_get obj ''VideoCaptureAllowed'' = Some (JBool (effective (lr_permissions r) ''https://example.invalid'' Camera = Allow))"
  unfolding chromium_managed_def Let_def bt_insert.simps
  by (intro exI conjI refl ballI) (auto simp: tab_get_bt_of setting_block_def)


text \<open>Without WebGPU the command line carries the feature switch twice; a browser takes the last.\<close>

lemma chromium_two_disable_features:
  "\<not> fp_webgpu_enabled (lr_fingerprint r) \<Longrightarrow>
    List.filter (\<lambda>a. starts_with a ''--disable-features='') (chromium_command_line r)
      = [''--disable-features=Translate,MediaRouter,OptimizationHints'', ''--disable-features=WebGPU,WebGPUService'']"
  by (simp add: chromium_command_line_def Let_def)

section \<open>Preference files\<close>

text \<open>Reading a JavaScript string literal back, after its opening quote.\<close>

definition hex_val :: "char \<Rightarrow> nat" where
  "hex_val c = (let k = of_char c :: nat in if k < 58 then k - 48 else k - 87)"

definition escape_val :: "char \<Rightarrow> char" where
  "escape_val e = (if e = CHR ''b'' then char_of (8 :: nat) else if e = CHR ''t'' then char_of (9 :: nat)
     else if e = CHR ''n'' then char_of (10 :: nat) else if e = CHR ''f'' then char_of (12 :: nat)
     else if e = CHR ''r'' then char_of (13 :: nat) else e)"

definition cons_fst :: "char \<Rightarrow> (string \<times> string) option \<Rightarrow> (string \<times> string) option" where
  "cons_fst c r = map_option (\<lambda>(s, t). (c # s, t)) r"

function read_string :: "string \<Rightarrow> (string \<times> string) option" where
  "read_string [] = None"
| "read_string (c # cs) =
    (if c = CHR 0x22 then Some ([], cs)
     else if c \<noteq> CHR 0x5C then cons_fst c (read_string cs)
     else if cs = [] then None
     else if hd cs = CHR ''u'' then
       (if length cs < 5 then None
        else cons_fst (char_of (16 * hex_val (cs ! 3) + hex_val (cs ! 4))) (read_string (drop 5 cs)))
     else cons_fst (escape_val (hd cs)) (read_string (tl cs)))"
  by pat_completeness auto
termination by (relation "measure length") auto

declare read_string.simps [simp del]

lemma hex_val_char: "n < 16 \<Longrightarrow> hex_val (hex_char n) = n"
proof -
  have "\<forall>n \<in> set [0..<16]. hex_val (hex_char n) = n" by code_simp
  then show "n < 16 \<Longrightarrow> hex_val (hex_char n) = n" by simp
qed

lemma quote_chars: "char_of (34 :: nat) = CHR 0x22" "char_of (92 :: nat) = CHR 0x5C"
  by code_simp+

lemma read_escape: "read_string (json_escape c @ t) = cons_fst c (read_string t)"
proof -
  let ?k = "of_char c :: nat"
  have c: "c = char_of ?k" by simp
  consider "?k \<in> {34, 92, 8, 9, 10, 12, 13}" | "?k \<notin> {34, 92, 8, 9, 10, 12, 13}" "?k < 32" | "?k \<noteq> 34" "?k \<noteq> 92" "32 \<le> ?k"
    by fastforce
  then show ?thesis
  proof cases
    case 1
    then have "c \<in> char_of ` {34, 92, 8, 9, 10, 12, 13 :: nat}" by (metis c imageI)
    then show ?thesis
      by (auto simp: json_escape_def Let_def read_string.simps escape_val_def quote_chars)
  next
    case 2
    have "16 * hex_val (hex_char (?k div 16)) + hex_val (hex_char (?k mod 16)) = ?k" using 2 by (simp add: hex_val_char)
    then have "char_of (16 * hex_val (hex_char (?k div 16)) + hex_val (hex_char (?k mod 16))) = c" by simp
    then show ?thesis using 2
      by (simp add: json_escape_def Let_def read_string.simps)
  next
    case 3
    then have "c \<noteq> CHR 0x22" "c \<noteq> CHR 0x5C" by auto
    then show ?thesis using 3 by (simp add: json_escape_def Let_def read_string.simps)
  qed
qed

lemma read_json_string: "read_string (tl (json_string s) @ rest) = Some (s, rest)"
proof -
  have "read_string (concat (List.map json_escape s) @ CHR 0x22 # rest) = Some (s, rest)"
    by (induction s) (simp_all add: read_escape read_string.simps(2) [of "CHR 0x22"] cons_fst_def)
  then show ?thesis by (simp add: json_string_def)
qed

lemma hex_char_plain: "n < 16 \<Longrightarrow> hex_char n \<noteq> CHR 0x0A"
proof -
  have "\<forall>n \<in> set [0..<16]. hex_char n \<noteq> CHR 0x0A" by code_simp
  then show "n < 16 \<Longrightarrow> hex_char n \<noteq> CHR 0x0A" by simp
qed

lemma escape_no_newline: "CHR 0x0A \<notin> set (json_escape c)"
proof -
  have "(of_char c :: nat) < 32 \<Longrightarrow> (of_char c :: nat) div 16 < 16" by (simp add: less_mult_imp_div_less)
  then show ?thesis
    using hex_char_plain [of "of_char c div 16"] hex_char_plain [of "of_char c mod 16"]
    by (auto simp: json_escape_def Let_def)
qed

lemma json_string_no_newline: "CHR 0x0A \<notin> set (json_string s)"
  using escape_no_newline by (auto simp: json_string_def)

lemma join_no_newline: "CHR 0x0A \<notin> set sep \<Longrightarrow> \<forall>x \<in> set xs. CHR 0x0A \<notin> set x \<Longrightarrow> CHR 0x0A \<notin> set (join_with sep xs)"
  by (induction sep xs rule: join_with.induct) auto

lemma dec_no_newline: "CHR 0x0A \<notin> set (dec n)"
  using dec_digits [of "CHR 0x0A" n] by auto

lemma json_no_newline: "CHR 0x0A \<notin> set (json_text v)"
proof (induction v rule: json_text.induct)
  case (5 xs)
  then show ?case using join_no_newline [of "'',''" "List.map json_text xs"] by simp
next
  case (6 kvs)
  then show ?case
    using join_no_newline [of "'',''" "List.map (\<lambda>(k, v). json_string k @ '':'' @ json_text v) kvs"] json_string_no_newline
    by fastforce
qed (auto simp: show_int_def dec_no_newline json_string_no_newline)

lemma pref_lines: "\<forall>(k, v) \<in> set prefs. CHR 0x0A \<notin> set k \<Longrightarrow>
    split_on (CHR 0x0A) (concat (List.map (\<lambda>kv. pref_line kv @ newline) prefs)) = List.map pref_line prefs @ [[]]"
proof (induction prefs)
  case (Cons kv prefs)
  have "CHR 0x0A \<notin> set (pref_line kv)" using Cons.prems json_no_newline by (auto simp: pref_line_def)
  then show ?case using Cons by (simp add: newline_def split_on_append)
qed simp

section \<open>Firefox\<close>

lemma keys_bt_insert: "fst ` set (bt_insert k v t) \<subseteq> insert k (fst ` set t)"
  by (induction k v t rule: bt_insert.induct) auto

lemma keys_bt_of: "fst ` set (bt_of kvs) \<subseteq> fst ` set kvs"
proof -
  have "fst ` set (fold (\<lambda>(k, v). bt_insert k v) kvs t) \<subseteq> fst ` set kvs \<union> fst ` set t" for t
  proof (induction kvs arbitrary: t)
    case (Cons kv kvs)
    show ?case using Cons.IH [of "bt_insert (fst kv) (snd kv) t"] keys_bt_insert [of "fst kv" "snd kv" t]
      by (auto simp: case_prod_unfold)
  qed simp
  from this [of "[]"] show ?thesis by (simp add: bt_of_def)
qed

definition firefox_keys :: "string list" where
  "firefox_keys = [''network.proxy.type'',
     ''network.proxy.socks'',
     ''network.proxy.socks_port'',
     ''network.proxy.socks_version'',
     ''network.proxy.socks_remote_dns'',
     ''network.proxy.no_proxies_on'',
     ''network.trr.mode'',
     ''media.peerconnection.enabled'',
     ''media.peerconnection.ice.no_host'',
     ''media.peerconnection.ice.default_address_only'',
     ''privacy.resistFingerprinting'',
     ''privacy.resistFingerprinting.letterboxing'',
     ''privacy.firstparty.isolate'',
     ''privacy.trackingprotection.enabled'',
     ''webgl.disabled'',
     ''dom.webgpu.enabled'',
     ''dom.webbluetooth.enabled'',
     ''dom.webusb.enabled'',
     ''dom.serial.enabled'',
     ''dom.webmidi.enabled'',
     ''device.sensors.enabled'',
     ''dom.battery.enabled'',
     ''intl.accept_languages'',
     ''javascript.use_us_english_locale'',
     ''toolkit.telemetry.enabled'',
     ''toolkit.telemetry.unified'',
     ''toolkit.telemetry.archive.enabled'',
     ''datareporting.healthreport.uploadEnabled'',
     ''datareporting.policy.dataSubmissionEnabled'',
     ''app.shield.optoutstudies.enabled'',
     ''browser.newtabpage.activity-stream.feeds.telemetry'',
     ''browser.newtabpage.activity-stream.telemetry'',
     ''identity.fxaccounts.enabled'',
     ''services.sync.enabled'',
     ''app.update.enabled'',
     ''app.update.auto'',
     ''app.update.service.enabled'',
     ''extensions.update.enabled'',
     ''browser.search.update'']"

lemma firefox_pref_keys: "List.map fst (firefox_pref_list fp host port) = firefox_keys"
  by (simp add: firefox_pref_list_def firefox_keys_def)

lemma firefox_keys_plain: "list_all (\<lambda>k. CHR 0x0A \<notin> set k) firefox_keys"
  by code_simp

lemma firefox_keys_distinct: "distinct firefox_keys"
  by code_simp

lemma tab_get_bt_distinct: "distinct (List.map fst kvs) \<Longrightarrow> tab_get (bt_of kvs) k = tab_get kvs k"
proof (cases "tab_get kvs k")
  case None
  then have "tab_get (rev kvs) k = None" by (simp add: tab_get_None)
  then show ?thesis using None by (simp add: tab_get_bt_of)
next
  case (Some v)
  assume d: "distinct (List.map fst kvs)"
  have "distinct (List.map fst (rev kvs))" using d by (simp flip: rev_map)
  moreover have "(k, v) \<in> set (rev kvs)" using tab_get_mem [OF Some] by simp
  ultimately show ?thesis using Some tab_get_distinct by (metis tab_get_bt_of)
qed

lemma firefox_pref_get:
  assumes "(k, v) \<in> set (firefox_pref_list fp host port)"
  shows "tab_get (bt_of (firefox_pref_list fp host port)) k = Some v"
proof -
  have d: "distinct (List.map fst (firefox_pref_list fp host port))"
    unfolding firefox_pref_keys by (rule firefox_keys_distinct)
  show ?thesis by (simp only: tab_get_bt_distinct [OF d] tab_get_distinct [OF d assms])
qed

lemma firefox_pref_mem:
  "(''network.proxy.type'', JNum 1) \<in> set (firefox_pref_list fp host port)"
  "(''network.proxy.socks'', JStr host) \<in> set (firefox_pref_list fp host port)"
  "(''network.proxy.socks_port'', JNum (uint port)) \<in> set (firefox_pref_list fp host port)"
  "(''network.proxy.socks_remote_dns'', JBool True) \<in> set (firefox_pref_list fp host port)"
  "(''network.proxy.no_proxies_on'', JStr []) \<in> set (firefox_pref_list fp host port)"
  "(''media.peerconnection.enabled'', JBool False) \<in> set (firefox_pref_list fp host port)"
  "(''privacy.resistFingerprinting'', JBool True) \<in> set (firefox_pref_list fp host port)"
  unfolding firefox_pref_list_def by (intro list.set_intros)+

lemma prefs_keys_plain: "firefox_preferences r = Inr prefs \<Longrightarrow> \<forall>k \<in> fst ` set prefs. CHR 0x0A \<notin> set k"
proof -
  assume "firefox_preferences r = Inr prefs"
  then obtain host port where "prefs = bt_of (firefox_pref_list (lr_fingerprint r) host port)"
    by (auto simp: firefox_preferences_def split: sum.splits)
  moreover have "\<forall>k \<in> fst ` set (firefox_pref_list (lr_fingerprint r) host port). CHR 0x0A \<notin> set k"
    unfolding set_map [symmetric] firefox_pref_keys using firefox_keys_plain by (simp only: list_all_iff)
  ultimately show ?thesis using keys_bt_of [of "firefox_pref_list (lr_fingerprint r) host port"] by (metis subsetD)
qed

lemma render_firefox_ok:
  "render_firefox_policy r = Inr b \<Longrightarrow> fp_validate (lr_fingerprint r) = None \<and> firefox_preferences r = Inr (pb_preferences b) \<and>
     pb_command_line b = firefox_command_line r \<and> assert_safe b (lr_production r) = Inr ()"
  by (auto simp: render_firefox_policy_def Let_def split: option.splits sum.splits)

lemma parse_socks_host: "parse_socks_endpoint e = Inr (host, port) \<Longrightarrow> host \<noteq> []"
  by (auto simp: parse_socks_endpoint_def Let_def split: option.splits if_splits)


definition plain_request :: launch_request where
  "plain_request = \<lparr> lr_session = SessionId (Uuid ''s''), lr_profile = ProfileId (Uuid ''p''), lr_user_data_dir = ''/tmp/p'',
     lr_fingerprint = fp_strict, lr_permissions = secure_default, lr_proxy_endpoint = ''socks5h://127.0.0.1:9050'',
     lr_render_mode = RenderSoftware, lr_production = True \<rparr>"

lemma plain_request_valid [simp]: "fp_validate (lr_fingerprint plain_request) = None"
  by code_simp

lemma plain_socks: "parse_socks_endpoint ''socks5h://127.0.0.1:9050'' = Inr (''127.0.0.1'', 9050)"
  by (simp add: parse_socks_endpoint_def parse_u16_def parse_uint_def digit_val_def Let_def)

lemma plain_request_renders: "is_ok (render_firefox_policy plain_request)"
proof -
  have "lr_proxy_endpoint plain_request = ''socks5h://127.0.0.1:9050''" "lr_user_data_dir plain_request = ''/tmp/p''"
    by (simp_all add: plain_request_def)
  then show ?thesis
    by (simp add: render_firefox_policy_def firefox_preferences_def plain_socks firefox_command_line_def assert_safe_def
        flag_forbidden_def forbidden_flags_def)
qed



end
