(* ===== verification/Launcher_Vetted.thy ===== *)
theory Launcher_Vetted
  imports Launcher_Run Launcher_Safety
begin

text \<open>
  Whatever bundles the backends are handed, the processes that start are the vetted ones.  The
  runner is an interface, proved for the host runner, the guest channel, the runner-less
  backend and the mock.
\<close>

section \<open>The runner interface\<close>

type_synonym spawn = "path \<times> string list \<times> (string \<times> string) list"

definition spec_spawn :: "path \<Rightarrow> launch_spec \<Rightarrow> spawn" where
  "spec_spawn b sp = (b, ls_args sp, ls_env sp)"

definition spawn_ok :: "path set \<Rightarrow> spawn \<Rightarrow> bool" where
  "spawn_ok bins p \<longleftrightarrow> fst p \<in> bins \<and> (\<forall>a \<in> set (fst (snd p)). \<not> flag_forbidden a)"

text \<open>
  What a client does with the backends, in any order; a failing operation ends nothing.
\<close>

datatype launch_op =
    Launch_Chromium string string launch_request policy_bundle
  | Launch_Firefox string string launch_request policy_bundle
  | Poll browser_handle
  | Terminate browser_handle

fun launch_step :: "'r runner_ops \<Rightarrow> launch_op \<Rightarrow> ('r backend_world, error, unit) eff" where
  "launch_step R (Launch_Chromium prog slug r b) = bind (bb_launch (chromium_ops R prog slug) r b) (\<lambda>_. ret ())"
| "launch_step R (Launch_Firefox prog slug r b) = bind (bb_launch (firefox_ops R prog slug) r b) (\<lambda>_. ret ())"
| "launch_step R (Poll h) = bind (bb_is_running (chromium_ops R [] []) h) (\<lambda>_. ret ())"
| "launch_step R (Terminate h) = bb_terminate (chromium_ops R [] []) h"

fun launch_steps :: "'r runner_ops \<Rightarrow> launch_op list \<Rightarrow> 'r backend_world \<Rightarrow> 'r backend_world" where
  "launch_steps R [] w = w"
| "launch_steps R (x # xs) w = launch_steps R xs (snd (launch_step R x w))"

locale runner =
  fixes R :: "'r runner_ops" and spawned :: "'r \<Rightarrow> spawn list" and binary :: "'r \<Rightarrow> string \<Rightarrow> path"
  assumes start_spawns: "wp (rn_start R slug sp)
      (\<lambda>_ r'. spawned r' = spawned r @ [spec_spawn (binary r slug) sp] \<and> binary r' = binary r)
      (\<lambda>_ r'. (spawned r' = spawned r \<or> spawned r' = spawned r @ [spec_spawn (binary r slug) sp]) \<and> binary r' = binary r) r"
    and poll_quiet: "wp (rn_is_running R token) (\<lambda>_ r'. spawned r' = spawned r \<and> binary r' = binary r)
      (\<lambda>_ r'. spawned r' = spawned r \<and> binary r' = binary r) r"
    and stop_quiet: "wp (rn_stop R token) (\<lambda>_ r'. spawned r' = spawned r \<and> binary r' = binary r)
      (\<lambda>_ r'. spawned r' = spawned r \<and> binary r' = binary r) r"
begin

definition vetted :: "(string \<Rightarrow> path) \<Rightarrow> 'r backend_world \<Rightarrow> bool" where
  "vetted B w \<longleftrightarrow> binary (bw_runner w) = B \<and>
     (\<forall>p \<in> set (spawned (bw_runner w)). spawn_ok (range B) p)"

lemma wp_in_runner: "wp (in_runner m) Q E w = wp m (\<lambda>x r. Q x (w\<lparr>bw_runner := r\<rparr>)) (\<lambda>e r. E e (w\<lparr>bw_runner := r\<rparr>)) (bw_runner w)"
  by (simp add: in_runner_def wp_simps)

lemma start_vetted:
  assumes "vetted B w" "\<forall>a \<in> set (ls_args sp). \<not> flag_forbidden a"
  shows "wp (in_runner (rn_start R slug sp)) (\<lambda>_. vetted B) (\<lambda>_. vetted B) w"
  unfolding wp_in_runner
  by (rule wp_mono [OF start_spawns]) (use assms in \<open>auto simp: vetted_def spec_spawn_def spawn_ok_def\<close>)

lemma quiet_vetted:
  assumes "vetted B w"
  shows "wp (in_runner (rn_is_running R token)) (\<lambda>_. vetted B) (\<lambda>_. vetted B) w"
    "wp (in_runner (rn_stop R token)) (\<lambda>_. vetted B) (\<lambda>_. vetted B) w"
  unfolding wp_in_runner
  by (rule wp_mono [OF poll_quiet], use assms in \<open>auto simp: vetted_def\<close>)
     (rule wp_mono [OF stop_quiet], use assms in \<open>auto simp: vetted_def\<close>)

lemma safe_bundle_args: "assert_safe b p = Inr () \<Longrightarrow> \<forall>a \<in> set (ls_args (launch_spec_of prog r b)). \<not> flag_forbidden a"
  by (simp add: launch_spec_of_def Let_def assert_safe_def assert_safe_args_ok)

lemma chromium_launch_vetted: "vetted B w \<Longrightarrow> wp (chromium_launch R prog slug r b) (\<lambda>_. vetted B) (\<lambda>_. vetted B) w"
  using safe_bundle_args [of b "lr_production r" prog r]
  by (cases "assert_safe b (lr_production r)")
     (auto simp: chromium_launch_def wp_simps intro!: wp_mono [OF start_vetted])

lemma in_fs_vetted: "vetted B w \<Longrightarrow> wp (in_fs m) (\<lambda>_. vetted B) (\<lambda>_. vetted B) w"
  by (auto simp: in_fs_def wp_simps vetted_def intro!: wp_I)

lemma firefox_launch_vetted: "vetted B w \<Longrightarrow> wp (firefox_launch R prog slug r b) (\<lambda>_. vetted B) (\<lambda>_. vetted B) w"
  using safe_bundle_args [of b "lr_production r" prog r]
  by (cases "assert_safe b (lr_production r)")
     (auto simp: firefox_launch_def wp_simps intro!: wp_mono [OF start_vetted] wp_mono [OF in_fs_vetted])

lemma launch_step_vetted: "vetted B w \<Longrightarrow> wp (launch_step R x) (\<lambda>_. vetted B) (\<lambda>_. vetted B) w"
  by (cases x)
     (auto simp: chromium_ops_def firefox_ops_def wp_simps
        intro!: wp_mono [OF chromium_launch_vetted] wp_mono [OF firefox_launch_vetted] wp_mono [OF quiet_vetted(1)] quiet_vetted(2))

lemma launch_steps_vetted: "vetted B w \<Longrightarrow> vetted B (launch_steps R xs w)"
proof (induction xs arbitrary: w)
  case (Cons x xs)
  have "vetted B (snd (launch_step R x w))"
    using launch_step_vetted [OF Cons.prems, of x] by (auto simp: wp_def split: prod.splits sum.splits)
  then show ?case using Cons.IH by simp
qed simp

end

section \<open>The runners provide it\<close>

interpretation host: runner "host_runner K" hs_spawned "\<lambda>r slug. hs_binary r"
proof
  show "wp (rn_start (host_runner K) slug sp)
      (\<lambda>_ r'. hs_spawned r' = hs_spawned r @ [spec_spawn (hs_binary r) sp] \<and> (\<lambda>slug. hs_binary r') = (\<lambda>slug. hs_binary r))
      (\<lambda>_ r'. (hs_spawned r' = hs_spawned r \<or> hs_spawned r' = hs_spawned r @ [spec_spawn (hs_binary r) sp]) \<and>
         (\<lambda>slug. hs_binary r') = (\<lambda>slug. hs_binary r)) r" for slug sp r
    by (auto simp: host_runner_def host_start_def spawn_child_def wp_simps Let_def spec_spawn_def
        intro!: wp_I split: option.split prod.splits sum.splits)
  show "wp (rn_is_running (host_runner K) token) (\<lambda>_ r'. hs_spawned r' = hs_spawned r \<and> (\<lambda>slug. hs_binary r') = (\<lambda>slug. hs_binary r))
      (\<lambda>_ r'. hs_spawned r' = hs_spawned r \<and> (\<lambda>slug. hs_binary r') = (\<lambda>slug. hs_binary r)) r" for token r
    by (auto simp: host_runner_def host_is_running_def in_os_def wp_simps intro!: wp_I split: option.split)
  show "wp (rn_stop (host_runner K) token) (\<lambda>_ r'. hs_spawned r' = hs_spawned r \<and> (\<lambda>slug. hs_binary r') = (\<lambda>slug. hs_binary r))
      (\<lambda>_ r'. hs_spawned r' = hs_spawned r \<and> (\<lambda>slug. hs_binary r') = (\<lambda>slug. hs_binary r)) r" for token r
    by (auto simp: host_runner_def host_stop_def in_os_def wp_simps intro!: wp_I split: option.split)
qed

interpretation guest: runner guest_runner "\<lambda>_. []" "\<lambda>_ slug. slug"
  by unfold_locales (simp_all add: guest_runner_def wp_simps)

interpretation runnerless: runner no_runner "\<lambda>_. []" "\<lambda>_ slug. slug"
  by unfold_locales (simp_all add: no_runner_def wp_simps)

interpretation mocked: runner mock_runner "\<lambda>s. List.map (\<lambda>(slug, sp). spec_spawn slug sp) (mk_launched s)" "\<lambda>_ slug. slug"
  by unfold_locales
     (auto simp: mock_runner_def mock_start_def mock_is_running_def mock_stop_def wp_def Let_def modify_def spec_spawn_def split: option.split)

section \<open>Properties\<close>

text \<open> Whatever is asked of the browser backends over the host runner, in any order and with
  any bundles, failures included, every process the runner ever starts is the resolved browser
  binary and carries no forbidden flag. \<close>
lemma host_processes_vetted:
  assumes "hs_spawned (bw_runner w) = []"
    and "p \<in> set (hs_spawned (bw_runner (launch_steps (host_runner K) xs w)))"
  shows "fst p = hs_binary (bw_runner w) \<and> (\<forall>a \<in> set (fst (snd p)). \<not> flag_forbidden a)"
proof -
  have "host.vetted (\<lambda>_. hs_binary (bw_runner w)) w" by (simp add: host.vetted_def assms)
  from host.launch_steps_vetted [OF this, of K xs] assms(2) show ?thesis
    by (auto simp: host.vetted_def spawn_ok_def)
qed

definition sample_os :: "(nat, nat) process_os" where
  "sample_os = \<lparr> os_spawn = (\<lambda>_ _ _ n. (Inr (n + 1), n + 1)), os_pid = (\<lambda>_ c. Some (of_nat c)),
     os_try_wait = (\<lambda>_. ret False), os_kill = (\<lambda>_. ret ()) \<rparr>"

definition sample_backend_world :: "(nat, nat) host_state backend_world" where
  "sample_backend_world = \<lparr> bw_fs = \<lparr> fs_files = [], fs_dirs = [], fs_faults = [] \<rparr>, bw_runner = with_binary ''/usr/bin/chromium'' 0 \<rparr>"

definition plain_bundle :: policy_bundle where
  "plain_bundle = \<lparr> pb_backend = Chromium, pb_managed_policies = [], pb_command_line = [''--incognito''], pb_preferences = [] \<rparr>"

definition rogue_bundle :: policy_bundle where
  "rogue_bundle = plain_bundle\<lparr>pb_command_line := [''--no-sandbox'']\<rparr>"

lemma sample_launches:
  "hs_spawned (bw_runner (launch_steps (host_runner sample_os)
     [Launch_Chromium ''p'' ''s'' plain_request rogue_bundle, Launch_Chromium ''p'' ''s'' plain_request plain_bundle] sample_backend_world))
   = [(''/usr/bin/chromium'', [''--incognito''], ls_env (launch_spec_of ''p'' plain_request plain_bundle))]"
  by (simp add: chromium_ops_def chromium_launch_def host_runner_def host_start_def spawn_child_def sample_os_def
      sample_backend_world_def with_binary_def rogue_bundle_def plain_bundle_def assert_safe_def flag_forbidden_def
      forbidden_flags_def launch_spec_of_def Let_def in_runner_def zoom_def bind_def seq_def lift_res_def guard_e_def
      throw_def ret_def map_err_def gets_def modify_def split: option.splits)

lemma host_processes_vetted_witness:
  "(''/usr/bin/chromium'', [''--incognito''], ls_env (launch_spec_of ''p'' plain_request plain_bundle))
     \<in> set (hs_spawned (bw_runner (launch_steps (host_runner sample_os)
        [Launch_Chromium ''p'' ''s'' plain_request rogue_bundle, Launch_Chromium ''p'' ''s'' plain_request plain_bundle] sample_backend_world))) \<and>
   \<not> flag_forbidden ''--incognito''"
proof -
  have s: "hs_spawned (bw_runner sample_backend_world) = []" by (simp add: sample_backend_world_def with_binary_def)
  have m: "(''/usr/bin/chromium'', [''--incognito''], ls_env (launch_spec_of ''p'' plain_request plain_bundle))
     \<in> set (hs_spawned (bw_runner (launch_steps (host_runner sample_os)
        [Launch_Chromium ''p'' ''s'' plain_request rogue_bundle, Launch_Chromium ''p'' ''s'' plain_request plain_bundle] sample_backend_world)))"
    unfolding sample_launches by simp
  from m host_processes_vetted [OF s m] show ?thesis by simp
qed

end
