(* ===== verification/Daemon_Host.thy ===== *)
theory Daemon_Host
  imports Events Fs Dir_Walk Update Gateway_Controller Vm_Controller
begin

text \<open>
  The daemon's own small parts: the audit sinks (\<^verbatim>\<open>aegis-daemon/src/audit.rs\<close>), loading the
  configuration (\<^verbatim>\<open>config.rs\<close>), the host proxy probe (\<^verbatim>\<open>host_probe.rs\<close>), the disabled update
  client and the uid of the process (\<^verbatim>\<open>main.rs\<close>), and the two runners that spawn system tools
  (\<^verbatim>\<open>gateway-controller/src/runner.rs\<close>, \<^verbatim>\<open>vm-controller/src/runner.rs\<close>).
\<close>

section \<open>Audit sinks\<close>

text \<open>
  Appending through an open handle.  A failing append may have written a prefix, whose length
  the fault gives.
\<close>

definition append_some :: "path \<Rightarrow> string \<Rightarrow> fs \<Rightarrow> fs" where
  "append_some p b f = (case tab_get (fs_files f) p of
      None \<Rightarrow> f
    | Some c \<Rightarrow> f\<lparr>fs_files := tab_set p (c @ b) (fs_files f)\<rparr>)"

definition partial_append :: "path \<Rightarrow> string \<Rightarrow> string option \<Rightarrow> fs \<Rightarrow> fs" where
  "partial_append p b partial f = (case partial of None \<Rightarrow> f | Some x \<Rightarrow> append_some p (take (length x) b) f)"

definition fs_append :: "path \<Rightarrow> string \<Rightarrow> unit io" where
  "fs_append p b = with_fault (partial_append p b) (\<lambda>f. (Inr (), append_some p b f))"

text \<open>\<^verbatim>\<open>OpenOptions::create(true).append(true).open\<close>.\<close>

definition fs_open_append :: "path \<Rightarrow> unit io" where
  "fs_open_append p = with_fault no_trace (\<lambda>f.
    if is_dir f p then (Inl io_is_dir, f)
    else if is_file f p then (Inr (), f)
    else if \<not> is_dir f (path_parent p) then (Inl io_not_found, f)
    else (Inr (), f\<lparr>fs_files := tab_set p [] (fs_files f)\<rparr>))"

record audit_sink =
  as_path :: path
  as_poisoned :: bool

definition file_audit_new :: "path \<Rightarrow> audit_sink" where
  "file_audit_new p = \<lparr> as_path = p, as_poisoned = False \<rparr>"

definition audit_lock_poisoned :: error where
  "audit_lock_poisoned = Internal ''audit sink lock poisoned''"

text \<open>\<^verbatim>\<open>to_json\<close> is \<^verbatim>\<open>serde_json::to_string\<close> on a record, or its error message.\<close>

definition to_json_line :: "(audit_record \<Rightarrow> string + string) \<Rightarrow> audit_record \<Rightarrow> string result" where
  "to_json_line to_json r = (case to_json r of Inl m \<Rightarrow> Inl (json_err m) | Inr l \<Rightarrow> Inr l)"

definition file_record :: "(audit_record \<Rightarrow> string + string) \<Rightarrow> audit_sink \<Rightarrow> audit_record \<Rightarrow> (fs, error, unit) eff" where
  "file_record to_json S r =
    bind (lift_res (to_json_line to_json r)) (\<lambda>line.
    seq (guard_e (\<not> as_poisoned S) audit_lock_poisoned)
    (let p = as_path S; d = path_parent p in
     seq (if p = [] \<or> p = ''/'' \<or> d = [] then ret ()
          else map_err (\<lambda>e. System (''audit: create log dir: '' @ io_text e)) (fs_create_dir_all d))
    (seq (map_err (\<lambda>e. System (''audit: open log: '' @ io_text e)) (fs_open_append p))
     (map_err (\<lambda>e. System (''audit: append: '' @ io_text e))
       (seq (fs_append p line) (fs_append p newline))))))"

record memory_sink =
  ms_records :: "audit_record list"
  ms_poisoned :: bool

definition memory_audit_new :: memory_sink where
  "memory_audit_new = \<lparr> ms_records = [], ms_poisoned = False \<rparr>"

definition memory_len :: "memory_sink \<Rightarrow> nat" where
  "memory_len S = length (ms_records S)"

definition memory_record :: "(audit_record \<Rightarrow> string + string) \<Rightarrow> audit_record \<Rightarrow> (memory_sink, error, unit) eff" where
  "memory_record to_json r =
    bind (lift_res (to_json_line to_json r)) (\<lambda>_.
    bind (gets ms_poisoned) (\<lambda>b.
    seq (guard_e (\<not> b) audit_lock_poisoned)
    (modify (\<lambda>S. S\<lparr>ms_records := ms_records S @ [r]\<rparr>))))"

section \<open>Configuration\<close>

text \<open>\<^verbatim>\<open>toml\<close> is the TOML decoder: a configuration or an error message.\<close>

definition load_config :: "(string \<Rightarrow> string + app_config) \<Rightarrow> path \<Rightarrow> (fs, error, app_config) eff" where
  "load_config toml p =
    bind (attempt (fs_read p)) (\<lambda>r. case r of
      Inr text \<Rightarrow> (case toml text of
          Inl m \<Rightarrow> throw (Config (''invalid config '' @ p @ '': '' @ m))
        | Inr cfg \<Rightarrow> ret cfg)
    | Inl e \<Rightarrow>
        if io_kind e = IoNotFound then ret app_config_default
        else throw (Config (''cannot read config '' @ p @ '': '' @ io_text e)))"

definition config_path :: "path option \<Rightarrow> path" where
  "config_path opt = (case opt of Some p \<Rightarrow> p | None \<Rightarrow> ''/etc/aegis/config.toml'')"

section \<open>The host proxy probe\<close>

text \<open>How a TCP connect within a bound ends: it is the operating system's.\<close>

datatype connect_outcome = Connected | Connect_Failed | Connect_Elapsed

record 'e host_probe =
  hb_timeout_ms :: nat
  hb_connect :: "string \<Rightarrow> nat \<Rightarrow> 'e \<Rightarrow> connect_outcome \<times> 'e"

definition tcp_probe_default :: "(string \<Rightarrow> nat \<Rightarrow> 'e \<Rightarrow> connect_outcome \<times> 'e) \<Rightarrow> 'e host_probe" where
  "tcp_probe_default connect = \<lparr> hb_timeout_ms = 2000, hb_connect = connect \<rparr>"

definition proxy_reachable :: "'e host_probe \<Rightarrow> string \<Rightarrow> 16 word \<Rightarrow> ('e, error, bool) eff" where
  "proxy_reachable H host port =
    bind (run_state (hb_connect H (host @ '':'' @ dec (unat port)) (hb_timeout_ms H))) (\<lambda>r. case r of
      Connected \<Rightarrow> ret True
    | Connect_Failed \<Rightarrow> ret False
    | Connect_Elapsed \<Rightarrow> ret False)"

section \<open>Updates without a key\<close>

definition disabled_check :: "version_info \<Rightarrow> ('w, error, update_manifest option) eff" where
  "disabled_check info = throw (Config ''update checking is disabled: no update_verify_key configured'')"

definition disabled_verify :: "update_manifest \<Rightarrow> version_info \<Rightarrow> ('w, error, verified_artifact) eff" where
  "disabled_verify m info = throw (Config ''update verification is disabled: no update_verify_key configured'')"

definition disabled_apply :: "verified_artifact \<Rightarrow> ('w, error, apply_outcome) eff" where
  "disabled_apply v = throw (Config ''update application is disabled: no update_verify_key configured'')"

section \<open>The uid of the process\<close>

definition uid_of_line :: "string \<Rightarrow> 32 word option" where
  "uid_of_line l =
    (if starts_with l ''Uid:'' then
       (case split_whitespace (drop 4 l) of
          [] \<Rightarrow> None
        | tok # _ \<Rightarrow> map_option of_nat (parse_uint 4294967295 tok))
     else None)"

definition current_uid :: "bool \<Rightarrow> (fs, 'x, 32 word) eff" where
  "current_uid linux =
    (if linux then
       bind (attempt (fs_read ''/proc/self/status'') :: (fs, 'x, io_error + string) eff) (\<lambda>r. case r of
         Inl _ \<Rightarrow> ret 0
       | Inr status \<Rightarrow> (case find_map uid_of_line (str_lines status) of Some u \<Rightarrow> ret u | None \<Rightarrow> ret 0))
     else ret 0)"

section \<open>Running system tools\<close>

text \<open>
  Processes with pipes: spawning, writing to the standard input, and waiting for the exit code
  and both outputs (already decoded as text) are the operating system's.
\<close>

record ('o, 'p) tool_os =
  to_spawn :: "string \<Rightarrow> string list \<Rightarrow> bool \<Rightarrow> ('o, io_error, 'p) eff"
  to_write :: "'p \<Rightarrow> string \<Rightarrow> ('o, io_error, unit) eff"
  to_wait :: "'p \<Rightarrow> ('o, io_error, int option \<times> string \<times> string) eff"

definition gw_system_runner :: "bool \<Rightarrow> ('o, 'p) tool_os \<Rightarrow> 'o runner" where
  "gw_system_runner linux T c =
    (if linux then
       bind (map_err (\<lambda>e. System (''spawn '' @ cmd_program c @ '': '' @ io_text e))
              (to_spawn T (cmd_program c) (cmd_args c) (cmd_stdin c \<noteq> None))) (\<lambda>p.
       seq (case cmd_stdin c of
              None \<Rightarrow> ret ()
            | Some input \<Rightarrow> map_err (\<lambda>e. System (''write stdin: '' @ io_text e)) (to_write T p input))
       (bind (map_err (\<lambda>e. System (''wait '' @ cmd_program c @ '': '' @ io_text e)) (to_wait T p)) (\<lambda>(code, out, err).
        ret \<lparr> out_code = code, out_stdout = out, out_stderr = err \<rparr>)))
     else throw (Unsupported (''privileged gateway command '' @ [CHR 0x27] @ cmd_program c @ [CHR 0x27]
       @ '' is only available inside the Linux Gateway VM'')))"

definition vm_system_runner :: "bool \<Rightarrow> ('o, 'p) tool_os \<Rightarrow> vm_command \<Rightarrow> 'o \<Rightarrow> vm_output result \<times> 'o" where
  "vm_system_runner linux T c =
    (if linux then
       map_err (\<lambda>e. System (''failed to spawn '' @ fst c @ '': '' @ io_text e))
         (bind (to_spawn T (fst c) (snd c) False) (\<lambda>p.
          bind (to_wait T p) (\<lambda>(code, out, err).
          ret \<lparr> vo_status = code, vo_stdout = out, vo_stderr = err \<rparr>)))
     else throw (Unsupported ''libvirt/QEMU control is only supported on Linux hosts''))"

section \<open>What the sinks guarantee\<close>

definition log_of :: "path \<Rightarrow> fs \<Rightarrow> string" where
  "log_of p f = (case tab_get (fs_files f) p of None \<Rightarrow> [] | Some c \<Rightarrow> c)"

text \<open>The log grew by some bytes, and no other file changed.\<close>

definition grew :: "path \<Rightarrow> string \<Rightarrow> fs \<Rightarrow> fs \<Rightarrow> bool" where
  "grew p x f g \<longleftrightarrow> log_of p g = log_of p f @ x \<and> (\<forall>q. q \<noteq> p \<longrightarrow> tab_get (fs_files g) q = tab_get (fs_files f) q)"

lemma grew_refl [simp]: "grew p [] f f"
  by (simp add: grew_def)

lemma grew_trans: "grew p x f g \<Longrightarrow> grew p y g h \<Longrightarrow> grew p (x @ y) f h"
  by (simp add: grew_def)

lemma grew_tick [simp]: "grew p x f (tick g) = grew p x f g" "grew p x (tick f) g = grew p x f g"
  by (simp_all add: grew_def log_of_def)

lemma grew_dirs [simp]: "grew p x f (g\<lparr>fs_dirs := d\<rparr>) = grew p x f g"
  by (simp add: grew_def log_of_def)

lemma grew_append_some: "is_file f p \<Longrightarrow> grew p b f (append_some p b f)"
  by (auto simp: grew_def append_some_def log_of_def is_file_def)

lemma partial_append_grew: "is_file f p \<Longrightarrow> \<exists>x. grew p x f (partial_append p b part f)"
proof (cases part)
  case None
  then show ?thesis by (metis grew_refl partial_append_def option.case(1))
next
  case (Some x)
  assume "is_file f p"
  then show ?thesis using grew_append_some [of f p "take (length x) b"] Some by (auto simp: partial_append_def)
qed

lemma is_file_append [simp]: "is_file (append_some p b f) q = is_file f q"
  by (auto simp: append_some_def is_file_def split: option.splits)

lemma wp_fs_append:
  assumes "is_file f p"
  shows "wp (fs_append p b) (\<lambda>_ t. grew p b f t \<and> is_file t p) (\<lambda>_ t. \<exists>x. grew p x f t) f"
proof -
  have "is_file (tick f) p" using assms by simp
  from grew_append_some [OF this, of b] partial_append_grew [OF this] this show ?thesis
    by (auto simp: fs_append_def wp_simps split: option.split fault.split) (auto simp: wp_def)
qed

lemma wp_open_append:
  "wp (fs_open_append p) (\<lambda>_ t. grew p [] f t \<and> is_file t p) (\<lambda>_ t. grew p [] f t) f"
  by (auto simp: fs_open_append_def wp_simps no_trace_def wp_raw split: option.split fault.split)
     (auto simp: wp_def grew_def log_of_def is_file_def split: option.splits)

lemma wp_create_dir_grew: "wp (fs_create_dir_all d) (\<lambda>_ t. grew p [] f t) (\<lambda>_ t. grew p [] f t) f"
  by (auto simp: fs_wp split: option.split fault.split)

lemma wp_file_record:
  "wp (file_record J S r)
     (\<lambda>_ t. \<exists>l. J r = Inr l \<and> grew (as_path S) (l @ newline) f t)
     (\<lambda>_ t. \<exists>x. grew (as_path S) x f t) f"
proof (cases "J r")
  case (Inl m)
  then show ?thesis by (auto simp: file_record_def to_json_line_def wp_simps intro: exI [of _ "[]"])
next
  case (Inr l)
  let ?p = "as_path S"
  have app: "wp (seq (fs_append ?p l) (fs_append ?p newline)) (\<lambda>_ t. grew ?p (l @ newline) f t) (\<lambda>_ t. \<exists>x. grew ?p x f t) g"
    if "grew ?p [] f g" "is_file g ?p" for g
    by (rule wp_next [OF wp_fs_append [OF that(2)]], rule wp_mono [OF wp_fs_append])
       (use that in \<open>auto intro: grew_trans dest: grew_trans [OF that(1)] grew_trans\<close>)
  have opn: "wp (seq (map_err F (fs_open_append ?p)) (map_err G (seq (fs_append ?p l) (fs_append ?p newline))))
      (\<lambda>_ t. grew ?p (l @ newline) f t) (\<lambda>_ t. \<exists>x. grew ?p x f t) g" if "grew ?p [] f g" for F G g
    unfolding wp_seq wp_map_err
    by (rule wp_mono [OF wp_open_append [of ?p g]])
       (use grew_trans [OF that] app in \<open>auto simp: wp_seq\<close>)
  have body: "wp (seq (if b then ret () else map_err H (fs_create_dir_all d))
        (seq (map_err F (fs_open_append ?p)) (map_err G (seq (fs_append ?p l) (fs_append ?p newline)))))
      (\<lambda>_ t. grew ?p (l @ newline) f t) (\<lambda>_ t. \<exists>x. grew ?p x f t) f" for b H d F G
  proof (cases b)
    case False
    show ?thesis unfolding if_not_P [OF False] wp_seq [of "map_err H _"] wp_map_err [of H]
      by (rule wp_mono [OF wp_create_dir_grew]) (use opn in blast)+
  qed (use opn [of f] in \<open>simp add: wp_seq [of "ret _"] wp_ret\<close>)
  show ?thesis
  proof (cases "as_poisoned S")
    case True
    then show ?thesis by (auto simp: file_record_def to_json_line_def Inr wp_simps intro: exI [of _ "[]"])
  next
    case False
    show ?thesis
      unfolding file_record_def to_json_line_def Inr sum.case Let_def wp_bind wp_lift_res wp_seq [of "guard_e _ _"] wp_guard_e
      by (simp only: False not_False_eq_True if_True) (rule wp_mono [OF body], auto)
  qed
qed

text \<open>Record one after the other; the answers say which were acknowledged.\<close>

fun record_all :: "(audit_record \<Rightarrow> string + string) \<Rightarrow> audit_sink \<Rightarrow> audit_record list \<Rightarrow> fs \<Rightarrow> bool list \<times> fs" where
  "record_all J S [] f = ([], f)"
| "record_all J S (r # rs) f =
    (case file_record J S r f of (a, g) \<Rightarrow> (case record_all J S rs g of (as, h) \<Rightarrow> (is_ok a # as, h)))"

definition chunk_ok :: "(audit_record \<Rightarrow> string + string) \<Rightarrow> bool \<times> audit_record \<Rightarrow> string \<Rightarrow> bool" where
  "chunk_ok J ar x = (fst ar \<longrightarrow> (\<exists>l. J (snd ar) = Inr l \<and> x = l @ newline))"

text \<open>
  C34: the audit log is append-only.  Whatever is recorded and whichever file operations fail, the
  log keeps all it held and grows by one chunk per record, in order, where the chunk of an
  acknowledged record is exactly its line; no other file is touched.
\<close>

theorem audit_append_only:
  assumes "record_all J S rs f = (as, g)"
  shows "\<exists>xs. list_all2 (chunk_ok J) (zip as rs) xs \<and> length as = length rs \<and>
    log_of (as_path S) g = log_of (as_path S) f @ concat xs \<and>
    (\<forall>q. q \<noteq> as_path S \<longrightarrow> tab_get (fs_files g) q = tab_get (fs_files f) q)"
  using assms
proof (induction rs arbitrary: f as)
  case Nil
  then show ?case by simp
next
  case (Cons r rs)
  obtain a h where a: "file_record J S r f = (a, h)" by fastforce
  obtain as' where rest: "record_all J S rs h = (as', g)" "as = is_ok a # as'"
    using Cons.prems a by (auto split: prod.splits)
  obtain x where x: "grew (as_path S) x f h" "chunk_ok J (is_ok a, r) x"
    using wp_file_record [of J S r f] a by (cases a) (auto simp: wp_def chunk_ok_def)
  from Cons.IH [OF rest(1)] obtain xs where xs: "list_all2 (chunk_ok J) (zip as' rs) xs" "length as' = length rs"
      "log_of (as_path S) g = log_of (as_path S) h @ concat xs"
      "\<forall>q. q \<noteq> as_path S \<longrightarrow> tab_get (fs_files g) q = tab_get (fs_files h) q" by blast
  then show ?case using rest(2) x by (intro exI [of _ "x # xs"]) (simp add: grew_def)
qed

definition sample_log :: fs where
  "sample_log = \<lparr> fs_files = [(''/a'', ''old'')], fs_dirs = [''/''], fs_faults = [] \<rparr>"

definition sample_record :: audit_record where
  "sample_record = audit_new 0 Info (EvProfile ''created'')"

lemma sample_recorded:
  "record_all (\<lambda>r. Inr ''line'') (file_audit_new ''/a'') [sample_record] sample_log
     = ([True], sample_log\<lparr>fs_files := [(''/a'', ''oldline'' @ newline)]\<rparr>)"
  by (simp add: Let_def file_record_def to_json_line_def file_audit_new_def sample_log_def fs_open_append_def fs_append_def
      fs_create_dir_all_def with_fault_def append_some_def is_dir_def is_file_def path_parent_def ancestors.simps List.union_def
      bind_def seq_def ret_def lift_res_def guard_e_def map_err_def)

lemma audit_append_only_witness:
  "\<exists>xs. list_all2 (chunk_ok (\<lambda>r. Inr ''line'')) (zip [True] [sample_record]) xs \<and> ''old'' @ concat xs = ''oldline'' @ newline"
  using audit_append_only [OF sample_recorded] by (simp add: log_of_def sample_log_def file_audit_new_def) metis

text \<open>
  A failed append may leave part of its line behind, and the next record continues that line.
\<close>

lemma torn_line:
  "record_all (\<lambda>r. Inr ''line'') (file_audit_new ''/a'') [sample_record, sample_record]
     (sample_log\<lparr>fs_faults := [None, None, Some (Fault io_is_dir (Some ''ab''))]\<rparr>)
   = ([False, True], sample_log\<lparr>fs_files := [(''/a'', ''oldliline'' @ newline)]\<rparr>)"
  by (simp add: Let_def file_record_def to_json_line_def file_audit_new_def sample_log_def fs_open_append_def fs_append_def
      fs_create_dir_all_def with_fault_def append_some_def partial_append_def is_dir_def is_file_def path_parent_def
      ancestors.simps List.union_def no_trace_def bind_def seq_def ret_def lift_res_def guard_e_def map_err_def)

text \<open>The memory sink keeps exactly the records it acknowledges.\<close>

lemma memory_record_keeps:
  "wp (memory_record J r) (\<lambda>_ t. ms_records t = ms_records s @ [r] \<and> is_ok (J r)) (\<lambda>_ t. t = s) s"
  by (auto simp: memory_record_def to_json_line_def wp_simps split: sum.split)

section \<open>What the other parts guarantee\<close>

text \<open>The probe never fails, and says reachable only after a completed connect.\<close>

lemma proxy_reachable_iff:
  "fst (proxy_reachable H host port e) = Inr (fst (hb_connect H (host @ '':'' @ dec (unat port)) (hb_timeout_ms H) e) = Connected)"
  by (simp add: proxy_reachable_def bind_def run_state_def ret_def split: prod.split connect_outcome.split)

lemma load_config_default:
  "wp (load_config toml p)
     (\<lambda>cfg _. cfg = app_config_default \<or> (\<exists>text. toml text = Inr cfg)) (\<lambda>e _. error_class e = FC_Configuration) f"
  by (auto simp: load_config_def wp_simps fs_wp class_simps split: option.split fault.split sum.split)

end
