(* ===== verification/Secure_Storage.thy ===== *)
theory Secure_Storage
  imports Core_Error "HOL-Library.Word"
begin

text \<open>
  \<^verbatim>\<open>crates/secure-storage/src/lib.rs\<close> with the value types of \<^verbatim>\<open>aegis-core/src/secure.rs\<close>: key
  derivation and sealing.  Argon2id, XChaCha20-Poly1305 and the random source are third-party
  code and arrive as the record \<^verbatim>\<open>crypto\<close>; what the code relies on is \<^verbatim>\<open>lawful_crypto\<close>.  Byte
  strings are lists of characters.
\<close>

section \<open>Values\<close>

datatype secret = Secret (expose: string)

definition secret_len :: "secret \<Rightarrow> nat" where
  "secret_len s = length (expose s)"

definition secret_is_empty :: "secret \<Rightarrow> bool" where
  "secret_is_empty s = (expose s = [])"

definition secret_debug :: "secret \<Rightarrow> string" where
  "secret_debug s = ''Secret(<redacted>)''"

datatype secret_key = SecretKey (key_bytes: string)

definition secret_key_debug :: "secret_key \<Rightarrow> string" where
  "secret_key_debug k = ''SecretKey(<redacted>)''"

record kdf_params =
  kd_m_cost :: "32 word"
  kd_t_cost :: "32 word"
  kd_p_cost :: "32 word"
  kd_salt :: string

definition kdf_interactive :: "string \<Rightarrow> kdf_params" where
  "kdf_interactive salt = \<lparr> kd_m_cost = 65536, kd_t_cost = 3, kd_p_cost = 1, kd_salt = salt \<rparr>"

datatype aead_alg = XChaCha20Poly1305

record sealed_blob =
  sb_alg :: aead_alg
  sb_nonce :: string
  sb_ciphertext :: string
  sb_kdf :: "kdf_params option"

section \<open>The store\<close>

definition key_len :: nat where
  "key_len = 32"

definition nonce_len :: nat where
  "nonce_len = 24"

definition salt_len :: nat where
  "salt_len = 16"

text \<open>
  \<^verbatim>\<open>cy_params\<close> is the check of the cost parameters for an output length, \<^verbatim>\<open>cy_hash\<close> the hash of a
  password and a salt into that many bytes; both may refuse with a message.
\<close>

record 'e crypto =
  cy_fill :: "nat \<Rightarrow> 'e \<Rightarrow> string \<times> 'e"
  cy_params :: "32 word \<Rightarrow> 32 word \<Rightarrow> 32 word \<Rightarrow> nat \<Rightarrow> string option"
  cy_hash :: "kdf_params \<Rightarrow> nat \<Rightarrow> string \<Rightarrow> string + string"
  cy_encrypt :: "string \<Rightarrow> string \<Rightarrow> string \<Rightarrow> string option"
  cy_decrypt :: "string \<Rightarrow> string \<Rightarrow> string \<Rightarrow> string option"

definition random_key :: "'e crypto \<Rightarrow> ('e, error, secret_key) eff" where
  "random_key Y = bind (run_state (cy_fill Y key_len)) (\<lambda>b. ret (SecretKey b))"

definition generate_key :: "'e crypto \<Rightarrow> ('e, error, secret_key) eff" where
  "generate_key Y = random_key Y"

definition generate_ephemeral_key :: "'e crypto \<Rightarrow> ('e, error, secret_key) eff" where
  "generate_ephemeral_key Y = random_key Y"

definition new_kdf_params :: "'e crypto \<Rightarrow> ('e, error, kdf_params) eff" where
  "new_kdf_params Y = bind (run_state (cy_fill Y salt_len)) (\<lambda>s. ret (kdf_interactive s))"

definition derive_key :: "'e crypto \<Rightarrow> secret \<Rightarrow> kdf_params \<Rightarrow> secret_key result" where
  "derive_key Y password ps =
    (case cy_params Y (kd_m_cost ps) (kd_t_cost ps) (kd_p_cost ps) key_len of
       Some e \<Rightarrow> Inl (Crypto (''invalid KDF parameters: '' @ e))
     | None \<Rightarrow> (case cy_hash Y ps key_len (expose password) of
         Inl e \<Rightarrow> Inl (Crypto (''key derivation failed: '' @ e))
       | Inr out \<Rightarrow> Inr (SecretKey out)))"

definition seal :: "'e crypto \<Rightarrow> secret_key \<Rightarrow> string \<Rightarrow> ('e, error, sealed_blob) eff" where
  "seal Y key plaintext =
    bind (run_state (cy_fill Y nonce_len)) (\<lambda>nonce.
    case cy_encrypt Y (key_bytes key) nonce plaintext of
      None \<Rightarrow> throw (Crypto ''sealing failed'')
    | Some c \<Rightarrow> ret \<lparr> sb_alg = XChaCha20Poly1305, sb_nonce = nonce, sb_ciphertext = c, sb_kdf = None \<rparr>)"

definition open_blob :: "'e crypto \<Rightarrow> secret_key \<Rightarrow> sealed_blob \<Rightarrow> string result" where
  "open_blob Y key b =
    (if length (sb_nonce b) \<noteq> nonce_len then Inl (Crypto ''sealed blob has malformed nonce'')
     else case cy_decrypt Y (key_bytes key) (sb_nonce b) (sb_ciphertext b) of
         None \<Rightarrow> Inl (Crypto ''open failed: authentication error'')
       | Some p \<Rightarrow> Inr p)"

definition seal_with_password :: "'e crypto \<Rightarrow> secret \<Rightarrow> kdf_params \<Rightarrow> string \<Rightarrow> ('e, error, sealed_blob) eff" where
  "seal_with_password Y password ps plaintext =
    bind (lift_res (derive_key Y password ps)) (\<lambda>key.
    bind (seal Y key plaintext) (\<lambda>b.
    ret (b\<lparr>sb_kdf := Some ps\<rparr>)))"

definition open_with_password :: "'e crypto \<Rightarrow> secret \<Rightarrow> sealed_blob \<Rightarrow> string result" where
  "open_with_password Y password b = (case sb_kdf b of
      None \<Rightarrow> Inl (Crypto ''sealed blob carries no KDF parameters'')
    | Some ps \<Rightarrow> (case derive_key Y password ps of
        Inl e \<Rightarrow> Inl e
      | Inr key \<Rightarrow> open_blob Y key b))"

section \<open>What the primitives promise\<close>

text \<open>
  The random source fills the buffer it is given, the hash fills its output, decryption undoes
  encryption, and a ciphertext that decrypts was produced by encryption under the same key and
  nonce (integrity of the AEAD, idealised).
\<close>

definition lawful_crypto :: "'e crypto \<Rightarrow> bool" where
  "lawful_crypto Y \<longleftrightarrow>
    (\<forall>n e. length (fst (cy_fill Y n e)) = n) \<and>
    (\<forall>ps n pw out. cy_hash Y ps n pw = Inr out \<longrightarrow> length out = n) \<and>
    (\<forall>k n p c. length k = key_len \<longrightarrow> length n = nonce_len \<longrightarrow> cy_encrypt Y k n p = Some c \<longrightarrow> cy_decrypt Y k n c = Some p) \<and>
    (\<forall>k n p c. cy_decrypt Y k n c = Some p \<longrightarrow> cy_encrypt Y k n p = Some c)"

lemma derive_key_len: "lawful_crypto Y \<Longrightarrow> derive_key Y pw ps = Inr k \<Longrightarrow> length (key_bytes k) = key_len"
  unfolding lawful_crypto_def derive_key_def by (auto simp del: all_simps split: option.splits sum.splits)

lemma wp_fill: "lawful_crypto Y \<Longrightarrow> (\<And>b t. length b = n \<Longrightarrow> Q b t) \<Longrightarrow> wp (run_state (cy_fill Y n)) Q E s"
proof -
  assume l: "lawful_crypto Y" and q: "\<And>b t. length b = n \<Longrightarrow> Q b t"
  have "length (fst (cy_fill Y n s)) = n" using l unfolding lawful_crypto_def by blast
  then show ?thesis using q by (simp add: wp_simps case_prod_unfold)
qed

lemma lawful_decrypt:
  "lawful_crypto Y \<Longrightarrow> length k = key_len \<Longrightarrow> length n = nonce_len \<Longrightarrow> cy_encrypt Y k n p = Some c \<Longrightarrow> cy_decrypt Y k n c = Some p"
  unfolding lawful_crypto_def by blast

lemma lawful_integrity: "lawful_crypto Y \<Longrightarrow> cy_decrypt Y k n c = Some p \<Longrightarrow> cy_encrypt Y k n p = Some c"
  unfolding lawful_crypto_def by blast

lemma wp_seal:
  fixes Y :: "'a crypto"
  assumes "lawful_crypto Y" "length (key_bytes k) = key_len"
  shows "wp (seal Y k p) (\<lambda>b t. length (sb_nonce b) = nonce_len \<and> sb_kdf b = None \<and> open_blob Y k b = Inr p)
    (\<lambda>e t. e = Crypto ''sealing failed'') s"
  unfolding seal_def wp_bind
proof (rule wp_fill [OF assms(1)])
  fix n :: string and t :: 'a assume n: "length n = nonce_len"
  have "cy_decrypt Y (key_bytes k) n c = Some p" if "cy_encrypt Y (key_bytes k) n p = Some c" for c
    using lawful_decrypt [OF assms n that] .
  then show "wp (case cy_encrypt Y (key_bytes k) n p of None \<Rightarrow> throw (Crypto ''sealing failed'')
      | Some c \<Rightarrow> ret \<lparr> sb_alg = XChaCha20Poly1305, sb_nonce = n, sb_ciphertext = c, sb_kdf = None \<rparr>)
      (\<lambda>b t. length (sb_nonce b) = nonce_len \<and> sb_kdf b = None \<and> open_blob Y k b = Inr p) (\<lambda>e t. e = Crypto ''sealing failed'') t"
    using n by (simp add: wp_simps open_blob_def split: option.split)
qed

lemma wp_seal_with_password:
  assumes "lawful_crypto Y"
  shows "wp (seal_with_password Y pw ps p) (\<lambda>b t. sb_kdf b = Some ps \<and> length (sb_nonce b) = nonce_len \<and>
      open_with_password Y pw b = Inr p) (\<lambda>e t. error_class e = FC_Cryptography) s"
proof (cases "derive_key Y pw ps")
  case (Inl e)
  then show ?thesis
    by (auto simp: seal_with_password_def wp_simps derive_key_def class_simps split: option.splits sum.splits)
next
  case (Inr k)
  have o: "open_with_password Y pw (b\<lparr>sb_kdf := Some ps\<rparr>) = open_blob Y k b" for b
    by (simp add: open_with_password_def Inr open_blob_def)
  from wp_seal [OF assms derive_key_len [OF assms Inr], of p s] show ?thesis
    by (simp add: seal_with_password_def wp_simps Inr) (auto elim!: wp_mono simp: o class_simps)
qed

lemma open_class: "open_blob Y k b = Inl e \<Longrightarrow> error_class e = FC_Cryptography"
  by (auto simp: open_blob_def class_simps split: if_splits option.splits)

section \<open>Properties\<close>

text \<open>
  C33: sealing with a password round-trips.  Whatever is sealed under a password opens under the
  same password and from the blob alone, which carries the derivation parameters and a nonce
  of 24 bytes; a failure to seal is a cryptography error.
\<close>

theorem seal_roundtrip:
  assumes "lawful_crypto Y" and "seal_with_password Y pw ps p s = (r, t)"
  shows "(\<exists>b. r = Inr b \<and> sb_kdf b = Some ps \<and> length (sb_nonce b) = 24 \<and> open_with_password Y pw b = Inr p) \<or>
    (\<exists>e. r = Inl e \<and> error_class e = FC_Cryptography)"
  using wp_seal_with_password [OF assms(1), of pw ps p s] assms(2) by (cases r) (auto simp: wp_def nonce_len_def)

text \<open>
  Opening authenticates.  A blob that opens under a password was sealed under the key that
  this password and the blob's parameters derive, with the blob's nonce and exactly the
  returned plaintext; everything else is refused with a cryptography error, and the error of a
  blob with a proper nonce does not tell a wrong password from a tampered ciphertext.
\<close>

lemma open_authentic:
  assumes "lawful_crypto Y"
  shows "case open_with_password Y pw b of
      Inr p \<Rightarrow> (\<exists>ps k. sb_kdf b = Some ps \<and> derive_key Y pw ps = Inr k \<and> length (key_bytes k) = 32 \<and>
         cy_encrypt Y (key_bytes k) (sb_nonce b) p = Some (sb_ciphertext b))
    | Inl e \<Rightarrow> error_class e = FC_Cryptography \<and>
        (\<forall>ps k. sb_kdf b = Some ps \<and> derive_key Y pw ps = Inr k \<and> length (sb_nonce b) = 24 \<longrightarrow>
           e = Crypto ''open failed: authentication error'')"
proof (cases "sb_kdf b")
  case None
  then show ?thesis by (simp add: open_with_password_def class_simps)
next
  case (Some ps)
  show ?thesis
  proof (cases "derive_key Y pw ps")
    case (Inl e)
    then have "error_class e = FC_Cryptography"
      by (auto simp: derive_key_def class_simps split: option.splits sum.splits)
    with Some Inl show ?thesis by (simp add: open_with_password_def)
  next
    case (Inr k)
    have l: "length (key_bytes k) = 32" using derive_key_len [OF assms Inr] by (simp add: key_len_def)
    show ?thesis
    proof (cases "open_blob Y k b")
      case (Inl e)
      then show ?thesis using open_class [OF Inl] Some Inr
        by (auto simp: open_with_password_def open_blob_def nonce_len_def split: if_splits option.splits)
    next
      case (Inr p)
      then have "cy_decrypt Y (key_bytes k) (sb_nonce b) (sb_ciphertext b) = Some p"
        by (auto simp: open_blob_def split: if_splits option.splits)
      from lawful_integrity [OF assms this] show ?thesis using Some Inr \<open>derive_key Y pw ps = Inr k\<close> l
        by (simp add: open_with_password_def)
    qed
  qed
qed

text \<open>A transparent instance: the tag is the key and the nonce in front of the plaintext.\<close>

definition tag_crypto :: "nat crypto" where
  "tag_crypto = \<lparr> cy_fill = (\<lambda>n e. (replicate n CHR ''x'', e + 1)), cy_params = (\<lambda>m t p n. None),
     cy_hash = (\<lambda>ps n pw. Inr (take n (pw @ replicate n CHR ''k''))),
     cy_encrypt = (\<lambda>k n p. Some (k @ n @ p)),
     cy_decrypt = (\<lambda>k n c. if take (length (k @ n)) c = k @ n then Some (drop (length (k @ n)) c) else None) \<rparr>"

lemma tag_crypto_lawful: "lawful_crypto tag_crypto"
  by (auto simp: lawful_crypto_def tag_crypto_def) (metis append.assoc append_take_drop_id length_append)

lemma seal_roundtrip_witness:
  "\<exists>b. fst (seal_with_password tag_crypto (Secret ''pw'') (kdf_interactive ''salt'') ''hello'' 0) = Inr b \<and>
     open_with_password tag_crypto (Secret ''pw'') b = Inr ''hello''"
proof -
  obtain r t where e: "seal_with_password tag_crypto (Secret ''pw'') (kdf_interactive ''salt'') ''hello'' 0 = (r, t)" by fastforce
  have "\<exists>b. r = Inr b"
    using e by (auto simp: seal_with_password_def derive_key_def seal_def tag_crypto_def bind_def lift_res_def run_state_def ret_def)
  then show ?thesis using seal_roundtrip [OF tag_crypto_lawful e] e by auto
qed

lemma open_authentic_witness:
  "open_with_password tag_crypto (Secret ''pw'')
     \<lparr> sb_alg = XChaCha20Poly1305, sb_nonce = replicate 24 CHR ''n'', sb_ciphertext = ''forged'', sb_kdf = Some (kdf_interactive ''salt'') \<rparr>
     = Inl (Crypto ''open failed: authentication error'')"
proof -
  let ?b = "\<lparr> sb_alg = XChaCha20Poly1305, sb_nonce = replicate 24 CHR ''n'', sb_ciphertext = ''forged'', sb_kdf = Some (kdf_interactive ''salt'') \<rparr>"
  have d: "\<exists>k. derive_key tag_crypto (Secret ''pw'') (kdf_interactive ''salt'') = Inr k"
    by (simp add: derive_key_def tag_crypto_def)
  have "\<not> is_ok (open_with_password tag_crypto (Secret ''pw'') ?b)"
    by (simp add: open_with_password_def derive_key_def open_blob_def tag_crypto_def nonce_len_def key_len_def eval_nat_numeral)
  then obtain e where e: "open_with_password tag_crypto (Secret ''pw'') ?b = Inl e" by (cases "open_with_password tag_crypto (Secret ''pw'') ?b") auto
  from open_authentic [where b = ?b and pw = "Secret ''pw''", OF tag_crypto_lawful] d show ?thesis unfolding e by auto
qed

end
