(* ===== verification/Orchestrator_World.thy ===== *)
theory Orchestrator_World
  imports Daemon
begin

text \<open>
  The contract between the orchestrator and the components behind its capabilities.  A client
  of the daemon picks a relation between the call trace and the world, shows that every
  capability maintains it, and gets it for every routine of the orchestrator, every request
  of the handler and every run of the daemon.
\<close>

section \<open>Relations between the trace and the world\<close>

type_synonym 'w world_rel = "cap_call list \<Rightarrow> 'w \<Rightarrow> bool"

definition maintains :: "'w world_rel \<Rightarrow> ('w orch, 'e, 'a) eff \<Rightarrow> bool" where
  "maintains I m \<longleftrightarrow> (\<forall>s. I (or_calls s) (or_world s) \<longrightarrow> I (or_calls (snd (m s))) (or_world (snd (m s))))"

text \<open>A capability call that is recorded, and an operation on the world that is not.\<close>

definition steady :: "'w world_rel \<Rightarrow> ('e + 'a \<Rightarrow> cap_call) \<Rightarrow> ('w, 'e, 'a) eff \<Rightarrow> bool" where
  "steady I c m \<longleftrightarrow> (\<forall>cs w. I cs w \<longrightarrow> I (cs @ [c (fst (m w))]) (snd (m w)))"

definition silent :: "'w world_rel \<Rightarrow> ('w \<Rightarrow> 'a \<times> 'w) \<Rightarrow> bool" where
  "silent I m \<longleftrightarrow> (\<forall>cs w. I cs w \<longrightarrow> I cs (snd (m w)))"

named_theorems maint_intros \<open>routines that maintain a relation between trace and world\<close>

lemma maint_quiet: "(\<And>s. or_calls (snd (m s)) = or_calls s \<and> or_world (snd (m s)) = or_world s) \<Longrightarrow> maintains I m"
  by (simp add: maintains_def)

lemma maint_ret [maint_intros]: "maintains I (ret x)"
  by (rule maint_quiet) (simp add: ret_def)

lemma maint_throw [maint_intros]: "maintains I (throw e)"
  by (rule maint_quiet) (simp add: throw_def)

lemma maint_lift_res [maint_intros]: "maintains I (lift_res r)"
  by (rule maint_quiet) (simp add: lift_res_def)

lemma maint_gets [maint_intros]: "maintains I (gets f)"
  by (rule maint_quiet) (simp add: gets_def)

lemma maint_guard [maint_intros]: "maintains I (guard_e b e)"
  by (simp add: guard_e_def maint_ret maint_throw)

lemma maint_lock [maint_intros]: "maintains I lock_sessions"
  by (rule maint_quiet) (simp add: lock_sessions_def)

lemma maint_put [maint_intros]: "maintains I (put_entry i en)"
  by (rule maint_quiet) (simp add: put_entry_def modify_def)

lemma maint_set_enforcement [maint_intros]: "maintains I (set_enforcement e)"
  by (rule maint_quiet) (simp add: set_enforcement_def)

lemma maint_bind [maint_intros]:
  fixes m :: "('w orch, 'e, 'b) eff"
  assumes "maintains I m" "\<And>x. maintains I (f x)"
  shows "maintains I (bind m f)"
  unfolding maintains_def
proof (intro allI impI)
  fix s :: "'w orch" assume i: "I (or_calls s) (or_world s)"
  obtain r t where m: "m s = (r, t)" by fastforce
  then have "I (or_calls t) (or_world t)" using assms(1) i unfolding maintains_def by (metis snd_conv)
  then show "I (or_calls (snd (bind m f s))) (or_world (snd (bind m f s)))"
    using assms(2) m by (cases r) (auto simp: bind_def maintains_def)
qed

lemma maint_seq [maint_intros]: "maintains I m \<Longrightarrow> maintains I n \<Longrightarrow> maintains I (seq m n)"
  by (simp add: seq_def maint_bind)

lemma maint_attempt [maint_intros]: "maintains I m \<Longrightarrow> maintains I (attempt m)"
  unfolding maintains_def attempt_def by (metis (no_types, lifting) case_prod_conv snd_conv surj_pair)

lemma maint_ignore [maint_intros]: "maintains I m \<Longrightarrow> maintains I (ignore m)"
  by (simp add: ignore_def maint_seq maint_attempt maint_ret)

lemma maint_call [maint_intros]: "steady I c m \<Longrightarrow> maintains I (call c m)"
  by (auto simp: maintains_def steady_def call_def split: prod.splits) (metis fst_conv snd_conv)

lemma maint_zoom: "silent I m \<Longrightarrow> maintains I (zoom or_world or_world_update m)"
  by (auto simp: maintains_def silent_def zoom_def split: prod.splits) (metis snd_conv)

lemma maint_in_world [maint_intros]: "silent I m \<Longrightarrow> maintains I (in_world m)"
  by (simp add: in_world_def maint_zoom)

lemma silent_run_state: "silent I f \<Longrightarrow> silent I (run_state f)"
  by (auto simp: silent_def run_state_def split: prod.splits) (metis snd_conv)

lemma maint_mapM [maint_intros]: "(\<And>x. maintains I (f x)) \<Longrightarrow> maintains I (mapM_e f xs)"
  by (induction xs) (simp_all add: maint_ret maint_bind)

lemma maint_option [maint_intros]:
  "maintains I m \<Longrightarrow> (\<And>x. maintains I (g x)) \<Longrightarrow> maintains I (case r of None \<Rightarrow> m | Some x \<Rightarrow> g x)"
  by (cases r) simp_all

lemma maint_sum [maint_intros]:
  "(\<And>x. maintains I (f x)) \<Longrightarrow> (\<And>x. maintains I (g x)) \<Longrightarrow> maintains I (case r of Inl x \<Rightarrow> f x | Inr x \<Rightarrow> g x)"
  by (cases r) simp_all

lemma maint_if [maint_intros]: "maintains I m \<Longrightarrow> maintains I n \<Longrightarrow> maintains I (if b then m else n)"
  by simp

lemma maint_run: "maintains I m \<Longrightarrow> I (or_calls s) (or_world s) \<Longrightarrow> m s = (r, t) \<Longrightarrow> I (or_calls t) (or_world t)"
  unfolding maintains_def by (metis snd_conv)

section \<open>The contract\<close>

definition host_backend :: "'w caps \<Rightarrow> 'w backend_ops \<Rightarrow> bool" where
  "host_backend C B \<longleftrightarrow> cap_host_browser C = Some B \<or> cap_host_firefox C = Some B"

lemma host_backend_for_some: "host_backend_for C engine = Inr B \<Longrightarrow> host_backend C B"
  by (auto simp: host_backend_for_def host_backend_def split: browser_backend.splits option.splits)

locale world_contract =
  fixes C :: "'w caps" and I :: "'w world_rel"
  assumes provision: "steady I (\<lambda>r. C_provision role (map_option vh_id (ok_of r))) (cap_provision C req)"
    and vm_start: "steady I (\<lambda>r. C_vm_start v (is_ok r)) (cap_vm_start C v)"
    and vm_shutdown: "steady I (\<lambda>_. C_vm_shutdown v) (cap_vm_shutdown C v mode)"
    and vm_destroy: "steady I (\<lambda>r. C_vm_destroy v (is_ok r)) (cap_vm_destroy C v)"
    and configure: "steady I (\<lambda>r. C_configure (is_ok r)) (cap_configure C gc)"
    and firewall: "steady I (\<lambda>r. C_apply_firewall fw (is_ok r)) (cap_apply_firewall C fw)"
    and engage: "steady I (\<lambda>r. C_engage (is_ok r)) (cap_engage C)"
    and health: "silent I (cap_health C)"
    and preflight: "steady I (\<lambda>r. C_preflight (ok_of r)) (cap_preflight C ctx)"
    and launch_vm: "steady I (\<lambda>r. C_launch FullVm (ok_of r)) (bb_launch (cap_browser C) rq b)"
    and launch_host: "host_backend C B \<Longrightarrow> steady I (\<lambda>r. C_launch HostProcess (ok_of r)) (bb_launch B rq b)"
    and poll: "B = cap_browser C \<or> host_backend C B \<Longrightarrow> steady I (\<lambda>_. C_is_running) (bb_is_running B h)"
    and terminate: "B = cap_browser C \<or> host_backend C B \<Longrightarrow> steady I (\<lambda>_. C_terminate h) (bb_terminate B h)"
    and proxy: "steady I (\<lambda>r. C_proxy_reachable (r = Inr True)) (cap_proxy_reachable C host port)"
    and get_profile: "steady I (\<lambda>r. C_get_profile p (is_ok r)) (cap_get_profile C p)"
    and get_profile_silent: "silent I (cap_get_profile C p)"
    and acquire: "steady I (\<lambda>r. C_acquire p (ok_of r)) (cap_acquire_lock C p)"
    and release: "steady I (\<lambda>r. C_release l (is_ok r)) (cap_release_lock C l)"
    and touch: "steady I (\<lambda>_. C_touch_launch) (cap_touch_launch C p t)"
    and key: "steady I (\<lambda>r. C_generate_key (is_ok r)) (cap_generate_key C)"
    and auditing: "steady I (\<lambda>_. C_audit r) (cap_audit C r)"
    and clock: "silent I (cap_now C)"
    and uuids: "silent I (cap_new_uuid C)"
    and remove_dir: "steady I (\<lambda>_. C_remove_dir d) (cap_remove_dir_all C d)"
begin

lemmas caps_steady = provision vm_start vm_shutdown vm_destroy configure firewall engage preflight
  launch_vm launch_host proxy get_profile acquire release touch key auditing remove_dir

lemma maint_now: "maintains I (now C)"
  by (simp add: now_def maint_zoom silent_run_state clock)

lemma maint_new_uuid: "maintains I (new_uuid C)"
  by (simp add: new_uuid_def maint_zoom silent_run_state uuids)

lemma maint_audit: "maintains I (audit C r)"
  unfolding audit_def by (intro maint_intros auditing)

lemma maint_audits: "maintains I (audit_state C i p st)" "maintains I (audit_event C i p sev ev)"
  unfolding audit_state_def audit_event_def by (intro maint_intros maint_now maint_audit)+

lemma maint_transition: "maintains I (transition C i st)"
  unfolding transition_def by (intro maint_intros maint_audits)

lemma maint_update: "maintains I (update_entry i g)" "maintains I (set_entry i g)"
  unfolding update_entry_def set_entry_def by (intro maint_intros)+

lemmas maint_small = maint_now maint_new_uuid maint_audit maint_audits maint_transition maint_update

lemma maint_provision_vm: "maintains I (provision_vm C cfg i role)"
  unfolding provision_vm_def provision_request_def set_vm_def by (intro maint_intros maint_small caps_steady)

lemma maint_run_launch_vm: "maintains I (run_launch FullVm msg (cap_browser C) i rq)"
  unfolding run_launch_def set_browser_handle_def by (intro maint_intros maint_small launch_vm poll disjI1 refl)

lemma maint_run_launch_host: "host_backend C B \<Longrightarrow> maintains I (run_launch HostProcess msg B i rq)"
  unfolding run_launch_def set_browser_handle_def by (intro maint_intros maint_small launch_host poll disjI2)

lemma maint_touch: "maintains I (touch C p)"
  unfolding touch_def by (intro maint_intros maint_small touch)

lemma maint_final_summary: "maintains I (final_summary msg i)"
  unfolding final_summary_def by (intro maint_intros)

lemma maint_drive_start: "maintains I (drive_start C cfg i p)"
  unfolding drive_start_def Let_def audit_checks_def record_checklist_def
  by (intro maint_intros maint_small maint_provision_vm maint_run_launch_vm maint_touch maint_final_summary caps_steady)

lemma maint_host_proxy: "maintains I (host_proxy_endpoint C nm)"
  by (cases nm) (simp_all add: host_proxy_endpoint_def Let_def maint_intros)

lemma maint_bind_res: "(\<And>x. r = Inr x \<Longrightarrow> maintains I (f x)) \<Longrightarrow> maintains I (bind (lift_res r) f)"
  by (cases r) (auto simp: maintains_def bind_def lift_res_def)

lemma maint_drive_start_host: "maintains I (drive_start_host C cfg i p)"
  unfolding drive_start_host_def Let_def
  by (rule maint_bind_res)
     (intro maint_intros maint_small maint_host_proxy maint_run_launch_host maint_touch maint_final_summary proxy,
       erule host_backend_for_some)

lemma maint_teardown_browser: "maintains I (teardown_browser C mode h)"
  unfolding teardown_browser_def backend_of_def
  by (auto intro!: maint_intros terminate split: option.split session_mode.split sum.split dest: host_backend_for_some)

lemma maint_teardown_dir: "maintains I (teardown_dir C mode)"
  unfolding teardown_dir_def by (auto intro!: maint_intros remove_dir split: session_mode.split bool.split)

lemma maint_teardown: "maintains I (teardown C i mf)"
  unfolding teardown_def teardown_vm_def teardown_final_def Let_def
  by (intro maint_intros maint_small maint_teardown_browser maint_teardown_dir vm_shutdown vm_destroy release)

lemma maint_fail_closed: "maintains I (fail_closed C x e)"
  unfolding fail_closed_def Let_def by (intro maint_intros maint_small engage)

lemma maint_drive: "maintains I (drive C cfg hm i p)"
  unfolding drive_def by (intro maint_intros maint_drive_start maint_drive_start_host maint_fail_closed maint_teardown)

lemma maint_start: "maintains I (start_session C cfg pid)"
  unfolding start_session_def make_key_def register_def Let_def
  by (intro maint_intros maint_small maint_drive get_profile acquire key release)

lemma maint_stop: "maintains I (stop_session C i)"
  unfolding stop_session_def by (intro maint_intros maint_small maint_teardown)

lemma maint_poll:
  "maintains I (bind (lift_res (backend_of C mode)) (\<lambda>B. bind (call (\<lambda>_. C_is_running) (bb_is_running B h)) (\<lambda>b. ret (Some b))))"
  by (rule maint_bind_res)
     (auto simp: backend_of_def intro!: maint_intros poll split: session_mode.splits dest: host_backend_for_some)

lemma maint_liveness: "maintains I (browser_liveness C i)"
  unfolding browser_liveness_def
  by (rule maint_bind, rule maint_lock, rule maint_option, rule maint_throw, rule maint_option, rule maint_ret, rule maint_poll)

lemma maint_health: "maintains I (gateway_health C)"
  unfolding gateway_health_def by (rule maint_zoom) (rule health)

lemma maint_exec: "I (or_calls s) (or_world s) \<Longrightarrow> I (or_calls (orch_exec C cfg op s)) (or_world (orch_exec C cfg op s))"
  using maint_start maint_stop maint_liveness maint_set_enforcement [of I] by (cases op) (auto simp: maintains_def)

end

text \<open>With the services the handler reaches beside the orchestrator.\<close>

locale service_contract = world_contract "sv_caps S" I for S :: "'w services" and I +
  assumes sv_list: "silent I (sv_list S)"
    and sv_create: "silent I (sv_create S spec)"
    and sv_update: "silent I (sv_update S p patch)"
    and sv_delete: "silent I (sv_delete S p)"
    and sv_check: "silent I (sv_check_update S info)"
    and sv_verify: "silent I (sv_verify S m info)"
    and sv_apply: "silent I (sv_apply S v)"
begin

lemma maint_diagnostics: "maintains I (get_diagnostics S i)"
  unfolding get_diagnostics_def Let_def
  by (intro maint_intros get_profile_silent maint_health maint_liveness)

lemma maint_dispatch: "maintains I (dispatch S q)"
  by (cases q)
     (simp_all add: dispatch_def Let_def maint_intros maint_diagnostics maint_start maint_stop
        sv_list sv_create sv_update sv_delete sv_check sv_verify sv_apply)

lemma maint_handle: "I (or_calls s) (or_world s) \<Longrightarrow> I (or_calls (snd (handle S q s))) (or_world (snd (handle S q s)))"
  using maint_dispatch [of q] by (auto simp: maintains_def handle_def split: prod.splits)

lemma maint_daemon:
  assumes "I (or_calls s) (or_world s)" and "daemon_run S admit decode encode q s = (e, cs, t)"
  shows "I (or_calls t) (or_world t)"
  using assms(2) unfolding daemon_run_def
  by (rule serve_inv [where I = "\<lambda>s. I (or_calls s) (or_world s)", rotated 2])
     (auto intro: assms(1) serve_connection_inv [where I = "\<lambda>s. I (or_calls s) (or_world s)"] maint_handle)

end

end
