(* ===== verification/Wiring.thy ===== *)
theory Wiring
  imports Daemon_Host Secure_Storage Update_Client Launcher_Run Orchestrator_World
begin

text \<open>
  \<^verbatim>\<open>crates/aegis-daemon/src/main.rs\<close>: the production daemon.  \<^verbatim>\<open>build_capabilities\<close> puts the real
  components behind the orchestrator's capabilities, \<^verbatim>\<open>daemon_main\<close> loads the configuration,
  builds the daemon and serves the Unix socket or, on other platforms, the development port.

  The components share one host: one file system, one environment.  Each sees the part of the
  host it works on, and what it leaves there is put back.
\<close>

section \<open>The host\<close>

record ('e, 'c) host =
  hw_fs :: fs
  hw_env :: 'e
  hw_vms :: "(vm_id \<times> vm_entry) list"
  hw_vm_cmds :: "vm_command list"
  hw_gw :: "(fs \<times> 'e) gw_state"
  hw_chromium :: "('e, 'c) host_state"
  hw_firefox :: "('e, 'c) host_state"

text \<open>Run a component on its view of the host.\<close>

definition within :: "('w \<Rightarrow> 's) \<Rightarrow> ('s \<Rightarrow> 'w \<Rightarrow> 'w) \<Rightarrow> ('s, 'e, 'a) eff \<Rightarrow> ('w, 'e, 'a) eff" where
  "within view put m = (\<lambda>w. case m (view w) of (r, s) \<Rightarrow> (r, put s w))"

definition on_fs :: "(fs, 'x, 'a) eff \<Rightarrow> (('e, 'c) host, 'x, 'a) eff" where
  "on_fs m = within hw_fs (\<lambda>f. hw_fs_update (\<lambda>_. f)) m"

definition on_env :: "('e, 'x, 'a) eff \<Rightarrow> (('e, 'c) host, 'x, 'a) eff" where
  "on_env m = within hw_env (\<lambda>e. hw_env_update (\<lambda>_. e)) m"

definition on_vms :: "('e vm_world, 'x, 'a) eff \<Rightarrow> (('e, 'c) host, 'x, 'a) eff" where
  "on_vms m = within (\<lambda>w. \<lparr> vw_entries = hw_vms w, vw_fs = hw_fs w, vw_env = hw_env w, vw_cmds = hw_vm_cmds w \<rparr>)
     (\<lambda>v w. w\<lparr>hw_fs := vw_fs v, hw_env := vw_env v, hw_vms := vw_entries v, hw_vm_cmds := vw_cmds v\<rparr>) m"

definition on_gateway :: "((fs \<times> 'e) gw_state, 'x, 'a) eff \<Rightarrow> (('e, 'c) host, 'x, 'a) eff" where
  "on_gateway m = within (\<lambda>w. (hw_gw w)\<lparr>gw_env := (hw_fs w, hw_env w)\<rparr>)
     (\<lambda>g w. w\<lparr>hw_gw := g, hw_fs := fst (gw_env g), hw_env := snd (gw_env g)\<rparr>) m"

definition on_store :: "('e store_world, 'x, 'a) eff \<Rightarrow> (('e, 'c) host, 'x, 'a) eff" where
  "on_store m = within (\<lambda>w. \<lparr> sw_fs = hw_fs w, sw_env = hw_env w \<rparr>)
     (\<lambda>s w. w\<lparr>hw_fs := sw_fs s, hw_env := sw_env s\<rparr>) m"

definition on_updates :: "('e uc_world, 'x, 'a) eff \<Rightarrow> (('e, 'c) host, 'x, 'a) eff" where
  "on_updates m = within (\<lambda>w. \<lparr> uc_fs = hw_fs w, uc_env = hw_env w, uc_backups = [] \<rparr>)
     (\<lambda>u w. w\<lparr>hw_fs := uc_fs u, hw_env := uc_env u\<rparr>) m"

definition on_guest :: "(unit backend_world, 'x, 'a) eff \<Rightarrow> (('e, 'c) host, 'x, 'a) eff" where
  "on_guest m = within (\<lambda>w. \<lparr> bw_fs = hw_fs w, bw_runner = () \<rparr>) (\<lambda>b w. w\<lparr>hw_fs := bw_fs b\<rparr>) m"

definition on_chromium :: "(('e, 'c) host_state backend_world, 'x, 'a) eff \<Rightarrow> (('e, 'c) host, 'x, 'a) eff" where
  "on_chromium m = within (\<lambda>w. \<lparr> bw_fs = hw_fs w, bw_runner = (hw_chromium w)\<lparr>hs_os := hw_env w\<rparr> \<rparr>)
     (\<lambda>b w. w\<lparr>hw_fs := bw_fs b, hw_env := hs_os (bw_runner b), hw_chromium := bw_runner b\<rparr>) m"

definition on_firefox :: "(('e, 'c) host_state backend_world, 'x, 'a) eff \<Rightarrow> (('e, 'c) host, 'x, 'a) eff" where
  "on_firefox m = within (\<lambda>w. \<lparr> bw_fs = hw_fs w, bw_runner = (hw_firefox w)\<lparr>hs_os := hw_env w\<rparr> \<rparr>)
     (\<lambda>b w. w\<lparr>hw_fs := bw_fs b, hw_env := hs_os (bw_runner b), hw_firefox := bw_runner b\<rparr>) m"

definition hosted :: "(('s, error, browser_handle) eff \<Rightarrow> ('w, error, browser_handle) eff) \<Rightarrow>
    (('s, error, bool) eff \<Rightarrow> ('w, error, bool) eff) \<Rightarrow> (('s, error, unit) eff \<Rightarrow> ('w, error, unit) eff) \<Rightarrow>
    's backend_ops \<Rightarrow> 'w backend_ops" where
  "hosted lift1 lift2 lift3 B = \<lparr> bb_render = bb_render B, bb_launch = (\<lambda>r b. lift1 (bb_launch B r b)),
     bb_is_running = (\<lambda>h. lift2 (bb_is_running B h)), bb_terminate = (\<lambda>h. lift3 (bb_terminate B h)) \<rparr>"

section \<open>The platform\<close>

text \<open>Everything the daemon is linked against and the operating system gives.\<close>

record ('e, 'c, 'k, 'p) platform =
  pf_linux :: bool
  pf_version :: string
  pf_os_name :: string
  pf_getenv :: "string \<Rightarrow> string option"
  pf_toml :: "string \<Rightarrow> string + app_config"
  pf_tools :: "(fs \<times> 'e, 'p) tool_os"
  pf_vm :: "'e vm_params"
  pf_store :: "'e store_params"
  pf_processes :: "('e, 'c) process_os"
  pf_connect :: "string \<Rightarrow> nat \<Rightarrow> 'e \<Rightarrow> connect_outcome \<times> 'e"
  pf_crypto :: "'e crypto"
  pf_update :: "('e, 'k) update_params"
  pf_audit_json :: "audit_record \<Rightarrow> string + string"
  pf_now :: "'e \<Rightarrow> timestamp \<times> 'e"
  pf_new_uuid :: "'e \<Rightarrow> uuid \<times> 'e"
  pf_bind :: "path \<Rightarrow> (fs, io_error, unit) eff"
  pf_utf8 :: "string \<Rightarrow> bool"
  pf_tcp_bind :: "16 word \<Rightarrow> io_error + string"
  pf_local_addr :: "string \<Rightarrow> io_error + string"

section \<open>Building the capabilities\<close>

text \<open>The browsers found at wiring time.\<close>

definition found_chromium :: "('e, 'c, 'k, 'p) platform \<Rightarrow> fs \<Rightarrow> path option" where
  "found_chromium F f = ok_of (resolve_browser_binary None (system_env (pf_getenv F) (is_file f)))"

definition found_firefox :: "('e, 'c, 'k, 'p) platform \<Rightarrow> fs \<Rightarrow> path option" where
  "found_firefox F f = ok_of (resolve_firefox_binary None (system_env (pf_getenv F) (is_file f)))"

text \<open>
  The state the components start in.  A browser that was not found has no runner; the field is
  then never reached.
\<close>

definition host_new :: "('e, 'c, 'k, 'p) platform \<Rightarrow> fs \<Rightarrow> 'e \<Rightarrow> ('e, 'c) host" where
  "host_new F f e = \<lparr>
     hw_fs = f, hw_env = e, hw_vms = [], hw_vm_cmds = [], hw_gw = gw_new (f, e),
     hw_chromium = with_binary (case found_chromium F f of Some b \<Rightarrow> b | None \<Rightarrow> []) e,
     hw_firefox = with_binary (case found_firefox F f of Some b \<Rightarrow> b | None \<Rightarrow> []) e \<rparr>"

definition the_vm :: "('e, 'c, 'k, 'p) platform \<Rightarrow> 'e vm_params" where
  "the_vm F = (pf_vm F)\<lparr>vp_run := vm_system_runner (pf_linux F) (pf_tools F)\<rparr>"

definition the_gw :: "('e, 'c, 'k, 'p) platform \<Rightarrow> (fs \<times> 'e) runner" where
  "the_gw F = gw_system_runner (pf_linux F) (pf_tools F)"

definition the_store :: "('e, 'c, 'k, 'p) platform \<Rightarrow> app_config \<Rightarrow> 'e store_params" where
  "the_store F cfg = (pf_store F)\<lparr>st_root := profiles_dir (cfg_paths cfg), st_passes := 1\<rparr>"

abbreviation guest_backend :: "('e, 'c) host backend_ops" where
  "guest_backend \<equiv> hosted on_guest on_guest on_guest (chromium_ops guest_runner ''chromium'' ''vm-browser'')"

definition chromium_backend :: "('e, 'c, 'k, 'p) platform \<Rightarrow> ('e, 'c) host backend_ops" where
  "chromium_backend F = hosted on_chromium on_chromium on_chromium (chromium_ops (host_runner (pf_processes F)) ''chromium'' ''host'')"

definition firefox_backend :: "('e, 'c, 'k, 'p) platform \<Rightarrow> ('e, 'c) host backend_ops" where
  "firefox_backend F = hosted on_firefox on_firefox on_firefox (firefox_ops (host_runner (pf_processes F)) ''firefox'' ''host'')"

definition build_capabilities :: "('e, 'c, 'k, 'p) platform \<Rightarrow> app_config \<Rightarrow> fs \<Rightarrow> ('e, 'c) host caps" where
  "build_capabilities F cfg f = (let V = the_vm F; N = the_gw F; P = the_store F cfg in \<lparr>
     cap_provision = (\<lambda>r. on_vms (provision V r)),
     cap_vm_start = (\<lambda>v. on_vms (vm_start V v)),
     cap_vm_shutdown = (\<lambda>v m. on_vms (vm_shutdown V v m)),
     cap_vm_destroy = (\<lambda>v. on_vms (vm_destroy V v)),
     cap_configure = (\<lambda>c. on_gateway (Gateway_Controller.configure N c)),
     cap_apply_firewall = (\<lambda>p. on_gateway (Gateway_Controller.apply_firewall N p)),
     cap_engage = on_gateway (engage_killswitch N),
     cap_health = on_gateway (Gateway_Controller.health N),
     cap_preflight = run_preflight (system_probe (pf_linux F)),
     cap_browser = guest_backend,
     cap_host_browser = map_option (\<lambda>_. chromium_backend F) (found_chromium F f),
     cap_host_browser_path = found_chromium F f,
     cap_host_firefox = map_option (\<lambda>_. firefox_backend F) (found_firefox F f),
     cap_proxy_reachable = (\<lambda>h p. on_env (proxy_reachable (tcp_probe_default (pf_connect F)) h p)),
     cap_get_profile = (\<lambda>i. on_store (store_get P i)),
     cap_acquire_lock = (\<lambda>i. on_store (Profile_Store.acquire_lock P i)),
     cap_release_lock = (\<lambda>l. on_store (Profile_Store.release_lock P l)),
     cap_touch_launch = (\<lambda>i t. on_store (Profile_Store.touch_launch P i t)),
     cap_generate_key = on_env (bind (generate_key (pf_crypto F)) (\<lambda>k. ret (key_bytes k))),
     cap_audit = (\<lambda>r. on_fs (file_record (pf_audit_json F) (file_audit_new (audit_log (cfg_paths cfg))) r)),
     cap_now = (\<lambda>w. case pf_now F (hw_env w) of (t, e) \<Rightarrow> (t, w\<lparr>hw_env := e\<rparr>)),
     cap_new_uuid = (\<lambda>w. case pf_new_uuid F (hw_env w) of (u, e) \<Rightarrow> (u, w\<lparr>hw_env := e\<rparr>)),
     cap_host_proxy_var = (\<lambda>_. pf_getenv F ''AEGIS_HOST_PROXY''),
     cap_remove_dir_all = (\<lambda>p. on_fs (fs_remove_dir_all p)) \<rparr>)"

text \<open>The update client over the image directory, or the disabled one.\<close>

definition the_updates :: "('e, 'c, 'k, 'p) platform \<Rightarrow> app_config \<Rightarrow> ('e, 'k) update_params" where
  "the_updates F cfg = (pf_update F)\<lparr>up_fetch := file_fetch (images_dir (cfg_paths cfg))\<rparr>"

definition build_update_client :: "('e, 'c, 'k, 'p) platform \<Rightarrow> app_config \<Rightarrow> 'k update_client option" where
  "build_update_client F cfg = (case cfg_update_verify_key cfg of
      None \<Rightarrow> None
    | Some key \<Rightarrow> ok_of (update_client_new (the_updates F cfg) ''manifest.json'' key))"

definition build_services :: "('e, 'c, 'k, 'p) platform \<Rightarrow> app_config \<Rightarrow> fs \<Rightarrow> ('e, 'c) host services" where
  "build_services F cfg f = (let P = the_store F cfg; U = the_updates F cfg in \<lparr>
     sv_caps = build_capabilities F cfg f,
     sv_config = cfg,
     sv_version = pf_version F,
     sv_platform = pf_os_name F,
     sv_list = on_store (store_list P),
     sv_create = (\<lambda>s. on_store (store_create P s)),
     sv_update = (\<lambda>i p. on_store (store_update P i p)),
     sv_delete = (\<lambda>i. on_store (store_delete P i)),
     sv_check_update = (case build_update_client F cfg of
         Some c \<Rightarrow> (\<lambda>info. on_updates (check_for_update U c info)) | None \<Rightarrow> disabled_check),
     sv_verify = (case build_update_client F cfg of
         Some c \<Rightarrow> (\<lambda>m info. on_updates (verify U c m info)) | None \<Rightarrow> disabled_verify),
     sv_apply = (case build_update_client F cfg of
         Some c \<Rightarrow> (\<lambda>v. on_updates (apply_update U c v)) | None \<Rightarrow> disabled_apply) \<rparr>)"

section \<open>The servers\<close>

text \<open>The errors of \<^verbatim>\<open>main\<close> are those of \<^verbatim>\<open>anyhow\<close>: a message, or an error with its context.\<close>

datatype any_error = AnyMessage string | AnyContext string error

definition with_context :: "string \<Rightarrow> ('s, error, 'a) eff \<Rightarrow> ('s, any_error, 'a) eff" where
  "with_context what m = map_err (AnyContext what) m"

record daemon_cli =
  dc_config :: "path option"
  dc_dev_port :: "16 word"
  dc_dev_token :: "path option"

text \<open>The development listener, over what binding a loopback port yields.\<close>

definition tcp_dev_bind :: "('e, 'c, 'k, 'p) platform \<Rightarrow> 16 word \<Rightarrow> string result" where
  "tcp_dev_bind F port = (case pf_tcp_bind F port of
      Inl e \<Rightarrow> Inl (System (''bind loopback tcp: '' @ io_text e)) | Inr l \<Rightarrow> Inr l)"

definition tcp_local_addr :: "('e, 'c, 'k, 'p) platform \<Rightarrow> string \<Rightarrow> string result" where
  "tcp_local_addr F l = (case pf_local_addr F l of
      Inl e \<Rightarrow> Inl (System (''local_addr: '' @ io_text e)) | Inr a \<Rightarrow> Inr a)"

text \<open>
  \<^verbatim>\<open>serve\<close> until its listener fails; a shutdown signal ends the server without an error, which is
  the end of the arrivals here.
\<close>

definition serving :: "('s \<Rightarrow> error option \<times> stream list \<times> 's) \<Rightarrow> ('s, any_error, unit) eff" where
  "serving run = (\<lambda>s. case run s of
      (None, _, t) \<Rightarrow> (Inr (), t)
    | (Some e, _, t) \<Rightarrow> (Inl (AnyContext ''ipc serve loop failed'' e), t))"

definition run_server_unix ::
  "('e, 'c, 'k, 'p) platform \<Rightarrow> request decoder \<Rightarrow> response encoder \<Rightarrow> app_config \<Rightarrow> ('e, 'c) host services \<Rightarrow> unix_arrival list
     \<Rightarrow> (('e, 'c) host orch, any_error, unit) eff" where
  "run_server_unix F decode encode cfg S q =
    (let socket = daemon_socket (cfg_paths cfg) in
     bind (zoom or_world or_world_update (on_fs (current_uid (pf_linux F)))) (\<lambda>u.
     seq (with_context ''binding daemon unix socket'' (in_world (on_fs (bind_socket socket (pf_bind F socket)))))
     (serving (daemon_run S (unix_admit (same_uid u)) decode encode q))))"

definition dev_token_missing :: any_error where
  "dev_token_missing = AnyMessage ''the development TCP transport requires --dev-token <FILE> (a shared secret token)''"

definition run_server_dev ::
  "('e, 'c, 'k, 'p) platform \<Rightarrow> request decoder \<Rightarrow> response encoder \<Rightarrow> handshake decoder \<Rightarrow> handshake_ack encoder \<Rightarrow> daemon_cli
     \<Rightarrow> ('e, 'c) host services \<Rightarrow> tcp_arrival list \<Rightarrow> (('e, 'c) host orch, any_error, unit) eff" where
  "run_server_dev F decode encode hs_decode ack_encode cli S q =
    bind (lift_res (case dc_dev_token cli of None \<Rightarrow> Inl dev_token_missing | Some p \<Rightarrow> Inr p)) (\<lambda>token_path.
    bind (with_context ''reading dev token'' (in_world (on_fs (read_token (pf_utf8 F) token_path)))) (\<lambda>token.
    bind (with_context ''binding loopback dev listener'' (lift_res (tcp_dev_bind F (dc_dev_port cli)))) (\<lambda>listener.
    seq (with_context ''reading dev listener addr'' (lift_res (tcp_local_addr F listener)))
    (serving (daemon_run S (tcp_admit hs_decode ack_encode token) decode encode q)))))"

section \<open>The main routine\<close>

text \<open>
  Load the configuration, build the daemon, run the server of the platform the program was
  compiled for.  The result is the error that ended the daemon, if one did, with the
  orchestrator it leaves; a configuration that does not load leaves none.
\<close>

datatype server =
    UnixServer "unix_arrival list"
  | DevServer "handshake decoder" "handshake_ack encoder" "tcp_arrival list"

definition run_server ::
  "('e, 'c, 'k, 'p) platform \<Rightarrow> request decoder \<Rightarrow> response encoder \<Rightarrow> daemon_cli \<Rightarrow> app_config \<Rightarrow> ('e, 'c) host services \<Rightarrow> server
     \<Rightarrow> (('e, 'c) host orch, any_error, unit) eff" where
  "run_server F decode encode cli cfg S srv = (case srv of
      UnixServer q \<Rightarrow> run_server_unix F decode encode cfg S q
    | DevServer hs_decode ack_encode q \<Rightarrow> run_server_dev F decode encode hs_decode ack_encode cli S q)"

definition daemon_main ::
  "('e, 'c, 'k, 'p) platform \<Rightarrow> daemon_cli \<Rightarrow> request decoder \<Rightarrow> response encoder \<Rightarrow> server \<Rightarrow> fs \<Rightarrow> 'e
     \<Rightarrow> any_error option \<times> ('e, 'c) host orch option" where
  "daemon_main F cli decode encode srv f e =
    (case with_context ''loading configuration'' (load_config (pf_toml F) (config_path (dc_config cli))) f of
       (Inl err, _) \<Rightarrow> (Some err, None)
     | (Inr cfg, f1) \<Rightarrow>
         let S = build_services F cfg f1;
             s = orch_new cfg (host_new F f1 e)
         in (case run_server F decode encode cli cfg S srv s of
              (Inl err, t) \<Rightarrow> (Some err, Some t)
            | (Inr _, t) \<Rightarrow> (None, Some t)))"

end
