(* ===== verification/Wiring_Safety.thy ===== *)
theory Wiring_Safety
  imports Wiring Launcher_Vetted Gateway_Safety
begin

text \<open>
  What holds of the production daemon from end to end: each property picks a relation between
  the call trace and the host, and is an interpretation of the service contract.
\<close>

section \<open>Framing\<close>

lemma within_steady:
  assumes "\<And>cs w r s. I cs w \<Longrightarrow> m (view w) = (r, s) \<Longrightarrow> I (cs @ [c r]) (put s w)"
  shows "steady I c (within view put m)"
  using assms by (auto simp: steady_def within_def split: prod.splits)

lemma within_silent:
  assumes "\<And>cs w r s. I cs w \<Longrightarrow> m (view w) = (r, s) \<Longrightarrow> I cs (put s w)"
  shows "silent I (within view put m)"
  using assms by (auto simp: silent_def within_def split: prod.splits)

lemma silent_throw: "silent I (throw e)"
  by (simp add: silent_def throw_def)

lemma plain_steady: "(\<And>cs w r w'. I cs w \<Longrightarrow> m w = (r, w') \<Longrightarrow> I (cs @ [c r]) w') \<Longrightarrow> steady I c m"
  by (auto simp: steady_def)

lemma host_backend_build:
  "host_backend (build_capabilities F cfg f) B \<longleftrightarrow>
    (B = chromium_backend F \<and> found_chromium F f \<noteq> None) \<or> (B = firefox_backend F \<and> found_firefox F f \<noteq> None)"
  by (auto simp: host_backend_def build_capabilities_def Let_def)

lemmas on_defs = on_fs_def on_env_def on_vms_def on_gateway_def on_store_def on_updates_def on_guest_def
  on_chromium_def on_firefox_def

lemmas capability_sel = build_capabilities_def Let_def caps.select_convs

lemmas backend_sel = chromium_backend_def firefox_backend_def hosted_def backend_ops.select_convs
  chromium_ops_def firefox_ops_def

lemma system_preflight: "run_preflight (system_probe b) ctx w = (r, w') \<Longrightarrow> w' = w"
  by (auto simp: run_preflight_def system_probe_def check_gateway_def check_tunnel_def check_dns_def check_public_ip_def
      check_ipv6_def bind_def attempt_def throw_def ret_def split: prod.splits sum.splits)

section \<open>The relation\<close>

text \<open>The host runners started only their own binary, without a forbidden flag.\<close>

definition runner_ok :: "path \<Rightarrow> ('e, 'c) host_state \<Rightarrow> bool" where
  "runner_ok b h \<longleftrightarrow> hs_binary h = b \<and> (\<forall>p \<in> set (hs_spawned h). spawn_ok {b} p)"

lemma runner_ok_vetted: "host.vetted (\<lambda>_. b) w \<longleftrightarrow> runner_ok b (bw_runner w)"
proof -
  have "(\<lambda>slug :: string. x) = (\<lambda>_. b) \<longleftrightarrow> x = b" for x :: path by (auto dest: fun_cong)
  then show ?thesis by (simp add: host.vetted_def runner_ok_def)
qed

lemma runner_ok_os [simp]: "runner_ok b (h\<lparr>hs_os := x\<rparr>) = runner_ok b h"
  by (simp add: runner_ok_def)

text \<open>Whether the kill switch was engaged and the gateway not configured since.\<close>

definition after_engage :: "cap_call \<Rightarrow> bool \<Rightarrow> bool" where
  "after_engage c b = (case c of C_engage _ \<Rightarrow> True | C_configure _ \<Rightarrow> False | C_apply_firewall _ _ \<Rightarrow> False | _ \<Rightarrow> b)"

definition engaged_last :: "cap_call list \<Rightarrow> bool" where
  "engaged_last cs = fold after_engage cs False"

lemma engaged_last_snoc [simp]: "engaged_last (cs @ [c]) = after_engage c (engaged_last cs)"
  by (simp add: engaged_last_def)

lemma cleanup_engaged: "list_all is_cleanup ds \<Longrightarrow> fold after_engage ds True"
proof (induction ds)
  case (Cons d ds)
  then show ?case by (cases d) (simp_all add: after_engage_def)
qed simp

text \<open>No preflight permits browsing, so no full-VM browser is launched.\<close>

definition no_full_vm :: "cap_call \<Rightarrow> bool" where
  "no_full_vm c = (case c of C_preflight (Some cl) \<Rightarrow> \<not> permits_browsing cl | C_launch FullVm (Some _) \<Rightarrow> False | _ \<Rightarrow> True)"

definition host_rel :: "path \<Rightarrow> path \<Rightarrow> ('e, 'c) host world_rel" where
  "host_rel b1 b2 cs w \<longleftrightarrow> runner_ok b1 (hw_chromium w) \<and> runner_ok b2 (hw_firefox w) \<and>
     gw_inv (hw_gw w) \<and> (engaged_last cs \<longrightarrow> gw_cut (hw_gw w)) \<and> list_all no_full_vm cs"

lemma gw_env_irrelevant [simp]: "gw_inv (g\<lparr>gw_env := x\<rparr>) = gw_inv g" "gw_cut (g\<lparr>gw_env := x\<rparr>) = gw_cut g"
  by (simp_all add: gw_inv_def gw_cut_def gw_live_def last_nft_def)

lemma gw_cut_cmd: "gw_cut s \<Longrightarrow> cmd_program c \<noteq> ''nft'' \<Longrightarrow> gw_cut (after_cmd run c s)"
  by (simp add: gw_cut_def)

lemma cut_health: "gw_cut s \<Longrightarrow> wp (Gateway_Controller.health run) (\<lambda>_. gw_cut) (\<lambda>_. gw_cut) s"
  by (simp add: health_def wp_simps gw_cut_cmd split: option.splits sum.splits)

text \<open>Parts of the host the relation does not look at.\<close>

lemma host_rel_frame [simp]:
  "host_rel b1 b2 cs (w\<lparr>hw_fs := f\<rparr>) = host_rel b1 b2 cs w"
  "host_rel b1 b2 cs (w\<lparr>hw_env := e\<rparr>) = host_rel b1 b2 cs w"
  "host_rel b1 b2 cs (w\<lparr>hw_vms := v\<rparr>) = host_rel b1 b2 cs w"
  "host_rel b1 b2 cs (w\<lparr>hw_vm_cmds := c\<rparr>) = host_rel b1 b2 cs w"
  by (simp_all add: host_rel_def)

text \<open>A call that says nothing about the gateway, the preflight or a full-VM launch.\<close>

definition plain_call :: "cap_call \<Rightarrow> bool" where
  "plain_call c \<longleftrightarrow> no_full_vm c \<and> (\<forall>b. after_engage c b = b)"

lemma host_rel_plain: "host_rel b1 b2 cs w \<Longrightarrow> plain_call c \<Longrightarrow> host_rel b1 b2 (cs @ [c]) w"
  by (simp add: host_rel_def plain_call_def)

lemma plain_calls [simp]:
  "plain_call (C_provision role v2)" "plain_call (C_vm_start v b)" "plain_call (C_vm_shutdown v)" "plain_call (C_vm_destroy v b)"
  "plain_call (C_launch HostProcess h)" "plain_call C_is_running" "plain_call (C_terminate h2)" "plain_call (C_proxy_reachable b)"
  "plain_call (C_get_profile p b)" "plain_call (C_acquire p l)" "plain_call (C_release l2 b)" "plain_call C_touch_launch"
  "plain_call (C_generate_key b)" "plain_call (C_audit r)" "plain_call (C_remove_dir d)" "plain_call (C_launch FullVm None)"
  by (simp_all add: plain_call_def no_full_vm_def after_engage_def)

lemma rel_gateway:
  assumes "host_rel b1 b2 cs w" "gw_inv g" "after_engage c (engaged_last cs) \<Longrightarrow> gw_cut g" "no_full_vm c"
  shows "host_rel b1 b2 (cs @ [c]) (w\<lparr>hw_gw := g\<rparr>)"
  using assms by (simp add: host_rel_def)

section \<open>The capabilities maintain it\<close>

lemma on_gateway_steady:
  assumes inv: "\<And>s. gw_inv s \<Longrightarrow> wp m (\<lambda>_. gw_inv) (\<lambda>_. gw_inv) s"
    and cut: "\<And>r b s. after_engage (c r) b \<Longrightarrow> gw_cut (snd (m s))" and full: "\<And>r. no_full_vm (c r)"
  shows "steady (host_rel b1 b2) c (on_gateway m)"
  unfolding on_gateway_def
proof (rule within_steady)
  fix cs and w :: "('a, 'e) host" and r g
  let ?v = "(hw_gw w)\<lparr>gw_env := (hw_fs w, hw_env w)\<rparr>"
  assume i: "host_rel b1 b2 cs w" and m: "m ?v = (r, g)"
  have "gw_inv ?v" using i by (simp add: host_rel_def)
  from wp_state [OF inv [OF this]] have "gw_inv g" by (simp add: m)
  moreover have "after_engage (c r) (engaged_last cs) \<Longrightarrow> gw_cut g" using cut [where s = ?v] m by simp
  ultimately show "host_rel b1 b2 (cs @ [c r]) (w\<lparr>hw_gw := g, hw_fs := fst (gw_env g), hw_env := snd (gw_env g)\<rparr>)"
    using i full by (simp add: rel_gateway)
qed

lemma rel_configure: "steady (host_rel b1 b2) (\<lambda>r. C_configure (is_ok r)) (on_gateway (Gateway_Controller.configure N gc))"
  by (rule on_gateway_steady [OF inv_configure]) (simp_all add: after_engage_def no_full_vm_def)

lemma rel_firewall: "steady (host_rel b1 b2) (\<lambda>r. C_apply_firewall p (is_ok r)) (on_gateway (Gateway_Controller.apply_firewall N p))"
  by (rule on_gateway_steady [OF inv_apply]) (simp_all add: after_engage_def no_full_vm_def)

lemma rel_engage: "steady (host_rel b1 b2) (\<lambda>r. C_engage (is_ok r)) (on_gateway (engage_killswitch N))"
  by (rule on_gateway_steady [OF inv_engage]) (simp_all add: gwks.engage_cuts no_full_vm_def)

lemma rel_health: "silent (host_rel b1 b2) (on_gateway (Gateway_Controller.health N))"
  unfolding on_gateway_def
proof (rule within_silent)
  fix cs and w :: "('a, 'b) host" and r g
  let ?v = "(hw_gw w)\<lparr>gw_env := (hw_fs w, hw_env w)\<rparr>"
  assume i: "host_rel b1 b2 cs w" and m: "Gateway_Controller.health N ?v = (r, g)"
  have "gw_inv g" using wp_state [OF inv_health [of ?v N]] i m by (simp add: host_rel_def)
  moreover have "engaged_last cs \<longrightarrow> gw_cut g" using wp_state [OF cut_health [of ?v N]] i m by (simp add: host_rel_def)
  ultimately show "host_rel b1 b2 cs (w\<lparr>hw_gw := g, hw_fs := fst (gw_env g), hw_env := snd (gw_env g)\<rparr>)"
    using i by (simp add: host_rel_def)
qed

lemma rel_preflight: "steady (host_rel b1 b2) (\<lambda>r. C_preflight (ok_of r)) (run_preflight (system_probe l) ctx)"
proof (rule plain_steady)
  fix cs and w :: "('a, 'b) host" and r w'
  assume i: "host_rel b1 b2 cs w" and m: "run_preflight (system_probe l) ctx w = (r, w')"
  obtain cl where "r = Inr cl" "w' = w" "\<not> permits_browsing cl" using system_probe_never_permits [of l ctx w] m by auto
  with i show "host_rel b1 b2 (cs @ [C_preflight (ok_of r)]) w'"
    by (simp add: host_rel_def after_engage_def no_full_vm_def ok_of_def)
qed

text \<open>Components whose part of the host the relation ignores.\<close>

lemma rel_on_fs: "(\<And>r. plain_call (c r)) \<Longrightarrow> steady (host_rel b1 b2) c (on_fs m)" "silent (host_rel b1 b2) (on_fs m2)"
  unfolding on_fs_def by (rule within_steady within_silent; simp add: host_rel_plain)+

lemma rel_on_env: "(\<And>r. plain_call (c r)) \<Longrightarrow> steady (host_rel b1 b2) c (on_env m)"
  unfolding on_env_def by (rule within_steady) (simp add: host_rel_plain)

lemma rel_on_vms: "(\<And>r. plain_call (c r)) \<Longrightarrow> steady (host_rel b1 b2) c (on_vms m)"
  unfolding on_vms_def by (rule within_steady) (simp add: host_rel_plain)

lemma rel_on_store: "(\<And>r. plain_call (c r)) \<Longrightarrow> steady (host_rel b1 b2) c (on_store m)" "silent (host_rel b1 b2) (on_store m2)"
  unfolding on_store_def by (rule within_steady within_silent; simp add: host_rel_plain)+

lemma rel_on_updates: "silent (host_rel b1 b2) (on_updates m)"
  unfolding on_updates_def by (rule within_silent) simp

lemma rel_on_guest: "(\<And>r. plain_call (c r)) \<Longrightarrow> steady (host_rel b1 b2) c (on_guest m)"
  unfolding on_guest_def by (rule within_steady) (simp add: host_rel_plain)

lemma rel_guest_launch: "steady (host_rel b1 b2) (\<lambda>r. C_launch FullVm (ok_of r)) (on_guest (bb_launch (chromium_ops guest_runner p s) rq b))"
  unfolding on_guest_def
proof (rule within_steady)
  fix cs and w :: "('a, 'b) host" and r v
  assume i: "host_rel b1 b2 cs w" and m: "bb_launch (chromium_ops guest_runner p s) rq b \<lparr> bw_fs = hw_fs w, bw_runner = () \<rparr> = (r, v)"
  have "wp (bb_launch (chromium_ops guest_runner p s) rq b) (\<lambda>_ _. False) (\<lambda>_ _. True) \<lparr> bw_fs = hw_fs w, bw_runner = () \<rparr>"
    by (simp add: chromium_ops_def chromium_launch_def guest_runner_def in_runner_def wp_simps split: sum.split)
  then have "ok_of r = None" using m by (auto simp: wp_def ok_of_def split: sum.splits)
  then show "host_rel b1 b2 (cs @ [C_launch FullVm (ok_of r)]) (w\<lparr>hw_fs := bw_fs v\<rparr>)" using i by (simp add: host_rel_plain)
qed

text \<open>The host browsers.\<close>

lemma rel_on_chromium:
  assumes "\<And>w. host.vetted (\<lambda>_. b1) w \<Longrightarrow> wp m (\<lambda>_. host.vetted (\<lambda>_. b1)) (\<lambda>_. host.vetted (\<lambda>_. b1)) w"
    and "\<And>r. plain_call (c r)"
  shows "steady (host_rel b1 b2) c (on_chromium m)"
  unfolding on_chromium_def
proof (rule within_steady)
  fix cs and w :: "('a, 'b) host" and r v
  let ?v = "\<lparr> bw_fs = hw_fs w, bw_runner = (hw_chromium w)\<lparr>hs_os := hw_env w\<rparr> \<rparr>"
  assume i: "host_rel b1 b2 cs w" and m: "m ?v = (r, v)"
  have "host.vetted (\<lambda>_. b1) ?v" using i by (simp add: runner_ok_vetted host_rel_def)
  from wp_state [OF assms(1) [OF this]] have "runner_ok b1 (bw_runner v)" by (simp add: m runner_ok_vetted)
  then have "host_rel b1 b2 cs (w\<lparr>hw_chromium := bw_runner v\<rparr>)" using i by (simp add: host_rel_def)
  from host_rel_plain [OF this assms(2)]
  show "host_rel b1 b2 (cs @ [c r]) (w\<lparr>hw_fs := bw_fs v, hw_env := hs_os (bw_runner v), hw_chromium := bw_runner v\<rparr>)"
    by (simp add: host_rel_def)
qed

lemma rel_on_firefox:
  assumes "\<And>w. host.vetted (\<lambda>_. b2) w \<Longrightarrow> wp m (\<lambda>_. host.vetted (\<lambda>_. b2)) (\<lambda>_. host.vetted (\<lambda>_. b2)) w"
    and "\<And>r. plain_call (c r)"
  shows "steady (host_rel b1 b2) c (on_firefox m)"
  unfolding on_firefox_def
proof (rule within_steady)
  fix cs and w :: "('a, 'b) host" and r v
  let ?v = "\<lparr> bw_fs = hw_fs w, bw_runner = (hw_firefox w)\<lparr>hs_os := hw_env w\<rparr> \<rparr>"
  assume i: "host_rel b1 b2 cs w" and m: "m ?v = (r, v)"
  have "host.vetted (\<lambda>_. b2) ?v" using i by (simp add: runner_ok_vetted host_rel_def)
  from wp_state [OF assms(1) [OF this]] have "runner_ok b2 (bw_runner v)" by (simp add: m runner_ok_vetted)
  then have "host_rel b1 b2 cs (w\<lparr>hw_firefox := bw_runner v\<rparr>)" using i by (simp add: host_rel_def)
  from host_rel_plain [OF this assms(2)]
  show "host_rel b1 b2 (cs @ [c r]) (w\<lparr>hw_fs := bw_fs v, hw_env := hs_os (bw_runner v), hw_firefox := bw_runner v\<rparr>)"
    by (simp add: host_rel_def)
qed

lemma rel_backends:
  assumes "B = chromium_backend F \<or> B = firefox_backend F"
  shows "steady (host_rel b1 b2) (\<lambda>r. C_launch HostProcess (ok_of r)) (bb_launch B rq b)"
    "steady (host_rel b1 b2) (\<lambda>_. C_is_running) (bb_is_running B h)"
    "steady (host_rel b1 b2) (\<lambda>_. C_terminate h) (bb_terminate B h)"
  using assms
  by (auto simp: backend_sel intro!: rel_on_chromium rel_on_firefox host.chromium_launch_vetted host.firefox_launch_vetted
      host.quiet_vetted)

interpretation production: service_contract "build_services F cfg f" "host_rel b1 b2"
proof
  let ?C = "sv_caps (build_services F cfg f)"
  have C: "?C = build_capabilities F cfg f" by (simp add: build_services_def Let_def)
  show "steady (host_rel b1 b2) (\<lambda>r. C_provision role (map_option vh_id (ok_of r))) (cap_provision ?C req)" for role req
    by (simp add: C capability_sel rel_on_vms)
  show "steady (host_rel b1 b2) (\<lambda>r. C_vm_start v (is_ok r)) (cap_vm_start ?C v)" for v
    by (simp add: C capability_sel rel_on_vms)
  show "steady (host_rel b1 b2) (\<lambda>_. C_vm_shutdown v) (cap_vm_shutdown ?C v mode)" for v mode
    by (simp add: C capability_sel rel_on_vms)
  show "steady (host_rel b1 b2) (\<lambda>r. C_vm_destroy v (is_ok r)) (cap_vm_destroy ?C v)" for v
    by (simp add: C capability_sel rel_on_vms)
  show "steady (host_rel b1 b2) (\<lambda>r. C_configure (is_ok r)) (cap_configure ?C gc)" for gc
    by (simp add: C capability_sel rel_configure)
  show "steady (host_rel b1 b2) (\<lambda>r. C_apply_firewall fw (is_ok r)) (cap_apply_firewall ?C fw)" for fw
    by (simp add: C capability_sel rel_firewall)
  show "steady (host_rel b1 b2) (\<lambda>r. C_engage (is_ok r)) (cap_engage ?C)"
    by (simp add: C capability_sel rel_engage)
  show "silent (host_rel b1 b2) (cap_health ?C)"
    by (simp add: C capability_sel rel_health)
  show "steady (host_rel b1 b2) (\<lambda>r. C_preflight (ok_of r)) (cap_preflight ?C ctx)" for ctx
    by (simp add: C capability_sel rel_preflight)
  show "steady (host_rel b1 b2) (\<lambda>r. C_launch FullVm (ok_of r)) (bb_launch (cap_browser ?C) rq b)" for rq b
    by (simp add: C capability_sel hosted_def rel_guest_launch)
  show "steady (host_rel b1 b2) (\<lambda>r. C_launch HostProcess (ok_of r)) (bb_launch B rq b)" if "host_backend ?C B" for B rq b
    using that rel_backends unfolding C host_backend_build by blast
  show "steady (host_rel b1 b2) (\<lambda>_. C_is_running) (bb_is_running B h)" if "B = cap_browser ?C \<or> host_backend ?C B" for B h
    using that rel_backends(2) [of B F] unfolding C host_backend_build
    by (auto simp: capability_sel hosted_def rel_on_guest)
  show "steady (host_rel b1 b2) (\<lambda>_. C_terminate h) (bb_terminate B h)" if "B = cap_browser ?C \<or> host_backend ?C B" for B h
    using that rel_backends(3) [of B F] unfolding C host_backend_build
    by (auto simp: capability_sel hosted_def rel_on_guest)
  show "steady (host_rel b1 b2) (\<lambda>r. C_proxy_reachable (r = Inr True)) (cap_proxy_reachable ?C h p)" for h p
    by (simp add: C capability_sel rel_on_env)
  show "steady (host_rel b1 b2) (\<lambda>r. C_get_profile p (is_ok r)) (cap_get_profile ?C p)" for p
    by (simp add: C capability_sel rel_on_store)
  show "silent (host_rel b1 b2) (cap_get_profile ?C p)" for p
    by (simp add: C capability_sel rel_on_store)
  show "steady (host_rel b1 b2) (\<lambda>r. C_acquire p (ok_of r)) (cap_acquire_lock ?C p)" for p
    by (simp add: C capability_sel rel_on_store)
  show "steady (host_rel b1 b2) (\<lambda>r. C_release l (is_ok r)) (cap_release_lock ?C l)" for l
    by (simp add: C capability_sel rel_on_store)
  show "steady (host_rel b1 b2) (\<lambda>_. C_touch_launch) (cap_touch_launch ?C p t)" for p t
    by (simp add: C capability_sel rel_on_store)
  show "steady (host_rel b1 b2) (\<lambda>r. C_generate_key (is_ok r)) (cap_generate_key ?C)"
    by (simp add: C capability_sel rel_on_env)
  show "steady (host_rel b1 b2) (\<lambda>_. C_audit r) (cap_audit ?C r)" for r
    by (simp add: C capability_sel rel_on_fs)
  show "silent (host_rel b1 b2) (cap_now ?C)"
    by (auto simp: C capability_sel silent_def split: prod.splits)
  show "silent (host_rel b1 b2) (cap_new_uuid ?C)"
    by (auto simp: C capability_sel silent_def split: prod.splits)
  show "steady (host_rel b1 b2) (\<lambda>_. C_remove_dir d) (cap_remove_dir_all ?C d)" for d
    by (simp add: C capability_sel rel_on_fs)
qed (auto simp: build_services_def Let_def rel_on_store rel_on_updates disabled_check_def disabled_verify_def disabled_apply_def
      silent_throw split: option.splits)

section \<open>The daemon from its start\<close>

lemma runner_ok_new: "runner_ok b (with_binary b e)"
  by (simp add: runner_ok_def with_binary_def)

definition start_binary :: "path option \<Rightarrow> path" where
  "start_binary b = (case b of Some p \<Rightarrow> p | None \<Rightarrow> [])"

lemma host_rel_start: "host_rel (start_binary (found_chromium F f)) (start_binary (found_firefox F f)) [] (host_new F f e)"
  by (simp add: host_rel_def host_new_def gw_inv_new engaged_last_def runner_ok_new start_binary_def)

text \<open>What holds from the start on: the relation of the host, and reachability.\<close>

definition sound_daemon :: "('e, 'c, 'k, 'p) platform \<Rightarrow> app_config \<Rightarrow> fs \<Rightarrow> ('e, 'c) host orch \<Rightarrow> bool" where
  "sound_daemon F cfg f1 t \<longleftrightarrow>
    host_rel (start_binary (found_chromium F f1)) (start_binary (found_firefox F f1)) (or_calls t) (or_world t) \<and>
    reached (build_services F cfg f1) t"

definition keeps_sound :: "('e, 'c, 'k, 'p) platform \<Rightarrow> app_config \<Rightarrow> fs \<Rightarrow> (('e, 'c) host orch, 'x, 'a) eff \<Rightarrow> bool" where
  "keeps_sound F cfg f1 m \<longleftrightarrow> (\<forall>s. sound_daemon F cfg f1 s \<longrightarrow> sound_daemon F cfg f1 (snd (m s)))"

lemma sound_start: "sound_daemon F cfg f1 (orch_new cfg (host_new F f1 e))"
proof -
  have "sv_config (build_services F cfg f1) = cfg" by (simp add: build_services_def Let_def)
  then have "reached (build_services F cfg f1) (orch_new cfg (host_new F f1 e))" using reach_new by metis
  then show ?thesis by (simp add: sound_daemon_def orch_new_def host_rel_start)
qed

lemma sound_bind:
  assumes "keeps_sound F cfg f1 m" "\<And>x. keeps_sound F cfg f1 (g x)"
  shows "keeps_sound F cfg f1 (bind m g)"
  unfolding keeps_sound_def
proof (intro allI impI)
  fix s assume s: "sound_daemon F cfg f1 s"
  obtain r t where m: "m s = (r, t)" by fastforce
  then have "sound_daemon F cfg f1 t" using assms(1) s by (metis keeps_sound_def snd_conv)
  then show "sound_daemon F cfg f1 (snd (bind m g s))" using assms(2) m by (cases r) (simp_all add: bind_def keeps_sound_def)
qed

lemma sound_seq: "keeps_sound F cfg f1 m \<Longrightarrow> keeps_sound F cfg f1 n \<Longrightarrow> keeps_sound F cfg f1 (seq m n)"
  by (simp add: seq_def sound_bind)

lemma sound_context: "keeps_sound F cfg f1 m \<Longrightarrow> keeps_sound F cfg f1 (with_context what m)"
  by (auto simp: keeps_sound_def with_context_def map_err_def split: prod.split sum.split)

lemma sound_lift: "keeps_sound F cfg f1 (lift_res r)"
  by (simp add: keeps_sound_def lift_res_def)

lemma sound_fs: "keeps_sound F cfg f1 (zoom or_world or_world_update (on_fs m))"
  unfolding keeps_sound_def
proof (intro allI impI)
  fix s assume s: "sound_daemon F cfg f1 s"
  obtain w where w: "snd (zoom or_world or_world_update (on_fs m) s) = s\<lparr>or_world := w\<rparr>" "w = snd (on_fs m (or_world s))"
    by (auto simp: zoom_def split: prod.split)
  have "host_rel (start_binary (found_chromium F f1)) (start_binary (found_firefox F f1)) (or_calls s) w"
    using rel_on_fs(2) [of "start_binary (found_chromium F f1)" "start_binary (found_firefox F f1)" m] s
    by (auto simp: w(2) sound_daemon_def silent_def)
  moreover have "reached (build_services F cfg f1) (s\<lparr>or_world := w\<rparr>)" using s by (auto simp: sound_daemon_def intro: reach_world)
  ultimately show "sound_daemon F cfg f1 (snd (zoom or_world or_world_update (on_fs m) s))" by (simp add: w(1) sound_daemon_def)
qed

lemma sound_serving: "keeps_sound F cfg f1 (serving (daemon_run (build_services F cfg f1) admit decode encode q))"
  unfolding keeps_sound_def
proof (intro allI impI)
  fix s assume s: "sound_daemon F cfg f1 s"
  obtain err cs t where r: "daemon_run (build_services F cfg f1) admit decode encode q s = (err, cs, t)" by (metis prod_cases3)
  have "sound_daemon F cfg f1 t"
    using s daemon_reachable [OF _ r] production.maint_daemon [OF _ r] by (auto simp: sound_daemon_def)
  then show "sound_daemon F cfg f1 (snd (serving (daemon_run (build_services F cfg f1) admit decode encode q) s))"
    by (simp add: serving_def r split: option.split)
qed

lemma sound_server: "keeps_sound F cfg f1 (run_server F decode encode cli cfg (build_services F cfg f1) srv)"
  unfolding run_server_def run_server_unix_def run_server_dev_def Let_def in_world_def
  by (cases srv) (simp_all add: sound_bind sound_seq sound_context sound_lift sound_fs sound_serving)

lemma daemon_main_rel:
  assumes "daemon_main F cli decode encode srv f e = (err, Some t)"
  obtains cfg f1 where "load_config (pf_toml F) (config_path (dc_config cli)) f = (Inr cfg, f1)"
    "host_rel (start_binary (found_chromium F f1)) (start_binary (found_firefox F f1)) (or_calls t) (or_world t)"
    "reached (build_services F cfg f1) t"
proof -
  obtain cfg f1 where 1: "load_config (pf_toml F) (config_path (dc_config cli)) f = (Inr cfg, f1)"
    using assms by (auto simp: daemon_main_def with_context_def map_err_def split: prod.splits sum.splits)
  have "t = snd (run_server F decode encode cli cfg (build_services F cfg f1) srv (orch_new cfg (host_new F f1 e)))"
    using assms by (auto simp: daemon_main_def 1 with_context_def map_err_def Let_def split: prod.splits sum.splits)
  then have "sound_daemon F cfg f1 t" using sound_server [of F cfg f1] sound_start [of F cfg f1] by (simp add: keeps_sound_def)
  then show ?thesis using 1 that by (simp add: sound_daemon_def)
qed

end
