(* ===== verification/Production.thy ===== *)
theory Production
  imports Wiring_Safety Profile_Lock
begin

text \<open>
  The properties of the production daemon from end to end, and a concrete platform on which
  they are exhibited: a host with a browser on its path, one stored profile, a proxy that
  answers or does not, and no Linux tools.
\<close>

section \<open>Properties\<close>

text \<open>
  C30: the daemon starts vetted browsers only.  However the production daemon is configured,
  whoever connects and whatever they send, every process a host browser runner ever starts is
  the Chromium or the Firefox binary that was found when the daemon started, without any
  forbidden flag.
\<close>

theorem production_processes_vetted:
  assumes "daemon_main F cli decode encode srv f e = (err, Some t)"
  shows "\<exists>cfg f1. load_config (pf_toml F) (config_path (dc_config cli)) f = (Inr cfg, f1) \<and>
    (\<forall>(b, args, env) \<in> set (hs_spawned (hw_chromium (or_world t))).
       b = start_binary (found_chromium F f1) \<and> (\<forall>a \<in> set args. \<not> flag_forbidden a)) \<and>
    (\<forall>(b, args, env) \<in> set (hs_spawned (hw_firefox (or_world t))).
       b = start_binary (found_firefox F f1) \<and> (\<forall>a \<in> set args. \<not> flag_forbidden a))"
proof -
  obtain cfg f1 where 1: "load_config (pf_toml F) (config_path (dc_config cli)) f = (Inr cfg, f1)"
    "host_rel (start_binary (found_chromium F f1)) (start_binary (found_firefox F f1)) (or_calls t) (or_world t)"
    using daemon_main_rel [OF assms] by blast
  then show ?thesis by (intro exI [of _ cfg] exI [of _ f1]) (auto simp: host_rel_def runner_ok_def spawn_ok_def)
qed


text \<open>
  C32: a containment failure really cuts the traffic.  On the production daemon, after any run, when
  a start fails with an error that requires the kill switch after its session was registered,
  then at the return of the call the gateway says engaged, no firewall counts as applied, and
  the last ruleset handed to \<^verbatim>\<open>nft\<close> is the total block.
\<close>

theorem production_failure_cuts:
  assumes "load_config (pf_toml F) (config_path (dc_config cli)) f = (Inr cfg, f1)"
    and "daemon_main F cli decode encode srv f e = (done_with, Some s)"
    and "start_session (build_capabilities F cfg f1) cfg pid s = (Inl err, t)" and "requires_killswitch err"
  shows "or_sessions t = or_sessions s \<or>
    (gw_killswitch (hw_gw (or_world t)) = Engaged \<and> \<not> gw_applied (hw_gw (or_world t)) \<and>
     last_nft (hw_gw (or_world t)) = Some (nft_command render_killswitch))"
proof (cases "or_sessions t = or_sessions s")
  case False
  let ?I = "host_rel (start_binary (found_chromium F f1)) (start_binary (found_firefox F f1))"
  have "?I (or_calls s) (or_world s)" using daemon_main_rel [OF assms(2)] assms(1) by (metis Inr_inject Pair_inject)
  then have rel: "?I (or_calls t) (or_world t)"
  proof (rule maint_run [where I = ?I and s = s and t = t, rotated])
    show "maintains ?I (start_session (sv_caps (build_services F cfg f1)) cfg pid)" by (rule production.maint_start)
    show "start_session (sv_caps (build_services F cfg f1)) cfg pid s = (Inl err, t)"
      using assms(3) by (simp add: build_services_def Let_def)
  qed
  have "cut_then_cleanup s t" using wp_err [OF wp_start_cuts assms(3)] assms(4) False by blast
  then have "engaged_last (or_calls t)"
    by (auto simp: cut_then_cleanup_def engaged_last_def after_engage_def cleanup_engaged)
  then show ?thesis using rel by (simp add: host_rel_def gw_cut_def)
qed simp

section \<open>A concrete platform\<close>

definition sample_paths :: paths where
  "sample_paths = \<lparr> profiles_dir = ''/p'', images_dir = ''/i'', runtime_dir = ''/r'', audit_log = ''/l/a'', daemon_socket = ''/s'' \<rparr>"

definition wired_config :: app_config where
  "wired_config = sample_config\<lparr>cfg_paths := sample_paths\<rparr>"

definition wired_fs :: fs where
  "wired_fs = \<lparr> fs_files = [(''/b/chromium'', []), (''/p/p----/profile.json'', ''{}''), (''/c'', [])],
     fs_dirs = [''/'', ''/b'', ''/p'', ''/p/p----'', ''/l''], fs_faults = [] \<rparr>"

definition wired_platform :: "connect_outcome \<Rightarrow> (nat, nat, unit, unit) platform" where
  "wired_platform out = \<lparr>
     pf_linux = False, pf_version = ''0'', pf_os_name = ''test'',
     pf_getenv = (\<lambda>k. if k = ''PATH'' then Some ''/b'' else None),
     pf_toml = (\<lambda>t. Inr wired_config),
     pf_tools = \<lparr> to_spawn = (\<lambda>p a b. ret ()), to_write = (\<lambda>p s. ret ()), to_wait = (\<lambda>p. ret (Some 0, [], [])) \<rparr>,
     pf_vm = \<lparr> vp_run = (\<lambda>c o1. (Inl (Unsupported []), o1)), vp_fresh_id = (\<lambda>n. (VmId (Uuid (dec n)), Suc n)),
       vp_random = (\<lambda>n. (0, n)), vp_temp_dir = ''/t'' \<rparr>,
     pf_store = sample_store\<lparr>st_decode := (\<lambda>s. Inr (sample_stored HostProcess))\<rparr>,
     pf_processes = \<lparr> os_spawn = (\<lambda>b a e n. (Inr n, Suc n)), os_pid = (\<lambda>n c. Some (of_nat c)),
       os_try_wait = (\<lambda>c. ret False), os_kill = (\<lambda>c. ret ()) \<rparr>,
     pf_connect = (\<lambda>t ms n. (out, Suc n)),
     pf_crypto = tag_crypto,
     pf_update = \<lparr> up_fetch = (\<lambda>l. throw (NotFound l)), up_sha256 = id, up_unhex = (\<lambda>s. None), up_key_of = (\<lambda>s. None),
       up_verify = (\<lambda>k b s. False), up_to_json = (\<lambda>m. None), up_of_json = (\<lambda>s. Inl []) \<rparr>,
     pf_audit_json = (\<lambda>r. Inl ''unavailable''),
     pf_now = (\<lambda>n. (0, n)),
     pf_new_uuid = (\<lambda>n. (Uuid (dec n), Suc n)),
     pf_bind = (\<lambda>p. ret ()),
     pf_utf8 = (\<lambda>s. True),
     pf_tcp_bind = (\<lambda>p. Inr ''127.0.0.1''),
     pf_local_addr = (\<lambda>l. Inr l) \<rparr>"

definition wired_caps :: "connect_outcome \<Rightarrow> (nat, nat) host caps" where
  "wired_caps out = build_capabilities (wired_platform out) wired_config wired_fs"

definition locked_fs :: fs where
  "locked_fs = wired_fs\<lparr>fs_files := fs_files wired_fs @ [(''/p/p----/profile.lock'', ''1'')]\<rparr>"

text \<open>The host with the given file system and counter, nothing else having happened.\<close>

definition wired_host :: "fs \<Rightarrow> nat \<Rightarrow> (nat, nat) host" where
  "wired_host f n = \<lparr> hw_fs = f, hw_env = n, hw_vms = [], hw_vm_cmds = [], hw_gw = gw_new (wired_fs, 1),
     hw_chromium = with_binary ''/b/chromium'' 1, hw_firefox = with_binary [] 1 \<rparr>"

lemma found: "found_chromium (wired_platform out) wired_fs = Some ''/b/chromium''" "found_firefox (wired_platform out) wired_fs = None"
  by code_simp+

lemma wired_host_new: "host_new (wired_platform out) wired_fs (Suc 0) = wired_host wired_fs (Suc 0)"
  by (simp add: host_new_def wired_host_def found)

definition wired_store :: "nat store_params" where
  "wired_store = the_store (wired_platform Connected) wired_config"

lemma wired_store_any: "the_store (wired_platform out) wired_config = wired_store"
  by (simp add: wired_store_def the_store_def wired_platform_def)

definition wired_profile :: profile where
  "wired_profile = (sample_stored HostProcess)\<lparr>pr_storage := \<lparr> su_bytes = 2 \<rparr>\<rparr>"

lemma wired_paths: "profile_dir wired_store sample_pid = ''/p/p----''" "lock_path wired_store sample_pid = ''/p/p----/profile.lock''"
    "meta_path wired_store sample_pid = ''/p/p----/profile.json''"
  by code_simp+

lemma wired_params: "st_decode wired_store s = Inr (sample_stored HostProcess)" "st_new_token wired_store = st_new_token sample_store"
  by (simp_all add: wired_store_def the_store_def wired_platform_def)

lemma wired_reads: "fs_read ''/p/p----/profile.json'' wired_fs = (Inr ''{}'', wired_fs)"
    "fs_read_dir ''/p/p----'' wired_fs = (Inr [(''/p/p----/profile.json'', False)], wired_fs)"
    "fs_file_len ''/p/p----/profile.json'' wired_fs = (Inr 2, wired_fs)"
    "fs_metadata ''/p/p----/profile.lock'' wired_fs = (Inl io_not_found, wired_fs)"
    "fs_metadata ''/p/p----'' wired_fs = (Inr (), wired_fs)"
  by code_simp+

lemma wired_len: "add_file_len ''/p/p----/profile.json'' 0 wired_fs = (Inr 2, wired_fs)"
  by (simp add: add_file_len_def wired_reads run_simps)

definition created_fs :: fs where
  "created_fs = snd (fs_create_new ''/p/p----/profile.lock'' wired_fs)"

lemma wired_sync: "fs_sync locked_fs = (Inr (), locked_fs)"
  by (simp add: fs_sync_def with_fault_eq fault_of_def locked_fs_def wired_fs_def tick_def)

lemma wired_create: "fs_create_new ''/p/p----/profile.lock'' wired_fs = (Inr (), created_fs)"
  by code_simp

lemma wired_reread: "fs_read ''/p/p----/profile.lock'' locked_fs = (Inr ''1'', locked_fs)"
  by code_simp

lemma wired_overwrite: "fs_overwrite ''/p/p----/profile.lock'' ''1'' created_fs = (Inr (), locked_fs)"
  by code_simp

lemma wired_remove: "fs_remove_file ''/p/p----/profile.lock'' locked_fs = (Inr (), wired_fs)"
  by code_simp

lemma dec_one: "dec (Suc 0) = ''1''"
proof -
  have "dec 1 = ''1''" by code_simp
  then show ?thesis by simp
qed

lemmas wired_locks = wired_sync wired_create wired_reread wired_overwrite wired_remove dec_one

lemmas wired_store_simps = wired_paths wired_params wired_reads wired_locks run_simps map_err_def sfs_def sfs_q_def senv_def

lemma wired_meta: "read_meta wired_store sample_pid \<lparr> sw_fs = wired_fs, sw_env = n \<rparr>
    = (Inr (sample_stored HostProcess), \<lparr> sw_fs = wired_fs, sw_env = n \<rparr>)"
  unfolding read_meta_def by (simp add: wired_store_simps)

lemma wired_size: "dir_size (profile_dir wired_store sample_pid) wired_fs = (Inr 2, wired_fs)"
  unfolding wired_store_simps dir_size_def by (simp add: wired_reads wired_len entry_dirs_def entry_files_def run_simps)

lemma wired_unlocked: "is_locked wired_store sample_pid \<lparr> sw_fs = wired_fs, sw_env = n \<rparr> = (Inr False, \<lparr> sw_fs = wired_fs, sw_env = n \<rparr>)"
  unfolding is_locked_def by (simp add: wired_store_simps io_not_found_def)

text \<open>What each capability does, on any host in the right state.\<close>

lemma wired_get: "hw_fs w = wired_fs \<Longrightarrow> cap_get_profile (wired_caps out) sample_pid w = (Inr wired_profile, w)"
  by (simp add: wired_caps_def capability_sel wired_store_any on_store_def within_def store_get_def load_refreshed_def bind_def wired_meta wired_size
      wired_unlocked zoom_def ret_def wired_profile_def sample_stored_def)

definition wired_lease :: profile_lease where
  "wired_lease = \<lparr> pl_profile = sample_pid, pl_token = ''1'' \<rparr>"

lemma wired_acquire: "hw_fs w = wired_fs \<Longrightarrow> hw_env w = 1 \<Longrightarrow>
    cap_acquire_lock (wired_caps out) sample_pid w = (Inr wired_lease, w\<lparr>hw_fs := locked_fs, hw_env := 2\<rparr>)"
proof -
  assume w: "hw_fs w = wired_fs" "hw_env w = 1"
  have "Profile_Store.acquire_lock wired_store sample_pid \<lparr> sw_fs = wired_fs, sw_env = 1 \<rparr> = (Inr wired_lease, \<lparr> sw_fs = locked_fs, sw_env = 2 \<rparr>)"
    unfolding acquire_lock_def by (simp add: wired_store_simps sample_store_def wired_lease_def numeral_2_eq_2)
  then show ?thesis by (simp add: wired_caps_def capability_sel wired_store_any on_store_def within_def w del: One_nat_def)
qed

lemma wired_release: "hw_fs w = locked_fs \<Longrightarrow> cap_release_lock (wired_caps out) wired_lease w = (Inr (), w\<lparr>hw_fs := wired_fs\<rparr>)"
proof -
  assume w: "hw_fs w = locked_fs"
  have "Profile_Store.release_lock wired_store wired_lease \<lparr> sw_fs = locked_fs, sw_env = n \<rparr> = (Inr (), \<lparr> sw_fs = wired_fs, sw_env = n \<rparr>)" for n
    unfolding release_lock_def by (simp add: wired_store_simps wired_lease_def Let_def)
  then show ?thesis by (simp add: wired_caps_def capability_sel wired_store_any on_store_def within_def w)
qed

lemma wired_quiet: "cap_audit (wired_caps out) r w = (Inl (json_err ''unavailable''), w)" "cap_now (wired_caps out) w = (0, w)"
    "cap_host_proxy_var (wired_caps out) w = None"
  by (simp_all add: wired_caps_def capability_sel wired_platform_def on_fs_def within_def file_record_def to_json_line_def run_simps)

lemma wired_counts: "cap_new_uuid (wired_caps out) w = (Uuid (dec (hw_env w)), w\<lparr>hw_env := Suc (hw_env w)\<rparr>)"
    "cap_generate_key (wired_caps out) w = (Inr (replicate key_len CHR ''x''), w\<lparr>hw_env := Suc (hw_env w)\<rparr>)"
    "cap_proxy_reachable (wired_caps out) h p w = (Inr (out = Connected), w\<lparr>hw_env := Suc (hw_env w)\<rparr>)"
  by (simp_all add: wired_caps_def capability_sel wired_platform_def on_env_def within_def generate_key_def random_key_def proxy_reachable_def
      tcp_probe_default_def tag_crypto_def run_simps split: connect_outcome.split)

lemma wired_browser: "cap_host_browser (wired_caps out) = Some (chromium_backend (wired_platform out))"
    "cap_host_firefox (wired_caps out) = None"
  by (simp_all add: wired_caps_def capability_sel found)

definition wired_cut :: "(nat, nat) host \<Rightarrow> (nat, nat) host" where
  "wired_cut w = snd (cap_engage (wired_caps Connect_Failed) w)"

definition wired_refusal :: error where
  "wired_refusal = Unsupported (''privileged gateway command '' @ [CHR 0x27] @ ''nft'' @ [CHR 0x27] @ '' is only available inside the Linux Gateway VM'')"

lemma wired_engage: "cap_engage (wired_caps Connect_Failed) w = (Inl wired_refusal, wired_cut w)" "hw_fs (wired_cut w) = hw_fs w"
  by (simp_all add: wired_cut_def wired_caps_def capability_sel on_gateway_def within_def engage_killswitch_def load_ruleset_def gw_run_def
      the_gw_def wired_platform_def gw_system_runner_def wired_refusal_def nft_command_def with_stdin_def command_new_def run_simps)

text \<open>The launch.\<close>

definition wired_bundle :: "launch_request \<Rightarrow> policy_bundle" where
  "wired_bundle r = \<lparr> pb_backend = Chromium, pb_managed_policies = chromium_managed r, pb_command_line = chromium_command_line r,
     pb_preferences = [] \<rparr>"

lemma wired_render: "fp_validate (lr_fingerprint r) = None \<Longrightarrow> bb_render (chromium_backend F) r = Inr (wired_bundle r)"
    "assert_safe (wired_bundle r) production = Inr ()" "assert_safe_args production (pb_command_line (wired_bundle r)) = Inr ()"
  by (simp_all add: backend_sel render_chromium_policy_def Let_def assert_safe_def chromium_args_safe wired_bundle_def)

lemma wired_request: "lr_fingerprint (host_launch_request cfg i p proxy) = level_policy (sp_protection (pr_spec p))"
    "lr_production (host_launch_request cfg i p proxy)" "lr_session (host_launch_request cfg i p proxy) = i"
  by (simp_all add: host_launch_request_def)

definition wired_handle :: "launch_request \<Rightarrow> nat \<Rightarrow> browser_handle" where
  "wired_handle r n = \<lparr> bh_session = lr_session r, bh_backend = Chromium, bh_process_token = dec (unat (word_of_nat n :: 32 word)) \<rparr>"

definition wired_child :: "launch_request \<Rightarrow> nat \<Rightarrow> (nat, nat) host_state" where
  "wired_child r n = \<lparr> hs_binary = ''/b/chromium'', hs_children = [(bh_process_token (wired_handle r n), n)], hs_os = Suc n,
     hs_spawned = [(''/b/chromium'', chromium_command_line r, ls_env (launch_spec_of ''chromium'' r (wired_bundle r)))] \<rparr>"

lemma wired_launch: "hw_chromium w = with_binary ''/b/chromium'' k \<Longrightarrow>
    bb_launch (chromium_backend (wired_platform out)) r (wired_bundle r) w =
      (Inr (wired_handle r (hw_env w)), w\<lparr>hw_env := Suc (hw_env w), hw_chromium := wired_child r (hw_env w)\<rparr>)"
  by (simp add: backend_sel on_chromium_def within_def chromium_launch_def wired_render in_runner_def host_runner_def host_start_def
      spawn_child_def wired_platform_def map_err_def wired_handle_def wired_child_def with_binary_def launch_spec_of_def Let_def
      run_simps) (simp add: wired_bundle_def)

lemma wired_alive: "hw_chromium w = wired_child r n \<Longrightarrow> hw_env w = Suc n \<Longrightarrow>
    bb_is_running (chromium_backend (wired_platform out)) (wired_handle r n) w = (Inr True, w)"
  by (cases w) (simp add: backend_sel on_chromium_def within_def in_runner_def host_runner_def host_is_running_def
      wired_platform_def map_err_def in_os_def wired_child_def run_simps)

definition wired_touch_result :: "(nat, nat) host \<Rightarrow> error + unit" where
  "wired_touch_result w = fst (cap_touch_launch (wired_caps Connected) sample_pid 0 w)"

definition wired_touched :: "(nat, nat) host \<Rightarrow> (nat, nat) host" where
  "wired_touched w = snd (cap_touch_launch (wired_caps Connected) sample_pid 0 w)"

lemma wired_touch: "cap_touch_launch (wired_caps Connected) sample_pid 0 w = (wired_touch_result w, wired_touched w)"
  by (simp add: wired_touch_result_def wired_touched_def)

lemma wired_touched_chromium: "hw_chromium (wired_touched w) = hw_chromium w"
  by (simp add: wired_touched_def wired_caps_def capability_sel on_store_def within_def split: prod.split)

lemmas wired_calls = wired_get wired_acquire wired_release wired_quiet wired_counts wired_browser wired_engage wired_render
  wired_launch wired_alive wired_touch wired_touched_chromium wired_request

definition wired_run :: "connect_outcome \<Rightarrow> (error + session_summary) \<times> (nat, nat) host orch" where
  "wired_run out = start_session (wired_caps out) wired_config sample_pid (orch_new wired_config (wired_host wired_fs (Suc 0)))"

lemmas wired_run_defs = refusal_contains default_proxy network_default_def network_from_mode_def orch_run_defs sample_defs
  run_simps call_run Let_def lock_sessions_def put_entry_def ignore_def check_defs wired_calls

lemma wired_run_fails: "\<exists>err. fst (wired_run Connect_Failed) = Inl err \<and> requires_killswitch err"
  by (simp add: wired_run_def wired_run_defs wired_config_def wired_profile_def wired_host_def proxy_unreachable_def cong: lazy_cong)

lemma wired_run_registers: "or_sessions (snd (wired_run Connect_Failed)) \<noteq> []"
  by (simp add: wired_run_def wired_run_defs wired_config_def wired_profile_def wired_host_def cong: lazy_cong)

lemma wired_run_works: "is_ok (fst (wired_run Connected))"
  by (simp add: wired_run_def wired_run_defs wired_config_def wired_profile_def wired_host_def cong: lazy_cong)

lemma wired_run_spawns: "hs_spawned (hw_chromium (or_world (snd (wired_run Connected)))) \<noteq> []"
  by (simp add: wired_run_def wired_run_defs wired_config_def wired_profile_def wired_host_def wired_child_def cong: lazy_cong)

section \<open>Runs of the daemon\<close>

definition wired_cli :: daemon_cli where
  "wired_cli = \<lparr> dc_config = Some ''/c'', dc_dev_port = 0, dc_dev_token = None \<rparr>"

lemma wired_config_file: "load_config (pf_toml (wired_platform out)) (config_path (dc_config wired_cli)) wired_fs = (Inr wired_config, wired_fs)"
proof -
  have "fs_read ''/c'' wired_fs = (Inr [], wired_fs)" by code_simp
  then show ?thesis by (simp add: load_config_def config_path_def wired_platform_def wired_cli_def run_simps)
qed

lemma wired_bind: "bind_socket ''/s'' (pf_bind (wired_platform out) ''/s'') wired_fs = (Inr (), wired_fs)"
proof -
  have "fs_metadata ''/s'' wired_fs = (Inl io_not_found, wired_fs)" by code_simp
  then show ?thesis by (simp add: bind_socket_def fs_exists_def wired_platform_def map_err_def run_simps)
qed

abbreviation wired_main :: "connect_outcome \<Rightarrow> unix_arrival list \<Rightarrow> any_error option \<times> (nat, nat) host orch option" where
  "wired_main out q \<equiv> daemon_main (wired_platform out) wired_cli sample_decode (\<lambda>_. Inr ''ok'') (UnixServer q) wired_fs (Suc 0)"

abbreviation wired_start :: "(nat, nat) host orch" where
  "wired_start \<equiv> orch_new wired_config (wired_host wired_fs (Suc 0))"

lemma wired_main_run: "wired_main out q =
    (case daemon_run (build_services (wired_platform out) wired_config wired_fs) (unix_admit (same_uid 0)) sample_decode (\<lambda>_. Inr ''ok'') q wired_start of
      (err, _, t) \<Rightarrow> (map_option (AnyContext ''ipc serve loop failed'') err, Some t))"
proof -
  have l: "pf_linux (wired_platform out) = False" by (simp add: wired_platform_def)
  have s: "daemon_socket (cfg_paths wired_config) = ''/s''" by (simp add: wired_config_def sample_paths_def)
  have f: "wired_start\<lparr>or_world := (or_world wired_start)\<lparr>hw_fs := wired_fs\<rparr>\<rparr> = wired_start" "hw_fs (or_world wired_start) = wired_fs"
    by (simp_all add: orch_new_def wired_host_def)
  show ?thesis
    unfolding daemon_main_def with_context_def map_err_def wired_config_file
    by (simp add: run_server_def run_server_unix_def with_context_def map_err_def l s wired_host_new current_uid_def run_simps wired_bind
        Let_def f serving_def zoom_def in_world_def on_fs_def within_def split: prod.split option.split)
qed

lemma wired_idle: "wired_main out [] = (None, Some wired_start)"
  by (simp add: wired_main_run daemon_run_def)

lemma wired_served: "\<exists>err. wired_main out [Inr (sample_peer, Inr 0)] = (err, Some (snd (wired_run out)))"
proof -
  let ?S = "build_services (wired_platform out) wired_config wired_fs"
  let ?q = "ReqStartSession \<lparr> rq_profile = sample_pid, rq_unlock_ref = None \<rparr>"
  have c: "sv_caps ?S = wired_caps out" "sv_config ?S = wired_config" by (simp_all add: build_services_def Let_def wired_caps_def)
  have "\<exists>resp. handle ?S ?q wired_start = (resp, snd (wired_run out))"
    by (cases "wired_run out") (auto simp: handle_def dispatch_def c wired_run_def bind_def ret_def split: sum.splits)
  then obtain resp where h: "handle ?S ?q wired_start = (resp, snd (wired_run out))" ..
  have "serve_connection sample_decode (\<lambda>_. Inr ''ok'') (handle ?S) sample_peer wired_start
      = (Inr (), empty_stream\<lparr>str_out := frames [''ok'']\<rparr>, snd (wired_run out))"
    using serve_prefix [of sample_decode "[''start'']" "[?q]" "handle ?S" wired_start "[resp]" "snd (wired_run out)" "\<lambda>_. Inr ''ok''" "[''ok'']" sample_peer "[]"] h
    by (simp add: decoded_def encoded_def sample_decode_def max_frame_len_def sample_peer_def empty_stream_def
        serve_connection.simps [where d = "snd (wired_run out)"] read_frame_end)
  then show ?thesis by (simp add: wired_main_run daemon_run_def unix_admit_def peer_uid_def permits_def same_uid_def)
qed

text \<open>The properties of the daemon, on these runs.\<close>

lemma production_processes_vetted_witness:
  "\<exists>err t b args env. wired_main Connected [Inr (sample_peer, Inr 0)] = (err, Some t) \<and>
     (b, args, env) \<in> set (hs_spawned (hw_chromium (or_world t))) \<and> b = ''/b/chromium'' \<and> (\<forall>a \<in> set args. \<not> flag_forbidden a)"
proof -
  obtain err where r: "wired_main Connected [Inr (sample_peer, Inr 0)] = (err, Some (snd (wired_run Connected)))"
    using wired_served by blast
  obtain b args env where m: "(b, args, env) \<in> set (hs_spawned (hw_chromium (or_world (snd (wired_run Connected)))))"
    using wired_run_spawns by (metis list.set_intros(1) neq_Nil_conv prod_cases3)
  have "start_binary (found_chromium (wired_platform Connected) wired_fs) = ''/b/chromium''" by (simp add: found start_binary_def)
  then show ?thesis using production_processes_vetted [OF r] m r unfolding wired_config_file by fastforce
qed


lemma production_failure_cuts_witness:
  "\<exists>err t. wired_run Connect_Failed = (Inl err, t) \<and> gw_killswitch (hw_gw (or_world t)) = Engaged \<and>
     last_nft (hw_gw (or_world t)) = Some (nft_command render_killswitch)"
proof -
  obtain err where f: "fst (wired_run Connect_Failed) = Inl err" "requires_killswitch err" using wired_run_fails by blast
  have s: "start_session (build_capabilities (wired_platform Connect_Failed) wired_config wired_fs) wired_config sample_pid wired_start
      = (Inl err, snd (wired_run Connect_Failed))"
    using f(1) by (simp add: wired_run_def wired_caps_def prod_eq_iff)
  have "or_sessions (snd (wired_run Connect_Failed)) \<noteq> or_sessions wired_start"
    using wired_run_registers by (simp add: orch_new_def)
  with production_failure_cuts [OF wired_config_file wired_idle s f(2)] f(1) show ?thesis
    by (cases "wired_run Connect_Failed") auto
qed

end
