(* ===== verification/Store_Safety.thy ===== *)
theory Store_Safety
  imports Profile_Lock
begin

text \<open>
  What the directory walks of the profile store see: on a tree in which every entry has its
  parent, the walk meets every file below its start, once.  From it, the size a profile is
  shown with and what deleting a profile leaves.
\<close>

section \<open>Paths\<close>

lemma parent_child:
  assumes "path_parent p = q" "q \<noteq> []" "q \<noteq> ''/''"
  shows "\<exists>n. p = q @ CHR ''/'' # n \<and> CHR ''/'' \<notin> set n"
proof -
  let ?b = "dropWhile (\<lambda>c. c \<noteq> CHR ''/'') (rev p)" and ?n = "rev (takeWhile (\<lambda>c. c \<noteq> CHR ''/'') (rev p))"
  obtain c r where b: "?b = c # r" "r \<noteq> []" "rev r = q"
    using assms by (cases ?b) (auto simp: path_parent_def split: if_splits)
  have "c = CHR ''/''" using b(1) hd_dropWhile [of "\<lambda>c. c \<noteq> CHR ''/''" "rev p"] by simp
  moreover have "rev p = takeWhile (\<lambda>c. c \<noteq> CHR ''/'') (rev p) @ ?b" by simp
  then have "p = rev ?b @ ?n" by (metis rev_append rev_rev_ident)
  moreover have "CHR ''/'' \<notin> set ?n" by (auto dest: set_takeWhileD)
  ultimately show ?thesis using b by auto
qed

lemma parent_of_child: "CHR ''/'' \<notin> set n \<Longrightarrow> q \<noteq> [] \<Longrightarrow> path_parent (q @ CHR ''/'' # n) = q"
proof -
  assume n: "CHR ''/'' \<notin> set n" "q \<noteq> []"
  have "dropWhile (\<lambda>c. c \<noteq> CHR ''/'') (rev n @ CHR ''/'' # rev q) = CHR ''/'' # rev q"
    by (subst dropWhile_append2) (use n in auto)
  then show ?thesis using n by (simp add: path_parent_def)
qed

lemma under_split: "under d p \<Longrightarrow> p \<noteq> d \<Longrightarrow> \<exists>x. p = d @ CHR ''/'' # x"
  by (auto simp: under_def starts_with_iff)

lemma under_proper: "under d p \<Longrightarrow> p \<noteq> d \<Longrightarrow> d \<noteq> [] \<Longrightarrow> p \<noteq> [] \<and> p \<noteq> ''/''"
  using under_split [of d p] by (cases d) auto

lemma under_parent:
  assumes "under d p" "p \<noteq> d" "d \<noteq> []"
  shows "under d (path_parent p)"
proof -
  obtain x where x: "p = d @ CHR ''/'' # x" using under_split [OF assms(1,2)] by blast
  show ?thesis
  proof (cases "CHR ''/'' \<in> set x")
    case False
    then show ?thesis using assms(3) by (simp add: x parent_of_child under_def)
  next
    case True
    then obtain u n where "x = u @ CHR ''/'' # n" "CHR ''/'' \<notin> set n" using split_list_last by metis
    then have "path_parent p = d @ CHR ''/'' # u"
      using parent_of_child [of n "d @ CHR ''/'' # u"] by (simp add: x)
    then show ?thesis by (auto simp: under_def starts_with_iff)
  qed
qed

lemma under_trans: "under a b \<Longrightarrow> under b c \<Longrightarrow> under a c"
  by (force simp: under_def starts_with_iff)

lemma under_length: "under d p \<Longrightarrow> length d \<le> length p"
  by (auto simp: under_def starts_with_iff)

text \<open>Two different children of a directory have nothing in common.\<close>

lemma children_apart:
  assumes "path_parent a = d" "path_parent b = d" "d \<noteq> []" "d \<noteq> ''/''" "under a p" "under b p"
  shows "a = b"
proof -
  obtain m n where m: "a = d @ CHR ''/'' # m" "CHR ''/'' \<notin> set m" and n: "b = d @ CHR ''/'' # n" "CHR ''/'' \<notin> set n"
    using parent_child assms(1-4) by metis
  have split: "\<exists>x. p = c @ x \<and> (x = [] \<or> hd x = CHR ''/'')" if "under c p" for c
    using that by (force simp: under_def starts_with_iff)
  obtain x where x: "p = a @ x" "x = [] \<or> hd x = CHR ''/''" using split [OF assms(5)] by blast
  obtain y where y: "p = b @ y" "y = [] \<or> hd y = CHR ''/''" using split [OF assms(6)] by blast
  have e: "m @ x = n @ y" using x(1) y(1) m n by simp
  have "takeWhile (\<lambda>c. c \<noteq> CHR ''/'') (m @ x) = m" using m(2) x(2)
    by (cases x) (auto simp: takeWhile_append takeWhile_eq_all_conv)
  moreover have "takeWhile (\<lambda>c. c \<noteq> CHR ''/'') (n @ y) = n" using n(2) y(2)
    by (cases y) (auto simp: takeWhile_append takeWhile_eq_all_conv)
  ultimately show ?thesis using e m n by simp
qed

section \<open>Trees\<close>

text \<open>
  Every entry but the roots has its parent directory, names are unique, and no file is a
  directory.
\<close>

definition wf_tree :: "fs \<Rightarrow> bool" where
  "wf_tree f \<longleftrightarrow> distinct (fs_dirs f) \<and> distinct (List.map fst (fs_files f)) \<and>
     set (fs_dirs f) \<inter> fst ` set (fs_files f) = {} \<and>
     (\<forall>p \<in> set (fs_dirs f) \<union> fst ` set (fs_files f). p \<noteq> [] \<and> (p \<noteq> ''/'' \<longrightarrow> is_dir f (path_parent p)))"

definition below :: "fs \<Rightarrow> path \<Rightarrow> path set" where
  "below f d = {p \<in> fst ` set (fs_files f). under d p}"

definition child_files :: "fs \<Rightarrow> path \<Rightarrow> path set" where
  "child_files f d = {p \<in> fst ` set (fs_files f). path_parent p = d}"

definition child_dirs :: "fs \<Rightarrow> path \<Rightarrow> path set" where
  "child_dirs f d = {p \<in> set (fs_dirs f). p \<noteq> [] \<and> p \<noteq> ''/'' \<and> path_parent p = d}"

lemma finite_tree [simp]: "finite (below f d)" "finite (child_files f d)" "finite (child_dirs f d)"
  by (simp_all add: below_def child_files_def child_dirs_def)

lemma is_dir_mem: "is_dir f p \<longleftrightarrow> p = [] \<or> p \<in> set (fs_dirs f)"
  by (simp add: is_dir_def)

text \<open>A directory below another lies below one of its children, or is one.\<close>

lemma child_above:
  assumes "wf_tree f" "d \<noteq> []" "d \<noteq> ''/''"
  shows "q \<in> set (fs_dirs f) \<Longrightarrow> under d q \<Longrightarrow> q \<noteq> d \<Longrightarrow> \<exists>e \<in> child_dirs f d. under e q"
proof (induction "length q" arbitrary: q rule: less_induct)
  case less
  let ?r = "path_parent q"
  have q: "q \<noteq> []" "q \<noteq> ''/''" using under_proper [OF less.prems(2,3) assms(2)] by blast+
  have u: "under d ?r" using under_parent less.prems(2,3) assms(2) by blast
  show ?case
  proof (cases "?r = d")
    case True
    then show ?thesis using less.prems(1) q by (force simp: child_dirs_def under_def)
  next
    case False
    have "?r \<noteq> []" "?r \<noteq> ''/''" using under_proper [OF u False assms(2)] by blast+
    then have "?r \<in> set (fs_dirs f)" using assms(1) less.prems(1) q by (auto simp: wf_tree_def is_dir_mem)
    then obtain e where "e \<in> child_dirs f d" "under e ?r"
      using less.hyps [of ?r] path_parent_shorter [OF q] u False by blast
    moreover have "under ?r q" using parent_child [OF refl \<open>?r \<noteq> []\<close> \<open>?r \<noteq> ''/''\<close>]
      by (metis append_Cons append_Nil append_assoc starts_with_iff under_def)
    ultimately show ?thesis using under_trans by blast
  qed
qed

lemma below_step:
  assumes "wf_tree f" "d \<in> set (fs_dirs f)" "d \<noteq> ''/''"
  shows "below f d = child_files f d \<union> (\<Union>e \<in> child_dirs f d. below f e)"
proof -
  have d: "d \<noteq> []" using assms(1,2) by (auto simp: wf_tree_def)
  have kid: "under d p" if "path_parent p = d" for p
    using parent_child [OF that d assms(3)] by (auto simp: under_def starts_with_iff)
  have far: "\<exists>e \<in> child_dirs f d. under e p" if p: "p \<in> fst ` set (fs_files f)" "under d p" "path_parent p \<noteq> d" for p
  proof -
    have n: "p \<noteq> d" using p(1) assms(1,2) by (auto simp: wf_tree_def)
    let ?r = "path_parent p"
    have u: "under d ?r" using under_parent [OF p(2) n d] .
    have r: "?r \<noteq> []" "?r \<noteq> ''/''" using under_proper [OF u p(3) d] by blast+
    then have "?r \<in> set (fs_dirs f)" using assms(1) p(1) under_proper [OF p(2) n d] by (auto simp: wf_tree_def is_dir_mem)
    from child_above [OF assms(1) d assms(3) this u p(3)] obtain e where e: "e \<in> child_dirs f d" "under e ?r" by blast
    have "under ?r p" using parent_child [OF refl r] by (metis append_Cons append_Nil append_assoc starts_with_iff under_def)
    then show ?thesis using e under_trans by blast
  qed
  have near: "under d p" if "e \<in> child_dirs f d" "under e p" for e p
    using that kid [of e] under_trans [of d e p] by (simp add: child_dirs_def)
  have "p \<in> below f d \<longleftrightarrow> p \<in> child_files f d \<union> (\<Union>e \<in> child_dirs f d. below f e)" for p
  proof (cases "p \<in> fst ` set (fs_files f)")
    case True
    then show ?thesis using far [OF True] near [of _ p] kid [of p]
      by (cases "path_parent p = d") (auto simp only: below_def child_files_def UN_iff Un_iff mem_Collect_eq)
  qed (auto simp: below_def child_files_def)
  then show ?thesis by blast
qed

lemma below_apart:
  assumes "wf_tree f" "d \<in> set (fs_dirs f)" "d \<noteq> ''/''"
  shows "e1 \<in> child_dirs f d \<Longrightarrow> e2 \<in> child_dirs f d \<Longrightarrow> e1 \<noteq> e2 \<Longrightarrow> below f e1 \<inter> below f e2 = {}"
    and "e \<in> child_dirs f d \<Longrightarrow> child_files f d \<inter> below f e = {}"
proof -
  have d: "d \<noteq> []" using assms(1,2) by (auto simp: wf_tree_def)
  show "e1 \<in> child_dirs f d \<Longrightarrow> e2 \<in> child_dirs f d \<Longrightarrow> e1 \<noteq> e2 \<Longrightarrow> below f e1 \<inter> below f e2 = {}"
    using children_apart [OF _ _ d assms(3)] by (auto simp: child_dirs_def below_def)
  show "child_files f d \<inter> below f e = {}" if e: "e \<in> child_dirs f d"
  proof -
    have "p = e" if "path_parent p = d" "under e p" for p
      using children_apart [of p d e p] that e d assms(3) by (auto simp: child_dirs_def under_def)
    moreover have "e \<notin> fst ` set (fs_files f)" using e assms(1) by (auto simp: child_dirs_def wf_tree_def)
    ultimately show ?thesis by (auto simp: child_files_def below_def)
  qed
qed

text \<open>What reading a directory yields, when it does.\<close>

lemma read_dir_ok:
  assumes "fs_read_dir d f = (Inr es, g)"
  shows "g = tick f" "set (entry_files es) = child_files f d" "set (entry_dirs es) = child_dirs f d"
    "wf_tree f \<Longrightarrow> distinct (entry_files es)" "wf_tree f \<Longrightarrow> distinct (entry_dirs es)"
proof -
  have es: "es = List.map (\<lambda>d. (d, True)) (List.filter (\<lambda>q. q \<noteq> [] \<and> q \<noteq> ''/'' \<and> path_parent q = d) (fs_dirs f))
      @ List.map (\<lambda>(q, _). (q, False)) (List.filter (\<lambda>(q, _). path_parent q = d) (fs_files f))" and g: "g = tick f"
    using assms by (auto simp: fs_read_dir_def with_fault_eq no_trace_def split: option.splits fault.splits if_splits)
  have ds: "entry_dirs es = List.filter (\<lambda>q. q \<noteq> [] \<and> q \<noteq> ''/'' \<and> path_parent q = d) (fs_dirs f)"
    by (simp add: es entry_dirs_def filter_map o_def case_prod_beta)
  have fls: "entry_files es = List.map fst (List.filter (\<lambda>(q, _). path_parent q = d) (fs_files f))"
    by (simp add: es entry_files_def filter_map o_def case_prod_beta')
  show "g = tick f" by (rule g)
  show "set (entry_files es) = child_files f d" by (force simp: fls child_files_def)
  show "set (entry_dirs es) = child_dirs f d" by (auto simp: ds child_dirs_def)
  show "wf_tree f \<Longrightarrow> distinct (entry_files es)"
    by (auto simp: fls wf_tree_def distinct_map intro: inj_on_subset)
  show "wf_tree f \<Longrightarrow> distinct (entry_dirs es)" by (simp add: ds wf_tree_def)
qed

lemma tree_tick [simp]: "wf_tree (tick f) = wf_tree f" "below (tick f) d = below f d" "child_files (tick f) d = child_files f d"
    "child_dirs (tick f) d = child_dirs f d"
  by (simp_all add: wf_tree_def below_def child_files_def child_dirs_def)

section \<open>The size of a tree\<close>

definition file_size :: "fs \<Rightarrow> path \<Rightarrow> nat" where
  "file_size f p = (case tab_get (fs_files f) p of None \<Rightarrow> 0 | Some b \<Rightarrow> length b)"

definition tree_size :: "fs \<Rightarrow> path \<Rightarrow> nat" where
  "tree_size f d = (\<Sum>p \<in> below f d. file_size f p)"

lemma tree_size_step:
  assumes "wf_tree f" "d \<in> set (fs_dirs f)" "d \<noteq> ''/''"
  shows "tree_size f d = (\<Sum>p \<in> child_files f d. file_size f p) + (\<Sum>e \<in> child_dirs f d. tree_size f e)"
proof -
  note ap = below_apart [OF assms]
  have "(\<Sum>p \<in> (\<Union>e \<in> child_dirs f d. below f e). file_size f p) = (\<Sum>e \<in> child_dirs f d. tree_size f e)"
    unfolding tree_size_def by (rule sum.UNION_disjoint) (use ap(1) in auto)
  moreover have "child_files f d \<inter> (\<Union>e \<in> child_dirs f d. below f e) = {}" using ap(2) by auto
  ultimately show ?thesis
    unfolding tree_size_def below_step [OF assms] by (subst sum.union_disjoint) (auto simp: tree_size_def)
qed

definition clip :: "nat \<Rightarrow> nat" where
  "clip n = min n (2 ^ 64 - 1)"

lemma clip_add: "clip (clip a + b) = clip (a + b)"
  by (auto simp: clip_def)

lemma quiet_tick: "fs_faults f = [] \<Longrightarrow> tick f = f \<and> fault_of f = None"
  by (simp add: tick_def fault_of_def)

lemma add_file_lens_exact:
  assumes "fs_faults f = []" "set ps \<subseteq> fst ` set (fs_files f)"
  shows "add_file_lens ps (clip acc) f = (Inr (clip (acc + sum_list (List.map (file_size f) ps))), f)"
  using assms(2)
proof (induction ps arbitrary: acc)
  case Nil
  then show ?case by (simp add: ret_def)
next
  case (Cons p ps)
  from Cons.prems have "tab_get (fs_files f) p \<noteq> None" by (auto simp: tab_get_None)
  then obtain b where b: "tab_get (fs_files f) p = Some b" by blast
  have "add_file_len p (clip acc) f = (Inr (clip (acc + file_size f p)), f)"
    using b quiet_tick [OF assms(1)] clip_add [of acc "length b"]
    by (simp add: add_file_len_def bind_def attempt_def fs_file_len_def with_fault_eq ret_def file_size_def clip_def)
  then show ?case using Cons by (simp add: bind_def add.assoc)
qed

lemma dir_size_walk_exact:
  "x = clip acc \<Longrightarrow> fs_faults f = [] \<Longrightarrow> wf_tree f \<Longrightarrow> set stack \<subseteq> set (fs_dirs f) - {''/''} \<Longrightarrow>
    dir_size_walk x f stack = (Inr (clip (acc + sum_list (List.map (tree_size f) stack))), f)"
proof (induction x f stack arbitrary: acc rule: dir_size_walk.induct)
  case (1 x f)
  then show ?case by simp
next
  case (2 x f d stack)
  have d: "d \<in> set (fs_dirs f)" "d \<noteq> ''/''" using 2 by auto
  obtain es where r: "fs_read_dir d f = (Inr es, f)"
    using d(1) quiet_tick [OF 2(4)] by (simp add: fs_read_dir_def with_fault_eq is_dir_mem)
  note rd = read_dir_ok [OF r]
  let ?n = "\<Sum>p \<in> child_files f d. file_size f p"
  have a: "add_file_lens (entry_files es) x f = (Inr (clip (acc + ?n)), f)"
    using add_file_lens_exact [OF 2(4), of "entry_files es" acc] rd(2) rd(4) [OF 2(5)] 2(3)
    by (simp add: sum_list_distinct_conv_sum_set child_files_def)
  have "set (rev (entry_dirs es) @ stack) \<subseteq> set (fs_dirs f) - {''/''}"
    using rd(3) 2(6) by (auto simp: child_dirs_def)
  then have "dir_size_walk (clip (acc + ?n)) f (rev (entry_dirs es) @ stack)
      = (Inr (clip (acc + ?n + sum_list (List.map (tree_size f) (rev (entry_dirs es) @ stack)))), f)"
    using 2(2) [OF r [symmetric] refl a [symmetric] refl refl 2(4,5)] by simp
  moreover have "sum_list (List.map (tree_size f) (entry_dirs es)) = (\<Sum>e \<in> child_dirs f d. tree_size f e)"
    using rd(3) rd(5) [OF 2(5)] by (simp add: sum_list_distinct_conv_sum_set)
  ultimately show ?case using tree_size_step [OF 2(5) d] by (simp add: r a rev_map [symmetric] sum_list_rev add.assoc)
qed

section \<open>Shredding a tree\<close>

text \<open>Only the schedule of faults may differ.\<close>

definition same_tree :: "fs \<Rightarrow> fs \<Rightarrow> bool" where
  "same_tree f g \<longleftrightarrow> fs_files g = fs_files f \<and> fs_dirs g = fs_dirs f"

lemma same_tree_simps [simp]: "same_tree f f" "same_tree f (tick g) = same_tree f g" "same_tree (tick f) g = same_tree f g"
  by (simp_all add: same_tree_def)

lemma same_tree_sets: "same_tree f g \<Longrightarrow> wf_tree g = wf_tree f \<and> below g d = below f d"
  by (simp add: same_tree_def wf_tree_def below_def is_dir_def)

text \<open>A fault that strikes an existing file does not say that it does not exist.\<close>

definition honest_faults :: "fs \<Rightarrow> bool" where
  "honest_faults f \<longleftrightarrow> (\<forall>e part. Some (Fault e part) \<in> set (fs_faults f) \<longrightarrow> io_kind e \<noteq> IoNotFound)"

lemma honest_tick [simp]: "honest_faults f \<Longrightarrow> honest_faults (tick f)"
  by (auto simp: honest_faults_def tick_def dest: list.set_sel(2) [rotated]) (metis list.sel(2) list.set_sel(2))

lemma honest_fault: "honest_faults f \<Longrightarrow> fault_of f = Some (Fault e part) \<Longrightarrow> io_kind e \<noteq> IoNotFound"
  by (cases "fs_faults f") (auto simp: honest_faults_def fault_of_def)

lemma honest_files [simp]: "honest_faults (f\<lparr>fs_files := t\<rparr>) = honest_faults f"
  by (simp add: honest_faults_def)

lemma collect_files_all:
  "collect_files acc f stack = (r, g) \<Longrightarrow> wf_tree f \<Longrightarrow> set stack \<subseteq> set (fs_dirs f) - {''/''} \<Longrightarrow>
    same_tree f g \<and> (honest_faults f \<longrightarrow> honest_faults g) \<and>
    (\<forall>files. r = Inr files \<longrightarrow> set files = set acc \<union> (\<Union>d \<in> set stack. below f d))"
proof (induction acc f stack arbitrary: r g rule: collect_files.induct)
  case (1 acc f)
  then show ?case by auto
next
  case (2 acc f d stack)
  show ?case
  proof (cases "fs_read_dir d f")
    case (Pair x f1)
    show ?thesis
    proof (cases x)
      case (Inl e)
      then show ?thesis using 2(2) Pair
        by (auto simp: fs_read_dir_def with_fault_eq no_trace_def split: option.splits fault.splits if_splits)
    next
      case (Inr es)
      note rd = read_dir_ok [OF Pair [unfolded Inr]]
      have d: "d \<in> set (fs_dirs f)" "d \<noteq> ''/''" using 2(4) by auto
      have "set (rev (entry_dirs es) @ stack) \<subseteq> set (fs_dirs f1) - {''/''}"
        using rd(1,3) 2(4) by (auto simp: child_dirs_def)
      then have "same_tree f1 g \<and> (honest_faults f1 \<longrightarrow> honest_faults g) \<and> (\<forall>files. r = Inr files \<longrightarrow>
          set files = set (acc @ entry_files es) \<union> (\<Union>d \<in> set (rev (entry_dirs es) @ stack). below f1 d))"
        using 2(1) [OF Pair [symmetric] Inr, of r g] 2(2,3) rd(1) by (simp add: Pair Inr)
      then show ?thesis using rd(1-3) below_step [OF 2(3) d] by auto
    qed
  qed
qed

text \<open>The state with the content of the given files zeroed.\<close>

definition zeroed :: "path set \<Rightarrow> fs \<Rightarrow> fs \<Rightarrow> bool" where
  "zeroed Z f g \<longleftrightarrow> fs_dirs g = fs_dirs f \<and> (\<forall>p. tab_get (fs_files g) p =
     (if p \<in> Z then map_option (\<lambda>b. replicate (length b) (CHR 0x00)) (tab_get (fs_files f) p) else tab_get (fs_files f) p))"

text \<open>The state in which only the given files may have changed.\<close>

definition only_in :: "path set \<Rightarrow> fs \<Rightarrow> fs \<Rightarrow> bool" where
  "only_in Z f g \<longleftrightarrow> fs_dirs g = fs_dirs f \<and> (\<forall>p. p \<notin> Z \<longrightarrow> tab_get (fs_files g) p = tab_get (fs_files f) p)"

lemma zeroed_refl: "zeroed {} f f" and only_in_refl [simp]: "only_in Z f f"
  by (simp_all add: zeroed_def only_in_def)

lemma changed_tick [simp]: "zeroed Z f (tick g) = zeroed Z f g" "only_in Z f (tick g) = only_in Z f g"
  by (simp_all add: zeroed_def only_in_def)

lemma only_in_partial: "only_in Z f g \<Longrightarrow> p \<in> Z \<Longrightarrow> only_in Z f (partial_file p part g)"
  by (auto simp: only_in_def partial_file_def split: option.split)

lemma only_in_trans: "only_in Z f g \<Longrightarrow> only_in Z g h \<Longrightarrow> only_in Z f h"
  by (simp add: only_in_def)

lemma only_in_mono: "only_in Y f g \<Longrightarrow> Y \<subseteq> Z \<Longrightarrow> only_in Z f g"
  by (auto simp: only_in_def)

definition shredded :: "path set \<Rightarrow> fs \<Rightarrow> fs \<Rightarrow> bool" where
  "shredded Z f g \<longleftrightarrow> zeroed Z f g \<and> honest_faults g"

lemma wp_sync_then: "wp (seq fs_sync m) Q E f = (case fault_of f of Some (Fault e _) \<Rightarrow> E e (tick f) | None \<Rightarrow> wp m Q E (tick f))"
  by (simp add: wp_simps fs_wp split: option.splits fault.splits)

lemma wp_overwrite_passes:
  "tab_get (fs_files f) p \<noteq> None \<Longrightarrow> only_in {p} f0 f \<Longrightarrow> honest_faults f \<Longrightarrow>
    (k = 0 \<longrightarrow> zeroed {p} f0 f) \<Longrightarrow> tab_get (fs_files f0) p = Some b \<Longrightarrow>
    wp (overwrite_passes k p (length b)) (\<lambda>_. shredded {p} f0) (\<lambda>_. only_in {p} f0) f"
proof (induction k arbitrary: f)
  case 0
  then show ?case by (simp add: wp_simps shredded_def)
next
  case (Suc k)
  let ?z = "replicate (length b) (CHR 0x00)"
  have isf: "is_file f p" using Suc.prems(1) by (simp add: is_file_def)
  define m where "m = seq fs_sync (seq fs_sync (overwrite_passes k p (length b)))"
  have m: "wp m (\<lambda>_. shredded {p} f0) (\<lambda>_. only_in {p} f0) g"
    if g: "fs_files g = tab_set p ?z (fs_files f)" "fs_dirs g = fs_dirs f" "honest_faults g" for g
  proof -
    have "zeroed {p} f0 g" using g Suc.prems(2,5) by (auto simp: zeroed_def only_in_def)
    moreover have o: "only_in {p} f0 g" using g Suc.prems(2) by (auto simp: only_in_def)
    ultimately have "wp (overwrite_passes k p (length b)) (\<lambda>_. shredded {p} f0) (\<lambda>_. only_in {p} f0) (tick (tick g))"
      by (intro Suc.IH) (use g Suc.prems(5) in auto)
    then show ?thesis using o unfolding m_def by (simp add: wp_sync_then split: option.splits fault.splits)
  qed
  have "wp (seq (fs_overwrite p ?z) m) (\<lambda>_. shredded {p} f0) (\<lambda>_. only_in {p} f0) (tick f)"
    using isf Suc.prems(2,3) m [of "(tick (tick f))\<lparr>fs_files := tab_set p ?z (fs_files f)\<rparr>"]
    by (simp add: wp_simps fs_wp only_in_partial split: option.splits fault.splits)
  then show ?case using Suc.prems(2) unfolding overwrite_passes.simps m_def [symmetric]
    by (simp add: wp_sync_then split: option.splits fault.splits)
qed

lemma wp_overwrite_file:
  assumes "tab_get (fs_files f) p = Some b" "0 < k" "honest_faults f"
  shows "wp (overwrite_file k p) (\<lambda>_. shredded {p} f) (\<lambda>_. only_in {p} f) f"
proof -
  have "wp (overwrite_passes k p (length b)) (\<lambda>_. shredded {p} f) (\<lambda>_. only_in {p} f) (tick (tick f))"
    by (rule wp_overwrite_passes) (use assms in auto)
  moreover have "shredded {p} f (tick f)" if "b = []" using assms that by (auto simp: shredded_def zeroed_def)
  ultimately show ?thesis using assms(1) honest_fault [OF assms(3)]
    by (auto simp: overwrite_file_def wp_simps fs_wp is_file_def split: option.splits fault.splits)
qed

lemma zeroed_more:
  assumes "zeroed Z f g" "zeroed {p} g h"
  shows "zeroed (insert p Z) f h"
  using assms by (auto simp: zeroed_def option.map_comp o_def split: if_splits)

lemma wp_overwrite_files:
  "0 < k \<Longrightarrow> set ps \<subseteq> fst ` set (fs_files f) \<Longrightarrow> shredded Z f g \<Longrightarrow> Z \<subseteq> Y \<Longrightarrow> set ps \<subseteq> Y \<Longrightarrow>
    wp (mapM_e (overwrite_file k) ps) (\<lambda>_. shredded (Z \<union> set ps) f) (\<lambda>_. only_in Y f) g"
proof (induction ps arbitrary: Z g)
  case Nil
  then show ?case by (simp add: wp_simps)
next
  case (Cons p ps)
  have o: "only_in Y f g" using Cons.prems(3,4) by (auto simp: shredded_def zeroed_def only_in_def)
  have "tab_get (fs_files f) p \<noteq> None" using Cons.prems(2) by (auto simp: tab_get_None)
  then have "tab_get (fs_files g) p \<noteq> None" using Cons.prems(3) by (auto simp: shredded_def zeroed_def)
  then obtain b where b: "tab_get (fs_files g) p = Some b" by blast
  have h: "honest_faults g" using Cons.prems(3) by (simp add: shredded_def)
  have "wp (overwrite_file k p) (\<lambda>_. shredded {p} g) (\<lambda>_. only_in {p} g) g"
    by (rule wp_overwrite_file [OF b Cons.prems(1) h])
  then have "wp (overwrite_file k p) (\<lambda>_. shredded (insert p Z) f) (\<lambda>_. only_in Y f) g"
    by (rule wp_mono) (use Cons.prems o in \<open>auto simp: shredded_def intro: zeroed_more only_in_trans only_in_mono\<close>)
  then have "wp (bind (overwrite_file k p) (\<lambda>x. bind (mapM_e (overwrite_file k) ps) (\<lambda>xs. ret (x # xs))))
      (\<lambda>_. shredded (Z \<union> set (p # ps)) f) (\<lambda>_. only_in Y f) g"
  proof (rule wp_then)
    fix x h assume h: "shredded (insert p Z) f h"
    show "wp (bind (mapM_e (overwrite_file k) ps) (\<lambda>xs. ret (x # xs))) (\<lambda>_. shredded (Z \<union> set (p # ps)) f) (\<lambda>_. only_in Y f) h"
      using Cons.IH [OF Cons.prems(1) _ h] Cons.prems by (simp add: wp_simps)
  qed
  then show ?case by simp
qed

lemma wp_remove_dir_all:
  "wp (fs_remove_dir_all d) Q E f = (case fault_of f of
      Some (Fault e _) \<Rightarrow> E e (tick f)
    | None \<Rightarrow> if is_dir f d then Q () ((tick f)\<lparr>fs_dirs := List.filter (\<lambda>p. \<not> under d p) (fs_dirs f),
          fs_files := List.filter (\<lambda>(p, _). \<not> under d p) (fs_files f)\<rparr>)
        else E io_not_found (tick f))"
  by (simp add: fs_remove_dir_all_def wp_simps no_trace_def split: option.splits fault.splits) (simp add: wp_def)

lemma tab_get_filter: "tab_get (List.filter (\<lambda>(p, _). P p) t) p = (if P p then tab_get t p else None)"
  by (induction t) auto

text \<open>The files that are gone, and the rest as it was.\<close>

definition tree_gone :: "path \<Rightarrow> fs \<Rightarrow> fs \<Rightarrow> bool" where
  "tree_gone d f g \<longleftrightarrow> fs_dirs g = List.filter (\<lambda>p. \<not> under d p) (fs_dirs f) \<and>
     (\<forall>p. tab_get (fs_files g) p = (if under d p then None else tab_get (fs_files f) p))"

lemma below_mem: "p \<in> below f d \<longleftrightarrow> under d p \<and> tab_get (fs_files f) p \<noteq> None"
  by (auto simp: below_def tab_get_None)

text \<open>The run of the shredder on a tree: \<open>h\<close> is the state in which every collected file was overwritten.\<close>

definition shred_tree :: "nat \<Rightarrow> path \<Rightarrow> fs \<Rightarrow> fs \<Rightarrow> fs \<Rightarrow> bool" where
  "shred_tree k d f h g \<longleftrightarrow> (\<exists>files us f1. collect_files [] (tick f) [d] = (Inr files, f1) \<and>
     mapM_e (overwrite_file k) files f1 = (Inr us, h) \<and> fs_remove_dir_all d h = (Inr (), g))"

lemma deleted_tick: "zeroed Z (tick f) g = zeroed Z f g" "only_in Z (tick f) g = only_in Z f g" "tree_gone d (tick f) g = tree_gone d f g"
  by (simp_all add: zeroed_def only_in_def tree_gone_def)

lemma shred_dir_cases:
  assumes "wf_tree f" "honest_faults f" "0 < k" "d \<in> set (fs_dirs f)" "d \<noteq> ''/''" "shred_dir k d f = (r, g)"
  shows "case r of
      Inr _ \<Rightarrow> tree_gone d f g \<and>
        (\<exists>h. shred_tree k d f h g \<and> zeroed (below f d) f h)
    | Inl _ \<Rightarrow> only_in (below f d) f g"
proof -
  have dir: "is_dir f d" using assms(4) by (simp add: is_dir_mem)
  show ?thesis
  proof (cases "fault_of f")
    case (Some x)
    then obtain e part where x: "fault_of f = Some (Fault e part)" by (cases x) auto
    then show ?thesis using assms(6) honest_fault [OF assms(2) x] dir
      by (auto simp: shred_dir_def bind_def gets_def attempt_def fs_metadata_def with_fault_eq no_trace_def throw_def)
  next
    case None
    define C where "C = (\<lambda>f. collect_files [] f [d])"
    obtain r1 f1 where c: "C (tick f) = (r1, f1)" by fastforce
    have all: "same_tree f f1 \<and> honest_faults f1 \<and> (\<forall>files. r1 = Inr files \<longrightarrow> set files = below f d)"
      using collect_files_all [OF c [unfolded C_def]] assms(1,2,4,5) by simp
    have s: "shred_dir k d f = bind C (\<lambda>files.
        bind (mapM_e (overwrite_file k) files) (\<lambda>_. map_err io_err (fs_remove_dir_all d))) (tick f)"
      using None dir by (simp add: C_def shred_dir_def bind_def gets_def attempt_def fs_metadata_def with_fault_eq)
    show ?thesis
    proof (cases r1)
      case (Inl e)
      then show ?thesis using assms(6) all s c by (auto simp: bind_def only_in_def same_tree_def)
    next
      case (Inr files)
      then have fs: "set files = below f d" using all by simp
      have z: "shredded {} f f1" using all by (simp add: shredded_def zeroed_def same_tree_def)
      have m: "wp (mapM_e (overwrite_file k) files) (\<lambda>_. shredded (below f d) f) (\<lambda>_. only_in (below f d) f) f1"
        using wp_overwrite_files [OF assms(3) _ z, of files "below f d"] fs by (auto simp: below_def)
      obtain r2 h where h: "mapM_e (overwrite_file k) files f1 = (r2, h)" by fastforce
      show ?thesis
      proof (cases r2)
        case (Inl e)
        then have "Inl e = r \<and> h = g" using assms(6) s c Inr h by (simp add: bind_def)
        moreover have "only_in (below f d) f h" using wp_err [OF m] h Inl by simp
        ultimately show ?thesis by auto
      next
        case (Inr us)
        have z: "zeroed (below f d) f h" using wp_ok [OF m] h Inr by (simp add: shredded_def)
        obtain r3 g3 where r3: "fs_remove_dir_all d h = (r3, g3)" by fastforce
        then have g: "g = g3" "r = (case r3 of Inl e \<Rightarrow> Inl (io_err e) | Inr v \<Rightarrow> Inr v)"
          using assms(6) s c h Inr \<open>r1 = Inr files\<close> by (auto simp: bind_def map_err_def split: sum.splits)
        have w: "wp (fs_remove_dir_all d) (\<lambda>_. tree_gone d h) (\<lambda>_. zeroed (below f d) f) h"
          using z by (auto simp: wp_remove_dir_all tree_gone_def tab_get_filter split: option.splits fault.splits)
        show ?thesis
        proof (cases r3)
          case (Inl e)
          then have "zeroed (below f d) f g" using wp_err [OF w] r3 g(1) by simp
          then show ?thesis using g Inl by (auto simp: zeroed_def only_in_def)
        next
          case (Inr u)
          then have "tree_gone d h g" using wp_ok [OF w] r3 g(1) by simp
          then have "tree_gone d f g" using z by (auto simp: tree_gone_def zeroed_def below_def)
          then show ?thesis using g Inr r3 h z c \<open>r2 = Inr us\<close> \<open>r1 = Inr files\<close> by (auto simp: C_def shred_tree_def simp del: collect_files.simps)
        qed
      qed
    qed
  qed
qed

section \<open>Deleting a profile\<close>

lemma profile_dir_real: "wf_profile_id i \<Longrightarrow> profile_dir P i \<noteq> [] \<and> profile_dir P i \<noteq> ''/''"
  using profile_dir_ends [of i P] by (auto simp: ends_with_def)


text \<open>A profile with one file holding a secret: the deletion succeeds, so the file was zeroed and is gone.\<close>

definition shred_world :: "nat store_world" where
  "shred_world = (let d = profile_dir sample_store sample_profile in
     \<lparr> sw_fs = \<lparr> fs_files = [(path_join d ''key'', ''secret''), (''/p/other'', ''kept'')], fs_dirs = [''/'', ''/p'', d],
       fs_faults = [] \<rparr>, sw_env = 7 \<rparr>)"


section \<open>The size of a profile\<close>

text \<open>
  C36: The directory walk that sizes a profile ends and is exact: on a well-formed tree
  without I/O faults it visits every file below the directory once, so it returns the sum
  of their lengths, saturated at the largest 64-bit number, and changes nothing.
\<close>
theorem dir_size_total:
  assumes "fs_faults f = []" "wf_tree f" "d \<in> set (fs_dirs f)" "d \<noteq> ''/''"
  shows "dir_size d f = (Inr (min (\<Sum>p \<in> {p \<in> fst ` set (fs_files f). under d p}. length (the (tab_get (fs_files f) p))) (2 ^ 64 - 1)), f)"
proof -
  have "tree_size f d = (\<Sum>p \<in> {p \<in> fst ` set (fs_files f). under d p}. length (the (tab_get (fs_files f) p)))"
    unfolding tree_size_def below_def
    by (rule sum.cong) (auto simp: file_size_def tab_get_None split: option.split)
  then show ?thesis
    using dir_size_walk_exact [of 0 0 f "[d]"] assms by (simp add: dir_size_def clip_def)
qed

lemma dir_size_total_witness: "fst (dir_size ''/p'' (sw_fs shred_world)) = Inr 10"
proof -
  have "wf_tree (sw_fs shred_world)" by code_simp
  then have "dir_size ''/p'' (sw_fs shred_world) = (Inr (min (\<Sum>p \<in> {p \<in> fst ` set (fs_files (sw_fs shred_world)). under ''/p'' p}.
      length (the (tab_get (fs_files (sw_fs shred_world)) p))) (2 ^ 64 - 1)), sw_fs shred_world)"
    by (intro dir_size_total) (simp_all add: shred_world_def Let_def)
  moreover have "{p \<in> fst ` set (fs_files (sw_fs shred_world)). under ''/p'' p}
      = {path_join (profile_dir sample_store sample_profile) ''key'', ''/p/other''}"
    by code_simp
  moreover have "tab_get (fs_files (sw_fs shred_world)) (path_join (profile_dir sample_store sample_profile) ''key'') = Some ''secret''"
    "tab_get (fs_files (sw_fs shred_world)) ''/p/other'' = Some ''kept''"
    "path_join (profile_dir sample_store sample_profile) ''key'' \<noteq> ''/p/other''"
    by code_simp+
  ultimately show ?thesis by simp
qed

end
