(* ===== verification/Launcher_Windows.thy ===== *)
theory Launcher_Windows
  imports Launcher_Run
begin

text \<open>
  \<^verbatim>\<open>crates/browser-launcher/src/host_runner.rs\<close> as it is compiled for Windows: the process
  environment, and the search for a browser in the well-known places before \<^verbatim>\<open>PATH\<close>.
\<close>

section \<open>Windows paths\<close>

definition backslash :: char where
  "backslash = CHR 0x5C"

text \<open>\<^verbatim>\<open>PathBuf::join\<close> with a relative path: a separator, unless there is one or only a drive.\<close>

definition drive_only :: "path \<Rightarrow> bool" where
  "drive_only p = (length p = 2 \<and> p ! 1 = CHR '':'' \<and>
     (let k = of_char (p ! 0) :: nat in 65 \<le> k \<and> k \<le> 90 \<or> 97 \<le> k \<and> k \<le> 122))"

definition win_join :: "path \<Rightarrow> path \<Rightarrow> path" where
  "win_join a b =
    (if a = [] \<or> last a = backslash \<or> last a = CHR ''/'' \<or> drive_only a then a @ b else a @ [backslash] @ b)"

text \<open>\<^verbatim>\<open>std::env::split_paths\<close>: semicolons outside double quotes, which are dropped.\<close>

fun split_paths_win :: "bool \<Rightarrow> path \<Rightarrow> string \<Rightarrow> path list" where
  "split_paths_win q acc [] = [acc]"
| "split_paths_win q acc (c # cs) =
    (if c = CHR 0x22 then split_paths_win (\<not> q) acc cs
     else if c = CHR '';'' \<and> \<not> q then acc # split_paths_win False [] cs
     else split_paths_win q (acc @ [c]) cs)"

definition windows_env :: "(string \<Rightarrow> string option) \<Rightarrow> (path \<Rightarrow> bool) \<Rightarrow> resolver_env" where
  "windows_env getenv isfile = \<lparr>
     re_var = (\<lambda>k. case getenv k of Some v \<Rightarrow> if trim v = [] then None else Some v | None \<Rightarrow> None),
     re_is_file = isfile,
     re_which = (\<lambda>p. case getenv ''PATH'' of
         None \<Rightarrow> None
       | Some v \<Rightarrow> List.find isfile (concat (List.map
           (\<lambda>d. win_join d p # (if ends_with (to_lower p) ''.exe'' then [] else [win_join d (p @ ''.exe'')]))
           (split_paths_win False [] v)))) \<rparr>"

section \<open>The searches\<close>

definition env_roots :: "resolver_env \<Rightarrow> path list" where
  "env_roots E = List.map_filter (re_var E) [''ProgramFiles'', ''ProgramFiles(x86)'', ''LOCALAPPDATA'']"

text \<open>Directory names joined by backslashes.\<close>

definition win_rel :: "string list \<Rightarrow> path" where
  "win_rel = join_with [backslash]"

definition search_windows :: "resolver_env \<Rightarrow> path option" where
  "search_windows E =
    (case List.find (re_is_file E) (concat (List.map (\<lambda>root.
        [win_join (win_join root (win_rel [''Google'', ''Chrome'', ''Application''])) ''chrome.exe'',
         win_join (win_join root (win_rel [''Chromium'', ''Application''])) ''chrome.exe'']) (env_roots E))) of
       Some p \<Rightarrow> Some p
     | None \<Rightarrow> (case List.find (re_is_file E) (List.map (\<lambda>root.
           win_join (win_join root (win_rel [''Microsoft'', ''Edge'', ''Application''])) ''msedge.exe'') (env_roots E)) of
         Some p \<Rightarrow> Some p
       | None \<Rightarrow> first_some (re_which E) [''chrome.exe'', ''msedge.exe'']))"

definition tor_roots :: "resolver_env \<Rightarrow> path list" where
  "tor_roots E = List.map_filter id
     [map_option (\<lambda>u. win_join u ''Desktop'') (re_var E ''USERPROFILE''),
      re_var E ''USERPROFILE'',
      map_option (\<lambda>u. win_join u ''Downloads'') (re_var E ''USERPROFILE''),
      re_var E ''ProgramFiles'', re_var E ''ProgramFiles(x86)'', re_var E ''LOCALAPPDATA'']"

definition search_firefox_windows :: "resolver_env \<Rightarrow> path option" where
  "search_firefox_windows E =
    (case List.find (re_is_file E) (List.map (\<lambda>root. win_join root (win_rel [''Tor Browser'', ''Browser'', ''firefox.exe''])) (tor_roots E)) of
       Some p \<Rightarrow> Some p
     | None \<Rightarrow> (case List.find (re_is_file E) (List.map (\<lambda>root. win_join (win_join root ''Mozilla Firefox'') ''firefox.exe'') (env_roots E)) of
         Some p \<Rightarrow> Some p
       | None \<Rightarrow> re_which E ''firefox.exe''))"

section \<open>What a search finds exists\<close>

lemma find_holds: "List.find P xs = Some x \<Longrightarrow> P x"
  by (induction xs) (auto split: if_splits)

lemma first_some_from: "first_some f xs = Some y \<Longrightarrow> \<exists>x \<in> set xs. f x = Some y"
  by (induction xs) (auto simp: first_some_def split: if_splits)

lemma case_found: "(case x of None \<Rightarrow> y | Some p \<Rightarrow> Some p) = Some q \<Longrightarrow> x = Some q \<or> y = Some q"
  by (cases x) auto

lemma windows_which_file:
  assumes "re_which (windows_env getenv isfile) n = Some p"
  shows "isfile p"
proof -
  obtain xs where "List.find isfile xs = Some p" using assms by (auto simp: windows_env_def split: option.splits)
  then show ?thesis by (rule find_holds)
qed

lemma windows_file [simp]: "re_is_file (windows_env getenv isfile) = isfile"
  by (simp add: windows_env_def)

lemma search_windows_exists:
  assumes "search_windows (windows_env getenv isfile) = Some p"
  shows "isfile p"
proof -
  have "(\<exists>xs. List.find isfile xs = Some p) \<or> (\<exists>xs. first_some (re_which (windows_env getenv isfile)) xs = Some p)"
    using assms unfolding search_windows_def windows_file by (elim case_found [elim_format] disjE) blast+
  then show ?thesis
    by (elim disjE exE; blast dest: find_holds first_some_from windows_which_file)
qed

lemma search_firefox_windows_exists:
  assumes "search_firefox_windows (windows_env getenv isfile) = Some p"
  shows "isfile p"
proof -
  have "(\<exists>xs. List.find isfile xs = Some p) \<or> re_which (windows_env getenv isfile) ''firefox.exe'' = Some p"
    using assms unfolding search_firefox_windows_def windows_file by (elim case_found [elim_format] disjE) blast+
  then show ?thesis
    by (elim disjE exE; blast dest: find_holds windows_which_file)
qed

text \<open>An installed Tor Browser is preferred over any other Firefox.\<close>

lemma tor_browser_first:
  assumes "root \<in> set (tor_roots E)" "re_is_file E (win_join root (win_rel [''Tor Browser'', ''Browser'', ''firefox.exe'']))"
  shows "\<exists>r \<in> set (tor_roots E). search_firefox_windows E = Some (win_join r (win_rel [''Tor Browser'', ''Browser'', ''firefox.exe'']))"
proof -
  let ?c = "\<lambda>r. win_join r (win_rel [''Tor Browser'', ''Browser'', ''firefox.exe''])"
  obtain p where p: "List.find (re_is_file E) (List.map ?c (tor_roots E)) = Some p"
    using assms by (cases "List.find (re_is_file E) (List.map ?c (tor_roots E))") (auto simp: find_None_iff)
  then have "p \<in> ?c ` set (tor_roots E)" by (auto simp: find_Some_iff)
  then show ?thesis using p by (auto simp: search_firefox_windows_def)
qed

end
