(* ===== verification/Interleaving.thy ===== *)
theory Interleaving
  imports Prelude
begin

text \<open>
  Programs cut into atomic steps.  Every await of an asynchronous function is a point at which
  other tasks may run; a program is a tree of atomic state changes, and running it without
  interruption gives back the computation of the calculus.  A pool of programs runs in any order.
\<close>

section \<open>Programs\<close>

datatype ('s, 'e, 'a) prog =
    is_Done: Done "'e + 'a"
  | Step "'s \<Rightarrow> 's" "'s \<Rightarrow> ('s, 'e, 'a) prog"

text \<open>Uninterrupted execution.\<close>

primrec run_prog :: "('s, 'e, 'a) prog \<Rightarrow> ('s, 'e, 'a) eff" where
  "run_prog (Done r) = (\<lambda>s. (r, s))"
| "run_prog (Step u k) = (\<lambda>s. run_prog (k s) (u s))"

text \<open>Sequencing on the result, be it an error or a value.\<close>

primrec prog_then :: "('s, 'e, 'a) prog \<Rightarrow> ('e + 'a \<Rightarrow> ('s, 'f, 'b) prog) \<Rightarrow> ('s, 'f, 'b) prog" where
  "prog_then (Done r) f = f r"
| "prog_then (Step u k) f = Step u (\<lambda>s. prog_then (k s) f)"

definition atomic :: "('s, 'e, 'a) eff \<Rightarrow> ('s, 'e, 'a) prog" where
  "atomic m = Step (\<lambda>s. snd (m s)) (\<lambda>s. Done (fst (m s)))"

definition p_bind :: "('s, 'e, 'a) prog \<Rightarrow> ('a \<Rightarrow> ('s, 'e, 'b) prog) \<Rightarrow> ('s, 'e, 'b) prog" where
  "p_bind p f = prog_then p (\<lambda>r. case r of Inl e \<Rightarrow> Done (Inl e) | Inr x \<Rightarrow> f x)"

definition p_attempt :: "('s, 'e, 'a) prog \<Rightarrow> ('s, 'f, 'e + 'a) prog" where
  "p_attempt p = prog_then p (\<lambda>r. Done (Inr r))"

lemma run_then: "run_prog (prog_then p f) s = (case run_prog p s of (r, t) \<Rightarrow> run_prog (f r) t)"
  by (induction p arbitrary: s) auto

lemma run_atomic [simp]: "run_prog (atomic m) = m"
  by (simp add: atomic_def)

lemma run_p_bind [simp]: "run_prog (p_bind p f) = bind (run_prog p) (\<lambda>x. run_prog (f x))"
  by (rule ext) (simp add: p_bind_def run_then bind_def split: prod.split sum.split)

lemma run_p_attempt [simp]: "run_prog (p_attempt p) = attempt (run_prog p)"
  by (rule ext) (simp add: p_attempt_def run_then attempt_def split: prod.split)

lemma run_p_done [simp]: "run_prog (Done (Inr x)) = ret x" "run_prog (Done (Inl e)) = throw e"
  by (simp_all add: ret_def throw_def)

text \<open>The first step of a composition is the first step of its first part.\<close>

lemma bind_atomic: "p_bind (atomic m) f = Step (\<lambda>s. snd (m s)) (\<lambda>s. case fst (m s) of Inl e \<Rightarrow> Done (Inl e) | Inr x \<Rightarrow> f x)"
  by (simp add: p_bind_def atomic_def)

lemma bind_attempt_atomic: "p_bind (p_attempt (atomic m)) f = Step (\<lambda>s. snd (m s)) (\<lambda>s. f (fst (m s)))"
  by (simp add: p_bind_def p_attempt_def atomic_def)

section \<open>Further combinators\<close>

definition p_seq :: "('s, 'e, 'a) prog \<Rightarrow> ('s, 'e, 'b) prog \<Rightarrow> ('s, 'e, 'b) prog" where
  "p_seq p q = p_bind p (\<lambda>_. q)"

definition p_ignore :: "('s, 'f, 'a) prog \<Rightarrow> ('s, 'e, unit) prog" where
  "p_ignore p = p_seq (p_attempt p) (Done (Inr ()))"

primrec p_mapM :: "('a \<Rightarrow> ('s, 'e, 'b) prog) \<Rightarrow> 'a list \<Rightarrow> ('s, 'e, 'b list) prog" where
  "p_mapM f [] = Done (Inr [])"
| "p_mapM f (x # xs) = p_bind (f x) (\<lambda>y. p_bind (p_mapM f xs) (\<lambda>ys. Done (Inr (y # ys))))"

lemma run_p_seq [simp]: "run_prog (p_seq p q) = seq (run_prog p) (run_prog q)"
  by (simp add: p_seq_def seq_def)

lemma run_p_lift: "run_prog (Done r) = lift_res r"
  by (rule ext) (simp add: lift_res_def)

lemma run_p_ignore: "run_prog (p_ignore p) = seq (attempt (run_prog p)) (ret ())"
  by (simp add: p_ignore_def del: run_prog.simps)

lemma run_p_mapM [simp]: "run_prog (p_mapM f xs) = mapM_e (\<lambda>x. run_prog (f x)) xs"
  by (induction xs) (simp_all del: run_prog.simps)

lemmas run_cases = if_distrib [of run_prog] option.case_distrib [of run_prog] sum.case_distrib [of run_prog]

lemma prog_then_assoc: "prog_then (prog_then p f) g = prog_then p (\<lambda>r. prog_then (f r) g)"
  by (induction p) auto

lemma p_bind_assoc: "p_bind (p_bind p f) g = p_bind p (\<lambda>x. p_bind (f x) g)"
  unfolding p_bind_def prog_then_assoc by (rule arg_cong [of _ _ "prog_then p"]) (auto split: sum.split)

lemma p_bind_done [simp]: "p_bind (Done (Inr x)) f = f x" "p_bind (Done (Inl e)) f = Done (Inl e)"
  by (simp_all add: p_bind_def)

end
