(* ===== verification/Lock_Interleaving.thy ===== *)
theory Lock_Interleaving
  imports Profile_Lock Interleaving
begin

text \<open>
  The lock operations of \<^verbatim>\<open>crates/profile-store/src/store.rs\<close> cut at their awaits: every file
  operation is one step, and any number of acquisitions and releases run interleaved with each
  other and with everything else the program does to the file system.  Neither operation takes
  the write guard of the store.
\<close>

section \<open>The operations as programs\<close>

definition acq_done :: "profile_id \<Rightarrow> string \<Rightarrow> ('e store_world, error, profile_lease) prog" where
  "acq_done i token = Done (Inr \<lparr> pl_profile = i, pl_token = token \<rparr>)"

definition acq_flush :: "'e store_params \<Rightarrow> profile_id \<Rightarrow> string \<Rightarrow> ('e store_world, error, profile_lease) prog" where
  "acq_flush P i token = p_bind (atomic (sfs_q fs_sync)) (\<lambda>_. acq_done i token)"

definition acq_write :: "'e store_params \<Rightarrow> profile_id \<Rightarrow> string \<Rightarrow> ('e store_world, error, profile_lease) prog" where
  "acq_write P i token = p_bind (atomic (sfs_q (fs_overwrite (lock_path P i) token))) (\<lambda>_. acq_flush P i token)"

definition acq_create :: "'e store_params \<Rightarrow> profile_id \<Rightarrow> string \<Rightarrow> ('e store_world, error, profile_lease) prog" where
  "acq_create P i token =
    p_bind (p_attempt (atomic (sfs (fs_create_new (lock_path P i))))) (\<lambda>o1. case o1 of
        Inr _ \<Rightarrow> acq_write P i token
      | Inl e \<Rightarrow>
          if io_kind e = IoAlreadyExists
          then Done (Inl (Busy (''profile '' @ profile_display i @ '' is already locked'')))
          else Done (Inl (io_err e)))"

definition acq_token :: "'e store_params \<Rightarrow> profile_id \<Rightarrow> ('e store_world, error, profile_lease) prog" where
  "acq_token P i = p_bind (atomic (senv (st_new_token P))) (acq_create P i)"

definition acquire_prog :: "'e store_params \<Rightarrow> profile_id \<Rightarrow> ('e store_world, error, profile_lease) prog" where
  "acquire_prog P i =
    p_bind (p_attempt (atomic (sfs (fs_metadata (profile_dir P i))))) (\<lambda>r.
    if \<not> is_ok r then Done (Inl (NotFound (''profile '' @ profile_display i)))
    else acq_token P i)"

definition rel_remove :: "'e store_params \<Rightarrow> profile_lease \<Rightarrow> ('e store_world, error, unit) prog" where
  "rel_remove P l = p_bind (atomic (sfs_q (fs_remove_file (lock_path P (pl_profile l))))) (\<lambda>x. Done (Inr x))"

definition release_prog :: "'e store_params \<Rightarrow> profile_lease \<Rightarrow> ('e store_world, error, unit) prog" where
  "release_prog P l =
    p_bind (p_attempt (atomic (sfs (fs_read (lock_path P (pl_profile l)))))) (\<lambda>r. case r of
       Inl e \<Rightarrow>
         if io_kind e = IoNotFound
         then Done (Inl (Precondition (''profile '' @ profile_display (pl_profile l) @ '' is not locked'')))
         else Done (Inl (io_err e))
     | Inr held \<Rightarrow>
         if held \<noteq> pl_token l
         then Done (Inl (Precondition (''lock token mismatch for profile '' @ profile_display (pl_profile l))))
         else rel_remove P l)"

text \<open>Run without interruption, they are the operations of the store.\<close>

lemma acquire_prog_run: "run_prog (acquire_prog P i) = acquire_lock P i"
  by (rule ext)
     (simp add: acquire_prog_def acq_token_def acq_create_def acq_write_def acq_flush_def acq_done_def acquire_lock_def
       seq_def bind_def throw_def ret_def split: prod.split sum.split)

lemma release_prog_run: "run_prog (release_prog P l) = release_lock P l"
  by (rule ext)
     (simp add: release_prog_def rel_remove_def release_lock_def Let_def bind_def throw_def ret_def split: prod.split sum.split)

section \<open>The pool\<close>

datatype 'e actor =
    Acquiring profile_id "('e store_world, error, profile_lease) prog"
  | Holding profile_lease
  | Releasing profile_lease "('e store_world, error, unit) prog"
  | Ended

inductive actor_step :: "'e store_params \<Rightarrow> 'e actor \<Rightarrow> 'e store_world \<Rightarrow> 'e actor \<Rightarrow> 'e store_world \<Rightarrow> bool"
  for P :: "'e store_params" where
  acq_move: "actor_step P (Acquiring i (Step u k)) w (Acquiring i (k w)) (u w)"
| acq_won: "actor_step P (Acquiring i (Done (Inr l))) w (Holding l) w"
| acq_lost: "actor_step P (Acquiring i (Done (Inl e))) w Ended w"
| rel_begin: "actor_step P (Holding l) w (Releasing l (release_prog P l)) w"
| rel_move: "actor_step P (Releasing l (Step u k)) w (Releasing l (k w)) (u w)"
| rel_end: "actor_step P (Releasing l (Done r)) w Ended w"

inductive_cases actor_stepE: "actor_step P (Acquiring i p) w a w'" "actor_step P (Holding l) w a w'"
  "actor_step P (Releasing l r) w a w'" "actor_step P Ended w a w'"

text \<open>What the rest of the program may do meanwhile: anything but touch a lock file.\<close>

definition leaves_locks :: "'e store_params \<Rightarrow> 'e store_world \<Rightarrow> 'e store_world \<Rightarrow> bool" where
  "leaves_locks P w w' \<longleftrightarrow> (\<forall>i. wf_profile_id i \<longrightarrow> lock_holder P w' i = lock_holder P w i)"

text \<open>
  With \<^verbatim>\<open>clones\<close>, further tasks may release a lease that another task holds:
  \<^verbatim>\<open>Orchestrator::teardown\<close> clones the lease out of the session table, and nothing keeps a second
  teardown of the same session from starting while the first one runs.
\<close>

inductive lock_pool :: "bool \<Rightarrow> 'e store_params \<Rightarrow> 'e actor list \<Rightarrow> 'e store_world \<Rightarrow> bool"
  for clones :: bool and P :: "'e store_params" where
  pool_start: "lock_pool clones P [] w"
| pool_join: "lock_pool clones P as w \<Longrightarrow> wf_profile_id i \<Longrightarrow> lock_pool clones P (as @ [Acquiring i (acquire_prog P i)]) w"
| pool_move: "lock_pool clones P as w \<Longrightarrow> n < length as \<Longrightarrow> actor_step P (as ! n) w a w' \<Longrightarrow> lock_pool clones P (as[n := a]) w'"
| pool_other: "lock_pool clones P as w \<Longrightarrow> leaves_locks P w w' \<Longrightarrow> lock_pool clones P as w'"
| pool_clone: "lock_pool clones P as w \<Longrightarrow> clones \<Longrightarrow> n < length as \<Longrightarrow> as ! n = Holding l \<Longrightarrow>
    lock_pool clones P (as @ [Releasing l (release_prog P l)]) w"

section \<open>Claims\<close>

text \<open>The lock an actor claims: from the creation of the file to the step that removes it.\<close>

inductive claims :: "'e store_params \<Rightarrow> 'e store_world \<Rightarrow> 'e actor \<Rightarrow> profile_id option \<Rightarrow> bool"
  for P :: "'e store_params" and w :: "'e store_world" where
  "wf_profile_id i \<Longrightarrow> claims P w (Acquiring i (acquire_prog P i)) None"
| "wf_profile_id i \<Longrightarrow> claims P w (Acquiring i (acq_token P i)) None"
| "wf_profile_id i \<Longrightarrow> claims P w (Acquiring i (acq_create P i t)) None"
| "wf_profile_id i \<Longrightarrow> lock_holder P w i \<noteq> None \<Longrightarrow> claims P w (Acquiring i (acq_write P i t)) (Some i)"
| "wf_profile_id i \<Longrightarrow> lock_holder P w i = Some t \<Longrightarrow> claims P w (Acquiring i (acq_flush P i t)) (Some i)"
| "wf_profile_id i \<Longrightarrow> lock_holder P w i = Some t \<Longrightarrow> claims P w (Acquiring i (acq_done i t)) (Some i)"
| "claims P w (Acquiring i (Done (Inl e))) None"
| "wf_profile_id (pl_profile l) \<Longrightarrow> lock_holder P w (pl_profile l) = Some (pl_token l) \<Longrightarrow> claims P w (Holding l) (Some (pl_profile l))"
| "wf_profile_id (pl_profile l) \<Longrightarrow> lock_holder P w (pl_profile l) = Some (pl_token l) \<Longrightarrow>
     claims P w (Releasing l (release_prog P l)) (Some (pl_profile l))"
| "wf_profile_id (pl_profile l) \<Longrightarrow> lock_holder P w (pl_profile l) = Some (pl_token l) \<Longrightarrow>
     claims P w (Releasing l (rel_remove P l)) (Some (pl_profile l))"
| "claims P w (Releasing l (Done r)) None"
| "claims P w Ended None"

lemma claims_holder: "claims P w a (Some i) \<Longrightarrow> wf_profile_id i \<and> lock_holder P w i \<noteq> None"
  by (cases rule: claims.cases) auto

lemma claims_stable:
  assumes "claims P w a c" "\<And>i. c = Some i \<Longrightarrow> lock_holder P w' i = lock_holder P w i"
  shows "claims P w' a c"
  using assms by (cases rule: claims.cases) (auto intro: claims.intros)

section \<open>What a step does to the locks\<close>

text \<open>An actor without a claim leaves existing locks alone; one with a claim touches that lock only.\<close>

definition frame_of :: "'e store_params \<Rightarrow> profile_id option \<Rightarrow> 'e store_world \<Rightarrow> 'e store_world \<Rightarrow> bool" where
  "frame_of P c w w' \<longleftrightarrow> (\<forall>j. wf_profile_id j \<longrightarrow> (case c of
      None \<Rightarrow> lock_holder P w j \<noteq> None \<longrightarrow> lock_holder P w' j = lock_holder P w j
    | Some i \<Rightarrow> j \<noteq> i \<longrightarrow> lock_holder P w' j = lock_holder P w j))"

definition claim_step :: "'e store_params \<Rightarrow> 'e store_world \<Rightarrow> profile_id option \<Rightarrow> profile_id option \<Rightarrow> bool" where
  "claim_step P w c c' \<longleftrightarrow> (case c' of None \<Rightarrow> True | Some i \<Rightarrow> c = Some i \<or> c = None \<and> lock_holder P w i = None)"

definition good_step :: "'e store_params \<Rightarrow> profile_id option \<Rightarrow> 'e store_world \<Rightarrow> 'e actor \<Rightarrow> 'e store_world \<Rightarrow> bool" where
  "good_step P c w a' w' \<longleftrightarrow> (\<exists>c'. claims P w' a' c' \<and> claim_step P w c c' \<and> frame_of P c w w')"

lemma good_stepI: "claims P w' a' c' \<Longrightarrow> claim_step P w c c' \<Longrightarrow> frame_of P c w w' \<Longrightarrow> good_step P c w a' w'"
  by (auto simp: good_step_def)

lemma claim_step_simps [simp]: "claim_step P w c None" "claim_step P w (Some i) (Some i)"
    "claim_step P w None (Some i) \<longleftrightarrow> lock_holder P w i = None"
  by (simp_all add: claim_step_def)

lemma frame_refl [simp]: "frame_of P c w w"
  by (simp add: frame_of_def split: option.split)

lemma frame_except: "same_except (lock_path P i) w t \<Longrightarrow> wf_profile_id i \<Longrightarrow> frame_of P (Some i) w t"
  by (simp add: frame_of_def same_except_holder)

lemma frame_created: "same_except (lock_path P i) w t \<Longrightarrow> wf_profile_id i \<Longrightarrow> lock_holder P w i = None \<Longrightarrow> frame_of P None w t"
proof -
  assume a: "same_except (lock_path P i) w t" "wf_profile_id i" "lock_holder P w i = None"
  have "lock_holder P t j = lock_holder P w j" if "wf_profile_id j" "lock_holder P w j \<noteq> None" for j
    by (rule same_except_holder [OF a(1,2) that(1)]) (use a(3) that(2) in auto)
  then show ?thesis by (simp add: frame_of_def)
qed

definition keeps_files :: "'e store_world \<Rightarrow> 'e store_world \<Rightarrow> bool" where
  "keeps_files w t \<longleftrightarrow> fs_files (sw_fs t) = fs_files (sw_fs w)"

lemma keeps_holder: "keeps_files w t \<Longrightarrow> lock_holder P t i = lock_holder P w i"
  by (simp add: keeps_files_def lock_holder_def)

lemma frame_keeps: "keeps_files w t \<Longrightarrow> frame_of P c w t"
  by (simp add: frame_of_def keeps_holder split: option.split)

lemma wp_steps:
  "wp (sfs (fs_metadata d)) (\<lambda>_. keeps_files w) (\<lambda>_. keeps_files w) w"
  "wp (senv g) (\<lambda>_. keeps_files w) (\<lambda>_. keeps_files w) w"
  "wp (sfs_q fs_sync) (\<lambda>_. keeps_files w) (\<lambda>_. keeps_files w) w"
  "wp (sfs (fs_read d)) (\<lambda>_. keeps_files w) (\<lambda>_. keeps_files w) w"
  "wp (sfs_q (fs_remove_file d)) (\<lambda>_. same_except d w) (\<lambda>_. same_except d w) w"
  by (simp_all add: wp_simps fs_wp keeps_files_def same_except_def split: option.splits fault.splits)

lemma wp_step_create:
  "wp (sfs (fs_create_new (lock_path P i)))
     (\<lambda>_ t. lock_holder P w i = None \<and> lock_holder P t i \<noteq> None \<and> same_except (lock_path P i) w t)
     (\<lambda>_. keeps_files w) w"
  by (auto simp: wp_simps fs_wp keeps_files_def lock_holder_def same_except_def is_file_def split: option.splits fault.splits)

lemma wp_step_write:
  "lock_holder P w i \<noteq> None \<Longrightarrow> wp (sfs_q (fs_overwrite (lock_path P i) token))
     (\<lambda>_ t. lock_holder P t i = Some token \<and> same_except (lock_path P i) w t)
     (\<lambda>_. same_except (lock_path P i) w) w"
  by (auto simp: wp_simps fs_wp lock_holder_def same_except_def is_file_def partial_file_other
      split: option.splits fault.splits)

lemma wp_outcome:
  "wp m Q E w \<Longrightarrow> (\<exists>x. fst (m w) = Inr x \<and> Q x (snd (m w))) \<or> (\<exists>e. fst (m w) = Inl e \<and> E e (snd (m w)))"
  by (auto simp: wp_def split: prod.splits sum.splits)

text \<open>The program of an actor after its next step, stage by stage.\<close>

lemma step_metadata:
  assumes "acquire_prog P i = Step u k" "wf_profile_id i"
  shows "good_step P None w (Acquiring i (k w)) (u w)"
proof -
  let ?m = "sfs (fs_metadata (profile_dir P i))"
  have s: "u w = snd (?m w)" "k w = (if \<not> is_ok (fst (?m w)) then Done (Inl (NotFound (''profile '' @ profile_display i))) else acq_token P i)"
    using assms(1) by (auto simp: acquire_prog_def bind_attempt_atomic)
  have "keeps_files w (u w)" using wp_outcome [OF wp_steps(1)] s(1) by metis
  then have "frame_of P None w (u w)" by (rule frame_keeps)
  moreover have "claims P (u w) (Acquiring i (k w)) None" using assms(2) by (auto simp: s(2) intro: claims.intros)
  ultimately show ?thesis by (intro good_stepI) auto
qed

lemma step_token:
  assumes "acq_token P i = Step u k" "wf_profile_id i"
  shows "good_step P None w (Acquiring i (k w)) (u w)"
proof -
  let ?m = "senv (st_new_token P) :: ('a, string) store"
  have s: "u w = snd (?m w)" "k w = (case fst (?m w) of Inl e \<Rightarrow> Done (Inl e) | Inr x \<Rightarrow> acq_create P i x)"
    using assms(1) by (auto simp: acq_token_def bind_atomic)
  have "keeps_files w (u w)" using wp_outcome [OF wp_steps(2)] s(1) by metis
  then have "frame_of P None w (u w)" by (rule frame_keeps)
  moreover have "claims P (u w) (Acquiring i (k w)) None"
    using assms(2) by (auto simp: s(2) intro: claims.intros split: sum.split)
  ultimately show ?thesis by (intro good_stepI) auto
qed

lemma step_create:
  assumes "acq_create P i t = Step u k" "wf_profile_id i"
  shows "good_step P None w (Acquiring i (k w)) (u w)"
proof -
  let ?m = "sfs (fs_create_new (lock_path P i))"
  have s: "u w = snd (?m w)" "k w = (case fst (?m w) of Inr _ \<Rightarrow> acq_write P i t | Inl e \<Rightarrow>
      if io_kind e = IoAlreadyExists then Done (Inl (Busy (''profile '' @ profile_display i @ '' is already locked'')))
      else Done (Inl (io_err e)))"
    using assms(1) by (auto simp: acq_create_def bind_attempt_atomic)
  from wp_outcome [OF wp_step_create [of P i w]] show ?thesis
  proof (elim disjE exE conjE)
    fix x assume "fst (?m w) = Inr x" and c: "lock_holder P w i = None" "lock_holder P (snd (?m w)) i \<noteq> None"
      "same_except (lock_path P i) w (snd (?m w))"
    then show ?thesis using assms(2)
      by (intro good_stepI [of _ _ _ "Some i"]) (auto simp: s intro: claims.intros frame_created)
  next
    fix e assume "fst (?m w) = Inl e" "keeps_files w (snd (?m w))"
    then show ?thesis using assms(2)
      by (intro good_stepI [of _ _ _ None]) (auto simp: s intro: claims.intros frame_keeps)
  qed
qed

lemma step_write:
  assumes "acq_write P i t = Step u k" "wf_profile_id i" "lock_holder P w i \<noteq> None"
  shows "good_step P (Some i) w (Acquiring i (k w)) (u w)"
proof -
  let ?m = "sfs_q (fs_overwrite (lock_path P i) t)"
  have s: "u w = snd (?m w)" "k w = (case fst (?m w) of Inl e \<Rightarrow> Done (Inl e) | Inr _ \<Rightarrow> acq_flush P i t)"
    using assms(1) by (auto simp: acq_write_def bind_atomic)
  from wp_outcome [OF wp_step_write [OF assms(3), of t]] show ?thesis
  proof (elim disjE exE conjE)
    fix x assume "fst (?m w) = Inr x" "lock_holder P (snd (?m w)) i = Some t" "same_except (lock_path P i) w (snd (?m w))"
    then show ?thesis using assms(2)
      by (intro good_stepI [of _ _ _ "Some i"]) (auto simp: s intro: claims.intros frame_except)
  next
    fix e assume "fst (?m w) = Inl e" "same_except (lock_path P i) w (snd (?m w))"
    then show ?thesis using assms(2)
      by (intro good_stepI [of _ _ _ None]) (auto simp: s intro: claims.intros frame_except)
  qed
qed

lemma step_flush:
  assumes "acq_flush P i t = Step u k" "wf_profile_id i" "lock_holder P w i = Some t"
  shows "good_step P (Some i) w (Acquiring i (k w)) (u w)"
proof -
  let ?m = "sfs_q fs_sync :: ('a, unit) store"
  have s: "u w = snd (?m w)" "k w = (case fst (?m w) of Inl e \<Rightarrow> Done (Inl e) | Inr _ \<Rightarrow> acq_done i t)"
    using assms(1) by (auto simp: acq_flush_def bind_atomic)
  have q: "keeps_files w (u w)" using wp_outcome [OF wp_steps(3)] s(1) by metis
  then have h: "lock_holder P (u w) i = Some t" using assms(3) by (simp add: keeps_holder)
  show ?thesis
  proof (cases "fst (?m w)")
    case (Inl e)
    then show ?thesis using frame_keeps [OF q] by (intro good_stepI [of _ _ _ None]) (auto simp: s(2) intro: claims.intros)
  next
    case (Inr x)
    then show ?thesis using frame_keeps [OF q] h assms(2)
      by (intro good_stepI [of _ _ _ "Some i"]) (auto simp: s(2) intro: claims.intros)
  qed
qed

lemma step_read:
  assumes "release_prog P l = Step u k" "wf_profile_id (pl_profile l)" "lock_holder P w (pl_profile l) = Some (pl_token l)"
  shows "good_step P (Some (pl_profile l)) w (Releasing l (k w)) (u w)"
proof -
  let ?m = "sfs (fs_read (lock_path P (pl_profile l)))"
  have u: "u w = snd (?m w)" using assms(1) by (auto simp: release_prog_def bind_attempt_atomic)
  have q: "keeps_files w (u w)" using wp_outcome [OF wp_steps(4)] u by metis
  then have h: "lock_holder P (u w) (pl_profile l) = Some (pl_token l)" using assms(3) by (simp add: keeps_holder)
  have "(\<exists>e. k w = Done (Inl e)) \<or> k w = rel_remove P l"
    using assms(1) by (auto simp: release_prog_def bind_attempt_atomic split: sum.split)
  then show ?thesis
  proof (elim disjE exE)
    fix e assume "k w = Done (Inl e)"
    then show ?thesis using frame_keeps [OF q] by (intro good_stepI [of _ _ _ None]) (auto intro: claims.intros)
  next
    assume "k w = rel_remove P l"
    then show ?thesis using frame_keeps [OF q] h assms(2)
      by (intro good_stepI [of _ _ _ "Some (pl_profile l)"]) (auto intro: claims.intros)
  qed
qed

lemma step_remove:
  assumes "rel_remove P l = Step u k" "wf_profile_id (pl_profile l)"
  shows "good_step P (Some (pl_profile l)) w (Releasing l (k w)) (u w)"
proof -
  let ?m = "sfs_q (fs_remove_file (lock_path P (pl_profile l)))"
  have s: "u w = snd (?m w)" "\<exists>r. k w = Done r"
    using assms(1) by (auto simp: rel_remove_def bind_atomic split: sum.split)
  have "same_except (lock_path P (pl_profile l)) w (u w)" using wp_outcome [OF wp_steps(5)] s(1) by metis
  then show ?thesis using s(2) assms(2)
    by (intro good_stepI [of _ _ _ None]) (auto intro: claims.intros frame_except)
qed

lemma running [simp]: "acquire_prog P i \<noteq> Done r1" "acq_token P i \<noteq> Done r1" "acq_create P i t \<noteq> Done r1" "acq_write P i t \<noteq> Done r1"
    "acq_flush P i t \<noteq> Done r1" "release_prog P l \<noteq> Done r2" "rel_remove P l \<noteq> Done r2"
  by (simp_all add: acquire_prog_def acq_token_def acq_create_def acq_write_def acq_flush_def release_prog_def rel_remove_def
      bind_atomic bind_attempt_atomic)

lemma running_sym [simp]: "Done r1 \<noteq> acquire_prog P i" "Done r1 \<noteq> acq_token P i" "Done r1 \<noteq> acq_create P i t" "Done r1 \<noteq> acq_write P i t"
    "Done r1 \<noteq> acq_flush P i t" "Done r2 \<noteq> release_prog P l" "Done r2 \<noteq> rel_remove P l"
  using running by metis+

lemma actor_step_good:
  assumes "claims P w a c" "actor_step P a w a' w'"
  shows "good_step P c w a' w'"
  using assms(1)
proof (cases rule: claims.cases)
  case (1 i)
  then show ?thesis using assms(2) by (auto elim!: actor_stepE intro: step_metadata dest: sym)
next
  case (2 i)
  then show ?thesis using assms(2) by (auto elim!: actor_stepE intro: step_token dest: sym)
next
  case (3 i t)
  then show ?thesis using assms(2) by (auto elim!: actor_stepE intro: step_create dest: sym)
next
  case (4 i t)
  then show ?thesis using assms(2) by (auto elim!: actor_stepE intro: step_write dest: sym)
next
  case (5 i t)
  then show ?thesis using assms(2) by (auto elim!: actor_stepE intro: step_flush dest: sym)
next
  case (6 i t)
  then have "a' = Holding \<lparr> pl_profile = i, pl_token = t \<rparr>" "w' = w" using assms(2) by (auto simp: acq_done_def elim!: actor_stepE)
  then show ?thesis using 6 claims.intros(8) [of "\<lparr> pl_profile = i, pl_token = t \<rparr>" P w]
    by (intro good_stepI [of _ _ _ "Some i"]) auto
next
  case (7 i e)
  then have "a' = Ended" "w' = w" using assms(2) by (auto elim!: actor_stepE)
  then show ?thesis using 7 by (intro good_stepI [of _ _ _ None]) (auto intro: claims.intros)
next
  case (8 l)
  then have "a' = Releasing l (release_prog P l)" "w' = w" using assms(2) by (auto elim!: actor_stepE)
  then show ?thesis using 8 by (intro good_stepI [of _ _ _ "Some (pl_profile l)"]) (auto intro: claims.intros)
next
  case (9 l)
  then show ?thesis using assms(2) by (auto elim!: actor_stepE intro: step_read dest: sym)
next
  case (10 l)
  then show ?thesis using assms(2) by (auto elim!: actor_stepE intro: step_remove dest: sym)
next
  case (11 l r)
  then have "a' = Ended" "w' = w" using assms(2) by (auto elim!: actor_stepE)
  then show ?thesis using 11 by (intro good_stepI [of _ _ _ None]) (auto intro: claims.intros)
next
  case 12
  then show ?thesis using assms(2) by (auto elim!: actor_stepE)
qed

section \<open>Exclusive leases\<close>

text \<open>In every reachable pool each lock is claimed by one actor at most.\<close>

definition pool_ok :: "'e store_params \<Rightarrow> 'e store_world \<Rightarrow> 'e actor list \<Rightarrow> profile_id option list \<Rightarrow> bool" where
  "pool_ok P w as cs \<longleftrightarrow> list_all2 (claims P w) as cs \<and>
     (\<forall>m < length cs. \<forall>n < length cs. \<forall>i. cs ! m = Some i \<longrightarrow> cs ! n = Some i \<longrightarrow> m = n)"

lemma pool_ok_moved:
  assumes ok: "pool_ok P w as cs" and n: "n < length as" and g: "good_step P (cs ! n) w a w'"
  shows "\<exists>cs'. pool_ok P w' (as[n := a]) cs'"
proof -
  have l: "length cs = length as" and cl: "\<And>m. m < length as \<Longrightarrow> claims P w (as ! m) (cs ! m)"
    and ex: "\<And>m k i. m < length as \<Longrightarrow> k < length as \<Longrightarrow> cs ! m = Some i \<Longrightarrow> cs ! k = Some i \<Longrightarrow> m = k"
    using ok by (auto simp: pool_ok_def list_all2_conv_all_nth)
  obtain c' where c': "claims P w' a c'" "claim_step P w (cs ! n) c'" "frame_of P (cs ! n) w w'"
    using g by (auto simp: good_step_def)
  have held: "wf_profile_id i \<and> lock_holder P w i \<noteq> None" if "m < length as" "cs ! m = Some i" for m i
    using claims_holder cl that by metis
  have other: "claims P w' (as ! m) (cs ! m)" if "m < length as" "m \<noteq> n" for m
  proof (rule claims_stable [OF cl [OF that(1)]])
    fix i assume i: "cs ! m = Some i"
    have "cs ! n \<noteq> Some i" using ex [OF that(1) n i] that(2) by blast
    then show "lock_holder P w' i = lock_holder P w i"
      using c'(3) held [OF that(1) i] by (cases "cs ! n") (auto simp: frame_of_def)
  qed
  have fresh: "cs ! m \<noteq> Some i" if "m < length as" "m \<noteq> n" "c' = Some i" for m i
  proof
    assume i: "cs ! m = Some i"
    then have "cs ! n = Some i" using c'(2) that(3) held [OF that(1) i] by (auto simp: claim_step_def)
    then show False using ex [OF that(1) n i] that(2) by blast
  qed
  have "list_all2 (claims P w') (as[n := a]) (cs[n := c'])"
    using l n c'(1) other by (auto simp: list_all2_conv_all_nth nth_list_update)
  moreover have "m = k" if "m < length as" "k < length as" "cs[n := c'] ! m = Some i" "cs[n := c'] ! k = Some i" for m k i
    using that n l fresh [of m i] fresh [of k i] ex [of m k i] by (cases "m = n"; cases "k = n") (auto simp: nth_list_update)
  ultimately show ?thesis using l by (intro exI [of _ "cs[n := c']"]) (auto simp: pool_ok_def)
qed

lemma pool_inv: "lock_pool clones P as w \<Longrightarrow> \<not> clones \<Longrightarrow> \<exists>cs. pool_ok P w as cs"
proof (induction rule: lock_pool.induct)
  case (pool_start w)
  then show ?case by (auto simp: pool_ok_def)
next
  case (pool_join as w i)
  then obtain cs where cs: "pool_ok P w as cs" by blast
  then have "length cs = length as" by (auto simp: pool_ok_def dest: list_all2_lengthD)
  then have "pool_ok P w (as @ [Acquiring i (acquire_prog P i)]) (cs @ [None])"
    using cs pool_join.hyps(2) by (auto simp: pool_ok_def nth_append less_Suc_eq intro!: list_all2_appendI intro: claims.intros)
  then show ?case by blast
next
  case (pool_move as w n a w')
  then obtain cs where cs: "pool_ok P w as cs" by blast
  then have "claims P w (as ! n) (cs ! n)" using pool_move.hyps(2) by (simp add: pool_ok_def list_all2_nthD)
  then show ?case using pool_ok_moved [OF cs pool_move.hyps(2) actor_step_good] pool_move.hyps(3) by blast
next
  case (pool_other as w w')
  then obtain cs where cs: "pool_ok P w as cs" by blast
  have "claims P w' a c" if "claims P w a c" for a c
    using claims_stable [OF that] claims_holder pool_other.hyps(2) that by (metis leaves_locks_def)
  then show ?case using cs by (intro exI [of _ cs]) (auto simp: pool_ok_def elim: list_all2_mono)
qed simp


section \<open>Undisturbed stretches\<close>

lemma pool_acquires:
  "lock_pool clones P as w \<Longrightarrow> n < length as \<Longrightarrow> as ! n = Acquiring i p \<Longrightarrow> run_prog p w = (Inr l, w') \<Longrightarrow>
    lock_pool clones P (as[n := Holding l]) w'"
proof (induction p arbitrary: as w)
  case (Done r)
  then show ?case using pool_move [OF Done.prems(1,2), of "Holding l" w] by (simp add: acq_won)
next
  case (Step u k)
  have "lock_pool clones P (as[n := Acquiring i (k w)]) (u w)"
    using pool_move [OF Step.prems(1,2)] Step.prems(3) by (simp add: acq_move)
  then show ?case using Step.IH [of "k w" "as[n := Acquiring i (k w)]" "u w"] Step.prems by simp
qed

lemma pool_releases:
  "lock_pool clones P as w \<Longrightarrow> n < length as \<Longrightarrow> as ! n = Releasing l p \<Longrightarrow> run_prog p w = (r, w') \<Longrightarrow>
    lock_pool clones P (as[n := Ended]) w'"
proof (induction p arbitrary: as w)
  case (Done r)
  then show ?case using pool_move [OF Done.prems(1,2), of Ended w] by (simp add: rel_end)
next
  case (Step u k)
  have "lock_pool clones P (as[n := Releasing l (k w)]) (u w)"
    using pool_move [OF Step.prems(1,2)] Step.prems(3) by (simp add: rel_move)
  then show ?case using Step.IH [of "k w" "as[n := Releasing l (k w)]" "u w"] Step.prems by simp
qed

lemma pool_takes:
  "lock_pool clones P as w \<Longrightarrow> wf_profile_id i \<Longrightarrow> acquire_lock P i w = (Inr l, w') \<Longrightarrow> lock_pool clones P (as @ [Holding l]) w'"
  using pool_acquires [OF pool_join, of clones P as w i "length as" i "acquire_prog P i" l w'] by (simp add: acquire_prog_run)

text \<open>The first step of a release reads the lock file; when the token is the lease's, only the removal is left.\<close>

lemma pool_reads:
  assumes "lock_pool clones P as w" "n < length as" "as ! n = Releasing l (release_prog P l)"
    and "sfs (fs_read (lock_path P (pl_profile l))) w = (Inr (pl_token l), w')"
  shows "lock_pool clones P (as[n := Releasing l (rel_remove P l)]) w'"
proof -
  let ?m = "sfs (fs_read (lock_path P (pl_profile l)))"
  obtain u k where s: "release_prog P l = Step u k" "u w = snd (?m w)" "fst (?m w) = Inr (pl_token l) \<Longrightarrow> k w = rel_remove P l"
    by (simp add: release_prog_def bind_attempt_atomic)
  have "actor_step P (as ! n) w (Releasing l (rel_remove P l)) w'"
    using rel_move [of P l u k w] s assms(3,4) by simp
  then show ?thesis by (rule pool_move [OF assms(1,2)])
qed

section \<open>Releasing a lease twice\<close>

definition race_world :: "nat \<Rightarrow> (path \<times> string) list \<Rightarrow> nat store_world" where
  "race_world n fs = \<lparr> sw_fs = \<lparr> fs_files = fs, fs_dirs = [''/p'', profile_dir sample_store sample_profile], fs_faults = [] \<rparr>, sw_env = n \<rparr>"

definition race_lease :: "nat \<Rightarrow> profile_lease" where
  "race_lease n = \<lparr> pl_profile = sample_profile, pl_token = dec n \<rparr>"

abbreviation race_path :: path where
  "race_path \<equiv> lock_path sample_store sample_profile"

lemma race_facts:
  "wf_profile_id sample_profile" "path_parent race_path = profile_dir sample_store sample_profile"
  "race_path \<noteq> ''/p''" "race_path \<noteq> profile_dir sample_store sample_profile" "race_path \<noteq> []"
proof -
  show wf: "wf_profile_id sample_profile" by (simp add: sample_profile_def wf_uuid_def hex_digit_def)
  show "path_parent race_path = profile_dir sample_store sample_profile"
    using lock_path_eq [OF wf, of sample_store] profile_dir_ends [OF wf, of sample_store] by (simp add: path_parent_def)
  have "race_path \<notin> set [''/p'', profile_dir sample_store sample_profile]"
    using lock_path_eq [OF wf, of sample_store]
    by (auto simp: profile_dir_def sample_store_def path_join_def ends_with_def)
  then show "race_path \<noteq> ''/p''" "race_path \<noteq> profile_dir sample_store sample_profile" by auto
  show "race_path \<noteq> []" using lock_path_eq [OF wf, of sample_store] by simp
qed

lemmas race_simps = race_facts race_world_def race_lease_def sfs_def sfs_q_def senv_def zoom_def run_state_def map_err_def
  attempt_def bind_def seq_def ret_def with_fault_def is_file_def is_dir_def

lemma race_token: "st_new_token sample_store n = (dec n, Suc n)"
  by (simp add: sample_store_def)

lemma race_acquire: "acquire_lock sample_store sample_profile (race_world n []) = (Inr (race_lease n), race_world (Suc n) [(race_path, dec n)])"
  by (simp add: acquire_lock_def race_simps race_token fs_metadata_def fs_create_new_def fs_overwrite_def fs_sync_def)

lemma race_takes: "lock_pool clones sample_store as (race_world n []) \<Longrightarrow>
    lock_pool clones sample_store (as @ [Holding (race_lease n)]) (race_world (Suc n) [(race_path, dec n)])"
  by (rule pool_takes [OF _ race_facts(1) race_acquire])

lemma race_read: "sfs (fs_read race_path) (race_world n [(race_path, t)]) = (Inr t, race_world n [(race_path, t)])"
  by (simp add: race_simps fs_read_def)

lemma race_remove: "run_prog (rel_remove sample_store (race_lease k)) (race_world n [(race_path, t)]) = (Inr (), race_world n [])"
  by (simp add: rel_remove_def race_simps fs_remove_file_def tab_del_def)

lemma race_release: "run_prog (release_prog sample_store (race_lease k)) (race_world n [(race_path, dec k)]) = (Inr (), race_world n [])"
  by (simp add: release_prog_run release_lock_def Let_def race_simps fs_read_def fs_remove_file_def tab_del_def)

lemma race_subject [simp]: "pl_profile (race_lease n) = sample_profile" "pl_token (race_lease n) = dec n"
  by (simp_all add: race_lease_def)

text \<open>
  The release of a lock is a read, a comparison and a removal without the write guard of the
  store, so two releases of one lease, which two concurrent stops of a session perform, break
  exclusion: the second removes the lock file of whoever acquired the profile in between, and a
  third task then holds a lease of the profile beside it.  No file operation fails on the way.
\<close>

lemma double_release_race:
  "\<exists>as w m n l k. lock_pool True sample_store as w \<and> m < length as \<and> n < length as \<and> m \<noteq> n \<and>
     as ! m = Holding l \<and> as ! n = Holding k \<and> pl_profile l = pl_profile k"
proof -
  let ?S = "lock_pool True sample_store" and ?r = "Releasing (race_lease 7) (rel_remove sample_store (race_lease 7))"
  let ?p = "Releasing (race_lease 7) (release_prog sample_store (race_lease 7))"
  have "?S [Holding (race_lease 7)] (race_world 8 [(race_path, dec 7)])"
    using race_takes [OF pool_start, of _ 7] by simp
  then have s: "?S [Holding (race_lease 7), ?p] (race_world 8 [(race_path, dec 7)])"
    using pool_clone [of True sample_store "[Holding (race_lease 7)]" _ 0] by simp
  then have "?S [Holding (race_lease 7), ?r] (race_world 8 [(race_path, dec 7)])"
    using pool_reads [OF s, of 1 "race_lease 7"] race_read by simp
  then have "?S [?p, ?r] (race_world 8 [(race_path, dec 7)])"
    using pool_move [of True sample_store "[Holding (race_lease 7), ?r]" _ 0 ?p] by (simp add: rel_begin)
  then have "?S [Ended, ?r] (race_world 8 [])"
    using pool_releases [of True sample_store "[?p, ?r]" _ 0, OF _ _ _ race_release] by simp
  then have "?S [Ended, ?r, Holding (race_lease 8)] (race_world 9 [(race_path, dec 8)])"
    using race_takes [of True "[Ended, ?r]" 8] by simp
  then have "?S [Ended, Ended, Holding (race_lease 8)] (race_world 9 [])"
    using pool_releases [of True sample_store "[Ended, ?r, Holding (race_lease 8)]" _ 1, OF _ _ _ race_remove] by simp
  then have "?S [Ended, Ended, Holding (race_lease 8), Holding (race_lease 9)] (race_world 10 [(race_path, dec 9)])"
    using race_takes [of True "[Ended, Ended, Holding (race_lease 8)]" 9] by simp
  then show ?thesis
    by (intro exI [of _ "[Ended, Ended, Holding (race_lease 8), Holding (race_lease 9)]"] exI [of _ "race_world 10 [(race_path, dec 9)]"]
        exI [of _ 2] exI [of _ 3] exI [of _ "race_lease 8"] exI [of _ "race_lease 9"]) simp
qed


end
