(* ===== verification/Orchestrator_Steps.thy ===== *)
theory Orchestrator_Steps
  imports Orchestrator_Props Interleaving
begin

text \<open>
  The routines of \<^verbatim>\<open>crates/aegis-daemon/src/orchestrator.rs\<close> cut at the points where another task
  may run: every call of a capability and every critical section of the session table is one
  step.  Run without interruption they are the routines of theory Orchestrator.
\<close>

section \<open>Routines as programs\<close>

type_synonym ('w, 'a) op = "('w orch, error, 'a) prog"

definition audit_event_steps :: "'w caps \<Rightarrow> session_id \<Rightarrow> profile_id \<Rightarrow> severity \<Rightarrow> event_kind \<Rightarrow> ('w, unit) op" where
  "audit_event_steps C i p sev ev =
    p_bind (atomic (now C)) (\<lambda>t. atomic (audit C (with_profile p (with_session i (audit_new t sev ev)))))"

definition audit_state_steps :: "'w caps \<Rightarrow> session_id \<Rightarrow> profile_id \<Rightarrow> session_state \<Rightarrow> ('w, unit) op" where
  "audit_state_steps C i p st =
    p_bind (atomic (now C)) (\<lambda>t.
    atomic (audit C (with_profile p (with_session i (audit_new t Info (EvSessionState (state_name st)))))))"

text \<open>The critical section of a transition: check, change, and the profile for the audit record.\<close>

definition enter_state :: "session_id \<Rightarrow> session_state \<Rightarrow> ('w, profile_id) om" where
  "enter_state i nxt =
    bind lock_sessions (\<lambda>table. case tab_get table i of
      None \<Rightarrow> throw (NotFound (''session '' @ session_display i))
    | Some en \<Rightarrow>
        if \<not> can_transition_to (en_state en) nxt
        then throw (Internal (''illegal session transition '' @ session_state_debug (en_state en)
               @ '' -> '' @ session_state_debug nxt))
        else seq (put_entry i (en\<lparr>en_state := nxt\<rparr>)) (ret (en_profile en)))"

definition transition_steps :: "'w caps \<Rightarrow> session_id \<Rightarrow> session_state \<Rightarrow> ('w, unit) op" where
  "transition_steps C i nxt = p_bind (atomic (enter_state i nxt)) (\<lambda>p. audit_state_steps C i p nxt)"

definition fail_closed_steps :: "'w caps \<Rightarrow> session_id option \<Rightarrow> error \<Rightarrow> ('w, error) op" where
  "fail_closed_steps C session err =
    (if \<not> requires_killswitch err then Done (Inr err)
     else
       p_seq (p_ignore (atomic (call (\<lambda>r. C_engage (is_ok r)) (cap_engage C) :: ('w orch, error, unit) eff)))
       (p_bind (atomic (now C)) (\<lambda>t.
        let record0 = audit_new t Critical (EvFailClosed (error_class err) (error_display err)) in
        p_bind (case session of
            None \<Rightarrow> Done (Inr record0)
          | Some i \<Rightarrow>
              p_bind (p_attempt (atomic lock_sessions :: ('w, (session_id \<times> session_entry) list) op)) (\<lambda>r.
              let profile = (case r of
                    Inl _ \<Rightarrow> None
                  | Inr table \<Rightarrow> map_option en_profile (tab_get table i));
                  record1 = with_session i record0
              in Done (Inr (case profile of None \<Rightarrow> record1 | Some p \<Rightarrow> with_profile p record1))))
        (\<lambda>rec.
        p_seq (atomic (audit C rec))
        (p_bind (atomic (now C)) (\<lambda>t2.
         p_seq (atomic (audit C (audit_new t2 Critical (EvKillSwitch ''engaged''))))
         (Done (Inr err))))))))"

definition audit_checks_steps :: "'w caps \<Rightarrow> session_id \<Rightarrow> profile_id \<Rightarrow> check_report list \<Rightarrow> ('w, unit) op" where
  "audit_checks_steps C i p reports =
    p_seq (p_mapM (\<lambda>r. p_bind (atomic (now C)) (\<lambda>t.
          atomic (audit C (with_profile p (with_session i
            (audit_new t (if is_pass (rep_outcome r) then Info else Warning)
              (EvPreflightCheck (check_str (rep_id r)) (outcome_name (rep_outcome r))))))))) reports)
        (Done (Inr ()))"

definition provision_vm_steps :: "'w caps \<Rightarrow> app_config \<Rightarrow> session_id \<Rightarrow> vm_role \<Rightarrow> ('w, vm_handle) op" where
  "provision_vm_steps C cfg i role =
    p_bind (atomic (provision_request C cfg role)) (\<lambda>req.
    p_bind (atomic (call (\<lambda>r. C_provision role (map_option vh_id (ok_of r))) (cap_provision C req))) (\<lambda>h.
    p_seq (atomic (set_vm i role (vh_id h))) (Done (Inr h))))"

definition run_launch_steps ::
  "isolation_level \<Rightarrow> string \<Rightarrow> 'w backend_ops \<Rightarrow> session_id \<Rightarrow> launch_request \<Rightarrow> ('w, unit) op" where
  "run_launch_steps level msg B i req =
    p_bind (Done (bb_render B req)) (\<lambda>bundle.
    p_seq (Done (assert_safe bundle (lr_production req)))
    (p_bind (atomic (call (\<lambda>r. C_launch level (ok_of r)) (bb_launch B req bundle))) (\<lambda>h.
    p_seq (atomic (set_browser_handle i h))
    (p_bind (atomic (call (\<lambda>_. C_is_running) (bb_is_running B h))) (\<lambda>alive.
     if \<not> alive then Done (Inl (System msg)) else Done (Inr ()))))))"

definition touch_steps :: "'w caps \<Rightarrow> profile_id \<Rightarrow> ('w, unit) op" where
  "touch_steps C p = p_bind (atomic (now C)) (\<lambda>t.
    p_ignore (atomic (call (\<lambda>_. C_touch_launch) (cap_touch_launch C p t)) :: ('w, unit) op))"

definition drive_start_steps :: "'w caps \<Rightarrow> app_config \<Rightarrow> session_id \<Rightarrow> profile \<Rightarrow> ('w, session_summary) op" where
  "drive_start_steps C cfg i p =
    p_seq (transition_steps C i Provisioning)
    (p_bind (provision_vm_steps C cfg i RoleGateway) (\<lambda>gw.
    p_bind (provision_vm_steps C cfg i RoleBrowser) (\<lambda>br.
    p_seq (transition_steps C i GatewayStarting)
    (let gc = gateway_config_of (sp_network (pr_spec p)); fw = fail_closed_policy gc in
    p_seq (atomic (call (\<lambda>r. C_configure (is_ok r)) (cap_configure C gc)))
    (p_seq (atomic (call (\<lambda>r. C_apply_firewall fw (is_ok r)) (cap_apply_firewall C fw)))
    (p_seq (atomic (call (\<lambda>r. C_vm_start (vh_id gw) (is_ok r)) (cap_vm_start C (vh_id gw))))
    (p_seq (atomic (call (\<lambda>r. C_vm_start (vh_id br) (is_ok r)) (cap_vm_start C (vh_id br))))
    (p_seq (transition_steps C i S_Preflight)
    (p_bind (atomic (call (\<lambda>r. C_preflight (ok_of r)) (cap_preflight C (preflight_context_of i gc)))) (\<lambda>cl.
    p_seq (audit_checks_steps C i (pr_id p) (cl_reports cl))
    (p_seq (atomic (record_checklist i cl))
    (if \<not> permits_browsing cl then Done (Inl (preflight_refusal cl))
     else
       p_seq (run_launch_steps FullVm ''browser launch returned without a live browser process''
              (cap_browser C) i (browser_launch_request i p gc))
       (p_seq (transition_steps C i Browsing)
       (p_seq (touch_steps C (pr_id p))
       (atomic (final_summary ''session vanished during start'' i))))))))))))))))"

definition drive_start_host_steps ::
  "'w caps \<Rightarrow> app_config \<Rightarrow> session_id \<Rightarrow> profile \<Rightarrow> ('w, session_summary) op" where
  "drive_start_host_steps C cfg i p =
    (let engine = sp_browser (pr_spec p) in
    p_bind (Done (host_backend_for C engine)) (\<lambda>B.
    p_bind (atomic (host_proxy_endpoint C (net_mode (sp_network (pr_spec p))))) (\<lambda>proxy.
    p_seq (transition_steps C i Provisioning)
    (p_seq (transition_steps C i GatewayStarting)
    (p_seq (transition_steps C i S_Preflight)
    (p_bind (atomic (call (\<lambda>r. C_proxy_reachable (r = Inr True))
            (cap_proxy_reachable C (hp_probe_host proxy) (hp_probe_port proxy)))) (\<lambda>reachable.
    if \<not> reachable then Done (Inl (proxy_unreachable proxy))
    else
      p_seq (audit_event_steps C i (pr_id p) Info (EvPreflightCheck ''host_proxy_reachable'' ''pass''))
      (p_seq (atomic (update_entry i (\<lambda>en. en\<lparr>en_protection := PS_Partial, en_checklist := Some host_checklist\<rparr>)))
      (p_seq (atomic (update_entry i (\<lambda>en. en\<lparr>en_mode :=
              ModeHostProcess (host_user_data_dir cfg p) (is_ephemeral (sp_kind (pr_spec p))) engine\<rparr>)))
      (p_seq (run_launch_steps HostProcess ''host browser launch returned without a live browser process''
              B i (host_launch_request cfg i p proxy))
      (p_seq (transition_steps C i Browsing)
      (p_seq (audit_event_steps C i (pr_id p) Warning (EvSessionState
              (''host-process browsing (reduced protection: '' @ isolation_label HostProcess @ '')'')))
      (p_seq (touch_steps C (pr_id p))
      (atomic (final_summary ''session vanished during host start'' i)))))))))))))))"

text \<open>The snapshot a teardown takes: it removes the browser handle and copies the rest.\<close>

definition take_entry :: "session_id \<Rightarrow> ('w, session_entry option) om" where
  "take_entry i = bind lock_sessions (\<lambda>table. case tab_get table i of
      None \<Rightarrow> ret None
    | Some en \<Rightarrow> seq (put_entry i (en\<lparr>en_browser_handle := None\<rparr>)) (ret (Some en)))"

definition teardown_browser_steps :: "'w caps \<Rightarrow> session_mode \<Rightarrow> browser_handle option \<Rightarrow> ('w, unit) op" where
  "teardown_browser_steps C mode handle = (case handle of
      None \<Rightarrow> Done (Inr ())
    | Some h \<Rightarrow> (case backend_of C mode of
          Inl _ \<Rightarrow> Done (Inr ())
        | Inr B \<Rightarrow> p_ignore (atomic (call (\<lambda>_. C_terminate h) (bb_terminate B h)) :: ('w, unit) op)))"

definition teardown_dir_steps :: "'w caps \<Rightarrow> session_mode \<Rightarrow> ('w, unit) op" where
  "teardown_dir_steps C mode = (case mode of
      ModeHostProcess dir eph _ \<Rightarrow>
        if eph then p_ignore (atomic (call (\<lambda>_. C_remove_dir dir) (cap_remove_dir_all C dir))) else Done (Inr ())
    | ModeFullVm \<Rightarrow> Done (Inr ()))"

definition teardown_vm_steps ::
  "'w caps \<Rightarrow> session_id \<Rightarrow> profile_id \<Rightarrow> vm_role \<Rightarrow> vm_id option \<Rightarrow> ('w, unit) op" where
  "teardown_vm_steps C i p role vm = (case vm of
      None \<Rightarrow> Done (Inr ())
    | Some v \<Rightarrow>
        p_seq (p_ignore (atomic (call (\<lambda>_. C_vm_shutdown v) (cap_vm_shutdown C v Forced)) :: ('w, unit) op))
        (p_bind (p_attempt (atomic (call (\<lambda>r. C_vm_destroy v (is_ok r)) (cap_vm_destroy C v))
                 :: ('w, destroy_report) op)) (\<lambda>r. case r of
            Inl _ \<Rightarrow> Done (Inr ())
          | Inr _ \<Rightarrow> audit_event_steps C i p Info (EvVm (role_name role) ''destroyed''))))"

definition teardown_final_steps :: "'w caps \<Rightarrow> session_id \<Rightarrow> profile_id \<Rightarrow> bool \<Rightarrow> ('w, unit) op" where
  "teardown_final_steps C i p mark_failed =
    (let final = (if mark_failed then Failed else Destroyed) in
     p_seq (audit_state_steps C i p final)
     (p_ignore (atomic (update_entry i (\<lambda>en. en\<lparr>en_state := final, en_browser_handle := None,
        en_gateway_vm := None, en_browser_vm := None\<rparr>)) :: ('w, unit) op)))"

definition teardown_steps :: "'w caps \<Rightarrow> session_id \<Rightarrow> bool \<Rightarrow> ('w, unit) op" where
  "teardown_steps C i mark_failed =
    p_bind (p_attempt (atomic (take_entry i) :: ('w, session_entry option) op)) (\<lambda>r. case r of
      Inl _ \<Rightarrow> Done (Inr ())
    | Inr snapshot \<Rightarrow> (case snapshot of
        None \<Rightarrow> Done (Inr ())
      | Some en \<Rightarrow>
          p_seq (teardown_browser_steps C (en_mode en) (en_browser_handle en))
          (p_seq (teardown_dir_steps C (en_mode en))
          (p_seq (teardown_vm_steps C i (en_profile en) RoleBrowser (en_browser_vm en))
          (p_seq (teardown_vm_steps C i (en_profile en) RoleGateway (en_gateway_vm en))
          (p_seq (p_ignore (atomic (call (\<lambda>r. C_release (en_lease en) (is_ok r)) (cap_release_lock C (en_lease en))) :: ('w, unit) op))
          (teardown_final_steps C i (en_profile en) mark_failed)))))))"

definition make_key_steps :: "'w caps \<Rightarrow> profile_lease \<Rightarrow> ('w, string) op" where
  "make_key_steps C lease =
    p_bind (p_attempt (atomic (call (\<lambda>r. C_generate_key (is_ok r)) (cap_generate_key C)) :: ('w, string) op)) (\<lambda>r. case r of
      Inr k \<Rightarrow> Done (Inr k)
    | Inl e \<Rightarrow> p_seq (p_ignore (atomic (call (\<lambda>r. C_release lease (is_ok r)) (cap_release_lock C lease)) :: ('w, unit) op))
        (Done (Inl e)))"

definition drive_steps ::
  "'w caps \<Rightarrow> app_config \<Rightarrow> bool \<Rightarrow> session_id \<Rightarrow> profile \<Rightarrow> ('w, session_summary) op" where
  "drive_steps C cfg host_mode i p =
    p_bind (p_attempt (if host_mode then drive_start_host_steps C cfg i p else drive_start_steps C cfg i p)) (\<lambda>r.
    case r of
      Inr summary \<Rightarrow> Done (Inr summary)
    | Inl e \<Rightarrow>
        p_bind (fail_closed_steps C (Some i) e) (\<lambda>err.
        p_seq (teardown_steps C i True) (Done (Inl err))))"

definition start_session_steps :: "'w caps \<Rightarrow> app_config \<Rightarrow> profile_id \<Rightarrow> ('w, session_summary) op" where
  "start_session_steps C cfg pid =
    p_bind (atomic (call (\<lambda>r. C_get_profile pid (is_ok r)) (cap_get_profile C pid))) (\<lambda>p.
    p_bind (atomic (gets get_enforcement)) (\<lambda>e.
    p_bind (Done (choose_mode C e p)) (\<lambda>host_mode.
    p_bind (atomic (call (\<lambda>r. C_acquire pid (ok_of r)) (cap_acquire_lock C pid))) (\<lambda>lease.
    p_bind (atomic (new_uuid C)) (\<lambda>u.
    let i = SessionId u in
    p_bind (make_key_steps C lease) (\<lambda>key.
    p_seq (atomic (register i (new_entry pid lease key)))
    (p_seq (audit_state_steps C i pid Requested)
    (drive_steps C cfg host_mode i p))))))))"

definition tracked :: "session_id \<Rightarrow> ('w, unit) om" where
  "tracked i = bind lock_sessions (\<lambda>table. guard_e (tab_get table i \<noteq> None) (unknown_session i))"

definition summary_of :: "session_id \<Rightarrow> ('w, session_summary) om" where
  "summary_of i = bind lock_sessions (\<lambda>table. case tab_get table i of
      Some en \<Rightarrow> ret (entry_summary i en)
    | None \<Rightarrow> throw (unknown_session i))"

definition stop_session_steps :: "'w caps \<Rightarrow> session_id \<Rightarrow> ('w, session_summary) op" where
  "stop_session_steps C i =
    p_seq (atomic (tracked i))
    (p_seq (p_ignore (transition_steps C i Closing))
    (p_seq (teardown_steps C i False)
    (atomic (summary_of i))))"

section \<open>Uninterrupted, they are the routines\<close>

lemma run_ignore: "run_prog (p_ignore p :: ('w, unit) op) = ignore (run_prog p)"
  by (simp add: run_p_ignore ignore_def)

lemma run_audits [simp]:
  "run_prog (audit_event_steps C i p sev ev) = audit_event C i p sev ev"
  "run_prog (audit_state_steps C i p st) = audit_state C i p st"
  "run_prog (audit_checks_steps C i p reports) = audit_checks C i p reports"
  by (simp_all add: audit_event_steps_def audit_event_def audit_state_steps_def audit_state_def audit_checks_steps_def audit_checks_def
      del: run_prog.simps)

lemma run_transition [simp]: "run_prog (transition_steps C i nxt) = transition C i nxt"
  by (rule ext) (simp add: transition_steps_def transition_def enter_state_def bind_def seq_def ret_def throw_def
      del: run_prog.simps split: prod.split sum.split option.split)

lemma run_fail_closed [simp]: "run_prog (fail_closed_steps C session err) = fail_closed C session err"
  by (simp add: fail_closed_steps_def fail_closed_def Let_def run_ignore run_p_ignore ignore_def run_cases del: run_prog.simps cong: option.case_cong if_cong)

lemma run_provision_vm [simp]: "run_prog (provision_vm_steps C cfg i role) = provision_vm C cfg i role"
  by (simp add: provision_vm_steps_def provision_vm_def del: run_prog.simps)

lemma run_launch_run [simp]: "run_prog (run_launch_steps level msg B i req) = run_launch level msg B i req"
  by (simp add: run_launch_steps_def run_launch_def run_p_lift run_cases ret_def throw_def lift_res_def del: run_prog.simps cong: if_cong)

lemma run_touch [simp]: "run_prog (touch_steps C p) = touch C p"
  by (simp add: touch_steps_def touch_def run_ignore del: run_prog.simps)

lemma run_drive_start [simp]: "run_prog (drive_start_steps C cfg i p) = drive_start C cfg i p"
  by (simp add: drive_start_steps_def drive_start_def Let_def run_cases del: run_prog.simps cong: if_cong)

lemma run_drive_start_host [simp]: "run_prog (drive_start_host_steps C cfg i p) = drive_start_host C cfg i p"
  by (simp add: drive_start_host_steps_def drive_start_host_def Let_def run_p_lift [of "host_backend_for _ _"] run_cases del: run_prog.simps cong: if_cong)

lemma run_teardown_parts [simp]:
  "run_prog (teardown_browser_steps C mode h) = teardown_browser C mode h"
  "run_prog (teardown_dir_steps C mode) = teardown_dir C mode"
  "run_prog (teardown_vm_steps C i p role vm) = teardown_vm C i p role vm"
  "run_prog (teardown_final_steps C i p failed) = teardown_final C i p failed"
  by (simp_all add: teardown_browser_steps_def teardown_browser_def teardown_dir_steps_def teardown_dir_def teardown_vm_steps_def
      teardown_vm_def teardown_final_steps_def teardown_final_def Let_def run_cases run_ignore run_p_ignore ignore_def
      del: run_prog.simps cong: option.case_cong sum.case_cong split: session_mode.split)

lemma take_entry_then:
  "bind (attempt (take_entry i)) (\<lambda>r. case r of Inl _ \<Rightarrow> ret () | Inr None \<Rightarrow> ret () | Inr (Some en) \<Rightarrow> f en) =
   bind (attempt lock_sessions) (\<lambda>r. case r of Inl _ \<Rightarrow> ret () | Inr table \<Rightarrow> (case tab_get table i of
     None \<Rightarrow> ret () | Some en \<Rightarrow> seq (put_entry i (en\<lparr>en_browser_handle := None\<rparr>)) (f en)))"
  by (rule ext) (simp add: take_entry_def bind_def seq_def attempt_def ret_def lock_sessions_def put_entry_def modify_def split: option.split)

lemma run_teardown [simp]: "run_prog (teardown_steps C i failed) = teardown C i failed"
  using take_entry_then [of i "\<lambda>en. seq (teardown_browser C (en_mode en) (en_browser_handle en))
          (seq (teardown_dir C (en_mode en))
          (seq (teardown_vm C i (en_profile en) RoleBrowser (en_browser_vm en))
          (seq (teardown_vm C i (en_profile en) RoleGateway (en_gateway_vm en))
          (seq (ignore (call (\<lambda>r. C_release (en_lease en) (is_ok r)) (cap_release_lock C (en_lease en))))
          (teardown_final C i (en_profile en) failed)))))"]
  by (simp add: teardown_steps_def teardown_def run_cases run_ignore del: run_prog.simps cong: option.case_cong sum.case_cong)

lemma run_make_key [simp]: "run_prog (make_key_steps C lease) = make_key C lease"
  by (simp add: make_key_steps_def make_key_def run_cases run_ignore del: run_prog.simps cong: sum.case_cong)

lemma run_drive [simp]: "run_prog (drive_steps C cfg hm i p) = drive C cfg hm i p"
  by (simp add: drive_steps_def drive_def run_cases del: run_prog.simps cong: sum.case_cong)

lemma run_start_session: "run_prog (start_session_steps C cfg pid) = start_session C cfg pid"
  by (simp add: start_session_steps_def start_session_def Let_def run_p_lift [of "choose_mode _ _ _"] del: run_prog.simps)

lemma bind_assoc: "bind (bind m f) g = bind m (\<lambda>x. bind (f x) g)"
  by (rule ext) (simp add: bind_def split: prod.split sum.split)

lemma run_stop_session: "run_prog (stop_session_steps C i) = stop_session C i"
  by (simp add: stop_session_steps_def stop_session_def tracked_def summary_of_def run_ignore seq_def bind_assoc del: run_prog.simps)

end
