(* ===== verification/Orchestrator_Interleaving.thy ===== *)
theory Orchestrator_Interleaving
  imports Orchestrator_Steps
begin

text \<open>
  Starts and stops of sessions interleaved.  A pool is any number of tasks over one shared
  orchestrator; each step of a task sees whatever the others have made of the session table, the
  policy and the world.  Every task keeps the trace of its own capability calls.
\<close>

section \<open>The pool\<close>

record 'w task =
  tk_prog :: "('w, session_summary) op"
  tk_log :: "cap_call list"

definition spawned :: "('w, session_summary) op \<Rightarrow> 'w task" where
  "spawned p = \<lparr> tk_prog = p, tk_log = [] \<rparr>"

text \<open>One step of a task on the shared state.\<close>

fun task_step :: "'w task \<Rightarrow> 'w orch \<Rightarrow> ('w task \<times> 'w orch) option" where
  "task_step t s = (case tk_prog t of
      Done _ \<Rightarrow> None
    | Step u k \<Rightarrow>
        let v = s\<lparr>or_calls := tk_log t\<rparr>; w = u v
        in Some (\<lparr> tk_prog = k v, tk_log = or_calls w \<rparr>, w))"

inductive orch_pool :: "'w caps \<Rightarrow> app_config \<Rightarrow> 'w task list \<Rightarrow> 'w orch \<Rightarrow> bool" for C :: "'w caps" and cfg :: app_config where
  orch_pool_new: "orch_pool C cfg [] (orch_new cfg w)"
| orch_pool_start: "orch_pool C cfg ts s \<Longrightarrow> orch_pool C cfg (ts @ [spawned (start_session_steps C cfg pid)]) s"
| orch_pool_stop: "orch_pool C cfg ts s \<Longrightarrow> orch_pool C cfg (ts @ [spawned (stop_session_steps C i)]) s"
| orch_pool_step: "orch_pool C cfg ts s \<Longrightarrow> n < length ts \<Longrightarrow> task_step (ts ! n) s = Some (t, s') \<Longrightarrow> orch_pool C cfg (ts[n := t]) s'"
| orch_pool_world: "orch_pool C cfg ts s \<Longrightarrow>
    orch_pool C cfg ts (s\<lparr>or_calls := l, or_world := w, or_enforcement := e, or_poisoned := b, or_enforcement_poisoned := b'\<rparr>)"

text \<open>A stretch of steps of one task that nothing interrupts is the computation it stands for.\<close>

lemma pool_same_world: "orch_pool C cfg ts s \<Longrightarrow> orch_pool C cfg ts (s\<lparr>or_calls := l\<rparr>)"
  using orch_pool_world [where s = s and l = l and w = "or_world s" and e = "or_enforcement s" and b = "or_poisoned s" and
      b' = "or_enforcement_poisoned s"]
  by (cases s) simp

lemma pool_stretch:
  "orch_pool C cfg ts s \<Longrightarrow> n < length ts \<Longrightarrow> ts ! n = \<lparr> tk_prog = prog_then p f, tk_log = l \<rparr> \<Longrightarrow>
   run_prog p (s\<lparr>or_calls := l\<rparr>) = (r, s') \<Longrightarrow> orch_pool C cfg (ts[n := \<lparr> tk_prog = f r, tk_log = or_calls s' \<rparr>]) s'"
proof (induction p arbitrary: ts s l)
  case (Done q)
  then have "ts[n := \<lparr> tk_prog = f r, tk_log = or_calls s' \<rparr>] = ts" by (auto intro: list_update_same_conv [THEN iffD2])
  then show ?case using Done pool_same_world [of C cfg ts s l] by simp
next
  case (Step u k)
  let ?v = "s\<lparr>or_calls := l\<rparr>" and ?t = "\<lparr> tk_prog = prog_then (k (s\<lparr>or_calls := l\<rparr>)) f, tk_log = or_calls (u (s\<lparr>or_calls := l\<rparr>)) \<rparr>"
  have "orch_pool C cfg (ts[n := ?t]) (u ?v)"
    using Step.prems by (intro orch_pool_step) (auto simp: Let_def)
  with Step.prems have "orch_pool C cfg ((ts[n := ?t])[n := \<lparr> tk_prog = f r, tk_log = or_calls s' \<rparr>]) s'"
    by (intro Step.IH [where l = "or_calls (u ?v)"]) auto
  then show ?case by simp
qed

lemma prog_then_done: "prog_then p Done = p"
  by (induction p) auto

lemma pool_runs:
  assumes "orch_pool C cfg ts s" "n < length ts" "ts ! n = \<lparr> tk_prog = p, tk_log = l \<rparr>" "run_prog p (s\<lparr>or_calls := l\<rparr>) = (r, s')"
  shows "orch_pool C cfg (ts[n := \<lparr> tk_prog = Done r, tk_log = or_calls s' \<rparr>]) s'"
  by (rule pool_stretch [where f = Done, OF assms(1,2) _ assms(4)]) (simp add: assms(3) prog_then_done)

section \<open>A task amid the others\<close>

text \<open>
  What holds of a task that starts with a given trace of its own, whatever state each of its
  steps finds: the launch protocol is never violated, and at its end the result and the trace
  are as stated.
\<close>

definition gate_ok :: "cap_call list \<Rightarrow> bool" where
  "gate_ok l \<longleftrightarrow> gate_after Idle l \<noteq> None"

primrec amid :: "('w orch, 'e, 'a) prog \<Rightarrow> ('a \<Rightarrow> cap_call list \<Rightarrow> bool) \<Rightarrow> ('e \<Rightarrow> cap_call list \<Rightarrow> bool) \<Rightarrow> cap_call list \<Rightarrow> bool" where
  "amid (Done r) Q E l = (case r of Inl e \<Rightarrow> E e l | Inr x \<Rightarrow> Q x l)"
| "amid (Step u k) Q E l = (\<forall>v. or_calls v = l \<longrightarrow> gate_ok (or_calls (u v)) \<and> amid (k v) Q E (or_calls (u v)))"

lemma amid_done [simp]: "amid (Done (Inl e)) Q E = E e" "amid (Done (Inr x)) Q E = Q x"
  by (rule ext, simp)+

lemma amid_then: "amid (prog_then p f) Q E l = amid p (\<lambda>x. amid (f (Inr x)) Q E) (\<lambda>e. amid (f (Inl e)) Q E) l"
  by (induction p arbitrary: l) (auto split: sum.split)

lemma amid_bind: "amid (p_bind p f) Q E l = amid p (\<lambda>x. amid (f x) Q E) E l"
  by (simp add: p_bind_def amid_then)

lemma amid_seq: "amid (p_seq p q) Q E l = amid p (\<lambda>_. amid q Q E) E l"
  by (simp add: p_seq_def amid_bind)

lemma amid_attempt: "amid (p_attempt p) Q E l = amid p (\<lambda>x. Q (Inr x)) (\<lambda>e. Q (Inl e)) l"
  by (simp add: p_attempt_def amid_then)

lemma amid_ignore: "amid (p_ignore p) Q E l = amid p (\<lambda>_. Q ()) (\<lambda>_. Q ()) l"
  by (simp add: p_ignore_def amid_seq amid_attempt)

lemma amid_mono: "amid p Q E l \<Longrightarrow> (\<And>x l. Q x l \<Longrightarrow> Q' x l) \<Longrightarrow> (\<And>e l. E e l \<Longrightarrow> E' e l) \<Longrightarrow> amid p Q' E' l"
  by (induction p arbitrary: l) (auto split: sum.splits)

lemma amid_atomic:
  "amid (atomic m) Q E l \<longleftrightarrow> (\<forall>v. or_calls v = l \<longrightarrow> gate_ok (or_calls (snd (m v))) \<and>
     (case fst (m v) of Inl e \<Rightarrow> E e (or_calls (snd (m v))) | Inr x \<Rightarrow> Q x (or_calls (snd (m v)))))"
  by (simp add: atomic_def)

text \<open>A step that calls no capability, and one that calls one.\<close>

lemma amid_quiet:
  assumes "emits (\<lambda>_. False) m" "gate_ok l" "\<And>x. Q x l" "\<And>e. E e l"
  shows "amid (atomic m) Q E l"
proof -
  have "or_calls (snd (m v)) = or_calls v" for v using assms(1) by (fastforce simp: emits_def list_all_iff)
  then show ?thesis using assms(2-4) by (auto simp: amid_atomic split: sum.split)
qed

lemma amid_call:
  assumes "\<And>r. gate_ok (l @ [c r])" "\<And>x. Q x (l @ [c (Inr x)])" "\<And>e. E e (l @ [c (Inl e)])"
  shows "amid (atomic (call c m)) Q E l"
  using assms by (auto simp: amid_atomic call_def split: prod.split sum.split)

section \<open>Steps that keep the gate\<close>

abbreviation at_gate :: "gate \<Rightarrow> cap_call list \<Rightarrow> bool" where
  "at_gate g l \<equiv> gate_after Idle l = Some g"

lemma at_gate_ok: "at_gate g l \<Longrightarrow> gate_ok l"
  by (simp add: gate_ok_def)

lemma gate_snoc: "at_gate g l \<Longrightarrow> gate_after Idle (l @ [c]) = gate_next g c"
  by (simp add: gate_after_append split: option.split)

lemma gate_ok_snoc: "gate_ok l \<Longrightarrow> \<not> is_launch c \<Longrightarrow> gate_ok (l @ [c])"
proof -
  assume "gate_ok l" and c: "\<not> is_launch c"
  then obtain g where "at_gate g l" by (auto simp: gate_ok_def)
  then show ?thesis using gate_next_total [OF c, of g] by (simp add: gate_ok_def gate_snoc)
qed

text \<open>Harmless programs never launch; steady ones leave the protocol where it is, or fail.\<close>

definition harmless :: "('w orch, 'e, 'a) prog \<Rightarrow> bool" where
  "harmless p \<longleftrightarrow> (\<forall>l. gate_ok l \<longrightarrow> amid p (\<lambda>_. gate_ok) (\<lambda>_. gate_ok) l)"

definition steady_gate :: "('w orch, 'e, 'a) prog \<Rightarrow> bool" where
  "steady_gate p \<longleftrightarrow> (\<forall>g l. at_gate g l \<longrightarrow> amid p (\<lambda>_. at_gate g) (\<lambda>_. at_gate g) l)"

named_theorems harmless_intros
named_theorems steady_intros

lemma harmless_done [harmless_intros]: "harmless (Done r)"
  by (simp add: harmless_def split: sum.split)

lemma harmless_bind [harmless_intros]: "harmless p \<Longrightarrow> (\<And>x. harmless (f x)) \<Longrightarrow> harmless (p_bind p f)"
  by (auto simp: harmless_def amid_bind intro: amid_mono)

lemma harmless_seq [harmless_intros]: "harmless p \<Longrightarrow> harmless q \<Longrightarrow> harmless (p_seq p q)"
  by (simp add: p_seq_def harmless_bind)

lemma harmless_attempt [harmless_intros]: "harmless p \<Longrightarrow> harmless (p_attempt p)"
  by (simp add: harmless_def amid_attempt)

lemma harmless_ignore [harmless_intros]: "harmless p \<Longrightarrow> harmless (p_ignore p)"
  by (simp add: harmless_def amid_ignore)

lemma harmless_quiet: "emits (\<lambda>_. False) m \<Longrightarrow> harmless (atomic m)"
  by (auto simp: harmless_def intro: amid_quiet)

lemma harmless_call [harmless_intros]: "(\<And>r. \<not> is_launch (c r)) \<Longrightarrow> harmless (atomic (call c m))"
  by (auto simp: harmless_def intro!: amid_call gate_ok_snoc)

lemma harmless_option [harmless_intros]:
  "harmless p \<Longrightarrow> (\<And>x. harmless (f x)) \<Longrightarrow> harmless (case r of None \<Rightarrow> p | Some x \<Rightarrow> f x)"
  by (cases r) simp_all

lemma harmless_sum [harmless_intros]:
  "(\<And>x. harmless (f x)) \<Longrightarrow> (\<And>x. harmless (g x)) \<Longrightarrow> harmless (case r of Inl x \<Rightarrow> f x | Inr x \<Rightarrow> g x)"
  by (cases r) simp_all

lemma harmless_if [harmless_intros]: "harmless p \<Longrightarrow> harmless q \<Longrightarrow> harmless (if b then p else q)"
  by simp

lemma steady_done [steady_intros]: "steady_gate (Done r)"
  by (simp add: steady_gate_def split: sum.split)

lemma steady_bind [steady_intros]:
  assumes "steady_gate p" "\<And>x. steady_gate (f x)"
  shows "steady_gate (p_bind p f)"
  unfolding steady_gate_def amid_bind
proof (intro allI impI)
  fix g l assume "at_gate g l"
  then have "amid p (\<lambda>_. at_gate g) (\<lambda>_. at_gate g) l" using assms(1) by (simp add: steady_gate_def)
  then show "amid p (\<lambda>x. amid (f x) (\<lambda>_. at_gate g) (\<lambda>_. at_gate g)) (\<lambda>_. at_gate g) l"
    by (rule amid_mono) (use assms(2) in \<open>auto simp: steady_gate_def\<close>)
qed

lemma steady_seq [steady_intros]: "steady_gate p \<Longrightarrow> steady_gate q \<Longrightarrow> steady_gate (p_seq p q)"
  by (simp add: p_seq_def steady_bind)

lemma steady_attempt [steady_intros]: "steady_gate p \<Longrightarrow> steady_gate (p_attempt p)"
  by (simp add: steady_gate_def amid_attempt)

lemma steady_ignore [steady_intros]: "steady_gate p \<Longrightarrow> steady_gate (p_ignore p)"
  by (simp add: steady_gate_def amid_ignore)

lemma steady_quiet: "emits (\<lambda>_. False) m \<Longrightarrow> steady_gate (atomic m)"
  by (auto simp: steady_gate_def intro!: amid_quiet dest: at_gate_ok)

lemma steady_call [steady_intros]: "(\<And>r g. gate_next g (c r) = Some g) \<Longrightarrow> steady_gate (atomic (call c m))"
  by (auto simp: steady_gate_def gate_ok_def gate_snoc intro!: amid_call)

lemma steady_mapM [steady_intros]: "(\<And>x. steady_gate (f x)) \<Longrightarrow> steady_gate (p_mapM f xs)"
  by (induction xs) (auto intro: steady_intros)

lemma steady_harmless: "steady_gate p \<Longrightarrow> harmless p"
  unfolding steady_gate_def harmless_def gate_ok_def
  by (auto intro: amid_mono)

section \<open>The routines amid the others\<close>

lemma quiet_steps:
  "emits (\<lambda>_. False) (now C)" "emits (\<lambda>_. False) (new_uuid C)" "emits (\<lambda>_. False) (enter_state i nxt)"
  "emits (\<lambda>_. False) (update_entry i g)" "emits (\<lambda>_. False) (set_vm i role v)" "emits (\<lambda>_. False) (set_browser_handle i h)"
  "emits (\<lambda>_. False) (record_checklist i cl)" "emits (\<lambda>_. False) (final_summary msg i)" "emits (\<lambda>_. False) (take_entry i)"
  "emits (\<lambda>_. False) (tracked i)" "emits (\<lambda>_. False) (summary_of i)" "emits (\<lambda>_. False) (register i en)"
  "emits (\<lambda>_. False) (host_proxy_endpoint C m)" "emits (\<lambda>_. False) (provision_request C cfg role)"
  "emits (\<lambda>_. False) (gets get_enforcement)" "emits (\<lambda>_. False) lock_sessions"
  unfolding enter_state_def update_entry_def set_vm_def set_browser_handle_def set_entry_def record_checklist_def final_summary_def
    take_entry_def tracked_def summary_of_def register_def host_proxy_endpoint_def provision_request_def Let_def
  by (intro emits_intros | simp add: emits_intros split: network_mode.split)+

lemmas steady_quiets [steady_intros] = quiet_steps [THEN steady_quiet]
lemmas harmless_quiets [harmless_intros] = quiet_steps [THEN harmless_quiet]

lemma steady_audit [steady_intros]: "steady_gate (atomic (audit C r))"
  by (auto simp: steady_gate_def amid_atomic audit_def ignore_def attempt_def seq_def bind_def ret_def call_def gate_ok_def gate_snoc
      split: prod.split)

lemma steady_audits [steady_intros]:
  "steady_gate (audit_event_steps C i p sev ev)" "steady_gate (audit_state_steps C i p st)" "steady_gate (audit_checks_steps C i p rs)"
  "steady_gate (transition_steps C i nxt)" "steady_gate (touch_steps C p)"
  unfolding audit_event_steps_def audit_state_steps_def audit_checks_steps_def transition_steps_def touch_steps_def
  by (intro steady_intros; simp)+

lemmas harmless_steady [harmless_intros] = steady_audits [THEN steady_harmless] steady_audit [THEN steady_harmless]

lemma harmless_fail_closed: "harmless (fail_closed_steps C session err)"
  unfolding fail_closed_steps_def Let_def by (intro harmless_intros) simp

lemma harmless_dir: "harmless (teardown_dir_steps C mode)"
  by (cases mode) (simp_all add: teardown_dir_steps_def harmless_intros)

lemma harmless_teardown: "harmless (teardown_steps C i failed)"
  unfolding teardown_steps_def teardown_browser_steps_def teardown_vm_steps_def teardown_final_steps_def Let_def
  by (intro harmless_intros harmless_dir; simp)

lemma harmless_stop: "harmless (stop_session_steps C i)"
  unfolding stop_session_steps_def by (intro harmless_intros harmless_teardown)

section \<open>A start amid the others\<close>

abbreviation kept :: "('w orch, 'e, 'a) prog \<Rightarrow> cap_call list \<Rightarrow> bool" where
  "kept p l \<equiv> amid p (\<lambda>_. gate_ok) (\<lambda>_. gate_ok) l"

lemma kept_steady:
  assumes "steady_gate p" "at_gate g l" "\<And>x l. at_gate g l \<Longrightarrow> kept (f x) l"
  shows "kept (p_bind p f) l"
  unfolding amid_bind
  by (rule amid_mono [where Q = "\<lambda>_. at_gate g" and E = "\<lambda>_. at_gate g"])
     (use assms in \<open>auto simp: steady_gate_def gate_ok_def\<close>)

lemma kept_steady_seq: "steady_gate p \<Longrightarrow> at_gate g l \<Longrightarrow> (\<And>l. at_gate g l \<Longrightarrow> kept q l) \<Longrightarrow> kept (p_seq p q) l"
  unfolding p_seq_def by (rule kept_steady)

lemma kept_call:
  assumes "at_gate g l" "\<And>e. gate_next g (c (Inl e)) \<noteq> None" "\<And>x. gate_next g (c (Inr x)) \<noteq> None"
    "\<And>x l. at_gate (the (gate_next g (c (Inr x)))) l \<Longrightarrow> kept (f x) l"
  shows "kept (p_bind (atomic (call c m)) f) l"
  unfolding amid_bind
proof (rule amid_call)
  show "gate_ok (l @ [c r])" for r using assms(1-3) by (cases r) (auto simp: gate_ok_def gate_snoc)
  then show "gate_ok (l @ [c (Inl e)])" for e .
  show "kept (f x) (l @ [c (Inr x)])" for x using assms(1,3) by (intro assms(4)) (auto simp: gate_snoc)
qed

lemma kept_call_seq:
  assumes "at_gate g l" "\<And>r. gate_next g (c r) \<noteq> None" "\<And>l x. at_gate (the (gate_next g (c (Inr x)))) l \<Longrightarrow> kept q l"
  shows "kept (p_seq (atomic (call c m)) q) l"
  unfolding p_seq_def by (rule kept_call [OF assms(1)]) (use assms(2,3) in auto)

lemma kept_harmless: "harmless p \<Longrightarrow> at_gate g l \<Longrightarrow> kept p l"
  by (simp add: harmless_def gate_ok_def)

lemma kept_done: "at_gate g l \<Longrightarrow> kept (Done r) l"
  by (simp add: gate_ok_def split: sum.split)

lemma kept_pure: "at_gate g l \<Longrightarrow> (\<And>x. r = Inr x \<Longrightarrow> kept (f x) l) \<Longrightarrow> kept (p_bind (Done r) f) l"
  by (cases r) (simp_all add: amid_bind gate_ok_def)

definition cleared :: "isolation_level \<Rightarrow> gate" where
  "cleared level = (case level of FullVm \<Rightarrow> ClearedVm | HostProcess \<Rightarrow> ClearedHost)"

lemma kept_launch:
  assumes "at_gate (cleared level) l" "harmless q"
  shows "kept (p_seq (run_launch_steps level msg B i req) q) l"
proof -
  have g: "gate_next (cleared level) (C_launch level h) = Some Idle" for h by (cases level) (simp_all add: cleared_def)
  have rest: "kept (p_seq (atomic (set_browser_handle i h)) (p_bind (atomic (call (\<lambda>_. C_is_running) (bb_is_running B h)))
      (\<lambda>alive. if \<not> alive then Done (Inl (System msg)) else Done (Inr ())))) l" if "at_gate Idle l" for h l
    by (rule kept_harmless [OF _ that]) (intro harmless_intros; simp)
  have "kept (run_launch_steps level msg B i req) l"
    unfolding run_launch_steps_def p_seq_def [of "Done _"]
    by (rule kept_pure [OF assms(1)], rule kept_pure [OF assms(1)], rule kept_call [OF assms(1)]) (use rest in \<open>auto simp: g\<close>)
  then show ?thesis unfolding amid_seq by (rule amid_mono) (use assms(2) in \<open>auto simp: harmless_def\<close>)
qed

lemma kept_provision:
  assumes "at_gate g l" "\<And>h. gate_next g (C_provision role h) \<noteq> None"
    "\<And>v x l. at_gate (the (gate_next g (C_provision role (Some v)))) l \<Longrightarrow> kept (f x) l"
  shows "kept (p_bind (provision_vm_steps C cfg i role) f) l"
proof -
  have r: "kept (p_bind (p_seq (atomic (set_vm i role (vh_id h))) (Done (Inr h))) f) l"
    if "at_gate (the (gate_next g (C_provision role (Some v)))) l" for h v l
    unfolding p_seq_def p_bind_assoc p_bind_done
    by (rule kept_steady [OF steady_quiets(5) that]) (rule assms(3))
  show ?thesis
    unfolding provision_vm_steps_def p_bind_assoc
    by (rule kept_steady [OF steady_quiets(14) assms(1)], rule kept_call) (use assms(2) r in auto)
qed

lemma kept_cleared_vm:
  assumes "at_gate (if permits_browsing cl then ClearedVm else Idle) l"
  shows "kept (if \<not> permits_browsing cl then Done (Inl e)
     else p_seq (run_launch_steps FullVm msg B i req)
       (p_seq (transition_steps C i Browsing) (p_seq (touch_steps C pid) (atomic (final_summary msg2 i))))) l"
proof (cases "permits_browsing cl")
  case True
  then have "at_gate (cleared FullVm) l" using assms by (simp add: cleared_def)
  then show ?thesis using True by (simp add: kept_launch harmless_intros)
qed (use assms in \<open>simp add: gate_ok_def\<close>)

lemma kept_drive_vm: "at_gate Leased l \<Longrightarrow> kept (drive_start_steps C cfg i p) l"
  unfolding drive_start_steps_def Let_def
  apply (rule kept_steady_seq [OF steady_audits(4)], assumption)
  apply (rule kept_provision, assumption, simp add: advance_def)
  apply (rule kept_provision, assumption, simp add: advance_def)
  apply (rule kept_steady_seq [OF steady_audits(4)], assumption)
  apply (rule kept_call_seq, assumption, simp add: advance_def)
  apply (rule kept_call_seq, assumption, simp add: advance_def)
  apply (rule kept_call_seq, assumption, simp)
  apply (rule kept_call_seq, assumption, simp)
  apply (rule kept_steady_seq [OF steady_audits(4)], assumption)
  apply (rule kept_call, assumption, simp add: advance_def, simp add: advance_def)
  apply (rule kept_steady_seq [OF steady_audits(3)], assumption)
  apply (rule kept_steady_seq [OF steady_quiets(7)], assumption)
  apply (rule kept_cleared_vm)
  apply (simp add: advance_def split: if_splits)
  done

lemma kept_drive_host: "at_gate Leased l \<Longrightarrow> kept (drive_start_host_steps C cfg i p) l"
  unfolding drive_start_host_steps_def Let_def
  apply (rule kept_pure, assumption)
  apply (rule kept_steady [OF steady_quiets(13)], assumption)
  apply (rule kept_steady_seq [OF steady_audits(4)], assumption)+
  apply (rule kept_call, assumption, simp add: advance_def, simp add: advance_def)
  subgoal for B proxy l1 l2 l3 l4 reachable l5
  proof (cases reachable)
    case True
    assume "at_gate (the (gate_next Leased (C_proxy_reachable (Inr reachable = Inr True)))) l5"
    then have "at_gate (cleared HostProcess) l5" using True by (simp add: advance_def cleared_def)
    then show ?thesis
      by (simp add: True) (intro kept_steady_seq [OF steady_audits(1)] kept_steady_seq [OF steady_quiets(4)] kept_launch; (intro harmless_intros)?; assumption?)
  qed (auto simp: gate_ok_def)
  done

lemma kept_drive:
  assumes "at_gate Leased l"
  shows "kept (drive_steps C cfg hm i p) l"
proof -
  have h: "harmless (p_bind (fail_closed_steps C (Some i) e) (\<lambda>err. p_seq (teardown_steps C i True) (Done (Inl err))))" for e
    by (intro harmless_intros harmless_fail_closed harmless_teardown)
  have "kept (if hm then drive_start_host_steps C cfg i p else drive_start_steps C cfg i p) l"
    by (simp add: kept_drive_vm [OF assms] kept_drive_host [OF assms])
  then show ?thesis
    unfolding drive_steps_def amid_bind amid_attempt
    by (rule amid_mono) (use h in \<open>auto simp: harmless_def amid_bind\<close>)
qed

lemma steady_make_key: "steady_gate (make_key_steps C lease)"
  unfolding make_key_steps_def by (intro steady_bind steady_attempt) (auto split: sum.split intro!: steady_intros)

lemma kept_start:
  assumes "gate_ok l"
  shows "kept (start_session_steps C cfg pid) l"
proof -
  obtain g where "at_gate g l" using assms by (auto simp: gate_ok_def)
  then show ?thesis
    unfolding start_session_steps_def Let_def
    apply -
    apply (rule kept_steady [OF steady_call], simp, assumption)
    apply (rule kept_steady [OF steady_quiets(15)], assumption)
    apply (rule kept_pure, assumption)
    apply (rule kept_call, assumption, simp, simp)
    apply (rule kept_steady [OF steady_quiets(2)], assumption)
    apply (rule kept_steady [OF steady_make_key], assumption)
    apply (rule kept_steady_seq [OF steady_quiets(12)], assumption)
    apply (rule kept_steady_seq [OF steady_audits(2)], assumption)
    apply (rule kept_drive)
    apply simp
    done
qed

section \<open>Every pool\<close>

lemma pool_kept: "orch_pool C cfg ts s \<Longrightarrow> t \<in> set ts \<Longrightarrow> gate_ok (tk_log t) \<and> kept (tk_prog t) (tk_log t)"
proof (induction arbitrary: t rule: orch_pool.induct)
  case (orch_pool_start ts s pid)
  have "gate_ok []" by (simp add: gate_ok_def)
  then show ?case using orch_pool_start kept_start by (auto simp: spawned_def)
next
  case (orch_pool_stop ts s i)
  have "gate_ok []" by (simp add: gate_ok_def)
  have "kept (stop_session_steps C i) []" by (rule kept_harmless [OF harmless_stop, where g = Idle]) simp
  then show ?case using orch_pool_stop \<open>gate_ok []\<close> by (auto simp: spawned_def)
next
  case (orch_pool_step ts s n t1 s')
  obtain u k where p: "tk_prog (ts ! n) = Step u k" using orch_pool_step.hyps(3) by (cases "tk_prog (ts ! n)") auto
  let ?v = "s\<lparr>or_calls := tk_log (ts ! n)\<rparr>"
  have t1: "t1 = \<lparr> tk_prog = k ?v, tk_log = or_calls (u ?v) \<rparr>" using orch_pool_step.hyps(3) by (auto simp: p Let_def)
  have "kept (tk_prog (ts ! n)) (tk_log (ts ! n))" using orch_pool_step.IH orch_pool_step.hyps(2) by simp
  then have "gate_ok (or_calls (u ?v))" "kept (k ?v) (or_calls (u ?v))" by (simp_all add: p)
  moreover have "t = t1 \<or> t \<in> set ts" using orch_pool_step.prems set_update_subset_insert by fastforce
  ultimately show ?case using orch_pool_step.IH t1 by auto
qed auto



end
