(* ===== verification/Orchestrator_Race.thy ===== *)
theory Orchestrator_Race
  imports Orchestrator_Interleaving
begin

text \<open>
  A stop that overtakes a start.  The final update of a teardown clears the resources of a
  session, also those that the start stored after the teardown took its snapshot: the gateway VM
  of such a session is never destroyed, and a host browser keeps running.
\<close>

section \<open>Schedules\<close>

text \<open>Some steps of a program on their own, and stretches of the tasks of a pool in turn.\<close>

primrec play_steps :: "nat \<Rightarrow> ('s, 'e, 'a) prog \<Rightarrow> 's \<Rightarrow> ('s, 'e, 'a) prog \<times> 's" where
  "play_steps 0 p s = (p, s)"
| "play_steps (Suc k) p s = (case p of Done _ \<Rightarrow> (p, s) | Step u f \<Rightarrow> play_steps k (f s) (u s))"

fun play :: "(nat \<times> nat) list \<Rightarrow> 'w task list \<Rightarrow> 'w orch \<Rightarrow> 'w task list \<times> 'w orch" where
  "play [] ts s = (ts, s)"
| "play ((n, k) # sch) ts s = (case play_steps k (tk_prog (ts ! n)) (s\<lparr>or_calls := tk_log (ts ! n)\<rparr>) of
     (p, s') \<Rightarrow> play sch (ts[n := \<lparr> tk_prog = p, tk_log = or_calls s' \<rparr>]) s')"

lemma play_steps_pool:
  "orch_pool C cfg ts s \<Longrightarrow> n < length ts \<Longrightarrow> play_steps k (tk_prog (ts ! n)) (s\<lparr>or_calls := tk_log (ts ! n)\<rparr>) = (p, s') \<Longrightarrow>
   orch_pool C cfg (ts[n := \<lparr> tk_prog = p, tk_log = or_calls s' \<rparr>]) s'"
proof (induction k arbitrary: ts s)
  case 0
  then have "ts[n := \<lparr> tk_prog = p, tk_log = or_calls s' \<rparr>] = ts"
    by (cases "ts ! n") (auto intro: list_update_same_conv [THEN iffD2])
  then show ?case using 0 pool_same_world [of C cfg ts s] by auto
next
  case (Suc k)
  let ?v = "s\<lparr>or_calls := tk_log (ts ! n)\<rparr>"
  show ?case
  proof (cases "tk_prog (ts ! n)")
    case (Done r)
    then have "ts[n := \<lparr> tk_prog = p, tk_log = or_calls s' \<rparr>] = ts"
      using Suc.prems by (cases "ts ! n") (auto intro: list_update_same_conv [THEN iffD2])
    then show ?thesis using Suc.prems Done pool_same_world [of C cfg ts s] by auto
  next
    case (Step u f)
    let ?t = "\<lparr> tk_prog = f ?v, tk_log = or_calls (u ?v) \<rparr>"
    have "orch_pool C cfg (ts[n := ?t]) (u ?v)"
      using Suc.prems Step by (intro orch_pool_step) (auto simp: Let_def)
    then have "orch_pool C cfg ((ts[n := ?t])[n := \<lparr> tk_prog = p, tk_log = or_calls s' \<rparr>]) s'"
      using Suc.prems Step by (intro Suc.IH) auto
    then show ?thesis by simp
  qed
qed

lemma play_pool:
  "orch_pool C cfg ts s \<Longrightarrow> list_all (\<lambda>(n, _). n < length ts) sch \<Longrightarrow> orch_pool C cfg (fst (play sch ts s)) (snd (play sch ts s))"
proof (induction sch ts s rule: play.induct)
  case (2 n k sch ts s)
  obtain p s' where p: "play_steps k (tk_prog (ts ! n)) (s\<lparr>or_calls := tk_log (ts ! n)\<rparr>) = (p, s')" by fastforce
  have "n < length ts" using 2 by simp
  with 2 p show ?case using "2.IH" [OF p [symmetric]] play_steps_pool [OF "2.prems"(1) _ p] by simp
qed simp

text \<open>Playing a composed program, one atomic step at a time.\<close>

lemma play_then: "play_steps (Suc k) (prog_then (atomic m) F) s = (case m s of (r, s') \<Rightarrow> play_steps k (F r) s')"
  by (simp add: atomic_def split: prod.split)

lemma play_atomic: "play_steps (Suc k) (atomic m) s = (case m s of (r, s') \<Rightarrow> play_steps k (Done r) s')"
  by (simp add: atomic_def split: prod.split)

lemma play_done: "play_steps k (Done r) s = (Done r, s)" "play_steps 0 p s = (p, s)"
  by (cases k) simp_all

lemma play_numeral:
  "play_steps (numeral v) (prog_then (atomic m) F) s = (case m s of (r, s') \<Rightarrow> play_steps (pred_numeral v) (F r) s')"
  "play_steps (numeral v) (atomic m) s = (case m s of (r, s') \<Rightarrow> play_steps (pred_numeral v) (Done r) s')"
  by (simp_all add: numeral_eq_Suc play_then play_atomic del: play_steps.simps)

text \<open>Only the head of a program is rewritten, and an atomic step only when it is taken.\<close>

lemma play_lazy: "k = k' \<Longrightarrow> p = p' \<Longrightarrow> s = s' \<Longrightarrow> play_steps k p s = play_steps k' p' s'"
  "p = p' \<Longrightarrow> prog_then p F = prog_then p' F" "atomic m = atomic m"
  by simp_all

lemmas play_head = play_then play_atomic play_numeral play_done prog_then_assoc prog_then.simps(1) p_bind_def p_seq_def p_attempt_def p_ignore_def

section \<open>The schedules\<close>

text \<open>
  The start reaches the gateway VM; the stop takes its snapshot; the start stores the VM; the stop
  finishes; the start finishes.  In host mode the same with the browser handle.
\<close>

definition overtaking :: "nat \<Rightarrow> (nat \<times> nat) list" where
  "overtaking k = [(0, k), (1, 5), (0, 1), (1, 20), (0, 40)]"

definition overtaken_tasks :: "isolation_level \<Rightarrow> nat task list" where
  "overtaken_tasks lvl = [spawned (start_session_steps (sample_caps lvl Pass) sample_config sample_pid),
     spawned (stop_session_steps (sample_caps lvl Pass) (SessionId (Uuid (dec 0))))]"

lemma overtaken_pool:
  "orch_pool (sample_caps lvl Pass) sample_config (fst (play (overtaking k) (overtaken_tasks lvl) sample_state))
     (snd (play (overtaking k) (overtaken_tasks lvl) sample_state))"
proof (rule play_pool)
  let ?C = "sample_caps lvl Pass"
  have "orch_pool ?C sample_config [] sample_state" unfolding sample_state_def by (rule orch_pool_new)
  then have "orch_pool ?C sample_config (([] @ [spawned (start_session_steps ?C sample_config sample_pid)]) @
      [spawned (stop_session_steps ?C (SessionId (Uuid (dec 0))))]) sample_state"
    by (intro orch_pool_stop orch_pool_start)
  then show "orch_pool ?C sample_config (overtaken_tasks lvl) sample_state" by (simp add: overtaken_tasks_def)
qed (simp add: overtaking_def overtaken_tasks_def)

lemmas steps_defs = start_session_steps_def stop_session_steps_def drive_steps_def drive_start_steps_def drive_start_host_steps_def run_launch_steps_def touch_steps_def provision_vm_steps_def
  transition_steps_def audit_state_steps_def audit_event_steps_def make_key_steps_def fail_closed_steps_def teardown_steps_def
  teardown_browser_steps_def teardown_dir_steps_def teardown_vm_steps_def teardown_final_steps_def

lemmas steps_run = enter_state_def take_entry_def tracked_def summary_of_def

definition forgotten :: "'w task list \<times> 'w orch \<Rightarrow> bool" where
  "forgotten r \<longleftrightarrow> list_all (\<lambda>t. is_Done (tk_prog t)) (fst r) \<and>
     list_all (\<lambda>(_, en). en_gateway_vm en = None \<and> en_browser_vm en = None \<and> en_browser_handle en = None) (or_sessions (snd r))"

definition leaked_vm :: "vm_id \<Rightarrow> 'w task list \<Rightarrow> bool" where
  "leaked_vm v ts \<longleftrightarrow> list_ex (\<lambda>t. C_provision RoleGateway (Some v) \<in> set (tk_log t)) ts \<and>
     list_all (\<lambda>t. C_vm_destroy v True \<notin> set (tk_log t) \<and> C_vm_destroy v False \<notin> set (tk_log t)) ts"

definition leaked_browser :: "browser_handle \<Rightarrow> 'w task list \<Rightarrow> bool" where
  "leaked_browser h ts \<longleftrightarrow> list_ex (\<lambda>t. C_launch HostProcess (Some h) \<in> set (tk_log t)) ts \<and>
     list_all (\<lambda>t. C_terminate h \<notin> set (tk_log t)) ts"

lemma dec_inject [simp]: "dec m = dec n \<longleftrightarrow> m = n"
  by (metis digits_val_dec option.inject)

lemmas overtaken_defs = forgotten_def leaked_vm_def leaked_browser_def overtaking_def overtaken_tasks_def spawned_def steps_defs
  steps_run play_head run_defs

text \<open>
  Both tasks have returned, no entry of the table refers to a VM or a browser any more, and the
  gateway VM, or the host browser, was never destroyed.
\<close>

lemma overtaken_vm:
  "forgotten (play (overtaking 13) (overtaken_tasks FullVm) sample_state)"
  "leaked_vm (VmId (Uuid (dec 2))) (fst (play (overtaking 13) (overtaken_tasks FullVm) sample_state))"
  by (simp_all add: overtaken_defs del: play_steps.simps prog_then.simps(2) cong: lazy_cong play_lazy)

lemma overtaken_browser:
  "forgotten (play (overtaking 24) (overtaken_tasks HostProcess) sample_state)"
  "\<exists>h. leaked_browser h (fst (play (overtaking 24) (overtaken_tasks HostProcess) sample_state))"
  by (simp_all add: overtaken_defs del: play_steps.simps prog_then.simps(2) cong: lazy_cong play_lazy)

lemma overtaken_start_leaks:
  "\<exists>ts s v. orch_pool (sample_caps FullVm Pass) sample_config ts s \<and> forgotten (ts, s) \<and> leaked_vm v ts"
  "\<exists>ts s h. orch_pool (sample_caps HostProcess Pass) sample_config ts s \<and> forgotten (ts, s) \<and> leaked_browser h ts"
  using overtaken_pool overtaken_vm overtaken_browser by (metis prod.collapse)+

end
