(* ===== verification/Manager_Form.thy ===== *)
theory Manager_Form
  imports Profile
begin

text \<open>
  \<^verbatim>\<open>apps/manager-ui/src-tauri/src/dto.rs\<close>, the half that comes from the webview: the form of a new
  profile, its fingerprint switches, and the profile specification or the preview they stand
  for.  Errors are the strings the user is shown.
\<close>

record fingerprint_args =
  fa_webgl :: "string option"
  fa_webgpu_enabled :: "bool option"
  fa_canvas :: "string option"
  fa_letterbox :: "bool option"
  fa_hardware_concurrency :: "32 word option"
  fa_timezone :: "string option"
  fa_language :: "string option"

record create_form =
  cf_name :: string
  cf_kind :: "string option"
  cf_isolation :: "string option"
  cf_network_mode :: "string option"
  cf_bridges :: "string option"
  cf_proxy_host :: "string option"
  cf_proxy_port :: "16 word option"
  cf_proxy_credentials :: "string option"
  cf_protection :: "string option"
  cf_browser :: "string option"
  cf_fingerprint :: "fingerprint_args option"

text \<open>\<^verbatim>\<open>as_deref().map(str::trim).filter(|s| !s.is_empty())\<close>.\<close>

definition filled :: "string option \<Rightarrow> string option" where
  "filled v = (case v of None \<Rightarrow> None | Some s \<Rightarrow> if trim s = [] then None else Some (trim s))"

section \<open>Fingerprint switches\<close>

definition form_webgl :: "string \<Rightarrow> string + webgl_mode" where
  "form_webgl raw =
    (if raw = ''virtual-backend'' \<or> raw = ''virtual'' then Inr WebGlVirtual
     else if raw = ''restricted'' then Inr WebGlRestricted
     else if raw = ''disabled'' \<or> raw = ''off'' then Inr WebGlDisabled
     else Inl (''unknown WebGL mode: '' @ raw))"

definition form_canvas :: "string \<Rightarrow> string + canvas_mode" where
  "form_canvas raw =
    (if raw = ''passthrough'' then Inr CanvasPassthrough
     else if raw = ''limited'' then Inr CanvasLimited
     else Inl (''unknown canvas mode: '' @ raw))"

text \<open>The switches that cannot be refused, in the order of the code.\<close>

definition plain_switches :: "fingerprint_args \<Rightarrow> fingerprint_policy \<Rightarrow> fingerprint_policy" where
  "plain_switches a fp0 =
    (let fp1 = (case fa_letterbox a of Some b \<Rightarrow> fp0\<lparr>fp_letterbox := (if b then LetterboxOn else LetterboxOff)\<rparr> | None \<Rightarrow> fp0);
         fp2 = (case fa_hardware_concurrency a of
             Some cores \<Rightarrow> fp1\<lparr>fp_hardware_concurrency := (if cores = 0 then None else Some cores)\<rparr> | None \<Rightarrow> fp1);
         fp3 = (case filled (fa_timezone a) of Some tz \<Rightarrow> fp2\<lparr>fp_timezone := Some tz\<rparr> | None \<Rightarrow> fp2)
     in (case filled (fa_language a) of Some l \<Rightarrow> fp3\<lparr>fp_primary_language := l\<rparr> | None \<Rightarrow> fp3))"

definition apply_to :: "fingerprint_args \<Rightarrow> fingerprint_policy \<Rightarrow> string + fingerprint_policy" where
  "apply_to a base =
    (case (case filled (fa_webgl a) of
             None \<Rightarrow> Inr base
           | Some raw \<Rightarrow> (case form_webgl raw of Inl e \<Rightarrow> Inl e | Inr m \<Rightarrow> Inr (base\<lparr>fp_webgl := m\<rparr>))) of
       Inl e \<Rightarrow> Inl e
     | Inr fp1 \<Rightarrow>
         let fp2 = (case fa_webgpu_enabled a of Some b \<Rightarrow> fp1\<lparr>fp_webgpu_enabled := b\<rparr> | None \<Rightarrow> fp1) in
         (case (case filled (fa_canvas a) of
                  None \<Rightarrow> Inr fp2
                | Some raw \<Rightarrow> (case form_canvas raw of Inl e \<Rightarrow> Inl e | Inr m \<Rightarrow> Inr (fp2\<lparr>fp_canvas := m\<rparr>))) of
            Inl e \<Rightarrow> Inl e
          | Inr fp3 \<Rightarrow>
              let fp4 = plain_switches a fp3 in
              (case fp_validate fp4 of
                 Some reason \<Rightarrow> Inl (''invalid fingerprint override: '' @ reason)
               | None \<Rightarrow> Inr fp4)))"

section \<open>The form's choices\<close>

definition form_kind :: "create_form \<Rightarrow> profile_type" where
  "form_kind f = (if cf_kind f = Some ''persistent'' then Persistent else Ephemeral)"

definition form_isolation :: "create_form \<Rightarrow> isolation_level" where
  "form_isolation f =
    (if cf_isolation f = Some ''host-process'' \<or> cf_isolation f = Some ''host'' then HostProcess else FullVm)"

definition form_protection :: "create_form \<Rightarrow> protection_level" where
  "form_protection f = (if cf_protection f = Some ''strict'' then Strict else Balanced)"

definition form_browser :: "create_form \<Rightarrow> browser_backend" where
  "form_browser f =
    (if cf_browser f = Some ''firefox'' \<or> cf_browser f = Some ''tor'' \<or> cf_browser f = Some ''tor-browser'' then Firefox
     else Chromium)"

definition fingerprint_override :: "create_form \<Rightarrow> string + fingerprint_policy option" where
  "fingerprint_override f = (case cf_fingerprint f of
      Some a \<Rightarrow> (case apply_to a (level_policy (form_protection f)) of Inl e \<Rightarrow> Inl e | Inr fp \<Rightarrow> Inr (Some fp))
    | None \<Rightarrow> Inr None)"

definition bridge_lines :: "create_form \<Rightarrow> string list" where
  "bridge_lines f = (case cf_bridges f of
      None \<Rightarrow> []
    | Some raw \<Rightarrow> List.filter (\<lambda>l. l \<noteq> []) (List.map trim (str_lines raw)))"

text \<open>The reference carried for \<^verbatim>\<open>user:pass\<close>: it names the user.\<close>

definition credential_of :: "string \<Rightarrow> credential_ref" where
  "credential_of c =
    (let user = trim (hd (split_on (CHR '':'') c)) in
     CredentialRef (if user = [] then ''proxy'' else ''proxy:'' @ user))"

definition form_proxy :: "create_form \<Rightarrow> proxy_protocol \<Rightarrow> string + proxy_config" where
  "form_proxy f protocol = (case filled (cf_proxy_host f) of
      None \<Rightarrow> Inl ''proxy host must not be empty''
    | Some host \<Rightarrow> (case cf_proxy_port f of
        Some port \<Rightarrow>
          if port = 0 then Inl ''proxy port must be between 1 and 65535''
          else Inr \<lparr> px_protocol = protocol, px_host = host, px_port = port,
                 px_credentials_ref = map_option credential_of (filled (cf_proxy_credentials f)), px_remote_dns = True \<rparr>
      | None \<Rightarrow> Inl ''proxy port must be between 1 and 65535''))"

definition form_proxy_network :: "create_form \<Rightarrow> proxy_protocol \<Rightarrow> string + network_config" where
  "form_proxy_network f protocol = (case form_proxy f protocol of
      Inl e \<Rightarrow> Inl e | Inr p \<Rightarrow> Inr (network_from_mode (Proxy p)))"

definition form_network :: "create_form \<Rightarrow> string + network_config" where
  "form_network f = (case cf_network_mode f of
      None \<Rightarrow> Inr (network_from_mode (Tor \<lparr> tor_use_bridges = (bridge_lines f \<noteq> []), tor_bridges = bridge_lines f, tor_exit_country = None \<rparr>))
    | Some m \<Rightarrow>
        if m = ''tor'' then Inr (network_from_mode (Tor \<lparr> tor_use_bridges = (bridge_lines f \<noteq> []), tor_bridges = bridge_lines f, tor_exit_country = None \<rparr>))
        else if m = ''socks5'' \<or> m = ''proxy'' then form_proxy_network f Socks5
        else if m = ''http'' then form_proxy_network f HttpConnect
        else if m = ''vpn'' then
          (if form_isolation f = HostProcess
           then Inl ''VPN is available only with full-VM isolation; use Tor or a proxy for host mode''
           else Inl ''VPN profiles require an endpoint and stored credentials; create them via the CLI/config'')
        else Inl (''unknown network mode: '' @ m))"

section \<open>The specification\<close>

definition spec_with_name :: "create_form \<Rightarrow> string \<Rightarrow> string + profile_spec" where
  "spec_with_name f name = (case form_network f of
      Inl e \<Rightarrow> Inl e
    | Inr net \<Rightarrow> (case fingerprint_override f of
        Inl e \<Rightarrow> Inl e
      | Inr fp \<Rightarrow>
          let spec = \<lparr> sp_name = name, sp_kind = form_kind f, sp_network = net, sp_protection = form_protection f,
                sp_isolation = form_isolation f, sp_browser = form_browser f, sp_fingerprint = fp,
                sp_permissions = secure_default \<rparr>
          in (case spec_validate spec of
                Inl e \<Rightarrow> Inl (''invalid profile: '' @ error_display e)
              | Inr _ \<Rightarrow> Inr spec)))"

definition to_spec :: "create_form \<Rightarrow> string + profile_spec" where
  "to_spec f = (if trim (cf_name f) = [] then Inl ''profile name must not be empty'' else spec_with_name f (trim (cf_name f)))"

definition form_preview :: "create_form \<Rightarrow> string + profile_preview" where
  "form_preview f =
    (let name = (if trim (cf_name f) = [] then ''preview'' else trim (cf_name f)) in
     case spec_with_name f name of Inl e \<Rightarrow> Inl e | Inr spec \<Rightarrow> Inr (preview_from_spec spec))"

end
