(* ===== verification/Cli_Args.thy ===== *)
theory Cli_Args
  imports Handler
begin

text \<open>
  \<^verbatim>\<open>apps/cli/src/cli.rs\<close>: the argument surface of the command-line client.  Parsing \<^verbatim>\<open>argv\<close> is
  clap's; what is here is the typed value it yields and the pure functions on it.
\<close>

datatype toggle = On | Off

definition toggle_is_on :: "toggle \<Rightarrow> bool" where
  "toggle_is_on t = (t = On)"

record enforcement_args =
  ea_vm_isolation :: "toggle option"
  ea_gateway :: "toggle option"
  ea_host_browser :: "toggle option"

definition ea_is_empty :: "enforcement_args \<Rightarrow> bool" where
  "ea_is_empty a = (ea_vm_isolation a = None \<and> ea_gateway a = None \<and> ea_host_browser a = None)"

definition ea_apply :: "enforcement_args \<Rightarrow> enforcement \<Rightarrow> enforcement" where
  "ea_apply a e0 =
    (let e1 = (case ea_vm_isolation a of Some t \<Rightarrow> e0\<lparr>require_vm_isolation := toggle_is_on t\<rparr> | None \<Rightarrow> e0);
         e2 = (case ea_gateway a of Some t \<Rightarrow> e1\<lparr>require_gateway := toggle_is_on t\<rparr> | None \<Rightarrow> e1)
     in (case ea_host_browser a of Some t \<Rightarrow> e2\<lparr>allow_host_browser := toggle_is_on t\<rparr> | None \<Rightarrow> e2))"

datatype profile_kind_arg = KindEphemeral | KindPersistent

definition kind_to_domain :: "profile_kind_arg \<Rightarrow> profile_type" where
  "kind_to_domain a = (case a of KindEphemeral \<Rightarrow> Ephemeral | KindPersistent \<Rightarrow> Persistent)"

datatype net_arg = NetTor | NetVpn | NetProxy

datatype isolation_arg = IsolationVm | IsolationHost

definition isolation_to_domain :: "isolation_arg \<Rightarrow> isolation_level" where
  "isolation_to_domain a = (case a of IsolationVm \<Rightarrow> FullVm | IsolationHost \<Rightarrow> HostProcess)"

datatype browser_arg = BrowserChromium | BrowserFirefox

definition browser_to_domain :: "browser_arg \<Rightarrow> browser_backend" where
  "browser_to_domain a = (case a of BrowserChromium \<Rightarrow> Chromium | BrowserFirefox \<Rightarrow> Firefox)"

datatype proxy_kind_arg = ProxySocks5 | ProxyHttp

definition proxy_kind_to_domain :: "proxy_kind_arg \<Rightarrow> proxy_protocol" where
  "proxy_kind_to_domain a = (case a of ProxySocks5 \<Rightarrow> Socks5 | ProxyHttp \<Rightarrow> HttpConnect)"

datatype protection_arg = ProtectionBalanced | ProtectionStrict

definition protection_to_domain :: "protection_arg \<Rightarrow> protection_level" where
  "protection_to_domain a = (case a of ProtectionBalanced \<Rightarrow> Balanced | ProtectionStrict \<Rightarrow> Strict)"

record profile_create_args =
  ca_name :: string
  ca_kind :: profile_kind_arg
  ca_net :: net_arg
  ca_protection :: protection_arg
  ca_isolation :: isolation_arg
  ca_browser :: browser_arg
  ca_proxy_kind :: proxy_kind_arg
  ca_proxy_host :: "string option"
  ca_proxy_port :: "16 word option"
  ca_tor_bridge :: "string list"

datatype profile_command =
    ProfileCreate profile_create_args
  | ProfileList
  | ProfileShow string
  | ProfileRm string

datatype session_command =
    SessionStart string
  | SessionStop string
  | SessionList

datatype config_command = ConfigEnforcement enforcement_args

datatype update_command = UpdateCheck | UpdateApply

datatype cli_command =
    CmdProfile profile_command
  | CmdSession session_command
  | CmdDiagnostics string
  | CmdStatus
  | CmdConfig config_command
  | CmdDoctor
  | CmdUpdate update_command

record global_args =
  ga_socket :: "path option"
  ga_endpoint :: "string option"
  ga_token_file :: "path option"
  ga_json :: bool
  ga_verbose :: "8 word"

record cli =
  cli_global :: global_args
  cli_command :: cli_command

text \<open>A flag that was not given changes nothing, and the others are set independently.\<close>

lemma ea_apply_sel [simp]:
  "require_vm_isolation (ea_apply a e) = (case ea_vm_isolation a of Some t \<Rightarrow> toggle_is_on t | None \<Rightarrow> require_vm_isolation e)"
  "require_gateway (ea_apply a e) = (case ea_gateway a of Some t \<Rightarrow> toggle_is_on t | None \<Rightarrow> require_gateway e)"
  "allow_host_browser (ea_apply a e) = (case ea_host_browser a of Some t \<Rightarrow> toggle_is_on t | None \<Rightarrow> allow_host_browser e)"
  by (simp_all add: ea_apply_def Let_def split: option.split)

lemma ea_apply_empty [simp]: "ea_is_empty a \<Longrightarrow> ea_apply a e = e"
  by (simp add: ea_is_empty_def ea_apply_def)

lemma ea_apply_twice: "ea_apply a (ea_apply a e) = ea_apply a e"
  by (intro enforcement.equality) (simp_all split: option.split)

end
