(* ===== verification/Cli_Render.thy ===== *)
theory Cli_Render
  imports Orchestrator Session
begin

text \<open>
  \<^verbatim>\<open>apps/cli/src/render.rs\<close>: the human-readable form of what the daemon answers.  Timestamps count
  nanoseconds; their RFC 3339 text is chrono's and a parameter.
\<close>

definition trim_end :: "string \<Rightarrow> string" where
  "trim_end s = rev (trim_with (List.map rev wide_ws) (rev s))"

text \<open>\<^verbatim>\<open>str::replacen\<close> with a count of one.\<close>

fun replace_first :: "string \<Rightarrow> string \<Rightarrow> string \<Rightarrow> string" where
  "replace_first pat rep [] = (if pat = [] then rep else [])"
| "replace_first pat rep (c # cs) =
    (if starts_with (c # cs) pat then rep @ drop (length pat) (c # cs) else c # replace_first pat rep cs)"

definition newline_char :: string where
  "newline_char = [CHR 0x0A]"

section \<open>Cells\<close>

definition no_value :: string where
  "no_value = ''-''"

text \<open>\<^verbatim>\<open>Duration::num_seconds\<close> rounds towards zero; negative ages are clamped.\<close>

definition age_seconds :: "int \<Rightarrow> nat" where
  "age_seconds age = nat (max 0 (age div 1000000000))"

definition human_age :: "int \<Rightarrow> string" where
  "human_age age =
    (let secs = age_seconds age in
     if secs < 60 then dec secs @ ''s''
     else let mins = secs div 60 in
       if mins < 60 then dec mins @ ''m''
       else let hours = mins div 60 in
         if hours < 24 then dec hours @ ''h '' @ dec (mins mod 60) @ ''m''
         else dec (hours div 24) @ ''d '' @ dec (hours mod 24) @ ''h'')"

definition last_run :: "timestamp option \<Rightarrow> timestamp \<Rightarrow> string" where
  "last_run lst clock = (case lst of Some t \<Rightarrow> human_age (clock - t) @ '' ago'' | None \<Rightarrow> ''never'')"

definition gateway_state :: "profile \<Rightarrow> string" where
  "gateway_state p = (if pr_locked p then ''running'' else ''idle'')"

definition profile_headers :: "string list" where
  "profile_headers = [''NAME'', ''TYPE'', ''NET'', ''ISOLATION'', ''PROTECTION'', ''GATEWAY'', ''PUBLIC IP'', ''AGE'', ''SIZE'', ''LAST RUN'']"

definition isolation_cell :: "isolation_level \<Rightarrow> string" where
  "isolation_cell l = (if isolation_is_full l then ''vm'' else ''host'')"

definition profile_row :: "profile \<Rightarrow> timestamp \<Rightarrow> string list" where
  "profile_row p clock = [
     sp_name (pr_spec p),
     profile_type_label (sp_kind (pr_spec p)),
     network_label (net_mode (sp_network (pr_spec p))),
     isolation_cell (sp_isolation (pr_spec p)),
     level_label (sp_protection (pr_spec p)),
     gateway_state p,
     no_value,
     human_age (profile_age p clock),
     storage_human (pr_storage p),
     last_run (pr_last_launched p) clock]"

definition session_headers :: "string list" where
  "session_headers = [''ID'', ''PROFILE'', ''STATE'', ''PROTECTION'']"

text \<open>\<^verbatim>\<open>format!("{:?}", state).to_lowercase()\<close>.\<close>

definition state_debug_lower :: "session_state \<Rightarrow> string" where
  "state_debug_lower st = (case st of
      Requested \<Rightarrow> ''requested'' | Provisioning \<Rightarrow> ''provisioning'' | GatewayStarting \<Rightarrow> ''gatewaystarting''
    | S_Preflight \<Rightarrow> ''preflight'' | Browsing \<Rightarrow> ''browsing'' | Closing \<Rightarrow> ''closing''
    | Destroyed \<Rightarrow> ''destroyed'' | Failed \<Rightarrow> ''failed'')"

definition session_row :: "session_summary \<Rightarrow> string list" where
  "session_row s = [
     session_display (ss_id s),
     profile_display (ss_profile s),
     state_debug_lower (ss_state s),
     status_label (ss_protection s)]"

section \<open>Tables\<close>

definition column_width :: "string list \<Rightarrow> string list list \<Rightarrow> nat \<Rightarrow> nat" where
  "column_width headers rows i = foldl (\<lambda>w row. max w (char_count (row ! i))) (char_count (headers ! i)) rows"

definition column_widths :: "string list \<Rightarrow> string list list \<Rightarrow> nat list" where
  "column_widths headers rows = List.map (column_width headers rows) [0..<length headers]"

fun padded_cells :: "nat list \<Rightarrow> string list \<Rightarrow> string" where
  "padded_cells ws [] = []"
| "padded_cells ws [c] = c"
| "padded_cells [] (c # cs) = c"
| "padded_cells (w # ws) (c # cs) = c @ replicate (w - char_count c + 2) CHR '' '' @ padded_cells ws cs"

definition padded_row :: "nat list \<Rightarrow> string list \<Rightarrow> string" where
  "padded_row ws row = padded_cells ws row @ newline_char"

definition render_table :: "string list \<Rightarrow> string list list \<Rightarrow> string" where
  "render_table headers rows =
    (let ws = column_widths headers rows
     in trim_end (padded_row ws headers @ concat (List.map (padded_row ws) rows)))"

definition profiles_table :: "profile list \<Rightarrow> timestamp \<Rightarrow> string" where
  "profiles_table ps clock =
    (if ps = [] then ''no profiles'' else render_table profile_headers (List.map (\<lambda>p. profile_row p clock) ps))"

definition sessions_table :: "session_summary list \<Rightarrow> string" where
  "sessions_table ss = (if ss = [] then ''no active sessions'' else render_table session_headers (List.map session_row ss))"

section \<open>Key and value blocks\<close>

definition key_value :: "string \<Rightarrow> string \<Rightarrow> string" where
  "key_value k v = pad_right 14 k @ v @ newline_char"

definition dns_debug :: "dns_mode \<Rightarrow> string" where
  "dns_debug m = (case m of TorDnsPort \<Rightarrow> ''TorDnsPort'' | TunnelDns \<Rightarrow> ''TunnelDns'' | ProxyRemote \<Rightarrow> ''ProxyRemote''
    | StaticDns \<Rightarrow> ''StaticDns'')"

definition ipv6_debug :: "ipv6_policy \<Rightarrow> string" where
  "ipv6_debug p = (case p of Ipv6Block \<Rightarrow> ''Block'' | RouteThroughTunnel \<Rightarrow> ''RouteThroughTunnel'')"

definition profile_detail :: "(timestamp \<Rightarrow> string) \<Rightarrow> profile \<Rightarrow> timestamp \<Rightarrow> string" where
  "profile_detail rfc3339 p clock = trim_end (
     key_value ''id'' (profile_display (pr_id p)) @
     key_value ''name'' (sp_name (pr_spec p)) @
     key_value ''type'' (profile_type_label (sp_kind (pr_spec p))) @
     key_value ''net'' (network_label (net_mode (sp_network (pr_spec p)))) @
     key_value ''isolation'' (isolation_label (sp_isolation (pr_spec p))) @
     key_value ''protection'' (level_label (sp_protection (pr_spec p))) @
     key_value ''dns'' (dns_debug (dns_mode (net_dns (sp_network (pr_spec p))))) @
     key_value ''ipv6'' (ipv6_debug (net_ipv6 (sp_network (pr_spec p)))) @
     key_value ''gateway'' (gateway_state p) @
     key_value ''age'' (human_age (profile_age p clock)) @
     key_value ''size'' (storage_human (pr_storage p)) @
     key_value ''created'' (rfc3339 (pr_created_at p)) @
     key_value ''last run'' (last_run (pr_last_launched p) clock))"

definition on_off :: "bool \<Rightarrow> string" where
  "on_off v = (if v then ''on'' else ''off'')"

definition protection_badge :: "protection_status \<Rightarrow> string" where
  "protection_badge s = ''['' @ status_label s @ '']''"

definition isolation_badge :: "isolation_level \<Rightarrow> string" where
  "isolation_badge l = ''['' @ isolation_label l @ '']''"

definition enforcement_report :: "enforcement \<Rightarrow> string" where
  "enforcement_report e = trim_end (
     ''isolation      '' @ isolation_badge (isolation_level e) @ newline_char @
     ''vm-isolation   '' @ on_off (require_vm_isolation e) @ newline_char @
     ''gateway        '' @ on_off (require_gateway e) @ newline_char @
     ''host-browser   '' @ on_off (allow_host_browser e) @ newline_char)"

definition status_report :: "status_dto \<Rightarrow> string" where
  "status_report s = trim_end (
     ''version        '' @ st_version s @ newline_char @
     ''platform       '' @ st_platform s @ newline_char @
     ''isolation      '' @ isolation_badge (st_isolation_level s) @ newline_char @
     ''vm-isolation   '' @ on_off (require_vm_isolation (st_enforcement s)) @ newline_char @
     ''gateway        '' @ on_off (require_gateway (st_enforcement s)) @ newline_char @
     ''host-browser   '' @ on_off (allow_host_browser (st_enforcement s)) @ newline_char @
     ''host browser   '' @ (case (st_host_browser_available s, st_host_browser_path s) of
         (True, Some p) \<Rightarrow> ''available ('' @ p @ '')'' | (True, None) \<Rightarrow> ''available'' | (False, _) \<Rightarrow> ''not found'') @ newline_char @
     (if isolation_is_full (st_isolation_level s) then []
      else ''note           reduced protection: the site runs on your real OS, only VM isolation is dropped'' @ newline_char))"

section \<open>Reports\<close>

definition outcome_label :: "check_outcome \<Rightarrow> string" where
  "outcome_label r = (case r of Pass \<Rightarrow> ''pass'' | Fail \<Rightarrow> ''FAIL'' | Skipped \<Rightarrow> ''skip'')"

definition check_line :: "checklist \<Rightarrow> check_id \<Rightarrow> string" where
  "check_line cl i = (case find_report cl i of
      Some r \<Rightarrow> ''  ['' @ pad_left 4 (outcome_label (rep_outcome r)) @ ''] '' @ check_str i @ '': '' @ rep_detail r @ newline_char
    | None \<Rightarrow> ''  ['' @ pad_left 4 ''FAIL'' @ ''] '' @ check_str i @ '': (no report)'' @ newline_char)"

definition checklist_report :: "checklist \<Rightarrow> string" where
  "checklist_report cl = trim_end (
     ''protection: '' @ protection_badge (cl_status cl) @ newline_char @
     concat (List.map (check_line cl) check_all) @
     (case cl_observed_ip cl of None \<Rightarrow> []
      | Some obs \<Rightarrow> ''  observed exit IP differs from host: '' @ (if ip_differs_from_host obs then ''yes'' else ''NO'') @ newline_char) @
     (if failures cl = [] then ''all checks passed'' @ newline_char
      else ''failing checks:'' @ concat (List.map (\<lambda>f. '' '' @ check_str f) (failures cl)) @ newline_char))"

definition diagnostics_report :: "protection_status \<Rightarrow> checklist \<Rightarrow> diagnostic_item list \<Rightarrow> string" where
  "diagnostics_report protection cl items = trim_end (
     replace_first (status_label (cl_status cl)) (status_label protection) (checklist_report cl) @ newline_char @
     newline_char @ ''public IP (from session): '' @
       (case cl_observed_ip cl of None \<Rightarrow> no_value | Some obs \<Rightarrow> ip_addr obs) @ newline_char @
     (if items = [] then ''no diagnostics items''
      else ''diagnostics:'' @ newline_char @
        render_table [''SUBSYSTEM'', ''LEVEL'', ''EVIDENCE'', ''DETAIL'']
          (List.map (\<lambda>i. [di_key i, health_label (di_level i), evidence_label (di_evidence i), di_detail i]) items)))"

definition doctor_report :: "checklist \<Rightarrow> string" where
  "doctor_report cl = trim_end (''doctor self-test'' @ newline_char @ checklist_report cl)"

end
