(* ===== verification/Cli.thy ===== *)
theory Cli
  imports Cli_Args Cli_Render Ipc_Server Ipc_Transport
begin

text \<open>
  \<^verbatim>\<open>apps/cli/src/main.rs\<close> and \<^verbatim>\<open>connect.rs\<close>: the command-line client.  A command becomes one request
  (or two, for the read-modify-write commands), the reply becomes text and an exit code.

  The daemon is behind a link: connecting, calling and the clock.  The text of a value as JSON is
  serde's, and a parameter, as are UUID parsing and RFC 3339.
\<close>

section \<open>Reaching the daemon\<close>

record 's link =
  ln_connect :: "global_args \<Rightarrow> ('s, error, unit) eff"
  ln_call :: "request \<Rightarrow> ('s, error, response) eff"
  ln_now :: "'s \<Rightarrow> timestamp \<times> 's"

definition frame_error_display :: "frame_error \<Rightarrow> string" where
  "frame_error_display e = (case e of
      FrameClosed \<Rightarrow> ''connection closed''
    | FrameTooLarge len bound \<Rightarrow> ''frame too large: '' @ dec len @ '' bytes (max '' @ dec bound @ '')''
    | FrameIo err \<Rightarrow> ''io error: '' @ io_text err
    | FrameDecode msg \<Rightarrow> ''frame decode error: '' @ msg)"

definition socket_path :: "global_args \<Rightarrow> path" where
  "socket_path g = (case ga_socket g of Some p \<Rightarrow> p | None \<Rightarrow> path_join ''/run/aegis'' ''daemon.sock'')"

definition unix_connect :: "(path \<Rightarrow> ('s, error, unit) eff) \<Rightarrow> global_args \<Rightarrow> ('s, error, unit) eff" where
  "unix_connect sys_connect g =
    (let p = socket_path g in
     map_err (\<lambda>_. System (''cannot reach the daemon socket at '' @ p @ '' (is aegis-daemon running? set --socket / AEGIS_SOCKET)''))
       (sys_connect p))"

definition stream_call :: "request encoder \<Rightarrow> response decoder \<Rightarrow> request \<Rightarrow> (stream, error, response) eff" where
  "stream_call encode decode q = map_err (\<lambda>e. System (''ipc: '' @ frame_error_display e)) (client_call encode decode q)"

text \<open>The development transport: \<^verbatim>\<open>resolve\<close> is \<^verbatim>\<open>to_socket_addrs\<close>, an address its text and whether it is loopback.\<close>

definition endpoint_addr :: "(string \<Rightarrow> string + (string \<times> bool) list) \<Rightarrow> global_args \<Rightarrow> string result" where
  "endpoint_addr resolve g =
    (let raw = (case ga_endpoint g of Some e \<Rightarrow> e | None \<Rightarrow> ''127.0.0.1:7690'') in
     case resolve raw of
       Inl m \<Rightarrow> Inl (Config (''invalid endpoint '' @ [CHR 0x27] @ raw @ [CHR 0x27] @ '': '' @ m))
     | Inr [] \<Rightarrow> Inl (Config (''endpoint '' @ [CHR 0x27] @ raw @ [CHR 0x27] @ '' resolved to nothing''))
     | Inr ((addr, loopback) # _) \<Rightarrow>
         if \<not> loopback then Inl (Precondition ''the development endpoint must be a loopback address (127.0.0.1/::1)'')
         else Inr addr)"

definition token_path :: "path \<Rightarrow> global_args \<Rightarrow> path" where
  "token_path runtime g = (case ga_token_file g of Some p \<Rightarrow> p | None \<Rightarrow> path_join runtime ''ipc.token'')"

text \<open>The development connection: the token file, the socket and the handshake.\<close>

record client_host =
  ch_fs :: fs
  ch_stream :: stream

definition tcp_dial :: "(string \<Rightarrow> io_error + stream) \<Rightarrow> handshake encoder \<Rightarrow> handshake_ack decoder \<Rightarrow> string \<Rightarrow> string
    \<Rightarrow> (client_host, error, unit) eff" where
  "tcp_dial net encode decode addr token = (\<lambda>w. case net addr of
      Inl e \<Rightarrow> (Inl (System (''connect loopback tcp: '' @ io_text e)), w)
    | Inr st \<Rightarrow> (case tcp_connect encode decode token st of (r, st') \<Rightarrow> (r, w\<lparr>ch_stream := st'\<rparr>)))"

definition dev_connect :: "(string \<Rightarrow> string + (string \<times> bool) list) \<Rightarrow> (string \<Rightarrow> io_error + stream) \<Rightarrow> handshake encoder
    \<Rightarrow> handshake_ack decoder \<Rightarrow> (string \<Rightarrow> bool) \<Rightarrow> path \<Rightarrow> global_args \<Rightarrow> (client_host, error, unit) eff" where
  "dev_connect resolve net encode decode utf8 runtime g =
    bind (lift_res (endpoint_addr resolve g)) (\<lambda>addr.
    let p = token_path runtime g in
    bind (map_err (\<lambda>_. System (''cannot read the dev IPC token at '' @ p @ '' (is aegis-daemon running? set --token-file / AEGIS_TOKEN_FILE)''))
        (zoom ch_fs ch_fs_update (read_token utf8 p))) (\<lambda>token.
    map_err (\<lambda>_. System (''cannot reach the dev daemon at '' @ addr @ '' (is aegis-daemon running? set --endpoint / AEGIS_ENDPOINT)''))
      (tcp_dial net encode decode addr token)))"

section \<open>Building the request\<close>

record cli_params =
  cp_parse_uuid :: "string \<Rightarrow> string + uuid"
  cp_version :: string
  cp_rfc3339 :: "timestamp \<Rightarrow> string"

definition current_version_info :: "cli_params \<Rightarrow> version_info" where
  "current_version_info P = \<lparr> vi_current =
     (case version_from_str (cp_version P) of Inr v \<Rightarrow> v | Inl _ \<Rightarrow> Version 0 0 0) \<rparr>"

definition parse_profile_id :: "cli_params \<Rightarrow> string \<Rightarrow> profile_id result" where
  "parse_profile_id P s = (case profile_from_str (cp_parse_uuid P) s of
      Inl _ \<Rightarrow> Inl (Config (''not a valid profile id: '' @ s)) | Inr i \<Rightarrow> Inr i)"

definition parse_session_id :: "cli_params \<Rightarrow> string \<Rightarrow> session_id result" where
  "parse_session_id P s = (case session_from_str (cp_parse_uuid P) s of
      Inl _ \<Rightarrow> Inl (Config (''not a valid session id: '' @ s)) | Inr i \<Rightarrow> Inr i)"

definition vpn_on_host :: error where
  "vpn_on_host = Config (''host mode supports Tor or a SOCKS5/HTTP proxy, not a VPN '' @ [char_of (0xE2 :: nat), char_of (0x80 :: nat), char_of (0x94 :: nat)]
     @ '' use full VM isolation (--isolation vm) for a VPN'')"

definition proxy_incomplete :: error where
  "proxy_incomplete = Config ''--net proxy requires --proxy-host <H> and --proxy-port <P>''"

definition build_mode :: "profile_create_args \<Rightarrow> network_mode result" where
  "build_mode a = (case ca_net a of
      NetTor \<Rightarrow> Inr (Tor \<lparr> tor_use_bridges = (ca_tor_bridge a \<noteq> []), tor_bridges = ca_tor_bridge a, tor_exit_country = None \<rparr>)
    | NetVpn \<Rightarrow> Inr (Vpn \<lparr> vpn_protocol = WireGuard, vpn_endpoint = [], vpn_credentials_ref = CredentialRef [], vpn_dns_servers = [] \<rparr>)
    | NetProxy \<Rightarrow>
        (case (case ca_proxy_host a of Some h \<Rightarrow> if trim h = [] then None else Some h | None \<Rightarrow> None, ca_proxy_port a) of
           (Some host, Some port) \<Rightarrow> Inr (Proxy \<lparr> px_protocol = proxy_kind_to_domain (ca_proxy_kind a), px_host = host, px_port = port,
              px_credentials_ref = None, px_remote_dns = True \<rparr>)
         | _ \<Rightarrow> Inl proxy_incomplete))"

definition build_spec :: "profile_create_args \<Rightarrow> profile_spec result" where
  "build_spec a =
    (if ca_isolation a = IsolationHost \<and> ca_net a = NetVpn then Inl vpn_on_host
     else (case build_mode a of
         Inl e \<Rightarrow> Inl e
       | Inr mode \<Rightarrow> Inr \<lparr>
           sp_name = ca_name a,
           sp_kind = kind_to_domain (ca_kind a),
           sp_network = network_from_mode mode,
           sp_protection = protection_to_domain (ca_protection a),
           sp_isolation = isolation_to_domain (ca_isolation a),
           sp_browser = browser_to_domain (ca_browser a),
           sp_fingerprint = None,
           sp_permissions = secure_default \<rparr>))"

definition map_ok :: "('a \<Rightarrow> 'b) \<Rightarrow> 'e + 'a \<Rightarrow> 'e + 'b" where
  "map_ok f r = (case r of Inl e \<Rightarrow> Inl e | Inr x \<Rightarrow> Inr (f x))"

definition build_request :: "cli_params \<Rightarrow> cli_command \<Rightarrow> request result" where
  "build_request P c = (case c of
      CmdProfile (ProfileCreate a) \<Rightarrow> map_ok ReqCreateProfile (build_spec a)
    | CmdProfile ProfileList \<Rightarrow> Inr ReqListProfiles
    | CmdProfile (ProfileShow i) \<Rightarrow> Inr ReqListProfiles
    | CmdProfile (ProfileRm i) \<Rightarrow> map_ok ReqDeleteProfile (parse_profile_id P i)
    | CmdSession (SessionStart p) \<Rightarrow>
        map_ok (\<lambda>i. ReqStartSession \<lparr> rq_profile = i, rq_unlock_ref = None \<rparr>) (parse_profile_id P p)
    | CmdSession (SessionStop i) \<Rightarrow> map_ok ReqStopSession (parse_session_id P i)
    | CmdSession SessionList \<Rightarrow> Inr ReqListSessions
    | CmdDiagnostics i \<Rightarrow> map_ok ReqGetDiagnostics (parse_session_id P i)
    | CmdStatus \<Rightarrow> Inr ReqGetStatus
    | CmdConfig (ConfigEnforcement _) \<Rightarrow> Inr ReqGetEnforcement
    | CmdDoctor \<Rightarrow> Inr ReqDoctor
    | CmdUpdate UpdateCheck \<Rightarrow> Inr (ReqCheckUpdate (current_version_info P))
    | CmdUpdate UpdateApply \<Rightarrow> Inl (Internal ''update apply is dispatched via its own path''))"

section \<open>Formatting the reply\<close>

text \<open>What \<^verbatim>\<open>--json\<close> prints: a daemon value, the checklist objects, or an object of strings and flags.\<close>

datatype cli_value =
    V_Profiles "profile list"
  | V_Profile profile
  | V_Session session_summary
  | V_Sessions "session_summary list"
  | V_Status status_dto
  | V_Enforcement enforcement
  | V_Report string checklist "diagnostic_item list option"
  | V_Object json

datatype disposition = DispOk | DispDaemonError

record cli_output =
  co_stdout :: string
  co_stderr :: string
  co_dispatch :: disposition

definition output_ok :: "string \<Rightarrow> cli_output" where
  "output_ok s = \<lparr> co_stdout = s, co_stderr = [], co_dispatch = DispOk \<rparr>"

definition output_failed :: "string \<Rightarrow> cli_output" where
  "output_failed s = \<lparr> co_stdout = s, co_stderr = [], co_dispatch = DispDaemonError \<rparr>"

definition response_name :: "response \<Rightarrow> string" where
  "response_name r = (case r of
      RespProfiles _ \<Rightarrow> ''profiles'' | RespProfile _ \<Rightarrow> ''profile'' | RespOk \<Rightarrow> ''ok'' | RespSession _ \<Rightarrow> ''session''
    | RespSessions _ \<Rightarrow> ''sessions'' | RespDiagnostics _ _ _ \<Rightarrow> ''diagnostics'' | RespDoctor _ \<Rightarrow> ''doctor''
    | RespUpdateAvailable _ \<Rightarrow> ''update-available'' | RespUpdateApplied _ \<Rightarrow> ''update-applied''
    | RespStatus _ \<Rightarrow> ''status'' | RespEnforcement _ \<Rightarrow> ''enforcement'' | RespError _ _ \<Rightarrow> ''error'')"

definition unexpected :: "string \<Rightarrow> response \<Rightarrow> cli_output result" where
  "unexpected expected got = Inl (Internal (''expected '' @ expected @ '' response, got '' @ response_name got))"

type_synonym pretty = "cli_value \<Rightarrow> string + string"

definition to_json :: "pretty \<Rightarrow> cli_value \<Rightarrow> string result" where
  "to_json J v = (case J v of Inl m \<Rightarrow> Inl (System (''could not serialize output: '' @ m)) | Inr s \<Rightarrow> Inr s)"

text \<open>\<^verbatim>\<open>if json { to_json(v)? } else { text }\<close>.\<close>

definition shown :: "pretty \<Rightarrow> bool \<Rightarrow> cli_value \<Rightarrow> string \<Rightarrow> string result" where
  "shown J json v text = (if json then to_json J v else Inr text)"

definition reduced_notice :: string where
  "reduced_notice = ''reduced protection: the site runs on your real OS, only VM isolation is dropped''"

definition format_error :: "pretty \<Rightarrow> response \<Rightarrow> bool \<Rightarrow> cli_output result" where
  "format_error J r json = (case r of
      RespError message class \<Rightarrow>
        if json then map_ok (\<lambda>s. \<lparr> co_stdout = s, co_stderr = [], co_dispatch = DispDaemonError \<rparr>)
          (to_json J (V_Object (JObj [(''class'', JStr (class_display class)), (''error'', JStr message)])))
        else Inr \<lparr> co_stdout = [], co_stderr = ''error: '' @ message @ '' ['' @ class_display class @ '']'',
                  co_dispatch = DispDaemonError \<rparr>
    | _ \<Rightarrow> Inl (Internal ''format_error on non-error''))"

definition format_profiles :: "pretty \<Rightarrow> response \<Rightarrow> bool \<Rightarrow> timestamp \<Rightarrow> cli_output result" where
  "format_profiles J r json t = (case r of
      RespProfiles ps \<Rightarrow> map_ok output_ok (shown J json (V_Profiles ps) (profiles_table ps t))
    | other \<Rightarrow> unexpected ''Profiles'' other)"

definition format_profile :: "cli_params \<Rightarrow> pretty \<Rightarrow> response \<Rightarrow> bool \<Rightarrow> timestamp \<Rightarrow> isolation_arg \<Rightarrow> cli_output result" where
  "format_profile P J r json t iso_arg = (case r of
      RespProfile p \<Rightarrow>
        map_ok (\<lambda>s. \<lparr> co_stdout = s, co_stderr = (if iso_arg = IsolationHost then reduced_notice else []), co_dispatch = DispOk \<rparr>)
          (shown J json (V_Profile p) (profile_detail (cp_rfc3339 P) p t))
    | other \<Rightarrow> unexpected ''Profile'' other)"

definition format_profile_show :: "cli_params \<Rightarrow> pretty \<Rightarrow> response \<Rightarrow> string \<Rightarrow> bool \<Rightarrow> timestamp \<Rightarrow> cli_output result" where
  "format_profile_show P J r i json t = (case r of
      RespProfiles ps \<Rightarrow> (case parse_profile_id P i of
          Inl e \<Rightarrow> Inl e
        | Inr wanted \<Rightarrow> (case List.find (\<lambda>p. pr_id p = wanted) ps of
            Some p \<Rightarrow> map_ok output_ok (shown J json (V_Profile p) (profile_detail (cp_rfc3339 P) p t))
          | None \<Rightarrow> Inl (NotFound (''no profile '' @ i))))
    | other \<Rightarrow> unexpected ''Profiles'' other)"

definition format_session :: "pretty \<Rightarrow> response \<Rightarrow> bool \<Rightarrow> cli_output result" where
  "format_session J r json = (case r of
      RespSession s \<Rightarrow>
        let row = session_row s in
        map_ok output_ok (shown J json (V_Session s)
          (''session '' @ row ! 0 @ '' '' @ row ! 2 @ '' '' @ protection_badge (ss_protection s)))
    | other \<Rightarrow> unexpected ''Session'' other)"

definition format_sessions :: "pretty \<Rightarrow> response \<Rightarrow> bool \<Rightarrow> cli_output result" where
  "format_sessions J r json = (case r of
      RespSessions ss \<Rightarrow> map_ok output_ok (shown J json (V_Sessions ss) (sessions_table ss))
    | other \<Rightarrow> unexpected ''Sessions'' other)"

definition format_diagnostics :: "pretty \<Rightarrow> response \<Rightarrow> bool \<Rightarrow> cli_output result" where
  "format_diagnostics J r json = (case r of
      RespDiagnostics protection cl items \<Rightarrow>
        map_ok output_ok (shown J json (V_Report (status_label protection) cl (Some items)) (diagnostics_report protection cl items))
    | other \<Rightarrow> unexpected ''Diagnostics'' other)"

definition format_doctor :: "pretty \<Rightarrow> response \<Rightarrow> bool \<Rightarrow> cli_output result" where
  "format_doctor J r json = (case r of
      RespDoctor cl \<Rightarrow>
        map_ok (if all_passed cl then output_ok else output_failed)
          (shown J json (V_Report (status_label (cl_status cl)) cl None) (doctor_report cl))
    | other \<Rightarrow> unexpected ''Doctor'' other)"

definition format_status :: "pretty \<Rightarrow> response \<Rightarrow> bool \<Rightarrow> cli_output result" where
  "format_status J r json = (case r of
      RespStatus st \<Rightarrow> map_ok output_ok (shown J json (V_Status st) (status_report st))
    | other \<Rightarrow> unexpected ''Status'' other)"

definition format_enforcement :: "pretty \<Rightarrow> response \<Rightarrow> bool \<Rightarrow> enforcement option \<Rightarrow> cli_output result" where
  "format_enforcement J r json warn = (case r of
      RespEnforcement e \<Rightarrow>
        let relaxed = (case warn of Some prev \<Rightarrow> is_full_isolation prev \<and> \<not> is_full_isolation e | None \<Rightarrow> False) in
        map_ok (\<lambda>s. \<lparr> co_stdout = s, co_stderr = (if relaxed then reduced_notice else []), co_dispatch = DispOk \<rparr>)
          (shown J json (V_Enforcement e) (enforcement_report e))
    | other \<Rightarrow> unexpected ''Enforcement'' other)"

definition format_update_check :: "pretty \<Rightarrow> response \<Rightarrow> bool \<Rightarrow> cli_output result" where
  "format_update_check J r json = (case r of
      RespUpdateAvailable m \<Rightarrow> map_ok output_ok (case m of
          Some manifest \<Rightarrow> shown J json
            (V_Object (JObj [(''available'', JBool True), (''version'', JStr (version_display (um_version manifest)))]))
            (''update available: '' @ version_display (um_version manifest))
        | None \<Rightarrow> shown J json (V_Object (JObj [(''available'', JBool False)])) ''up to date'')
    | other \<Rightarrow> unexpected ''UpdateAvailable'' other)"

definition apply_label :: "apply_outcome \<Rightarrow> string" where
  "apply_label r = (case r of Applied \<Rightarrow> ''applied'' | RolledBack \<Rightarrow> ''rolled-back'')"

definition format_update_applied :: "pretty \<Rightarrow> response \<Rightarrow> bool \<Rightarrow> cli_output result" where
  "format_update_applied J r json =
    (if is_error r then format_error J r json
     else case r of
        RespUpdateApplied out \<Rightarrow>
          map_ok (case out of Applied \<Rightarrow> output_ok | RolledBack \<Rightarrow> output_failed)
            (shown J json (V_Object (JObj [(''applied'', JBool True), (''outcome'', JStr (apply_label out))]))
              (''update '' @ apply_label out))
      | other \<Rightarrow> unexpected ''UpdateApplied'' other)"

definition format_ok :: "pretty \<Rightarrow> response \<Rightarrow> string \<Rightarrow> bool \<Rightarrow> cli_output result" where
  "format_ok J r msg json = (case r of
      RespOk \<Rightarrow> map_ok output_ok (shown J json (V_Object (JObj [(''ok'', JBool True)])) msg)
    | other \<Rightarrow> unexpected ''Ok'' other)"

definition format_response :: "cli_params \<Rightarrow> pretty \<Rightarrow> cli_command \<Rightarrow> response \<Rightarrow> bool \<Rightarrow> timestamp \<Rightarrow> cli_output result" where
  "format_response P J c r json t =
    (if is_error r then format_error J r json
     else case c of
        CmdProfile (ProfileCreate a) \<Rightarrow> format_profile P J r json t (ca_isolation a)
      | CmdProfile ProfileList \<Rightarrow> format_profiles J r json t
      | CmdProfile (ProfileShow i) \<Rightarrow> format_profile_show P J r i json t
      | CmdProfile (ProfileRm _) \<Rightarrow> format_ok J r ''profile removed'' json
      | CmdSession (SessionStart _) \<Rightarrow> format_session J r json
      | CmdSession (SessionStop _) \<Rightarrow> format_session J r json
      | CmdSession SessionList \<Rightarrow> format_sessions J r json
      | CmdDiagnostics _ \<Rightarrow> format_diagnostics J r json
      | CmdStatus \<Rightarrow> format_status J r json
      | CmdConfig (ConfigEnforcement _) \<Rightarrow> format_enforcement J r json None
      | CmdDoctor \<Rightarrow> format_doctor J r json
      | CmdUpdate UpdateCheck \<Rightarrow> format_update_check J r json
      | CmdUpdate UpdateApply \<Rightarrow> Inl (Internal ''unreachable apply render''))"

section \<open>Dispatching a command\<close>

definition unexpected_reply :: "string \<Rightarrow> response \<Rightarrow> error" where
  "unexpected_reply op r = Internal (''unexpected response to '' @ op @ '': '' @ response_name r)"

definition dispatch_update_apply :: "cli_params \<Rightarrow> pretty \<Rightarrow> 's link \<Rightarrow> bool \<Rightarrow> ('s, error, cli_output) eff" where
  "dispatch_update_apply P J L json =
    bind (ln_call L (ReqCheckUpdate (current_version_info P))) (\<lambda>checked. case checked of
      RespUpdateAvailable (Some m) \<Rightarrow>
        bind (ln_call L (ReqApplyUpdate m)) (\<lambda>applied. lift_res (format_update_applied J applied json))
    | RespUpdateAvailable None \<Rightarrow> lift_res (map_ok output_ok (shown J json
        (V_Object (JObj [(''applied'', JBool False), (''reason'', JStr ''up to date'')]))
        ''already up to date; nothing to apply''))
    | RespError _ _ \<Rightarrow> lift_res (format_error J checked json)
    | other \<Rightarrow> throw (unexpected_reply ''check-update'' other))"

definition dispatch_set_enforcement :: "pretty \<Rightarrow> 's link \<Rightarrow> enforcement_args \<Rightarrow> bool \<Rightarrow> ('s, error, cli_output) eff" where
  "dispatch_set_enforcement J L args json =
    bind (ln_call L ReqGetEnforcement) (\<lambda>r. case r of
      RespEnforcement current \<Rightarrow>
        bind (ln_call L (ReqSetEnforcement (ea_apply args current))) (\<lambda>applied.
        if is_error applied then lift_res (format_error J applied json)
        else lift_res (format_enforcement J applied json (Some current)))
    | RespError _ _ \<Rightarrow> lift_res (format_error J r json)
    | other \<Rightarrow> throw (unexpected_reply ''get-enforcement'' other))"

definition cli_dispatch :: "cli_params \<Rightarrow> pretty \<Rightarrow> 's link \<Rightarrow> cli \<Rightarrow> ('s, error, cli_output) eff" where
  "cli_dispatch P J L c =
    (let g = cli_global c; json = ga_json g; cmd = cli_command c;
         plain = bind (lift_res (build_request P cmd)) (\<lambda>q.
           seq (ln_connect L g)
           (bind (ln_call L q) (\<lambda>r.
            bind (run_state (ln_now L)) (\<lambda>t.
            lift_res (format_response P J cmd r json t)))))
     in case cmd of
          CmdUpdate UpdateApply \<Rightarrow> seq (ln_connect L g) (dispatch_update_apply P J L json)
        | CmdConfig (ConfigEnforcement args) \<Rightarrow>
            if \<not> ea_is_empty args then seq (ln_connect L g) (dispatch_set_enforcement J L args json) else plain
        | _ \<Rightarrow> plain)"

text \<open>What the process leaves: standard output, standard error and its exit code.\<close>

definition print_line :: "string \<Rightarrow> string" where
  "print_line s = (if s = [] then [] else s @ newline_char)"

definition cli_main :: "cli_params \<Rightarrow> pretty \<Rightarrow> 's link \<Rightarrow> cli \<Rightarrow> 's \<Rightarrow> (string \<times> string \<times> nat) \<times> 's" where
  "cli_main P J L c s = (case cli_dispatch P J L c s of
      (Inr out, t) \<Rightarrow> ((print_line (co_stdout out), print_line (co_stderr out), case co_dispatch out of DispOk \<Rightarrow> 0 | DispDaemonError \<Rightarrow> 2), t)
    | (Inl e, t) \<Rightarrow> (([], print_line (''error: '' @ error_display e @ '' ['' @ class_display (error_class e) @ '']''), 3), t))"

end
