(* ===== verification/Manager.thy ===== *)
theory Manager
  imports Manager_Form Cli
begin

text \<open>
  \<^verbatim>\<open>apps/manager-ui/src-tauri/src/dto.rs\<close> and \<^verbatim>\<open>ipc.rs\<close>: what the desktop manager shows of the
  daemon's answers, and its commands.  Every command opens a connection, sends one request and
  maps the reply; errors are strings.
\<close>

section \<open>Views\<close>

record profile_view =
  pw_id :: string
  pw_name :: string
  pw_kind :: string
  pw_network_mode :: string
  pw_protection_level :: string
  pw_locked :: bool
  pw_gateway_state :: string
  pw_public_ip :: "string option"
  pw_age :: string
  pw_created_at :: string
  pw_size_on_disk :: string
  pw_last_run :: "string option"

definition humanize_age :: "int \<Rightarrow> string" where
  "humanize_age d =
    (let secs = age_seconds d in
     if secs < 60 then ''just now''
     else let days = secs div 86400; hours = (secs mod 86400) div 3600; mins = (secs mod 3600) div 60 in
       if 0 < days then dec days @ ''d '' @ dec hours @ ''h''
       else if 0 < hours then dec hours @ ''h '' @ dec mins @ ''m''
       else dec mins @ ''m'')"

definition from_profile :: "(timestamp \<Rightarrow> string) \<Rightarrow> profile \<Rightarrow> timestamp \<Rightarrow> profile_view" where
  "from_profile rfc3339 p t = \<lparr>
     pw_id = profile_display (pr_id p),
     pw_name = sp_name (pr_spec p),
     pw_kind = profile_type_label (sp_kind (pr_spec p)),
     pw_network_mode = network_label (net_mode (sp_network (pr_spec p))),
     pw_protection_level = level_label (sp_protection (pr_spec p)),
     pw_locked = pr_locked p,
     pw_gateway_state = (if pr_locked p then ''running'' else ''idle''),
     pw_public_ip = None,
     pw_age = humanize_age (profile_age p t),
     pw_created_at = rfc3339 (pr_created_at p),
     pw_size_on_disk = storage_human (pr_storage p),
     pw_last_run = map_option rfc3339 (pr_last_launched p) \<rparr>"

definition protection_token :: "protection_status \<Rightarrow> string" where
  "protection_token s = (case s of PS_Active \<Rightarrow> ''active'' | PS_Partial \<Rightarrow> ''partial'' | PS_Unsafe \<Rightarrow> ''unsafe'' | PS_None \<Rightarrow> ''none'')"

definition session_state_token :: "session_state \<Rightarrow> string" where
  "session_state_token st = (case st of
      Requested \<Rightarrow> ''requested'' | Provisioning \<Rightarrow> ''provisioning'' | GatewayStarting \<Rightarrow> ''gateway-starting''
    | S_Preflight \<Rightarrow> ''preflight'' | Browsing \<Rightarrow> ''browsing'' | Closing \<Rightarrow> ''closing''
    | Destroyed \<Rightarrow> ''destroyed'' | Failed \<Rightarrow> ''failed'')"

definition check_outcome_token :: "check_outcome \<Rightarrow> string" where
  "check_outcome_token r = (case r of Pass \<Rightarrow> ''pass'' | Fail \<Rightarrow> ''fail'' | Skipped \<Rightarrow> ''skipped'')"

definition isolation_token :: "isolation_level \<Rightarrow> string" where
  "isolation_token l = (case l of FullVm \<Rightarrow> ''full-vm'' | HostProcess \<Rightarrow> ''host-process'')"

record session_view =
  sw_id :: string
  sw_profile_id :: string
  sw_state :: string
  sw_is_browsing :: bool
  sw_is_safe :: bool
  sw_protection_status :: string
  sw_protection_label :: string
  sw_public_ip :: "string option"

definition from_summary :: "session_summary \<Rightarrow> session_view" where
  "from_summary s = \<lparr>
     sw_id = session_display (ss_id s),
     sw_profile_id = profile_display (ss_profile s),
     sw_state = session_state_token (ss_state s),
     sw_is_browsing = is_browsing (ss_state s),
     sw_is_safe = is_safe s,
     sw_protection_status = protection_token (ss_protection s),
     sw_protection_label = status_label (ss_protection s),
     sw_public_ip = ss_public_ip s \<rparr>"

record diag_item_view =
  dv_key :: string
  dv_level :: string
  dv_detail :: string

definition from_item :: "diagnostic_item \<Rightarrow> diag_item_view" where
  "from_item d = \<lparr> dv_key = di_key d, dv_level = health_label (di_level d), dv_detail = di_detail d \<rparr>"

record check_view =
  cv_id :: string
  cv_outcome :: string
  cv_passed :: bool
  cv_detail :: string

definition check_view_of :: "checklist \<Rightarrow> check_id \<Rightarrow> check_view" where
  "check_view_of cl i = (let r = find_report cl i in \<lparr>
     cv_id = check_str i,
     cv_outcome = (case r of Some rep \<Rightarrow> check_outcome_token (rep_outcome rep) | None \<Rightarrow> ''skipped''),
     cv_passed = (case r of Some rep \<Rightarrow> is_pass (rep_outcome rep) | None \<Rightarrow> False),
     cv_detail = (case r of Some rep \<Rightarrow> rep_detail rep | None \<Rightarrow> ''not reported'') \<rparr>)"

record diagnostics_view =
  gv_protection_status :: string
  gv_protection_label :: string
  gv_permits_browsing :: bool
  gv_public_ip :: "string option"
  gv_public_ip_via_tunnel :: "bool option"
  gv_public_ip_differs_from_host :: "bool option"
  gv_checks :: "check_view list"
  gv_items :: "diag_item_view list"

definition diagnostics_build :: "checklist \<Rightarrow> diagnostic_item list \<Rightarrow> diagnostics_view" where
  "diagnostics_build cl items = (let st = cl_status cl in \<lparr>
     gv_protection_status = protection_token st,
     gv_protection_label = status_label st,
     gv_permits_browsing = status_permits_browsing st,
     gv_public_ip = map_option ip_addr (cl_observed_ip cl),
     gv_public_ip_via_tunnel = map_option ip_via_tunnel (cl_observed_ip cl),
     gv_public_ip_differs_from_host = map_option ip_differs_from_host (cl_observed_ip cl),
     gv_checks = List.map (check_view_of cl) check_all,
     gv_items = List.map from_item items \<rparr>)"

record doctor_view =
  ov_protection_status :: string
  ov_protection_label :: string
  ov_checks :: "check_view list"

definition doctor_build :: "checklist \<Rightarrow> doctor_view" where
  "doctor_build cl = (let st = cl_status cl in \<lparr>
     ov_protection_status = protection_token st,
     ov_protection_label = status_label st,
     ov_checks = List.map (check_view_of cl) check_all \<rparr>)"

record enforcement_view =
  ev_require_vm_isolation :: bool
  ev_require_gateway :: bool
  ev_allow_host_browser :: bool

definition from_enforcement :: "enforcement \<Rightarrow> enforcement_view" where
  "from_enforcement e = \<lparr> ev_require_vm_isolation = require_vm_isolation e, ev_require_gateway = require_gateway e,
     ev_allow_host_browser = allow_host_browser e \<rparr>"

definition into_enforcement :: "enforcement_view \<Rightarrow> enforcement" where
  "into_enforcement v = \<lparr> require_vm_isolation = ev_require_vm_isolation v, require_gateway = ev_require_gateway v,
     allow_host_browser = ev_allow_host_browser v \<rparr>"

record status_view =
  tv_version :: string
  tv_platform :: string
  tv_isolation_status :: string
  tv_isolation_label :: string
  tv_is_full_isolation :: bool
  tv_enforcement :: enforcement_view
  tv_host_browser_available :: bool

definition from_status :: "status_dto \<Rightarrow> status_view" where
  "from_status s = \<lparr>
     tv_version = st_version s,
     tv_platform = st_platform s,
     tv_isolation_status = isolation_token (st_isolation_level s),
     tv_isolation_label = isolation_label (st_isolation_level s),
     tv_is_full_isolation = isolation_is_full (st_isolation_level s),
     tv_enforcement = from_enforcement (st_enforcement s),
     tv_host_browser_available = st_host_browser_available s \<rparr>"

section \<open>One request per connection\<close>

text \<open>Connecting yields a fresh stream, a call on it a reply or a frame error.\<close>

record 's manager_link =
  ml_connect :: "('s, error, unit) eff"
  ml_call :: "request \<Rightarrow> ('s, frame_error, response) eff"
  ml_now :: "'s \<Rightarrow> timestamp \<times> 's"

type_synonym ('s, 'a) command = "('s, string, 'a) eff"

definition err_to_string :: "string \<Rightarrow> string \<Rightarrow> string" where
  "err_to_string context e = context @ '': '' @ e"

text \<open>Where the daemon is, by the environment: a socket path, or an address and a token file.\<close>

definition manager_socket :: "string option \<Rightarrow> path" where
  "manager_socket env = (case env of Some p \<Rightarrow> p | None \<Rightarrow> ''/run/aegis/daemon.sock'')"

definition manager_dev_connect :: "(string \<Rightarrow> string + string) \<Rightarrow> (string \<Rightarrow> io_error + stream) \<Rightarrow> handshake encoder
    \<Rightarrow> handshake_ack decoder \<Rightarrow> (string \<Rightarrow> bool) \<Rightarrow> string option \<Rightarrow> string option \<Rightarrow> (client_host, string, unit) eff" where
  "manager_dev_connect parse_addr net encode decode utf8 addr_env token_env =
    bind (lift_res (case parse_addr (case addr_env of Some a \<Rightarrow> a | None \<Rightarrow> ''127.0.0.1:7420'') of
        Inl m \<Rightarrow> Inl (err_to_string ''invalid AEGIS_IPC_ADDR'' m) | Inr a \<Rightarrow> Inr a)) (\<lambda>addr.
    case token_env of
      None \<Rightarrow> throw ''AEGIS_IPC_TOKEN_FILE is not set (required for the Windows dev transport)''
    | Some token_file \<Rightarrow>
        bind (map_err (\<lambda>e. err_to_string ''cannot read the IPC token file'' (error_display e))
            (zoom ch_fs ch_fs_update (read_token utf8 token_file))) (\<lambda>token.
        map_err (\<lambda>e. err_to_string ''cannot reach the Aegis daemon'' (error_display e))
          (tcp_dial net encode decode addr token)))"

definition unexpected_for :: "string \<Rightarrow> string" where
  "unexpected_for op = ''daemon returned an unexpected reply for '' @ op"

definition class_debug :: "failure_class \<Rightarrow> string" where
  "class_debug c = (case c of
      FC_NetworkContainment \<Rightarrow> ''NetworkContainment'' | FC_Isolation \<Rightarrow> ''Isolation'' | FC_Cryptography \<Rightarrow> ''Cryptography''
    | FC_Integrity \<Rightarrow> ''Integrity'' | FC_Configuration \<Rightarrow> ''Configuration'' | FC_Precondition \<Rightarrow> ''Precondition''
    | FC_System \<Rightarrow> ''System'' | FC_Internal \<Rightarrow> ''Internal'')"

definition response_error :: "response \<Rightarrow> string option" where
  "response_error r = (case r of
      RespError message class \<Rightarrow> Some (message @ '' ['' @ class_debug class @ '']'')
    | _ \<Rightarrow> None)"

definition manager_call :: "'s manager_link \<Rightarrow> request \<Rightarrow> ('s, response) command" where
  "manager_call L q =
    seq (map_err (\<lambda>e. err_to_string ''cannot reach the Aegis daemon'' (error_display e)) (ml_connect L))
      (map_err (\<lambda>e. err_to_string (''ipc call '' @ op_name q @ '' failed'') (frame_error_display e)) (ml_call L q))"

text \<open>Every command: call, refuse an error response, then read the payload.\<close>

definition command :: "'s manager_link \<Rightarrow> string \<Rightarrow> request \<Rightarrow> (response \<Rightarrow> 'a option) \<Rightarrow> ('s, 'a) command" where
  "command L op q read =
    bind (manager_call L q) (\<lambda>resp. case response_error resp of
      Some msg \<Rightarrow> throw msg
    | None \<Rightarrow> (case read resp of Some x \<Rightarrow> ret x | None \<Rightarrow> throw (unexpected_for op)))"

definition parsed :: "string \<Rightarrow> 'a result \<Rightarrow> ('s, 'a) command" where
  "parsed what r = lift_res (case r of Inl e \<Rightarrow> Inl (err_to_string what (error_display e)) | Inr x \<Rightarrow> Inr x)"

section \<open>The commands\<close>

definition session_is_live :: "session_state \<Rightarrow> bool" where
  "session_is_live st = (st \<noteq> Destroyed \<and> st \<noteq> Failed)"

definition session_for :: "session_summary list \<Rightarrow> string \<Rightarrow> session_summary option" where
  "session_for ss i = (case List.find (\<lambda>s. profile_display (ss_profile s) = i \<and> is_browsing (ss_state s)) ss of
      Some s \<Rightarrow> Some s
    | None \<Rightarrow> List.find (\<lambda>s. profile_display (ss_profile s) = i) ss)"

definition with_session_info :: "session_summary list \<Rightarrow> profile_view \<Rightarrow> profile_view" where
  "with_session_info ss v = (case session_for ss (pw_id v) of
      None \<Rightarrow> v
    | Some s \<Rightarrow>
        let v1 = v\<lparr>pw_public_ip := ss_public_ip s\<rparr>
        in if session_is_live (ss_state s) then v1\<lparr>pw_gateway_state := ''running''\<rparr> else v1)"

definition manager_list_profiles :: "(timestamp \<Rightarrow> string) \<Rightarrow> 's manager_link \<Rightarrow> ('s, profile_view list) command" where
  "manager_list_profiles rfc3339 L =
    bind (command L ''list-profiles'' ReqListProfiles (\<lambda>r. case r of RespProfiles p \<Rightarrow> Some p | _ \<Rightarrow> None)) (\<lambda>ps.
    bind (attempt (manager_call L ReqListSessions)) (\<lambda>r.
    let ss = (case r of Inr (RespSessions s) \<Rightarrow> s | _ \<Rightarrow> []) in
    bind (run_state (ml_now L)) (\<lambda>t.
    ret (List.map (\<lambda>p. with_session_info ss (from_profile rfc3339 p t)) ps))))"

definition manager_create_profile :: "(timestamp \<Rightarrow> string) \<Rightarrow> 's manager_link \<Rightarrow> create_form \<Rightarrow> ('s, profile_view) command" where
  "manager_create_profile rfc3339 L f =
    bind (lift_res (to_spec f)) (\<lambda>spec.
    bind (command L ''create-profile'' (ReqCreateProfile spec) (\<lambda>r. case r of RespProfile p \<Rightarrow> Some p | _ \<Rightarrow> None)) (\<lambda>p.
    bind (run_state (ml_now L)) (\<lambda>t. ret (from_profile rfc3339 p t))))"

definition manager_delete_profile :: "(string \<Rightarrow> string + uuid) \<Rightarrow> 's manager_link \<Rightarrow> string \<Rightarrow> ('s, unit) command" where
  "manager_delete_profile parse L i =
    bind (parsed ''invalid profile id'' (profile_from_str parse i)) (\<lambda>pid.
    command L ''delete-profile'' (ReqDeleteProfile pid) (\<lambda>r. case r of RespOk \<Rightarrow> Some () | _ \<Rightarrow> None))"

definition manager_start_session :: "(string \<Rightarrow> string + uuid) \<Rightarrow> 's manager_link \<Rightarrow> string \<Rightarrow> ('s, session_view) command" where
  "manager_start_session parse L i =
    bind (parsed ''invalid profile id'' (profile_from_str parse i)) (\<lambda>pid.
    command L ''start-session'' (ReqStartSession \<lparr> rq_profile = pid, rq_unlock_ref = None \<rparr>)
      (\<lambda>r. case r of RespSession s \<Rightarrow> Some (from_summary s) | _ \<Rightarrow> None))"

definition manager_stop_session :: "(string \<Rightarrow> string + uuid) \<Rightarrow> 's manager_link \<Rightarrow> string \<Rightarrow> ('s, session_view) command" where
  "manager_stop_session parse L i =
    bind (parsed ''invalid session id'' (session_from_str parse i)) (\<lambda>sid.
    command L ''stop-session'' (ReqStopSession sid) (\<lambda>r. case r of RespSession s \<Rightarrow> Some (from_summary s) | _ \<Rightarrow> None))"

definition manager_list_sessions :: "'s manager_link \<Rightarrow> ('s, session_view list) command" where
  "manager_list_sessions L = command L ''list-sessions'' ReqListSessions
     (\<lambda>r. case r of RespSessions ss \<Rightarrow> Some (List.map from_summary ss) | _ \<Rightarrow> None)"

text \<open>
  The pattern in the code names \<^verbatim>\<open>checklist\<close> and \<^verbatim>\<open>items\<close> only and leaves out the protection field of
  the reply, without the two dots Rust asks for; it is read here as ignoring the field.
\<close>

definition manager_get_diagnostics :: "(string \<Rightarrow> string + uuid) \<Rightarrow> 's manager_link \<Rightarrow> string \<Rightarrow> ('s, diagnostics_view) command" where
  "manager_get_diagnostics parse L i =
    bind (parsed ''invalid session id'' (session_from_str parse i)) (\<lambda>sid.
    command L ''get-diagnostics'' (ReqGetDiagnostics sid)
      (\<lambda>r. case r of RespDiagnostics _ cl items \<Rightarrow> Some (diagnostics_build cl items) | _ \<Rightarrow> None))"

definition manager_doctor :: "'s manager_link \<Rightarrow> ('s, doctor_view) command" where
  "manager_doctor L = command L ''doctor'' ReqDoctor (\<lambda>r. case r of RespDoctor cl \<Rightarrow> Some (doctor_build cl) | _ \<Rightarrow> None)"

definition manager_get_status :: "'s manager_link \<Rightarrow> ('s, status_view) command" where
  "manager_get_status L = command L ''get-status'' ReqGetStatus (\<lambda>r. case r of RespStatus s \<Rightarrow> Some (from_status s) | _ \<Rightarrow> None)"

definition manager_get_enforcement :: "'s manager_link \<Rightarrow> ('s, enforcement_view) command" where
  "manager_get_enforcement L = command L ''get-enforcement'' ReqGetEnforcement
     (\<lambda>r. case r of RespEnforcement e \<Rightarrow> Some (from_enforcement e) | _ \<Rightarrow> None)"

definition manager_set_enforcement :: "'s manager_link \<Rightarrow> enforcement_view \<Rightarrow> ('s, enforcement_view) command" where
  "manager_set_enforcement L v = command L ''set-enforcement'' (ReqSetEnforcement (into_enforcement v))
     (\<lambda>r. case r of RespEnforcement e \<Rightarrow> Some (from_enforcement e) | _ \<Rightarrow> None)"

end
