(* ===== verification/Clients.thy ===== *)
theory Clients
  imports Manager Daemon
begin

text \<open>
  The two front ends against the daemon: what the desktop form and the command line make of the
  user's choices, and what their calls do when the daemon answers over the wire.
\<close>

section \<open>The form's secrets\<close>

lemma starts_with_over:
  assumes "c \<notin> set w"
  shows "starts_with (u @ c # p) w = starts_with u w"
proof -
  have "\<exists>x. u = w @ x" if "u @ c # p = w @ v" for v
    using that assms by (auto simp: append_eq_append_conv2 Cons_eq_append_conv)
  then show ?thesis by (auto simp: starts_with_iff)
qed

text \<open>Trimming from the left stops at a plain character, whatever follows it.\<close>

lemma trim_with_stop:
  assumes "\<forall>w \<in> set wide. w \<noteq> [] \<and> (\<forall>b \<in> set w. 128 \<le> (of_char b :: nat))" "plain_char c"
  shows "trim_with wide (u @ c # p) = trim_with wide u @ c # p"
proof (induction u rule: measure_induct_rule [of length])
  case (less u)
  have c: "c \<notin> set w" if "w \<in> set wide" for w using assms that by (force simp: plain_char_def)
  have heads: "\<forall>w \<in> set wide. w \<noteq> [] \<and> 128 \<le> (of_char (hd w) :: nat)" using assms(1) by simp
  show ?case
  proof (cases "u = []")
    case True
    then show ?thesis using ws_len_zero [OF heads assms(2), of p] by (simp add: trim_with.simps)
  next
    case False
    have "List.find (starts_with (u @ c # p)) wide = List.find (starts_with u) wide"
      by (rule find_cong) (auto simp: starts_with_over c)
    then have n: "ws_len wide (u @ c # p) = ws_len wide u" using False by (cases u) (simp_all add: ws_len_def)
    have "length w \<le> length u" if "List.find (starts_with u) wide = Some w" for w
      using that by (force simp: find_Some_iff starts_with_iff)
    then have "ws_len wide u \<le> length u" using False by (cases u) (auto simp: ws_len_def split: option.split)
    then show ?thesis using less.IH [of "drop (ws_len wide u) u"] False
      by (simp add: trim_with.simps [of wide "u @ c # p"] trim_with.simps [of wide u] n)
  qed
qed

lemma wide_ws_bytes: "\<forall>w \<in> set wide_ws. w \<noteq> [] \<and> (\<forall>b \<in> set w. 128 \<le> (of_char b :: nat))"
  "\<forall>w \<in> set (List.map rev wide_ws). w \<noteq> [] \<and> (\<forall>b \<in> set w. 128 \<le> (of_char b :: nat))"
  by (auto simp: wide_ws_def)

lemma trim_around:
  assumes "plain_char c"
  shows "trim (u @ c # p) = trim_with wide_ws u @ c # rev (trim_with (List.map rev wide_ws) (rev p))"
  using trim_with_stop [OF wide_ws_bytes(1) assms, of u p]
    trim_with_stop [OF wide_ws_bytes(2) assms, of "rev p" "rev (trim_with wide_ws u)"]
  by (simp add: trim_def)

lemma trim_with_subset: "set (trim_with wide s) \<subseteq> set s"
proof (induction wide s rule: trim_with.induct)
  case (1 wide s)
  then show ?case by (subst trim_with.simps) (auto dest: in_set_dropD)
qed

lemma split_on_first: "c \<notin> set u \<Longrightarrow> hd (split_on c (u @ c # p)) = u"
  by (induction u) (auto split: list.split)

lemmas plain_ends = trim_plain plain_char_def ascii_ws_def

lemma colon_plain: "plain_char (CHR '':'')"
  by (simp add: plain_char_def ascii_ws_def)

text \<open>The credential reference depends on the user part alone.\<close>

lemma credential_user:
  assumes "CHR '':'' \<notin> set u"
  shows "filled (Some (u @ CHR '':'' # p)) = Some (trim (u @ CHR '':'' # p))"
    and "credential_of (trim (u @ CHR '':'' # p)) = credential_of (trim_with wide_ws u)"
proof -
  have "CHR '':'' \<notin> set (trim_with wide_ws u)" using assms trim_with_subset by blast
  then show "credential_of (trim (u @ CHR '':'' # p)) = credential_of (trim_with wide_ws u)"
    by (simp add: trim_around [OF colon_plain] credential_of_def split_on_first split_on_no_sep)
  show "filled (Some (u @ CHR '':'' # p)) = Some (trim (u @ CHR '':'' # p))"
    by (simp add: filled_def trim_around [OF colon_plain])
qed

text \<open>
  C39: The password typed into the desktop form goes nowhere.  Two forms that differ only in
  what follows the first colon of the proxy credentials yield the same specification, the same
  preview and the same conversation with the daemon, whatever the rest of the form holds.
\<close>
theorem form_password_hidden:
  assumes "CHR '':'' \<notin> set user"
    and "f = form\<lparr>cf_proxy_credentials := Some (user @ CHR '':'' # password)\<rparr>"
    and "g = form\<lparr>cf_proxy_credentials := Some (user @ CHR '':'' # other)\<rparr>"
  shows "to_spec f = to_spec g \<and> form_preview f = form_preview g \<and>
    manager_create_profile rfc3339 L f = manager_create_profile rfc3339 L g"
proof -
  have c: "map_option credential_of (filled (cf_proxy_credentials f)) = map_option credential_of (filled (cf_proxy_credentials g))"
    using assms by (simp add: credential_user)
  have p: "form_proxy f k = form_proxy g k" for k
    unfolding form_proxy_def c using assms(2,3) by (simp cong: option.case_cong)
  have b: "bridge_lines f = bridge_lines g" "form_isolation f = form_isolation g"
    using assms(2,3) by (simp_all add: bridge_lines_def form_isolation_def)
  have n: "form_network f = form_network g"
    unfolding form_network_def form_proxy_network_def p b using assms(2,3) by simp
  have k: "form_kind f = form_kind g" "form_protection f = form_protection g" "form_browser f = form_browser g"
    using assms(2,3) by (simp_all add: form_kind_def form_protection_def form_browser_def)
  have fo: "fingerprint_override f = fingerprint_override g"
    unfolding fingerprint_override_def k using assms(2,3) by simp
  have s: "spec_with_name f x = spec_with_name g x" for x
    unfolding spec_with_name_def n b k fo by (rule refl)
  have e: "to_spec f = to_spec g" unfolding to_spec_def s using assms(2,3) by simp
  moreover have "form_preview f = form_preview g" unfolding form_preview_def s using assms(2,3) by simp
  ultimately show ?thesis by (simp add: manager_create_profile_def)
qed


text \<open>Two forms for the same proxy and user: the specification names the user and holds neither password.\<close>

definition sample_form :: create_form where
  "sample_form = \<lparr> cf_name = ''work'', cf_kind = None, cf_isolation = Some ''host'', cf_network_mode = Some ''socks5'', cf_bridges = None,
     cf_proxy_host = Some ''10.0.0.1'', cf_proxy_port = Some 1080, cf_proxy_credentials = None, cf_protection = None,
     cf_browser = None, cf_fingerprint = None \<rparr>"

lemma form_password_hidden_witness:
  "to_spec (sample_form\<lparr>cf_proxy_credentials := Some ''bob:secret''\<rparr>)
     = to_spec (sample_form\<lparr>cf_proxy_credentials := Some ''bob:changeme''\<rparr>) \<and>
   is_ok (to_spec (sample_form\<lparr>cf_proxy_credentials := Some ''bob:secret''\<rparr>))"
proof
  show "to_spec (sample_form\<lparr>cf_proxy_credentials := Some ''bob:secret''\<rparr>)
      = to_spec (sample_form\<lparr>cf_proxy_credentials := Some ''bob:changeme''\<rparr>)"
    using conjunct1 [OF form_password_hidden [OF _ refl refl, of "''bob''" "''secret''" sample_form "''changeme''"]] by simp
  show "is_ok (to_spec (sample_form\<lparr>cf_proxy_credentials := Some ''bob:secret''\<rparr>))"
    by (simp add: sample_form_def to_spec_def spec_with_name_def form_network_def form_proxy_network_def form_proxy_def
        filled_def fingerprint_override_def form_protection_def spec_validate_def plain_ends Let_def)
qed

section \<open>Two ways to the same profile\<close>

text \<open>The form a user fills in for the choices given on a command line.\<close>

definition form_of :: "profile_create_args \<Rightarrow> create_form" where
  "form_of a = \<lparr>
     cf_name = ca_name a,
     cf_kind = Some (case ca_kind a of KindEphemeral \<Rightarrow> ''ephemeral'' | KindPersistent \<Rightarrow> ''persistent''),
     cf_isolation = Some (case ca_isolation a of IsolationVm \<Rightarrow> ''full-vm'' | IsolationHost \<Rightarrow> ''host-process''),
     cf_network_mode = Some (case ca_net a of NetTor \<Rightarrow> ''tor'' | NetVpn \<Rightarrow> ''vpn''
       | NetProxy \<Rightarrow> (case ca_proxy_kind a of ProxySocks5 \<Rightarrow> ''socks5'' | ProxyHttp \<Rightarrow> ''http'')),
     cf_bridges = Some (concat (List.map (\<lambda>b. b @ [CHR 0x0A]) (ca_tor_bridge a))),
     cf_proxy_host = ca_proxy_host a,
     cf_proxy_port = ca_proxy_port a,
     cf_proxy_credentials = None,
     cf_protection = Some (case ca_protection a of ProtectionBalanced \<Rightarrow> ''balanced'' | ProtectionStrict \<Rightarrow> ''strict''),
     cf_browser = Some (case ca_browser a of BrowserChromium \<Rightarrow> ''chromium'' | BrowserFirefox \<Rightarrow> ''firefox''),
     cf_fingerprint = None \<rparr>"

text \<open>A value without surrounding white space that fits on a line.\<close>

definition clean :: "string \<Rightarrow> bool" where
  "clean s \<longleftrightarrow> s \<noteq> [] \<and> trim s = s \<and> CHR 0x0A \<notin> set s \<and> CHR 0x0D \<notin> set s"

lemma split_lines: "\<forall>b \<in> set bs. clean b \<Longrightarrow> split_on (CHR 0x0A) (concat (List.map (\<lambda>b. b @ [CHR 0x0A]) bs)) = bs @ [[]]"
proof (induction bs)
  case (Cons b bs)
  have "split_on c (u @ c # s) = u # split_on c s" if "c \<notin> set u" for c u s
    using that by (induction u) auto
  then show ?case using Cons by (simp add: clean_def)
qed simp

lemma form_of_bridges: "\<forall>b \<in> set (ca_tor_bridge a). clean b \<Longrightarrow> bridge_lines (form_of a) = ca_tor_bridge a"
proof -
  assume c: "\<forall>b \<in> set (ca_tor_bridge a). clean b"
  then have "trim (drop_cr b) = b \<and> b \<noteq> []" if "b \<in> set (ca_tor_bridge a)" for b
    using bspec [OF c that] last_in_set [of b] by (cases "last b = CHR 0x0D") (simp_all add: clean_def drop_cr_def)
  then have "List.filter (\<lambda>l. l \<noteq> []) (List.map (\<lambda>b. trim (drop_cr b)) (ca_tor_bridge a)) = ca_tor_bridge a"
    by (auto simp: map_idI filter_id_conv)
  then show ?thesis using c by (simp add: bridge_lines_def form_of_def str_lines_def Let_def split_lines o_def)
qed

lemma form_of_choices:
  "form_kind (form_of a) = kind_to_domain (ca_kind a)" "form_isolation (form_of a) = isolation_to_domain (ca_isolation a)"
  "form_protection (form_of a) = protection_to_domain (ca_protection a)" "form_browser (form_of a) = browser_to_domain (ca_browser a)"
  "fingerprint_override (form_of a) = Inr None" "cf_name (form_of a) = ca_name a"
  by (simp_all add: form_of_def form_kind_def form_isolation_def form_protection_def form_browser_def fingerprint_override_def
      kind_to_domain_def isolation_to_domain_def protection_to_domain_def browser_to_domain_def
      split: profile_kind_arg.split isolation_arg.split protection_arg.split browser_arg.split)

text \<open>
  The command line and the desktop form agree.  For every choice of kind, isolation,
  protection, browser and of Tor (with any bridge lines) or a proxy, given with a name, a host
  and lines free of surrounding white space and a port other than zero, both build the same
  specification, so the daemon is sent the same request.
\<close>
lemma frontends_agree:
  assumes "clean (ca_name a)" "\<forall>b \<in> set (ca_tor_bridge a). clean b"
    and "ca_net a = NetTor \<or> ca_net a = NetProxy \<and> (\<exists>h n. ca_proxy_host a = Some h \<and> clean h \<and> ca_proxy_port a = Some n \<and> n \<noteq> 0)"
  shows "\<exists>spec. build_request P (CmdProfile (ProfileCreate a)) = Inr (ReqCreateProfile spec) \<and> to_spec (form_of a) = Inr spec"
proof -
  obtain m where m: "build_mode a = Inr m" "form_network (form_of a) = Inr (network_from_mode m)"
    using assms(3)
  proof (elim disjE conjE exE)
    assume "ca_net a = NetTor"
    then show thesis using that form_of_bridges [OF assms(2)]
      by (simp add: build_mode_def form_network_def) (simp add: form_of_def)
  next
    fix h n assume "ca_net a = NetProxy" "ca_proxy_host a = Some h" "clean h" "ca_proxy_port a = Some n" "n \<noteq> 0"
    then show thesis using that
      by (cases "ca_proxy_kind a")
         (simp_all add: build_mode_def form_network_def form_proxy_network_def form_proxy_def form_of_def filled_def
          clean_def proxy_kind_to_domain_def)
  qed
  have n: "\<not> (ca_isolation a = IsolationHost \<and> ca_net a = NetVpn)" using assms(3) by auto
  obtain spec where spec: "build_spec a = Inr spec" "sp_name spec = ca_name a" using m(1) n by (auto simp: build_spec_def)
  have "to_spec (form_of a) = Inr spec"
    using spec m n assms(1)
    by (simp add: to_spec_def spec_with_name_def form_of_choices build_spec_def clean_def spec_validate_def Let_def)
  then show ?thesis using spec(1) by (simp add: build_request_def map_ok_def)
qed

text \<open>Command-line arguments for a host-process profile over a proxy.\<close>

definition sample_args :: profile_create_args where
  "sample_args = \<lparr> ca_name = ''work'', ca_kind = KindPersistent, ca_net = NetProxy, ca_protection = ProtectionStrict,
     ca_isolation = IsolationHost, ca_browser = BrowserFirefox, ca_proxy_kind = ProxyHttp, ca_proxy_host = Some ''10.0.0.1'',
     ca_proxy_port = Some 3128, ca_tor_bridge = [] \<rparr>"

definition sample_cli :: cli_params where
  "sample_cli = \<lparr> cp_parse_uuid = (\<lambda>s. Inr (Uuid s)), cp_version = ''0.1.0'', cp_rfc3339 = (\<lambda>t. []) \<rparr>"

lemma frontends_agree_witness:
  "\<exists>spec. build_request sample_cli (CmdProfile (ProfileCreate sample_args)) = Inr (ReqCreateProfile spec) \<and>
     to_spec (form_of sample_args) = Inr spec"
proof -
  have "clean ''work''" "clean ''10.0.0.1''" by (simp_all add: clean_def plain_ends)
  then show ?thesis by (intro frontends_agree) (simp_all add: sample_args_def)
qed

section \<open>What an exit code means\<close>

text \<open>The reply a command asks for, and the replies that mean it was not carried out.\<close>

definition fulfils :: "cli_params \<Rightarrow> cli_command \<Rightarrow> response \<Rightarrow> bool" where
  "fulfils P c r = (case c of
      CmdProfile (ProfileCreate a) \<Rightarrow> (\<exists>p. r = RespProfile p)
    | CmdProfile ProfileList \<Rightarrow> (\<exists>ps. r = RespProfiles ps)
    | CmdProfile (ProfileShow i) \<Rightarrow> (\<exists>ps wanted. r = RespProfiles ps \<and> parse_profile_id P i = Inr wanted \<and> wanted \<in> pr_id ` set ps)
    | CmdProfile (ProfileRm i) \<Rightarrow> r = RespOk
    | CmdSession (SessionStart p) \<Rightarrow> (\<exists>x. r = RespSession x)
    | CmdSession (SessionStop i) \<Rightarrow> (\<exists>x. r = RespSession x)
    | CmdSession SessionList \<Rightarrow> (\<exists>xs. r = RespSessions xs)
    | CmdDiagnostics i \<Rightarrow> (\<exists>p cl items. r = RespDiagnostics p cl items)
    | CmdStatus \<Rightarrow> (\<exists>st. r = RespStatus st)
    | CmdConfig (ConfigEnforcement a) \<Rightarrow> (\<exists>e. r = RespEnforcement e)
    | CmdDoctor \<Rightarrow> (\<exists>cl. r = RespDoctor cl \<and> all_passed cl)
    | CmdUpdate UpdateCheck \<Rightarrow> (\<exists>m. r = RespUpdateAvailable m)
    | CmdUpdate UpdateApply \<Rightarrow> r = RespUpdateAvailable None \<or> r = RespUpdateApplied Applied)"

definition refused :: "response \<Rightarrow> bool" where
  "refused r \<longleftrightarrow> is_error r \<or> (\<exists>cl. r = RespDoctor cl \<and> \<not> all_passed cl) \<or> r = RespUpdateApplied RolledBack"

definition truthful :: "cli_params \<Rightarrow> cli_command \<Rightarrow> response \<Rightarrow> cli_output result \<Rightarrow> bool" where
  "truthful P c r x = (case x of Inl e \<Rightarrow> True
    | Inr out \<Rightarrow> (case co_dispatch out of DispOk \<Rightarrow> fulfils P c r | DispDaemonError \<Rightarrow> refused r))"

lemma map_ok_Inr: "map_ok f x = Inr y \<longleftrightarrow> (\<exists>z. x = Inr z \<and> y = f z)" and map_ok_Inl: "map_ok f x = Inl e \<longleftrightarrow> x = Inl e"
  by (auto simp: map_ok_def split: sum.split)

lemma truthful_simps [simp]: "truthful P c r (Inl e)" "truthful P c r (unexpected k r')"
  "truthful P c r (map_ok f x) = (case x of Inl e \<Rightarrow> True | Inr s \<Rightarrow> (case co_dispatch (f s) of DispOk \<Rightarrow> fulfils P c r | DispDaemonError \<Rightarrow> refused r))"
  by (simp_all add: truthful_def unexpected_def map_ok_def split: sum.split)

lemma output_dispatch [simp]: "co_dispatch (output_ok s) = DispOk" "co_dispatch (output_failed s) = DispDaemonError"
  by (simp_all add: output_ok_def output_failed_def)

lemma error_truthful: "is_error r \<Longrightarrow> truthful P c r (format_error J r json)"
  by (cases r) (simp_all add: format_error_def truthful_def refused_def map_ok_def split: sum.split)

lemma reply_truthful: "truthful P c r (format_response P J c r json t)"
proof (cases "is_error r")
  case True
  then show ?thesis by (simp add: format_response_def error_truthful)
next
  case False
  note formats = format_profiles_def format_profile_def format_profile_show_def format_session_def format_sessions_def
    format_diagnostics_def format_doctor_def format_status_def format_enforcement_def format_update_check_def format_ok_def
  show ?thesis
  proof (cases c)
    case (CmdProfile x)
    then show ?thesis using False
      by (cases x; cases r) (auto simp: format_response_def formats fulfils_def find_Some_iff split: sum.split option.split)
  next
    case (CmdSession x)
    then show ?thesis using False
      by (cases x; cases r) (simp_all add: format_response_def formats fulfils_def Let_def split: sum.split)
  next
    case (CmdUpdate x)
    then show ?thesis using False
      by (cases x; cases r) (simp_all add: format_response_def formats fulfils_def split: sum.split)
  next
    case (CmdConfig x)
    then show ?thesis using False
      by (cases x; cases r) (simp_all add: format_response_def formats fulfils_def Let_def split: sum.split)
  qed (use False in \<open>cases r; simp add: format_response_def formats fulfils_def refused_def split: sum.split\<close>)+
qed

text \<open>A link that keeps a log of the exchanges, for any link.\<close>

definition recorded :: "'s link \<Rightarrow> ('s \<times> (request \<times> response) list) link" where
  "recorded L = \<lparr>
     ln_connect = (\<lambda>g (s, log). case ln_connect L g s of (r, t) \<Rightarrow> (r, (t, log))),
     ln_call = (\<lambda>q (s, log). case ln_call L q s of
         (Inl e, t) \<Rightarrow> (Inl e, (t, log))
       | (Inr r, t) \<Rightarrow> (Inr r, (t, log @ [(q, r)]))),
     ln_now = (\<lambda>(s, log). case ln_now L s of (x, t) \<Rightarrow> (x, (t, log))) \<rparr>"

lemma wp_recorded [wp_simps]:
  "wp (ln_connect (recorded L) g) Q E (s, log) = (case ln_connect L g s of (Inl e, t) \<Rightarrow> E e (t, log) | (Inr x, t) \<Rightarrow> Q x (t, log))"
  "wp (ln_call (recorded L) q) R E (s, log) = (case ln_call L q s of (Inl e, t) \<Rightarrow> E e (t, log) | (Inr r, t) \<Rightarrow> R r (t, log @ [(q, r)]))"
  "ln_now (recorded L) (s, log) = (case ln_now L s of (x, t) \<Rightarrow> (x, (t, log)))"
  by (auto simp: recorded_def wp_def split: prod.split sum.split)

definition answered :: "cli_params \<Rightarrow> cli_command \<Rightarrow> cli_output \<Rightarrow> 's \<times> (request \<times> response) list \<Rightarrow> bool" where
  "answered P c out st \<longleftrightarrow> snd st \<noteq> [] \<and> truthful P c (snd (last (snd st))) (Inr out)"

lemma wp_lift_answered:
  "truthful P c r x \<Longrightarrow> wp (lift_res x) (answered P c) (\<lambda>_ _. True) (t, log @ [(q, r)])"
  "truthful P c r x \<Longrightarrow> wp (lift_res x) (answered P c) (\<lambda>_ _. True) (t, log @ [first, (q, r)])"
  by (cases x; simp add: wp_simps answered_def)+

lemma update_answered: "wp (dispatch_update_apply P J (recorded L) json) (answered P (CmdUpdate UpdateApply)) (\<lambda>_ _. True) (s, log)"
proof -
  have a: "truthful P (CmdUpdate UpdateApply) r (format_update_applied J r json)" for r
    by (cases r) (auto simp: format_update_applied_def error_truthful is_error_def fulfils_def refused_def
        split: sum.split apply_outcome.split)
  have b: "truthful P (CmdUpdate UpdateApply) (RespUpdateAvailable None) (map_ok output_ok x)" for x
    by (simp add: fulfils_def split: sum.split)
  show ?thesis unfolding dispatch_update_apply_def
    by (auto simp: wp_bind wp_recorded wp_throw simp del: truthful_simps intro!: wp_lift_answered a b error_truthful
        split: prod.split sum.split response.split option.split) (simp add: is_error_def)
qed

lemma enforcement_answered:
  "wp (dispatch_set_enforcement J (recorded L) args json) (answered P (CmdConfig (ConfigEnforcement args))) (\<lambda>_ _. True) (s, log)"
proof -
  have a: "truthful P (CmdConfig (ConfigEnforcement args)) r (format_enforcement J r json w)" for r w
    by (cases r) (simp_all add: format_enforcement_def fulfils_def Let_def split: sum.split)
  show ?thesis unfolding dispatch_set_enforcement_def
    by (auto simp: wp_bind wp_recorded wp_throw simp del: truthful_simps intro!: wp_lift_answered a error_truthful
        split: prod.split sum.split response.split) (simp add: is_error_def)
qed

lemma dispatch_answered: "wp (cli_dispatch P J (recorded L) c) (answered P (cli_command c)) (\<lambda>_ _. True) (s, log)"
proof -
  have plain: "wp (bind (lift_res (build_request P cmd)) (\<lambda>q. seq (ln_connect (recorded L) g) (bind (ln_call (recorded L) q) (\<lambda>r.
      bind (run_state (ln_now (recorded L))) (\<lambda>t. lift_res (format_response P J cmd r json t))))))
      (answered P cmd) (\<lambda>_ _. True) (s, log)" for cmd g json
    by (auto simp: wp_bind wp_seq wp_recorded wp_run_state wp_lift_res [of "build_request _ _"]
        intro!: wp_lift_answered reply_truthful split: prod.split sum.split)
  show ?thesis
  proof (cases "cli_command c")
    case (CmdUpdate u)
    then show ?thesis using plain update_answered
      by (cases u) (auto simp: cli_dispatch_def Let_def wp_simps split: prod.split sum.split)
  next
    case (CmdConfig x)
    then show ?thesis using plain enforcement_answered
      by (cases x) (auto simp: cli_dispatch_def Let_def wp_seq wp_if wp_recorded split: prod.split sum.split)
  qed (use plain in \<open>simp_all add: cli_dispatch_def Let_def\<close>)
qed

text \<open>
  C37: The exit code tells the truth.  For every command, over every link, the exit code is 0
  only if the last reply received is the one the command asked for (for a doctor run: with every
  check passed; for an update: applied, or nothing to apply; for a profile shown: the profile is
  in the list); it is 2 only if the last reply refused (an error, a failed check, a rollback);
  and otherwise it is 3, with a message on standard error and nothing on standard output.
\<close>
theorem cli_exit_truthful:
  "case cli_main P J (recorded L) c (s, []) of ((out, err, code), (t, log)) \<Rightarrow>
     code = 0 \<and> log \<noteq> [] \<and> fulfils P (cli_command c) (snd (last log)) \<or>
     code = 2 \<and> log \<noteq> [] \<and> refused (snd (last log)) \<or>
     code = 3 \<and> out = [] \<and> err \<noteq> []"
proof -
  obtain r t log where r: "cli_dispatch P J (recorded L) c (s, []) = (r, (t, log))" by (metis surj_pair)
  show ?thesis
  proof (cases r)
    case (Inl e)
    then show ?thesis using r by (simp add: cli_main_def print_line_def)
  next
    case (Inr out)
    then have "answered P (cli_command c) out (t, log)" using wp_ok [OF dispatch_answered, of P J L c s "[]"] r by simp
    then show ?thesis using r Inr
      by (cases "co_dispatch out") (auto simp: cli_main_def answered_def truthful_def)
  qed
qed

section \<open>Calling the daemon over the wire\<close>

text \<open>The serialisation of requests and replies, which is serde's: both directions of both types.\<close>

record codec =
  enc_request :: "request encoder"
  dec_request :: "request decoder"
  enc_response :: "response encoder"
  dec_response :: "response decoder"

text \<open>One exchange: the frame the client writes, served by the daemon, and the reply read back.\<close>

definition wire_call :: "codec \<Rightarrow> 'w services \<Rightarrow> request \<Rightarrow> ('w orch, frame_error, response) eff" where
  "wire_call K S q = (\<lambda>d. case write_frame (enc_request K) q empty_stream of
      (Inl e, _) \<Rightarrow> (Inl e, d)
    | (Inr _, c) \<Rightarrow>
        (case serve_connection (dec_request K) (enc_response K) (handle S) (empty_stream\<lparr>str_in := str_out c\<rparr>) d of
           (_, st, d') \<Rightarrow> (fst (read_frame (dec_response K) (c\<lparr>str_in := str_out st\<rparr>)), d')))"

definition wire_link :: "codec \<Rightarrow> 'w services \<Rightarrow> ('w orch \<Rightarrow> timestamp) \<Rightarrow> 'w orch link" where
  "wire_link K S clock = \<lparr> ln_connect = (\<lambda>_. ret ()),
     ln_call = (\<lambda>q. map_err (\<lambda>e. System (''ipc: '' @ frame_error_display e)) (wire_call K S q)),
     ln_now = (\<lambda>d. (clock d, d)) \<rparr>"

definition wire_desktop :: "codec \<Rightarrow> 'w services \<Rightarrow> ('w orch \<Rightarrow> timestamp) \<Rightarrow> 'w orch manager_link" where
  "wire_desktop K S clock = \<lparr> ml_connect = ret (), ml_call = wire_call K S, ml_now = (\<lambda>d. (clock d, d)) \<rparr>"

text \<open>The serialisation carries a request and its reply: both fit in a frame and decode to what was encoded.\<close>

definition carries :: "codec \<Rightarrow> request \<Rightarrow> response \<Rightarrow> bool" where
  "carries K q r \<longleftrightarrow> (\<exists>b b'. encoded (enc_request K) q b \<and> decoded (dec_request K) b q \<and>
     encoded (enc_response K) r b' \<and> decoded (dec_response K) b' r)"

lemma wire_call_answers:
  assumes "handle S q d = (r, d')" "carries K q r"
  shows "wire_call K S q d = (Inr r, d')"
proof -
  obtain b b' where b: "encoded (enc_request K) q b" "decoded (dec_request K) b q"
    "encoded (enc_response K) r b'" "decoded (dec_response K) b' r" using assms(2) by (auto simp: carries_def)
  have w: "write_frame (enc_request K) q empty_stream = (Inr (), empty_stream\<lparr>str_out := frame b\<rparr>)"
    using b(1) by (subst write_frame_ok) (auto simp: encoded_def empty_stream_def)
  have s: "serve_connection (dec_request K) (enc_response K) (handle S) (empty_stream\<lparr>str_in := frame b\<rparr>) d
      = (Inr (), \<lparr> str_in = [], str_end = None, str_out = frame b', str_faults = [] \<rparr>, d')"
    using serve_all [of "dec_request K" "[b]" "[q]" "handle S" d "[r]" d' "enc_response K" "[b']"] assms(1) b
    by (simp add: empty_stream_def)
  have "fst (read_frame (dec_response K) \<lparr> str_in = frame b', str_end = None, str_out = frame b, str_faults = [] \<rparr>) = Inr r"
    using b(4) by (subst read_frame_step [of _ b' "[]"]) (auto simp: decoded_def)
  then show ?thesis using w s by (simp add: wire_call_def empty_stream_def)
qed

text \<open>What both front ends rely on: a call yields what the daemon answers.\<close>

locale answering =
  fixes call :: "'q \<Rightarrow> ('s, 'e, 'r) eff" and answer :: "'q \<Rightarrow> 's \<Rightarrow> 'r \<times> 's" and carried :: "'q \<Rightarrow> 'r \<Rightarrow> bool"
  assumes call_answers: "answer q s = (r, s') \<Longrightarrow> carried q r \<Longrightarrow> call q s = (Inr r, s')"
begin

lemma bind_call: "answer q s = (r, s') \<Longrightarrow> carried q r \<Longrightarrow> bind (call q) f s = f r s'"
  by (simp add: bind_def call_answers)

text \<open>Read, compute, write: the second request depends on the first reply.\<close>

lemma read_modify_write:
  assumes "answer q s = (r, s')" "carried q r" "answer (g r) s' = (r', s'')" "carried (g r) r'"
  shows "bind (call q) (\<lambda>x. bind (call (g x)) (f x)) s = f r r' s''"
  using assms by (simp add: bind_call)

end

interpretation command_line: answering "ln_call (wire_link K S clock)" "handle S" "carries K"
  by unfold_locales (simp add: wire_link_def map_err_def wire_call_answers)

interpretation desktop: answering "manager_call (wire_desktop K S clock)" "handle S" "carries K"
  by unfold_locales (simp add: wire_desktop_def manager_call_def map_err_def seq_def bind_def ret_def wire_call_answers)

lemma handle_get: "\<not> or_enforcement_poisoned d \<Longrightarrow> handle S ReqGetEnforcement d = (RespEnforcement (or_enforcement d), d)"
  by (simp add: handle_def dispatch_def bind_def gets_def ret_def get_enforcement_def response_of_result_def)

lemma handle_set: "\<not> or_enforcement_poisoned d \<Longrightarrow> handle S (ReqSetEnforcement e) d = (RespEnforcement e, d\<lparr>or_enforcement := e\<rparr>)"
  by (simp add: handle_def dispatch_def bind_def set_enforcement_def ret_def response_of_result_def)


text \<open>A small serialisation of policies, and the command that allows the host browser.\<close>

definition flag_char :: "bool \<Rightarrow> char" where
  "flag_char b = (if b then CHR ''1'' else CHR ''0'')"

definition policy_bytes :: "enforcement \<Rightarrow> string" where
  "policy_bytes e = [flag_char (require_vm_isolation e), flag_char (require_gateway e), flag_char (allow_host_browser e)]"

definition policy_of :: "string \<Rightarrow> enforcement" where
  "policy_of s = \<lparr> require_vm_isolation = (s ! 0 = CHR ''1''), require_gateway = (s ! 1 = CHR ''1''), allow_host_browser = (s ! 2 = CHR ''1'') \<rparr>"

lemma policy_of_bytes [simp]: "policy_of (policy_bytes e) = e"
  by (simp add: policy_of_def policy_bytes_def flag_char_def)

definition sample_codec :: codec where
  "sample_codec = \<lparr>
     enc_request = (\<lambda>q. case q of ReqGetEnforcement \<Rightarrow> Inr [] | ReqSetEnforcement e \<Rightarrow> Inr (policy_bytes e) | _ \<Rightarrow> Inl ''unsupported''),
     dec_request = (\<lambda>b. Inr (if b = [] then ReqGetEnforcement else ReqSetEnforcement (policy_of b))),
     enc_response = (\<lambda>r. case r of RespEnforcement e \<Rightarrow> Inr (policy_bytes e) | _ \<Rightarrow> Inl ''unsupported''),
     dec_response = (\<lambda>b. Inr (RespEnforcement (policy_of b))) \<rparr>"

lemma sample_carries: "carries sample_codec ReqGetEnforcement (RespEnforcement e)" "carries sample_codec (ReqSetEnforcement e) (RespEnforcement e)"
  by (simp_all add: carries_def sample_codec_def encoded_def decoded_def max_frame_len_def)
     (simp_all add: policy_bytes_def)

definition open_host :: enforcement_args where
  "open_host = \<lparr> ea_vm_isolation = Some Off, ea_gateway = None, ea_host_browser = Some On \<rparr>"


end
