(* ===== verification/Manager_App.thy ===== *)
theory Manager_App
  imports Manager
begin

text \<open>
  \<^verbatim>\<open>apps/manager-ui/src-tauri/src/lib.rs\<close>: the commands the webview may invoke.  Each is a handler
  that passes its arguments on to \<^verbatim>\<open>ipc.rs\<close> and returns its value or an error string; the
  preview is computed locally.  \<^verbatim>\<open>run\<close> registers exactly these handlers, \<^verbatim>\<open>main\<close> calls it.
\<close>

datatype invocation =
    ListProfiles
  | CreateProfile create_form
  | PreviewProfile create_form
  | DeleteProfile string
  | StartSession string
  | StopSession string
  | ListSessions
  | GetDiagnostics string
  | Doctor
  | GetStatus
  | GetEnforcement
  | SetEnforcement enforcement_view

datatype app_value =
    AppProfiles "profile_view list"
  | AppProfile profile_view
  | AppPreview profile_preview
  | AppUnit
  | AppSession session_view
  | AppSessions "session_view list"
  | AppDiagnostics diagnostics_view
  | AppDoctor doctor_view
  | AppStatus status_view
  | AppEnforcement enforcement_view

definition yielding :: "('a \<Rightarrow> app_value) \<Rightarrow> ('s, 'a) command \<Rightarrow> ('s, app_value) command" where
  "yielding f m = bind m (\<lambda>x. ret (f x))"

definition invoke_handler :: "(timestamp \<Rightarrow> string) \<Rightarrow> (string \<Rightarrow> string + uuid) \<Rightarrow> 's manager_link \<Rightarrow> invocation \<Rightarrow> ('s, app_value) command" where
  "invoke_handler rfc3339 parse L v = (case v of
      ListProfiles \<Rightarrow> yielding AppProfiles (manager_list_profiles rfc3339 L)
    | CreateProfile f \<Rightarrow> yielding AppProfile (manager_create_profile rfc3339 L f)
    | PreviewProfile f \<Rightarrow> yielding AppPreview (lift_res (form_preview f))
    | DeleteProfile i \<Rightarrow> yielding (\<lambda>_. AppUnit) (manager_delete_profile parse L i)
    | StartSession i \<Rightarrow> yielding AppSession (manager_start_session parse L i)
    | StopSession i \<Rightarrow> yielding AppSession (manager_stop_session parse L i)
    | ListSessions \<Rightarrow> yielding AppSessions (manager_list_sessions L)
    | GetDiagnostics i \<Rightarrow> yielding AppDiagnostics (manager_get_diagnostics parse L i)
    | Doctor \<Rightarrow> yielding AppDoctor (manager_doctor L)
    | GetStatus \<Rightarrow> yielding AppStatus (manager_get_status L)
    | GetEnforcement \<Rightarrow> yielding AppEnforcement (manager_get_enforcement L)
    | SetEnforcement e \<Rightarrow> yielding AppEnforcement (manager_set_enforcement L e))"

text \<open>The kind of value the webview gets for each invocation.\<close>

definition app_kind :: "invocation \<Rightarrow> app_value \<Rightarrow> bool" where
  "app_kind v x = (case v of
      ListProfiles \<Rightarrow> (case x of AppProfiles _ \<Rightarrow> True | _ \<Rightarrow> False)
    | CreateProfile _ \<Rightarrow> (case x of AppProfile _ \<Rightarrow> True | _ \<Rightarrow> False)
    | PreviewProfile _ \<Rightarrow> (case x of AppPreview _ \<Rightarrow> True | _ \<Rightarrow> False)
    | DeleteProfile _ \<Rightarrow> x = AppUnit
    | StartSession _ \<Rightarrow> (case x of AppSession _ \<Rightarrow> True | _ \<Rightarrow> False)
    | StopSession _ \<Rightarrow> (case x of AppSession _ \<Rightarrow> True | _ \<Rightarrow> False)
    | ListSessions \<Rightarrow> (case x of AppSessions _ \<Rightarrow> True | _ \<Rightarrow> False)
    | GetDiagnostics _ \<Rightarrow> (case x of AppDiagnostics _ \<Rightarrow> True | _ \<Rightarrow> False)
    | Doctor \<Rightarrow> (case x of AppDoctor _ \<Rightarrow> True | _ \<Rightarrow> False)
    | GetStatus \<Rightarrow> (case x of AppStatus _ \<Rightarrow> True | _ \<Rightarrow> False)
    | GetEnforcement \<Rightarrow> (case x of AppEnforcement _ \<Rightarrow> True | _ \<Rightarrow> False)
    | SetEnforcement _ \<Rightarrow> (case x of AppEnforcement _ \<Rightarrow> True | _ \<Rightarrow> False))"

text \<open>A form whose profile can be created has a preview, and the preview never asks the daemon.\<close>

lemma preview_of_created: "to_spec f = Inr spec \<Longrightarrow> form_preview f = Inr (preview_from_spec spec)"
  by (simp add: to_spec_def form_preview_def Let_def split: if_splits)

lemma preview_local: "snd (invoke_handler rfc3339 parse L (PreviewProfile f) s) = s"
  by (simp add: invoke_handler_def yielding_def bind_def lift_res_def ret_def split: sum.split)

end
