(* ===== verification/Protocol_Types.thy ===== *)
theory Protocol_Types
  imports Clients Manager_App
begin

text \<open>
  The types of the protocol.  Nothing in the Rust types relates the kind of a reply to its
  request, and both front ends carry a branch for replies of the wrong kind.  Here the relation
  is stated, the daemon is shown to respect it, and those branches to be unreachable.
\<close>

section \<open>The reply a request asks for\<close>

definition answers :: "request \<Rightarrow> response \<Rightarrow> bool" where
  "answers q r = (case q of
      ReqListProfiles \<Rightarrow> (case r of RespProfiles _ \<Rightarrow> True | _ \<Rightarrow> False)
    | ReqCreateProfile _ \<Rightarrow> (case r of RespProfile _ \<Rightarrow> True | _ \<Rightarrow> False)
    | ReqUpdateProfile _ _ \<Rightarrow> (case r of RespProfile _ \<Rightarrow> True | _ \<Rightarrow> False)
    | ReqDeleteProfile _ \<Rightarrow> r = RespOk
    | ReqStartSession sr \<Rightarrow> (case r of RespSession x \<Rightarrow> ss_profile x = rq_profile sr \<and> ss_state x = Browsing | _ \<Rightarrow> False)
    | ReqStopSession i \<Rightarrow> (case r of RespSession x \<Rightarrow> ss_id x = i | _ \<Rightarrow> False)
    | ReqListSessions \<Rightarrow> (case r of RespSessions _ \<Rightarrow> True | _ \<Rightarrow> False)
    | ReqGetDiagnostics _ \<Rightarrow> (case r of RespDiagnostics _ _ _ \<Rightarrow> True | _ \<Rightarrow> False)
    | ReqDoctor \<Rightarrow> (case r of RespDoctor _ \<Rightarrow> True | _ \<Rightarrow> False)
    | ReqCheckUpdate _ \<Rightarrow> (case r of RespUpdateAvailable _ \<Rightarrow> True | _ \<Rightarrow> False)
    | ReqApplyUpdate _ \<Rightarrow> (case r of RespUpdateApplied _ \<Rightarrow> True | _ \<Rightarrow> False)
    | ReqGetStatus \<Rightarrow> (case r of RespStatus _ \<Rightarrow> True | _ \<Rightarrow> False)
    | ReqGetEnforcement \<Rightarrow> (case r of RespEnforcement _ \<Rightarrow> True | _ \<Rightarrow> False)
    | ReqSetEnforcement e \<Rightarrow> r = RespEnforcement e)"

definition reply_ok :: "request \<Rightarrow> response \<Rightarrow> bool" where
  "reply_ok q r \<longleftrightarrow> is_error r \<or> answers q r"

lemma reply_ok_error [simp]: "reply_ok q (from_error e)"
  by (simp add: reply_ok_def from_error_def is_error_def)

section \<open>The daemon replies in kind\<close>

lemma start_answers: "reached S s \<Longrightarrow> wp (start_session (sv_caps S) (sv_config S) p)
    (\<lambda>x _. ss_profile x = p \<and> ss_state x = Browsing) (\<lambda>_ _. True) s"
proof (rule wp_mono [OF wp_start])
  show "reached S s \<Longrightarrow> gate_after Idle (or_calls s) \<noteq> None" using reachable_inv [of "sv_caps S" "sv_config S" s] by (simp add: orch_inv_def)
  fix x t assume "start_ok (sv_caps S) s p x t"
  then obtain en where en: "en_profile en = p" "x = entry_summary (ss_id x) en"
    "started_vm en \<or> started_host (sv_caps S) en" by (auto simp: start_ok_def)
  have "ss_state x = en_state en" "ss_profile x = en_profile en"
    by (subst en(2), simp add: entry_summary_def)+
  then show "ss_profile x = p \<and> ss_state x = Browsing" using en by (auto simp: started_vm_def started_host_def)
qed auto

lemma stop_answers: "wp (stop_session C i) (\<lambda>x _. ss_id x = i) (\<lambda>_ _. True) s"
  unfolding stop_session_def
  by (rule wp_I) (auto simp: bind_def seq_def ret_def throw_def entry_summary_def split: prod.splits sum.splits option.splits)

text \<open>Of a sequence, only the last step decides the kind of the reply.\<close>

lemma answers_after: "(\<And>x t. wp (f x) Q (\<lambda>_ _. True) t) \<Longrightarrow> wp (bind m f) Q (\<lambda>_ _. True) s"
  by (rule wp_then [of m "\<lambda>_ _. True" "\<lambda>_ _. True"]) (auto simp: wp_def split: prod.split sum.split)

lemma answers_ret: "Q x s \<Longrightarrow> wp (ret x) Q (\<lambda>_ _. True) s"
  by (simp add: wp_simps)

lemma diagnostics_answers: "wp (get_diagnostics S i) (\<lambda>r _. answers (ReqGetDiagnostics i) r) (\<lambda>_ _. True) s"
  unfolding get_diagnostics_def
proof (rule answers_after)
  fix xs t
  show "wp (case List.find (\<lambda>x. ss_id x = i) xs of None \<Rightarrow> throw (NotFound (''session '' @ session_display i))
      | Some summary \<Rightarrow>
        bind (in_world (cap_get_profile (sv_caps S) (ss_profile summary))) (\<lambda>p.
        bind (gets (session_checklist i)) (\<lambda>c.
        let cl = (case c of Some cl \<Rightarrow> cl | None \<Rightarrow> unknown_checklist) in
        bind (if sp_isolation (pr_spec p) = FullVm then attempt (gateway_health (sv_caps S)) else ret (Inl (Unsupported []))) (\<lambda>h.
        bind (attempt (browser_liveness (sv_caps S) i)) (\<lambda>b.
        ret (RespDiagnostics (ss_protection summary) cl
          (configured_profile_items p @ checklist_items cl
           @ gateway_items (sp_isolation (pr_spec p)) h @ [browser_item b]))))))) (\<lambda>r _. answers (ReqGetDiagnostics i) r) (\<lambda>_ _. True) t"
    by (cases "List.find (\<lambda>x. ss_id x = i) xs")
       (simp_all add: wp_throw Let_def answers_after answers_ret answers_def)
qed

lemma dispatch_answers:
  assumes "reached S s"
  shows "wp (dispatch S q) (\<lambda>r _. answers q r) (\<lambda>_ _. True) s"
proof (cases q)
  case (ReqStartSession sr)
  then show ?thesis
    by (simp add: dispatch_def answers_def) (rule wp_then [OF start_answers [OF assms]]; simp add: wp_simps)
next
  case (ReqStopSession i)
  then show ?thesis
    by (simp add: dispatch_def answers_def) (rule wp_then [OF stop_answers]; simp add: wp_simps)
next
  case (ReqGetDiagnostics i)
  then show ?thesis using diagnostics_answers [of S i s] by (simp add: dispatch_def)
next
  case (ReqSetEnforcement e)
  then show ?thesis by (simp add: dispatch_def set_enforcement_def wp_simps answers_def) (simp add: wp_def)
qed (simp_all add: dispatch_def answers_def seq_def Let_def answers_after answers_ret)

lemma handle_answers: "reached S d \<Longrightarrow> reply_ok q (fst (handle S q d))"
  using dispatch_answers [of S d q]
  by (auto simp: handle_def reply_ok_def response_of_result_def from_error_def is_error_def wp_def split: prod.split sum.split)

section \<open>Over the wire\<close>

text \<open>What decodes is what was encoded.\<close>

definition lossless :: "codec \<Rightarrow> bool" where
  "lossless K \<longleftrightarrow> (\<forall>q b q'. enc_request K q = Inr b \<longrightarrow> dec_request K b = Inr q' \<longrightarrow> q' = q) \<and>
     (\<forall>r b r'. enc_response K r = Inr b \<longrightarrow> dec_response K b = Inr r' \<longrightarrow> r' = r)"

lemma write_frame_sound:
  assumes "str_faults s = []" "write_frame encode x s = (Inr u, s')"
  shows "\<exists>b. encode x = Inr b \<and> length b \<le> max_frame_len \<and> s' = s\<lparr>str_out := str_out s @ frame b\<rparr>"
proof (cases "encode x")
  case (Inl m)
  then show ?thesis using assms(2) by (simp add: write_frame_def bind_def map_err_def lift_res_def)
next
  case (Inr b)
  then show ?thesis using assms write_frame_ok [of encode x b s]
    by (cases "length b \<le> max_frame_len") (auto simp: write_frame_def bind_def map_err_def lift_res_def throw_def not_le)
qed

lemma write_frame_unsent:
  assumes "str_faults s = []" "write_frame encode x s = (Inl e, s')"
  shows "s' = s"
  using assms write_frame_ok [of encode x _ s]
  by (cases "encode x"; cases "length (projr (encode x)) \<le> max_frame_len")
     (auto simp: write_frame_def bind_def map_err_def lift_res_def throw_def not_le)

text \<open>One connection with one request on it, over sound streams.\<close>

lemma serve_one:
  assumes "length b \<le> max_frame_len"
    and "serve_connection decode encode h (empty_stream\<lparr>str_in := frame b\<rparr>) d = (e, st, d')"
  shows "str_out st = [] \<or> (\<exists>q r b'. decode b = Inr q \<and> h q d = (r, d') \<and> encode r = Inr b' \<and>
    length b' \<le> max_frame_len \<and> str_out st = frame b')"
proof -
  have rd: "read_frame decode (empty_stream\<lparr>str_in := frame b\<rparr>)
      = (case decode b of Inl m \<Rightarrow> Inl (FrameDecode m) | Inr q \<Rightarrow> Inr q, empty_stream\<lparr>str_in := []\<rparr>)"
    using read_frame_step [of "empty_stream\<lparr>str_in := frame b\<rparr>" b "[]" decode] assms(1) by simp
  show ?thesis
  proof (cases "decode b")
    case (Inl m)
    then show ?thesis using assms(2) rd by (auto simp: serve_connection.simps empty_stream_def)
  next
    case (Inr q)
    obtain r d1 where h: "h q d = (r, d1)" by fastforce
    let ?s = "empty_stream\<lparr>str_in := []\<rparr>"
    have f: "str_faults ?s = []" by (simp add: empty_stream_def)
    obtain w s2 where w: "write_frame encode r ?s = (w, s2)" by fastforce
    show ?thesis
    proof (cases w)
      case Inl': (Inl e')
      then have "st = s2"
        using assms(2) rd Inr h w by (simp add: serve_connection.simps [of decode encode h "empty_stream\<lparr>str_in := frame b\<rparr>"])
      then show ?thesis using write_frame_unsent [OF f w [unfolded Inl']] by (simp add: empty_stream_def)
    next
      case Inr': (Inr u)
      obtain b' where b': "encode r = Inr b'" "length b' \<le> max_frame_len" "s2 = ?s\<lparr>str_out := frame b'\<rparr>"
        using write_frame_sound [OF f w [unfolded Inr']] by (auto simp: empty_stream_def)
      have e2: "str_in s2 = []" "str_end s2 = None" by (simp_all add: b'(3) empty_stream_def)
      have "serve_connection decode encode h s2 d1 = (Inr (), s2, d1)"
        by (simp add: serve_connection.simps [of decode encode h s2] read_frame_end [OF e2(1)] e2(2))
      then have "st = s2" "d' = d1"
        using assms(2) rd Inr h w Inr' by (simp_all add: serve_connection.simps [of decode encode h "empty_stream\<lparr>str_in := frame b\<rparr>"])
      then show ?thesis using Inr h b' by (auto simp: empty_stream_def)
    qed
  qed
qed

lemma wire_call_replies:
  assumes "lossless K" "wire_call K S q d = (Inr r, d')"
  shows "handle S q d = (r, d')"
proof -
  obtain u c where c: "write_frame (enc_request K) q empty_stream = (Inr u, c)"
    using assms(2) by (auto simp: wire_call_def split: prod.splits sum.splits)
  obtain b where b: "enc_request K q = Inr b" "length b \<le> max_frame_len" "str_out c = frame b"
    using write_frame_sound [OF _ c] by (auto simp: empty_stream_def)
  obtain e st where st: "serve_connection (dec_request K) (enc_response K) (handle S) (empty_stream\<lparr>str_in := frame b\<rparr>) d = (e, st, d')"
    "fst (read_frame (dec_response K) (c\<lparr>str_in := str_out st\<rparr>)) = Inr r"
    using assms(2) by (auto simp: wire_call_def c b(3) split: prod.splits)
  then have "str_out st \<noteq> []" by (auto simp: read_frame_end)
  then obtain q' r' b' where o: "dec_request K b = Inr q'" "handle S q' d = (r', d')" "enc_response K r' = Inr b'"
    "length b' \<le> max_frame_len" "str_out st = frame b'" using serve_one [OF b(2) st(1)] by auto
  have "dec_response K b' = Inr r"
    using st(2) read_frame_step [of "c\<lparr>str_in := str_out st\<rparr>" b' "[]" "dec_response K"] o(4,5) by (auto split: sum.splits)
  then show ?thesis using assms(1) b(1) o unfolding lossless_def by metis
qed

lemma wire_call_reached:
  assumes "reached S d"
  shows "reached S (snd (wire_call K S q d))"
proof -
  have "reached S (snd (snd (serve_connection (dec_request K) (enc_response K) (handle S) st d)))" for st
    by (rule serve_connection_inv) (auto intro: handle_reachable assms)
  then show ?thesis using assms by (auto simp: wire_call_def split: prod.split sum.split) (metis snd_conv)
qed

section \<open>Front ends over a typed link\<close>

text \<open>
  What the front ends rely on: a call that returns brings a reply its request asked for, and
  one that fails brings an error of the link.
\<close>

locale typed_link =
  fixes call :: "'q \<Rightarrow> ('s, 'e, 'r) eff" and good :: "'s \<Rightarrow> bool" and asks :: "'q \<Rightarrow> 'r \<Rightarrow> bool" and of_link :: "'e \<Rightarrow> bool"
  assumes call_typed: "good s \<Longrightarrow> wp (call q) (\<lambda>r t. good t \<and> asks q r) (\<lambda>e _. of_link e) s"
begin

lemma call_then:
  assumes "good s" "\<And>r t. good t \<Longrightarrow> asks q r \<Longrightarrow> wp (f r) Q (\<lambda>e _. E e) t" "\<And>e. of_link e \<Longrightarrow> E e"
  shows "wp (bind (call q) f) Q (\<lambda>e _. E e) s"
  by (rule wp_then [OF call_typed [OF assms(1)]]) (auto intro: assms)

end

definition on_wire :: "codec \<Rightarrow> 'w services \<Rightarrow> 'w orch \<Rightarrow> bool" where
  "on_wire K S d \<longleftrightarrow> lossless K \<and> reached S d"

lemma wire_call_typed: "on_wire K S d \<Longrightarrow> wp (wire_call K S q) (\<lambda>r t. on_wire K S t \<and> reply_ok q r) (\<lambda>_ _. True) d"
proof (rule wp_I)
  fix r t assume "on_wire K S d" "wire_call K S q d = (Inr r, t)"
  then show "on_wire K S t \<and> reply_ok q r"
    using wire_call_replies [of K S q d r t] wire_call_reached [of S d K q] handle_answers [of S d q] by (auto simp: on_wire_def)
qed simp

definition system_error :: "error \<Rightarrow> bool" where
  "system_error e \<longleftrightarrow> error_class e = FC_System"

text \<open>An error text of the manager that is not its complaint about the kind of a reply.\<close>

definition not_kind_error :: "string \<Rightarrow> bool" where
  "not_kind_error m \<longleftrightarrow> m \<noteq> [] \<and> (hd m \<noteq> CHR ''d'' \<or> last m = CHR '']'')"

interpretation cli_typed: typed_link "ln_call (wire_link K S clock)" "on_wire K S" reply_ok system_error
  by unfold_locales
     (auto simp: wire_link_def wp_map_err system_error_def class_simps intro!: wp_mono [OF wire_call_typed])

interpretation manager_typed: typed_link "manager_call (wire_desktop K S clock)" "on_wire K S" reply_ok not_kind_error
  by unfold_locales
     (auto simp: wire_desktop_def manager_call_def wp_seq wp_map_err wp_ret not_kind_error_def err_to_string_def
       intro!: wp_mono [OF wire_call_typed])

subsection \<open>The desktop manager\<close>

lemma response_error_kind: "response_error r = Some m \<Longrightarrow> not_kind_error m"
  by (auto simp: response_error_def not_kind_error_def split: response.splits)

lemma response_error_None: "response_error r = None \<Longrightarrow> \<not> is_error r"
  by (auto simp: response_error_def is_error_def split: response.splits)

lemma command_typed:
  assumes "on_wire K S d" "\<And>r. answers q r \<Longrightarrow> \<exists>x. read r = Some x"
  shows "wp (command (wire_desktop K S clock) opn q read) (\<lambda>_. on_wire K S) (\<lambda>e _. not_kind_error e) d"
  unfolding command_def
proof (rule manager_typed.call_then [OF assms(1)])
  fix r t assume t: "on_wire K S t" and r: "reply_ok q r"
  show "wp (case response_error r of Some msg \<Rightarrow> throw msg
      | None \<Rightarrow> (case read r of Some x \<Rightarrow> ret x | None \<Rightarrow> throw (unexpected_for opn))) (\<lambda>_. on_wire K S) (\<lambda>e _. not_kind_error e) t"
  proof (cases "response_error r")
    case None
    then obtain x where "read r = Some x" using assms(2) r response_error_None by (auto simp: reply_ok_def)
    then show ?thesis using None t by (simp add: wp_ret)
  qed (simp add: wp_throw response_error_kind)
qed

lemma form_errors:
  "to_spec f = Inl m \<Longrightarrow> not_kind_error m" "form_preview f = Inl m \<Longrightarrow> not_kind_error m"
proof -
  have net: "form_network f = Inl m \<Longrightarrow> not_kind_error m" for m
    by (auto simp: form_network_def form_proxy_network_def form_proxy_def not_kind_error_def split: option.splits if_splits sum.splits)
  have webgl: "form_webgl x = Inl m \<Longrightarrow> not_kind_error m" and canvas: "form_canvas x = Inl m \<Longrightarrow> not_kind_error m" for x m
    by (auto simp: form_webgl_def form_canvas_def not_kind_error_def split: if_splits)
  have fp: "fingerprint_override f = Inl m \<Longrightarrow> not_kind_error m" for m
    by (auto simp: fingerprint_override_def apply_to_def Let_def not_kind_error_def
        dest!: webgl [unfolded not_kind_error_def] canvas [unfolded not_kind_error_def] split: option.splits sum.splits)
  have spec: "spec_with_name f n = Inl m \<Longrightarrow> not_kind_error m" for n m
    using net fp by (auto simp: spec_with_name_def Let_def not_kind_error_def split: sum.splits)
  show "to_spec f = Inl m \<Longrightarrow> not_kind_error m" "form_preview f = Inl m \<Longrightarrow> not_kind_error m"
    using spec by (auto simp: to_spec_def form_preview_def Let_def not_kind_error_def split: if_splits sum.splits)
qed

lemma parsed_typed: "what \<noteq> [] \<Longrightarrow> hd what \<noteq> CHR ''d'' \<Longrightarrow> (\<And>x. wp (f x) Q (\<lambda>e _. not_kind_error e) s) \<Longrightarrow>
    wp (bind (parsed what r) f) Q (\<lambda>e _. not_kind_error e) s"
  by (auto simp: wp_bind parsed_def wp_lift_res err_to_string_def not_kind_error_def split: sum.split)

lemma yielding_typed: "wp m (\<lambda>_ _. True) E s \<Longrightarrow> wp (yielding f m) (\<lambda>_ _. True) E s"
  by (simp add: yielding_def wp_bind wp_ret)

lemma invoke_typed:
  assumes "on_wire K S d"
  shows "wp (invoke_handler rfc3339 parse (wire_desktop K S clock) v) (\<lambda>_ _. True) (\<lambda>e _. not_kind_error e) d"
proof -
  note typed = wp_mono [OF command_typed [OF assms]]
  show ?thesis
  proof (cases v)
    case ListProfiles
    show ?thesis
      unfolding ListProfiles invoke_handler_def invocation.case manager_list_profiles_def
      by (intro yielding_typed wp_then [OF command_typed [OF assms]])
         (auto simp: answers_def wp_bind wp_attempt wp_run_state wp_ret Let_def split: response.splits prod.split
           intro!: wp_mono [OF manager_typed.call_typed])
  next
    case (CreateProfile f)
    show ?thesis
      unfolding CreateProfile invoke_handler_def invocation.case manager_create_profile_def
      by (intro yielding_typed)
         (auto simp: wp_bind wp_lift_res wp_run_state wp_ret form_errors answers_def split: sum.split prod.split response.splits intro!: typed)
  next
    case (PreviewProfile f)
    then show ?thesis by (simp add: invoke_handler_def yielding_def wp_bind wp_lift_res wp_ret form_errors split: sum.split)
  qed (simp only: invoke_handler_def invocation.case manager_delete_profile_def manager_start_session_def manager_stop_session_def
      manager_list_sessions_def manager_get_diagnostics_def manager_doctor_def manager_get_status_def manager_get_enforcement_def
      manager_set_enforcement_def;
      intro yielding_typed parsed_typed typed; auto simp: answers_def split: response.splits)+
qed

subsection \<open>The command line\<close>

definition not_internal :: "error \<Rightarrow> bool" where
  "not_internal e \<longleftrightarrow> error_class e \<noteq> FC_Internal"

lemma not_internal_simps [simp]: "not_internal (Config m)" "not_internal (NotFound m)" "not_internal (System m)"
  by (simp_all add: not_internal_def class_simps)

definition plain_result :: "error + 'a \<Rightarrow> bool" where
  "plain_result x \<longleftrightarrow> (case x of Inl e \<Rightarrow> not_internal e | Inr _ \<Rightarrow> True)"

lemma plain_simps [simp]: "plain_result (Inr x)" "plain_result (Inl e) = not_internal e"
    "plain_result (map_ok f y) = plain_result y" "plain_result (shown J json v txt)"
  by (auto simp: plain_result_def map_ok_def shown_def to_json_def split: sum.split)

lemma format_error_plain: "is_error r \<Longrightarrow> plain_result (format_error J r json)"
  using plain_simps(4) [of J True] by (cases r) (auto simp: is_error_def format_error_def shown_def)

lemma build_request_plain: "cmd \<noteq> CmdUpdate UpdateApply \<Longrightarrow> plain_result (build_request P cmd)"
  by (auto simp: build_request_def build_spec_def build_mode_def parse_profile_id_def parse_session_id_def vpn_on_host_def
      proxy_incomplete_def split: cli_command.split profile_command.split session_command.split config_command.split
      update_command.split net_arg.split option.split sum.split)

lemma format_response_plain:
  assumes "build_request P cmd = Inr q" "reply_ok q r"
  shows "plain_result (format_response P J cmd r json t)"
proof (cases "is_error r")
  case True
  then show ?thesis by (simp add: format_response_def format_error_plain)
next
  case False
  then have a: "answers q r" using assms(2) by (simp add: reply_ok_def)
  note formats = format_profiles_def format_profile_def format_profile_show_def format_session_def format_sessions_def
    format_diagnostics_def format_doctor_def format_status_def format_enforcement_def format_update_check_def format_ok_def
  show ?thesis
  proof (cases cmd)
    case (CmdProfile x)
    then show ?thesis using False a assms(1)
      by (cases x; cases r) (auto simp: build_request_def map_ok_Inr answers_def format_response_def formats parse_profile_id_def
        split: sum.split option.split)
  next
    case (CmdSession x)
    then show ?thesis using False a assms(1)
      by (cases x; cases r) (auto simp: build_request_def map_ok_Inr answers_def format_response_def formats Let_def)
  next
    case (CmdUpdate x)
    then show ?thesis using False a assms(1)
      by (cases x; cases r) (auto simp: build_request_def map_ok_Inr answers_def format_response_def formats split: option.split)
  next
    case (CmdConfig x)
    then show ?thesis using False a assms(1)
      by (cases x; cases r) (auto simp: build_request_def map_ok_Inr answers_def format_response_def formats Let_def)
  qed (use False a assms(1) in \<open>cases r; auto simp: build_request_def map_ok_Inr answers_def format_response_def formats\<close>)+
qed

lemma system_not_internal: "system_error e \<Longrightarrow> not_internal e"
  by (simp add: system_error_def not_internal_def)

lemma wp_plain: "plain_result x \<Longrightarrow> wp (lift_res x) (\<lambda>_ _. True) (\<lambda>e _. not_internal e) s"
  by (simp add: wp_lift_res plain_result_def split: sum.splits)

lemma update_typed:
  assumes "on_wire K S d"
  shows "wp (dispatch_update_apply P J (wire_link K S clock) json) (\<lambda>_ _. True) (\<lambda>e _. not_internal e) d"
  unfolding dispatch_update_apply_def
proof (rule cli_typed.call_then [OF assms])
  fix r t assume t: "on_wire K S t" and r: "reply_ok (ReqCheckUpdate (current_version_info P)) r"
  have fmt: "plain_result (format_update_applied J x json)" if "reply_ok (ReqApplyUpdate m) x" for m x
    using that format_error_plain by (cases "is_error x") (auto simp: reply_ok_def answers_def format_update_applied_def split: response.splits)
  have applied: "wp (bind (ln_call (wire_link K S clock) (ReqApplyUpdate m)) (\<lambda>x. lift_res (format_update_applied J x json)))
      (\<lambda>_ _. True) (\<lambda>e _. not_internal e) t" for m
    by (rule cli_typed.call_then [OF t]) (auto intro!: wp_plain fmt system_not_internal)
  show "wp (case r of
      RespUpdateAvailable (Some m) \<Rightarrow>
        bind (ln_call (wire_link K S clock) (ReqApplyUpdate m)) (\<lambda>applied. lift_res (format_update_applied J applied json))
    | RespUpdateAvailable None \<Rightarrow> lift_res (map_ok output_ok (shown J json
        (V_Object (JObj [(''applied'', JBool False), (''reason'', JStr ''up to date'')]))
        ''already up to date; nothing to apply''))
    | RespError _ _ \<Rightarrow> lift_res (format_error J r json)
    | other \<Rightarrow> throw (unexpected_reply ''check-update'' other)) (\<lambda>_ _. True) (\<lambda>e _. not_internal e) t"
    using r applied by (cases r) (auto simp: reply_ok_def answers_def is_error_def intro!: wp_plain format_error_plain split: option.split)
qed (rule system_not_internal)

lemma enforcement_typed:
  assumes "on_wire K S d"
  shows "wp (dispatch_set_enforcement J (wire_link K S clock) args json) (\<lambda>_ _. True) (\<lambda>e _. not_internal e) d"
  unfolding dispatch_set_enforcement_def
proof (rule cli_typed.call_then [OF assms])
  fix r t assume t: "on_wire K S t" and r: "reply_ok ReqGetEnforcement r"
  have set: "wp (bind (ln_call (wire_link K S clock) (ReqSetEnforcement (ea_apply args cur))) (\<lambda>applied.
        if is_error applied then lift_res (format_error J applied json)
        else lift_res (format_enforcement J applied json (Some cur)))) (\<lambda>_ _. True) (\<lambda>e _. not_internal e) t" for cur
  proof (rule cli_typed.call_then [OF t])
    fix x t' assume "reply_ok (ReqSetEnforcement (ea_apply args cur)) x"
    then show "wp (if is_error x then lift_res (format_error J x json)
        else lift_res (format_enforcement J x json (Some cur))) (\<lambda>_ _. True) (\<lambda>e _. not_internal e) t'"
      by (auto simp: reply_ok_def answers_def format_enforcement_def Let_def intro!: wp_plain format_error_plain)
  qed (rule system_not_internal)
  show "wp (case r of
      RespEnforcement current \<Rightarrow>
        bind (ln_call (wire_link K S clock) (ReqSetEnforcement (ea_apply args current))) (\<lambda>applied.
        if is_error applied then lift_res (format_error J applied json)
        else lift_res (format_enforcement J applied json (Some current)))
    | RespError _ _ \<Rightarrow> lift_res (format_error J r json)
    | other \<Rightarrow> throw (unexpected_reply ''get-enforcement'' other)) (\<lambda>_ _. True) (\<lambda>e _. not_internal e) t"
    using r set by (cases r) (auto simp: reply_ok_def answers_def is_error_def intro!: wp_plain format_error_plain)
qed (rule system_not_internal)

lemma cli_dispatch_typed:
  assumes "on_wire K S d"
  shows "wp (cli_dispatch P J (wire_link K S clock) c) (\<lambda>_ _. True) (\<lambda>e _. not_internal e) d"
proof -
  have conn: "ln_connect (wire_link K S clock) g = ret ()" for g by (simp add: wire_link_def)
  have plain: "wp (bind (lift_res (build_request P cmd)) (\<lambda>q. seq (ln_connect (wire_link K S clock) g) (bind (ln_call (wire_link K S clock) q) (\<lambda>r.
      bind (run_state (ln_now (wire_link K S clock))) (\<lambda>t. lift_res (format_response P J cmd r json t))))))
      (\<lambda>_ _. True) (\<lambda>e _. not_internal e) d" if "cmd \<noteq> CmdUpdate UpdateApply" for cmd g json
  proof (cases "build_request P cmd")
    case (Inl e)
    then show ?thesis using build_request_plain [OF that, of P] by (simp add: wp_bind wp_lift_res plain_result_def)
  next
    case (Inr q)
    have "wp (bind (ln_call (wire_link K S clock) q) (\<lambda>r.
      bind (run_state (ln_now (wire_link K S clock))) (\<lambda>t. lift_res (format_response P J cmd r json t))))
      (\<lambda>_ _. True) (\<lambda>e _. not_internal e) d"
      by (rule cli_typed.call_then [OF assms])
         (auto simp: wp_bind [of "run_state _"] wp_run_state system_not_internal split: prod.split intro!: wp_plain format_response_plain [OF Inr])
    then show ?thesis by (simp add: wp_bind [of "lift_res _"] wp_lift_res Inr wp_seq conn wp_ret)
  qed
  show ?thesis
  proof (cases "cli_command c")
    case (CmdUpdate u)
    then show ?thesis using plain update_typed [OF assms]
      by (cases u) (simp_all add: cli_dispatch_def Let_def wp_seq conn wp_ret)
  next
    case (CmdConfig x)
    then show ?thesis using plain enforcement_typed [OF assms]
      by (cases x) (simp_all add: cli_dispatch_def Let_def wp_seq [of "ret ()"] conn wp_ret)
  qed (use plain in \<open>simp_all add: cli_dispatch_def Let_def\<close>)
qed

section \<open>No reply of the wrong kind\<close>

definition manager_ops :: "string list" where
  "manager_ops = [''list-profiles'', ''create-profile'', ''delete-profile'', ''start-session'', ''stop-session'',
     ''list-sessions'', ''get-diagnostics'', ''doctor'', ''get-status'', ''get-enforcement'', ''set-enforcement'']"

lemma kind_errors: "not_kind_error m \<Longrightarrow> opn \<in> set manager_ops \<Longrightarrow> m \<noteq> unexpected_for opn"
  by (auto simp: not_kind_error_def manager_ops_def unexpected_for_def)

lemma invoke_kind: "invoke_handler rfc3339 parse L v s = (Inr x, t) \<Longrightarrow> app_kind v x"
  by (cases v) (auto simp: invoke_handler_def app_kind_def yielding_def bind_def ret_def split: prod.splits sum.splits)

text \<open>
  C40: The protocol is well typed.  Against a daemon in any reachable state, over a serialisation in
  which what decodes is what was encoded, every reply that arrives is an error or the one its
  request asked for: of its kind, for a start the browsing session of the profile named, for a
  stop the session named, for a new policy that policy.  Therefore no command of the command
  line ends in an internal error, no command of the desktop manager complains about an
  unexpected reply, and the webview gets a value of the kind its invocation expects.
\<close>

theorem replies_well_typed:
  assumes "lossless K" "orch_reachable (sv_caps S) (sv_config S) d"
  shows "(wire_call K S q d = (Inr r, d1) \<longrightarrow> is_error r \<or> answers q r) \<and>
    (cli_dispatch P J (wire_link K S clock) c d = (Inl e, d2) \<longrightarrow> error_class e \<noteq> FC_Internal) \<and>
    (case invoke_handler rfc3339 parse (wire_desktop K S clock) v d of
       (Inl m, _) \<Rightarrow> \<forall>opn \<in> set manager_ops. m \<noteq> unexpected_for opn
     | (Inr x, _) \<Rightarrow> app_kind v x)"
proof -
  have w: "on_wire K S d" using assms by (simp add: on_wire_def)
  have "is_error r \<or> answers q r" if "wire_call K S q d = (Inr r, d1)"
    using wp_ok [OF wire_call_typed [OF w] that] by (simp add: reply_ok_def)
  moreover have "error_class e \<noteq> FC_Internal" if "cli_dispatch P J (wire_link K S clock) c d = (Inl e, d2)"
    using wp_err [OF cli_dispatch_typed [OF w] that] by (simp add: not_internal_def)
  moreover have "m \<noteq> unexpected_for opn"
    if "invoke_handler rfc3339 parse (wire_desktop K S clock) v d = (Inl m, t)" "opn \<in> set manager_ops" for m t opn
    using wp_err [OF invoke_typed [OF w] that(1)] kind_errors that(2) by blast
  ultimately show ?thesis using invoke_kind by (fastforce split: prod.split sum.split)
qed

lemma sample_lossless: "lossless sample_codec"
  by (auto simp: lossless_def sample_codec_def policy_bytes_def split: request.splits response.splits)
     (simp_all flip: policy_bytes_def)

lemma replies_well_typed_witness:
  "\<exists>r d'. wire_call sample_codec (sample_services FullVm Pass) (ReqSetEnforcement (cfg_enforcement sample_config)) (orch_new sample_config 0) = (Inr r, d') \<and>
     \<not> is_error r \<and> answers (ReqSetEnforcement (cfg_enforcement sample_config)) r"
proof -
  let ?S = "sample_services FullVm Pass" and ?q = "ReqSetEnforcement (cfg_enforcement sample_config)" and ?d = "orch_new sample_config (0 :: nat)"
  have "handle ?S ?q ?d = (RespEnforcement (cfg_enforcement sample_config), ?d\<lparr>or_enforcement := cfg_enforcement sample_config\<rparr>)"
    by (rule handle_set) (simp add: orch_new_def)
  note call = wire_call_answers [OF this sample_carries(2)]
  have "sv_config ?S = sample_config" by (simp add: sample_services_def)
  then have "orch_reachable (sv_caps ?S) (sv_config ?S) ?d" using reach_new by metis
  from replies_well_typed [OF sample_lossless this, THEN conjunct1, THEN mp, OF call] call show ?thesis by (auto simp: is_error_def)
qed

end
