(* ===== verification/Test_Doubles.thy ===== *)
theory Test_Doubles
  imports Gateway_Controller Vm_Controller Network_Audit
begin

text \<open>
  The doubles the crates ship for their tests: the scripted command runner of
  \<^verbatim>\<open>crates/gateway-controller/src/mock.rs\<close>, the recording runner of
  \<^verbatim>\<open>crates/vm-controller/src/runner.rs\<close> and the configurable probe of
  \<^verbatim>\<open>crates/network-audit/src/probe.rs\<close>.  The lemmas say what a test run against them may conclude:
  a double records exactly the commands the controller issued, and a failing probe keeps the
  class of its error.
\<close>

section \<open>The scripted command runner\<close>

datatype mock_response = MockOutput command_output | MockError string

definition mock_ok :: mock_response where
  "mock_ok = MockOutput \<lparr> out_code = Some 0, out_stdout = [], out_stderr = [] \<rparr>"

definition mock_stdout :: "string \<Rightarrow> mock_response" where
  "mock_stdout s = MockOutput \<lparr> out_code = Some 0, out_stdout = s, out_stderr = [] \<rparr>"

definition mock_failure :: "int \<Rightarrow> string \<Rightarrow> mock_response" where
  "mock_failure code s = MockOutput \<lparr> out_code = Some code, out_stdout = [], out_stderr = s \<rparr>"

record mock_runner =
  mr_by_program :: "(string \<times> mock_response) list"
  mr_default :: "mock_response option"
  mr_calls :: "command list"

definition mock_new :: mock_runner where
  "mock_new = \<lparr> mr_by_program = [], mr_default = Some mock_ok, mr_calls = [] \<rparr>"

definition mock_strict :: mock_runner where
  "mock_strict = \<lparr> mr_by_program = [], mr_default = None, mr_calls = [] \<rparr>"

text \<open>\<^verbatim>\<open>with\<close> and \<^verbatim>\<open>set\<close> script a program, \<^verbatim>\<open>with_default\<close> the fallback.\<close>

definition mock_set :: "string \<Rightarrow> mock_response \<Rightarrow> mock_runner \<Rightarrow> mock_runner" where
  "mock_set p r m = m\<lparr>mr_by_program := tab_set p r (mr_by_program m)\<rparr>"

definition mock_with_default :: "mock_response \<Rightarrow> mock_runner \<Rightarrow> mock_runner" where
  "mock_with_default r m = m\<lparr>mr_default := Some r\<rparr>"

definition mock_call_count :: "mock_runner \<Rightarrow> nat" where
  "mock_call_count m = length (mr_calls m)"

definition mock_ran_program :: "mock_runner \<Rightarrow> string \<Rightarrow> bool" where
  "mock_ran_program m p = list_ex (\<lambda>c. cmd_program c = p) (mr_calls m)"

definition mock_last_stdin_for :: "mock_runner \<Rightarrow> string \<Rightarrow> string option" where
  "mock_last_stdin_for m p = (case List.find (\<lambda>c. cmd_program c = p) (rev (mr_calls m)) of
      Some c \<Rightarrow> cmd_stdin c | None \<Rightarrow> None)"

text \<open>Running a command; None is the panic of a strict double without a script for the program.\<close>

definition mock_run :: "command \<Rightarrow> mock_runner \<Rightarrow> command_output result option \<times> mock_runner" where
  "mock_run c m =
    (let m1 = m\<lparr>mr_calls := mr_calls m @ [c]\<rparr>;
         resp = (case tab_get (mr_by_program m1) (cmd_program c) of Some r \<Rightarrow> Some r | None \<Rightarrow> mr_default m1)
     in (case resp of
          Some (MockOutput out) \<Rightarrow> (Some (Inr out), m1)
        | Some (MockError msg) \<Rightarrow> (Some (Inl (System msg)), m1)
        | None \<Rightarrow> (None, m1)))"

text \<open>A double with a default answer never panics, so it is a runner.\<close>

lemma mock_run_answers: "mr_default m \<noteq> None \<Longrightarrow> \<exists>r m'. mock_run c m = (Some r, m') \<and> mr_default m' = mr_default m"
  by (auto simp: mock_run_def Let_def split: option.split mock_response.split)

lemma mock_run_records: "snd (mock_run c m) = m\<lparr>mr_calls := mr_calls m @ [c]\<rparr>"
  by (simp add: mock_run_def Let_def split: option.split mock_response.split)

lemma mock_run_scripted: "fst (mock_run c (mock_set (cmd_program c) (MockError msg) m)) = Some (Inl (System msg))"
  by (simp add: mock_run_def mock_set_def Let_def)

lemma mock_strict_panics: "fst (mock_run c mock_strict) = None"
  by (simp add: mock_run_def mock_strict_def Let_def)

text \<open>Behind the controller the double's record is the controller's trace, whatever it answers.\<close>

definition mocked :: "mock_runner runner" where
  "mocked c m = (case mock_run c m of (Some r, m') \<Rightarrow> (r, m') | (None, m') \<Rightarrow> (Inl (Internal ''panicked''), m'))"

lemma mocked_trace:
  assumes "mr_calls (gw_env s) = gw_cmds s"
  shows "mr_calls (gw_env (snd (gw_run mocked c s))) = gw_cmds (snd (gw_run mocked c s))"
  using assms mock_run_records [of c "gw_env s"]
  by (auto simp: gw_run_def mocked_def split: prod.split option.split)

section \<open>The recording runner\<close>

definition call_matches :: "vm_command \<Rightarrow> string \<Rightarrow> string list \<Rightarrow> bool" where
  "call_matches c p args = (fst c = p \<and> snd c = args)"

definition call_contains :: "vm_command \<Rightarrow> string \<Rightarrow> bool" where
  "call_contains c needle = list_ex (\<lambda>a. contains a needle) (snd c)"

definition vm_output_ok :: "string \<Rightarrow> vm_output" where
  "vm_output_ok s = \<lparr> vo_status = Some 0, vo_stdout = s, vo_stderr = [] \<rparr>"

definition vm_output_err :: "int \<Rightarrow> string \<Rightarrow> vm_output" where
  "vm_output_err code s = \<lparr> vo_status = Some code, vo_stdout = [], vo_stderr = s \<rparr>"

record vm_mock =
  vk_calls :: "vm_command list"
  vk_responder :: "vm_command \<Rightarrow> vm_output result"

definition vm_mock_new :: vm_mock where
  "vm_mock_new = \<lparr> vk_calls = [], vk_responder = (\<lambda>_. Inr (vm_output_ok [])) \<rparr>"

definition vm_mock_with_responder :: "(vm_command \<Rightarrow> vm_output result) \<Rightarrow> vm_mock" where
  "vm_mock_with_responder f = \<lparr> vk_calls = [], vk_responder = f \<rparr>"

definition vm_mock_call_count :: "vm_mock \<Rightarrow> nat" where
  "vm_mock_call_count m = length (vk_calls m)"

definition vm_mock_was_called_with :: "vm_mock \<Rightarrow> string \<Rightarrow> string list \<Rightarrow> bool" where
  "vm_mock_was_called_with m p args = list_ex (\<lambda>c. call_matches c p args) (vk_calls m)"

definition vm_mock_any_arg_contains :: "vm_mock \<Rightarrow> string \<Rightarrow> string \<Rightarrow> bool" where
  "vm_mock_any_arg_contains m p needle = list_ex (\<lambda>c. fst c = p \<and> call_contains c needle) (vk_calls m)"

definition vm_mock_run :: "vm_command \<Rightarrow> fs \<times> vm_mock \<Rightarrow> vm_output result \<times> (fs \<times> vm_mock)" where
  "vm_mock_run c = (\<lambda>(f, m). (vk_responder m c, (f, m\<lparr>vk_calls := vk_calls m @ [c]\<rparr>)))"

lemma vm_mock_trace:
  assumes "vp_run P = vm_mock_run" "vk_calls (vw_env w) = vw_cmds w"
  shows "vk_calls (vw_env (snd (vm_run P c w))) = vw_cmds (snd (vm_run P c w))"
    "vw_fs (snd (vm_run P c w)) = vw_fs w"
  using assms by (simp_all add: vm_run_def vm_mock_run_def)

section \<open>The configurable probe\<close>

record mock_probe =
  mp_gateway_reachable :: "bool result"
  mp_tunnel_up :: "bool result"
  mp_dns_route_ok :: "bool result"
  mp_observe_public_ip :: "ip_observation option result"
  mp_ipv6_blocked :: "bool result"

definition mock_all_pass :: mock_probe where
  "mock_all_pass = \<lparr> mp_gateway_reachable = Inr True, mp_tunnel_up = Inr True, mp_dns_route_ok = Inr True,
     mp_observe_public_ip = Inr (Some \<lparr> ip_addr = ''198.51.100.7'', ip_via_tunnel = True, ip_differs_from_host = True \<rparr>),
     mp_ipv6_blocked = Inr True \<rparr>"

definition mock_with_observation :: "ip_observation option \<Rightarrow> mock_probe \<Rightarrow> mock_probe" where
  "mock_with_observation ob m = m\<lparr>mp_observe_public_ip := Inr ob\<rparr>"

definition rebuild_error :: "error \<Rightarrow> error" where
  "rebuild_error e = (let msg = error_display e in case e of
      NetworkContainment _ \<Rightarrow> NetworkContainment msg
    | Isolation _ \<Rightarrow> Isolation msg
    | PreflightFailed check detail \<Rightarrow> PreflightFailed check detail
    | Crypto _ \<Rightarrow> Crypto msg
    | Integrity _ \<Rightarrow> Integrity msg
    | Config _ \<Rightarrow> Config msg
    | Precondition _ \<Rightarrow> Precondition msg
    | NotFound _ \<Rightarrow> NotFound msg
    | Busy _ \<Rightarrow> Busy msg
    | Unsupported _ \<Rightarrow> Unsupported msg
    | System _ \<Rightarrow> System msg
    | Internal _ \<Rightarrow> Internal msg)"

definition clone_bool :: "bool result \<Rightarrow> bool result" where
  "clone_bool r = (case r of Inr v \<Rightarrow> Inr v | Inl e \<Rightarrow> Inl (rebuild_error e))"

definition clone_obs :: "ip_observation option result \<Rightarrow> ip_observation option result" where
  "clone_obs r = (case r of Inr v \<Rightarrow> Inr v | Inl e \<Rightarrow> Inl (rebuild_error e))"

definition mock_probe_of :: "mock_probe \<Rightarrow> 'w probe" where
  "mock_probe_of m = \<lparr>
     pr_gateway_reachable = (\<lambda>_. lift_res (clone_bool (mp_gateway_reachable m))),
     pr_tunnel_up = (\<lambda>_. lift_res (clone_bool (mp_tunnel_up m))),
     pr_dns_route_ok = (\<lambda>_. lift_res (clone_bool (mp_dns_route_ok m))),
     pr_observe_public_ip = (\<lambda>_. lift_res (clone_obs (mp_observe_public_ip m))),
     pr_ipv6_blocked = (\<lambda>_. lift_res (clone_bool (mp_ipv6_blocked m))) \<rparr>"

lemma rebuild_keeps_class [simp]: "error_class (rebuild_error e) = error_class e"
  by (cases e) (simp_all add: rebuild_error_def Let_def)

text \<open>
  The comment of \<^verbatim>\<open>rebuild_error\<close> promises the same message; the message of the copy is the whole
  text of the original, so the prefix of its kind appears twice.
\<close>

lemma rebuild_doubles_prefix: "error_display (rebuild_error (System m)) = ''system error: '' @ error_display (System m)"
  by (simp add: rebuild_error_def error_display_def)

text \<open>
  The checklist sees an error by its class alone, so a run over the double reports what a run
  over the original errors would.
\<close>

lemma mock_report: "boolean_report i (clone_bool r) yes no = boolean_report i r yes no"
  by (auto simp: boolean_report_def clone_bool_def split: sum.split)

end
